(* ===== verification/FF_Prelude.thy ===== *)
theory FF_Prelude
  imports Main "HOL-Library.Word"
begin

text \<open>
  Shared base of the FlowFabric development: the result type of fallible Rust code and the
  question-mark operator, the fixed-width integer types, the parts of the Rust standard
  library the sources use (string searching and splitting, decimal formatting and parsing,
  little-endian byte conversion, UTF-8 validation, saturating arithmetic), and the generic
  lemmas about them that the component theories rely on.
\<close>

unbundle bit_operations_syntax

type_synonym u8 = "8 word"
type_synonym u16 = "16 word"
type_synonym u32 = "32 word"
type_synonym u64 = "64 word"
type_synonym ('e, 'a) result = "'e + 'a"

named_theorems ff_result \<open>rewriting of the result combinators\<close>

section \<open>Results\<close>

text \<open>The question-mark operator: an error is returned at once, a value is passed on.\<close>

definition rbind :: "'e + 'a \<Rightarrow> ('a \<Rightarrow> 'e + 'b) \<Rightarrow> 'e + 'b" where
  "rbind r f = (case r of Inl e \<Rightarrow> Inl e | Inr a \<Rightarrow> f a)"

text \<open>\<open>Option::ok_or\<close>, and \<open>Result::map_err\<close>.\<close>

definition ok_or :: "'a option \<Rightarrow> 'e \<Rightarrow> 'e + 'a" where
  "ok_or v e = (case v of None \<Rightarrow> Inl e | Some a \<Rightarrow> Inr a)"

definition map_err :: "('e \<Rightarrow> 'f) \<Rightarrow> 'e + 'a \<Rightarrow> 'f + 'a" where
  "map_err f r = (case r of Inl e \<Rightarrow> Inl (f e) | Inr a \<Rightarrow> Inr a)"

lemma rbind_simps [simp]:
  "rbind (Inl e) f = Inl e"
  "rbind (Inr a) f = f a"
  by (simp_all add: rbind_def)

lemma rbind_Inr_iff: "rbind r f = Inr b \<longleftrightarrow> (\<exists>a. r = Inr a \<and> f a = Inr b)"
  by (cases r) simp_all

lemma rbind_Inl_iff: "rbind r f = Inl e \<longleftrightarrow> r = Inl e \<or> (\<exists>a. r = Inr a \<and> f a = Inl e)"
  by (cases r) simp_all

lemma ok_or_simps [simp]:
  "ok_or None e = Inl e"
  "ok_or (Some a) e = Inr a"
  by (simp_all add: ok_or_def)

lemma ok_or_Inr_iff [simp]: "ok_or v e = Inr a \<longleftrightarrow> v = Some a"
  by (cases v) simp_all

lemma map_err_simps [simp]:
  "map_err f (Inl e) = Inl (f e)"
  "map_err f (Inr a) = Inr a"
  by (simp_all add: map_err_def)

lemma map_err_Inr_iff [simp]: "map_err f r = Inr a \<longleftrightarrow> r = Inr a"
  by (cases r) simp_all

lemmas result_iffs [ff_result] = rbind_Inr_iff rbind_Inl_iff

section \<open>Integers\<close>

definition i16_max :: int where "i16_max = 2 ^ 15 - 1"
definition i32_max :: int where "i32_max = 2 ^ 31 - 1"
definition i64_max :: int where "i64_max = 2 ^ 63 - 1"
definition i64_min :: int where "i64_min = - (2 ^ 63)"

text \<open>\<open>i64::saturating_add\<close> and \<open>i64::saturating_sub\<close> on values kept as \<open>int\<close>.\<close>

definition sat_i64 :: "int \<Rightarrow> int" where
  "sat_i64 x = max i64_min (min i64_max x)"

definition saturating_add :: "int \<Rightarrow> int \<Rightarrow> int" where
  "saturating_add a b = sat_i64 (a + b)"

definition saturating_sub :: "int \<Rightarrow> int \<Rightarrow> int" where
  "saturating_sub a b = sat_i64 (a - b)"

lemma sat_i64_bounds: "i64_min \<le> sat_i64 x \<and> sat_i64 x \<le> i64_max"
  by (auto simp: sat_i64_def i64_min_def i64_max_def)

lemma sat_i64_id [simp]: "i64_min \<le> x \<Longrightarrow> x \<le> i64_max \<Longrightarrow> sat_i64 x = x"
  by (simp add: sat_i64_def)

text \<open>\<open>u64::try_from(x).unwrap_or(d)\<close> for an \<open>i64\<close>, and \<open>i32::try_from(n).unwrap_or(0)\<close> for a \<open>u32\<close>.\<close>

definition u64_of_i64_or :: "nat \<Rightarrow> int \<Rightarrow> nat" where
  "u64_of_i64_or d x = (if 0 \<le> x then nat x else d)"

definition i32_of_u32_or_0 :: "u32 \<Rightarrow> int" where
  "i32_of_u32_or_0 w = (if int (unat w) \<le> i32_max then int (unat w) else 0)"

definition i64_of_u64_or_0 :: "u64 \<Rightarrow> int" where
  "i64_of_u64_or_0 w = (if int (unat w) \<le> i64_max then int (unat w) else 0)"

section \<open>Wire codecs\<close>

text \<open>
  The contract of a printer and its parser. \<open>wf\<close> says which values the printer is used on, and
  \<open>norm\<close> which part of a value survives the trip (the identity, for a codec that loses nothing).
\<close>

locale wire_codec =
  fixes print :: "'a \<Rightarrow> 'w"
    and parse :: "'w \<Rightarrow> 'e + 'a"
    and norm :: "'a \<Rightarrow> 'a"
    and wf :: "'a \<Rightarrow> bool"
  assumes parse_print: "wf a \<Longrightarrow> parse (print a) = Inr (norm a)"
    and print_norm: "wf a \<Longrightarrow> print (norm a) = print a"
    and wf_norm: "wf a \<Longrightarrow> wf (norm a)"
begin

lemma norm_idem: "wf a \<Longrightarrow> norm (norm a) = norm a"
  by (metis parse_print print_norm sum.inject(2) wf_norm)

lemma print_eq_iff: "wf a \<Longrightarrow> wf b \<Longrightarrow> print a = print b \<longleftrightarrow> norm a = norm b"
  by (metis parse_print print_norm sum.inject(2))

lemma reprint: "wf a \<Longrightarrow> parse (print a) = Inr b \<Longrightarrow> print b = print a"
  by (metis parse_print print_norm sum.inject(2))

lemma parse_print_total: "wf a \<Longrightarrow> \<exists>b. parse (print a) = Inr b \<and> wf b"
  using parse_print wf_norm by blast

end

end
