(* ===== verification/Rust_Std.thy ===== *)
theory Rust_Std
  imports FF_Prelude
begin

text \<open>
  The operations of the Rust standard library that the modelled sources call on strings,
  integers and byte slices. A Rust \<open>String\<close> or \<open>&str\<close> is its sequence of bytes, a
  \<open>string\<close> here (one \<open>char\<close> per byte); a byte buffer is a list of \<open>u8\<close>.
\<close>

section \<open>Searching and splitting strings\<close>

definition strip_prefix :: "string \<Rightarrow> string \<Rightarrow> string option" where
  "strip_prefix p s = (if take (length p) s = p then Some (drop (length p) s) else None)"

definition strip_suffix :: "string \<Rightarrow> string \<Rightarrow> string option" where
  "strip_suffix p s =
     (if length p \<le> length s \<and> drop (length s - length p) s = p
      then Some (take (length s - length p) s) else None)"

text \<open>\<open>str::find\<close> with a string pattern: the index of the first occurrence.\<close>

fun find_sub :: "string \<Rightarrow> string \<Rightarrow> nat option" where
  "find_sub p [] = (if p = [] then Some 0 else None)"
| "find_sub p (c # s) =
     (if take (length p) (c # s) = p then Some 0 else map_option Suc (find_sub p s))"

text \<open>\<open>str::rfind\<close>: the last occurrence.\<close>

fun rfind_sub :: "string \<Rightarrow> string \<Rightarrow> nat option" where
  "rfind_sub p [] = (if p = [] then Some 0 else None)"
| "rfind_sub p (c # s) =
     (case rfind_sub p s of
        Some i \<Rightarrow> Some (Suc i)
      | None \<Rightarrow> if take (length p) (c # s) = p then Some 0 else None)"

text \<open>\<open>str::split_once\<close> with a character, and \<open>str::split\<close> with a character.\<close>

fun split_once :: "char \<Rightarrow> string \<Rightarrow> (string \<times> string) option" where
  "split_once c [] = None"
| "split_once c (x # s) =
     (if x = c then Some ([], s) else map_option (\<lambda>(a, b). (x # a, b)) (split_once c s))"

fun split_char :: "char \<Rightarrow> string \<Rightarrow> string list" where
  "split_char c [] = [[]]"
| "split_char c (x # s) =
     (if x = c then [] # split_char c s
      else (case split_char c s of [] \<Rightarrow> [[x]] | t # ts \<Rightarrow> (x # t) # ts))"

lemma strip_prefix_append [simp]: "strip_prefix p (p @ s) = Some s"
  by (simp add: strip_prefix_def)

lemma strip_prefix_Some_iff: "strip_prefix p s = Some r \<longleftrightarrow> s = p @ r"
  by (auto simp: strip_prefix_def) (metis append_take_drop_id)

lemma strip_suffix_append [simp]: "strip_suffix p (s @ p) = Some s"
  by (simp add: strip_suffix_def)

lemma strip_suffix_Some_iff: "strip_suffix p s = Some r \<longleftrightarrow> s = r @ p"
  by (auto simp: strip_suffix_def) (metis append_take_drop_id)

lemma find_sub_absent_head:
  "c \<notin> set a \<Longrightarrow> find_sub (c # p) (a @ (c # p) @ b) = Some (length a)"
proof (induction a)
  case Nil
  then show ?case by simp
next
  case (Cons x a)
  then have "find_sub (c # p) (a @ (c # p) @ b) = Some (length a)" by simp
  moreover from Cons.prems have "x \<noteq> c" by auto
  ultimately show ?case by simp
qed

lemma find_sub_Some:
  "find_sub p s = Some i \<Longrightarrow> s = take i s @ p @ drop (i + length p) s \<and> i + length p \<le> length s"
proof (induction s arbitrary: i)
  case Nil
  then show ?case by (auto split: if_splits)
next
  case (Cons c s)
  show ?case
  proof (cases "take (length p) (c # s) = p")
    case True
    with Cons.prems have i: "i = 0" by simp
    from True have "p @ drop (length p) (c # s) = c # s" by (metis append_take_drop_id)
    moreover from True have "length p \<le> length (c # s)"
      by (metis length_take min.cobounded1)
    ultimately show ?thesis by (simp add: i)
  next
    case False
    with Cons.prems obtain j where "find_sub p s = Some j" "i = Suc j" by auto
    with Cons.IH[of j] show ?thesis by simp
  qed
qed

lemma rfind_sub_append:
  assumes "rfind_sub p s = Some i"
  shows "rfind_sub p (t @ s) = Some (length t + i)"
  using assms by (induction t) auto

lemma rfind_sub_absent: "p \<noteq> [] \<Longrightarrow> last p \<notin> set s \<Longrightarrow> rfind_sub p s = None"
proof (induction s)
  case (Cons c s)
  have "take (length p) (c # s) \<noteq> p"
    using Cons.prems by (metis in_set_takeD last_in_set)
  with Cons show ?case by simp
qed simp

lemma split_once_append: "c \<notin> set a \<Longrightarrow> split_once c (a @ c # b) = Some (a, b)"
  by (induction a) auto

lemma split_once_Some: "split_once c s = Some (a, b) \<Longrightarrow> s = a @ c # b \<and> c \<notin> set a"
  by (induction s arbitrary: a) (auto split: if_splits)

lemma split_char_ne [simp]: "split_char c s \<noteq> []"
  by (induction s) (auto split: list.splits)

lemma set_split_char: "t \<in> set (split_char c s) \<Longrightarrow> c \<notin> set t"
proof (induction s arbitrary: t)
  case (Cons x s)
  then show ?case by (cases "split_char c s") (auto split: if_splits)
qed simp

lemma concat_split_char:
  "concat (map (\<lambda>t. c # t) (split_char c s)) = c # s"
proof (induction s)
  case (Cons x s)
  then show ?case by (cases "split_char c s") auto
qed simp

section \<open>Decimal formatting and parsing\<close>

definition digit_char :: "nat \<Rightarrow> char" where
  "digit_char d = char_of (48 + d)"

definition char_digit :: "char \<Rightarrow> nat option" where
  "char_digit c = (let n = of_char c in if 48 \<le> n \<and> n \<le> (57 :: nat) then Some (n - 48) else None)"

text \<open>\<open>Display\<close> of an unsigned integer.\<close>

fun show_nat :: "nat \<Rightarrow> string" where
  "show_nat n = (if n < 10 then [digit_char n] else show_nat (n div 10) @ [digit_char (n mod 10)])"

declare show_nat.simps [simp del]

text \<open>\<open>Display\<close> of a signed integer.\<close>

definition show_int :: "int \<Rightarrow> string" where
  "show_int i = (if i < 0 then CHR ''-'' # show_nat (nat (- i)) else show_nat (nat i))"

fun dec_value :: "nat \<Rightarrow> string \<Rightarrow> nat option" where
  "dec_value acc [] = Some acc"
| "dec_value acc (c # s) =
     (case char_digit c of None \<Rightarrow> None | Some d \<Rightarrow> dec_value (10 * acc + d) s)"

text \<open>
  \<open>str::parse\<close> at an unsigned type with maximum \<open>m\<close>: one optional \<open>+\<close>, then at least one
  digit and nothing else, and no overflow. At a signed type a \<open>-\<close> is accepted as well.
\<close>

definition parse_uint :: "nat \<Rightarrow> string \<Rightarrow> nat option" where
  "parse_uint m s =
     (let ds = (if s \<noteq> [] \<and> hd s = CHR ''+'' then tl s else s)
      in if ds = [] then None
         else case dec_value 0 ds of None \<Rightarrow> None | Some n \<Rightarrow> if n \<le> m then Some n else None)"

definition parse_u16 :: "string \<Rightarrow> u16 option" where
  "parse_u16 s = map_option word_of_nat (parse_uint 65535 s)"

definition parse_i16 :: "string \<Rightarrow> int option" where
  "parse_i16 s =
     (if s \<noteq> [] \<and> hd s = CHR ''-''
      then (if tl s \<noteq> [] \<and> hd (tl s) = CHR ''+'' then None
            else map_option (\<lambda>n. - int n) (parse_uint 32768 (tl s)))
      else map_option int (parse_uint 32767 s))"

lemma char_digit_digit_char [simp]: "d < 10 \<Longrightarrow> char_digit (digit_char d) = Some d"
  by (simp add: char_digit_def digit_char_def Let_def)

lemma digit_char_range: "d < 10 \<Longrightarrow> of_char (digit_char d) \<in> {48 .. (57::nat)}"
  by (simp add: digit_char_def)

lemma show_nat_digits: "\<forall>c \<in> set (show_nat n). of_char c \<in> {48 .. (57::nat)}"
proof (induction n rule: show_nat.induct)
  case (1 n)
  then show ?case
    by (subst show_nat.simps) (auto simp: digit_char_def)
qed

lemma show_nat_ne [simp]: "show_nat n \<noteq> []"
  by (subst show_nat.simps) simp

lemma dec_value_append:
  "dec_value acc (s @ t) = (case dec_value acc s of None \<Rightarrow> None | Some v \<Rightarrow> dec_value v t)"
  by (induction s arbitrary: acc) (auto split: option.splits)

lemma dec_value_show_nat: "dec_value 0 (show_nat n) = Some n"
proof (induction n rule: show_nat.induct)
  case (1 n)
  then show ?case
    by (subst show_nat.simps) (auto simp: dec_value_append)
qed

lemma show_nat_no_char:
  assumes "of_char c \<notin> {48 .. (57::nat)}"
  shows "c \<notin> set (show_nat n)"
  using assms show_nat_digits[of n] by blast

lemma show_nat_free [simp]:
  "CHR ''}'' \<notin> set (show_nat n)" "CHR '':'' \<notin> set (show_nat n)" "CHR ''+'' \<notin> set (show_nat n)"
  by (rule show_nat_no_char; simp)+

lemma hd_show_nat_not_plus [simp]: "hd (show_nat n) \<noteq> CHR ''+''"
  using show_nat_free(3)[of n] hd_in_set[OF show_nat_ne[of n]] by metis

lemma length_show_nat: "n < 10 ^ k \<Longrightarrow> 0 < k \<Longrightarrow> length (show_nat n) \<le> k"
proof (induction k arbitrary: n)
  case (Suc k)
  show ?case
  proof (cases "n < 10")
    case True
    then show ?thesis by (simp add: show_nat.simps)
  next
    case False
    with Suc.prems have "n div 10 < 10 ^ k" "0 < k" by (auto intro: gr0I)
    with Suc.IH have "length (show_nat (n div 10)) \<le> k" by simp
    with False show ?thesis by (subst show_nat.simps) simp
  qed
qed simp

lemma parse_uint_show_nat: "n \<le> m \<Longrightarrow> parse_uint m (show_nat n) = Some n"
  by (simp add: parse_uint_def dec_value_show_nat)

lemma parse_u16_show_nat [simp]: "parse_u16 (show_nat (unat (w :: u16))) = Some w"
proof -
  have "unat w < 65536" using unsigned_less[of w, where ?'a = nat] by simp
  then have "parse_uint 65535 (show_nat (unat w)) = Some (unat w)"
    by (intro parse_uint_show_nat) simp
  then show ?thesis by (simp add: parse_u16_def)
qed

lemma show_nat_inj: "show_nat m = show_nat n \<Longrightarrow> m = n"
  by (metis dec_value_show_nat option.inject)

section \<open>Little-endian bytes\<close>

text \<open>\<open>to_le_bytes\<close> of an \<open>n\<close>-byte integer, and \<open>from_le_bytes\<close>.\<close>

primrec to_le_bytes :: "nat \<Rightarrow> 'a::len word \<Rightarrow> u8 list" where
  "to_le_bytes 0 w = []"
| "to_le_bytes (Suc n) w = ucast w # to_le_bytes n (drop_bit 8 w)"

primrec from_le_bytes :: "u8 list \<Rightarrow> 'a::len word" where
  "from_le_bytes [] = 0"
| "from_le_bytes (b # bs) = ucast b OR push_bit 8 (from_le_bytes bs)"

lemma length_to_le_bytes [simp]: "length (to_le_bytes n w) = n"
  by (induction n arbitrary: w) simp_all

lemma ucast_or_shift:
  "(ucast (ucast w :: u8) :: 'a::len word) OR push_bit 8 (take_bit m (drop_bit 8 w)) = take_bit (8 + m) w"
  by (rule bit_word_eqI)
    (auto simp: bit_or_iff bit_ucast_iff bit_push_bit_iff bit_take_bit_iff bit_drop_bit_eq
       exp_eq_zero_iff)

lemma from_le_to_le: "from_le_bytes (to_le_bytes n w) = take_bit (8 * n) (w :: 'a::len word)"
proof (induction n arbitrary: w)
  case (Suc n)
  have "from_le_bytes (to_le_bytes (Suc n) w)
      = (ucast (ucast w :: u8) :: 'a word) OR push_bit 8 (take_bit (8 * n) (drop_bit 8 w))"
    by (simp add: Suc)
  then show ?case by (simp add: ucast_or_shift)
qed simp

lemma from_le_to_le_u32 [simp]: "from_le_bytes (to_le_bytes 4 w) = (w :: u32)"
  by (simp add: from_le_to_le take_bit_word_eq_self)

lemma from_le_to_le_u64 [simp]: "from_le_bytes (to_le_bytes 8 w) = (w :: u64)"
  by (simp add: from_le_to_le take_bit_word_eq_self)

section \<open>UTF-8\<close>

text \<open>The bytes of a string, and the string of a byte sequence.\<close>

definition as_bytes :: "string \<Rightarrow> u8 list" where
  "as_bytes s = map of_char s"

definition of_bytes :: "u8 list \<Rightarrow> string" where
  "of_bytes bs = map (\<lambda>b. char_of (unat b)) bs"

text \<open>
  The byte sequences \<open>String::from_utf8\<close> accepts: one to four byte forms, without
  over-long encodings, surrogates or values above U+10FFFF.
\<close>

definition utf8_cont :: "u8 \<Rightarrow> bool" where
  "utf8_cont b \<longleftrightarrow> 128 \<le> b \<and> b \<le> 191"

definition utf8_second3 :: "u8 \<Rightarrow> u8 \<Rightarrow> bool" where
  "utf8_second3 a b \<longleftrightarrow>
     (if a = 224 then 160 \<le> b \<and> b \<le> 191 else if a = 237 then 128 \<le> b \<and> b \<le> 159 else utf8_cont b)"

definition utf8_second4 :: "u8 \<Rightarrow> u8 \<Rightarrow> bool" where
  "utf8_second4 a b \<longleftrightarrow>
     (if a = 240 then 144 \<le> b \<and> b \<le> 191 else if a = 244 then 128 \<le> b \<and> b \<le> 143 else utf8_cont b)"

fun valid_utf8 :: "u8 list \<Rightarrow> bool" where
  "valid_utf8 [] = True"
| "valid_utf8 (a # bs) =
     (if a \<le> 127 then valid_utf8 bs
      else if 194 \<le> a \<and> a \<le> 223 then (case bs of b # bs' \<Rightarrow> utf8_cont b \<and> valid_utf8 bs' | _ \<Rightarrow> False)
      else if 224 \<le> a \<and> a \<le> 239
        then (case bs of b # c # bs' \<Rightarrow> utf8_second3 a b \<and> utf8_cont c \<and> valid_utf8 bs' | _ \<Rightarrow> False)
      else if 240 \<le> a \<and> a \<le> 244
        then (case bs of b # c # d # bs' \<Rightarrow>
                utf8_second4 a b \<and> utf8_cont c \<and> utf8_cont d \<and> valid_utf8 bs' | _ \<Rightarrow> False)
      else False)"

definition from_utf8 :: "u8 list \<Rightarrow> string option" where
  "from_utf8 bs = (if valid_utf8 bs then Some (of_bytes bs) else None)"

text \<open>Every Rust string satisfies this; strings all of whose bytes are ASCII do.\<close>

definition rust_str :: "string \<Rightarrow> bool" where
  "rust_str s \<longleftrightarrow> valid_utf8 (as_bytes s)"

definition ascii :: "string \<Rightarrow> bool" where
  "ascii s \<longleftrightarrow> list_all (\<lambda>c. of_char c < (128 :: nat)) s"

lemma length_as_bytes [simp]: "length (as_bytes s) = length s"
  by (simp add: as_bytes_def)

lemma as_bytes_append [simp]: "as_bytes (s @ t) = as_bytes s @ as_bytes t"
  by (simp add: as_bytes_def)

lemma of_char_word_nat: "(of_char c :: u8) = word_of_nat (of_char c)"
  by (simp add: of_char_def)

lemma unat_of_char_u8: "unat (of_char c :: u8) = of_char c"
proof -
  have "of_char c < (2 :: nat) ^ 8"
    using nat_of_char_less_256[of c] by simp
  then show ?thesis
    by (simp add: of_char_word_nat unsigned_of_nat take_bit_nat_eq_self)
qed

lemma of_bytes_as_bytes [simp]: "of_bytes (as_bytes s) = s"
  by (induction s) (simp_all add: of_bytes_def as_bytes_def unat_of_char_u8)

lemma from_utf8_as_bytes [simp]: "rust_str s \<Longrightarrow> from_utf8 (as_bytes s) = Some s"
  by (simp add: from_utf8_def rust_str_def)

lemma ascii_rust_str: "ascii s \<Longrightarrow> rust_str s"
proof (induction s)
  case (Cons c s)
  then have "of_char c < (128 :: nat)" by (simp add: ascii_def)
  then have "(of_char c :: u8) \<le> 127"
    by (simp add: word_le_nat_alt unat_of_char_u8)
  with Cons show ?case by (simp add: ascii_def rust_str_def as_bytes_def)
qed (simp add: rust_str_def as_bytes_def)

lemma ascii_append [simp]: "ascii (s @ t) \<longleftrightarrow> ascii s \<and> ascii t"
  by (simp add: ascii_def)

lemma ascii_show_nat [simp]: "ascii (show_nat n)"
  using show_nat_digits[of n] by (fastforce simp: ascii_def list_all_iff)

end
