(* ===== verification/State_Vector.thy ===== *)
theory State_Vector
  imports Rust_Std
begin

text \<open>
  The execution state model of \<open>ff-core/src/state.rs\<close>: the six state dimensions, the derived
  public state, its wire strings, and the parser of \<open>ff-script/src/functions/suspension.rs\<close>
  that reads them back. Constructors carry a two-letter prefix of their enum, since several
  enums share names such as \<open>None\<close> and \<open>Active\<close>.
\<close>

datatype lifecycle_phase = LP_Submitted | LP_Runnable | LP_Active | LP_Suspended | LP_Terminal

datatype ownership_state = OS_Unowned | OS_Leased | OS_LeaseExpiredReclaimable | OS_LeaseRevoked

datatype eligibility_state =
    ES_EligibleNow | ES_NotEligibleUntilTime | ES_BlockedByDependencies | ES_BlockedByBudget
  | ES_BlockedByQuota | ES_BlockedByRoute | ES_BlockedByLaneState | ES_BlockedByOperator
  | ES_NotApplicable

datatype blocking_reason =
    BR_None | BR_WaitingForWorker | BR_WaitingForRetryBackoff | BR_WaitingForResumeDelay
  | BR_WaitingForDelay | BR_WaitingForSignal | BR_WaitingForApproval | BR_WaitingForCallback
  | BR_WaitingForToolResult | BR_WaitingForChildren | BR_WaitingForBudget | BR_WaitingForQuota
  | BR_WaitingForCapableWorker | BR_WaitingForLocalityMatch | BR_PausedByOperator
  | BR_PausedByPolicy | BR_PausedByFlowCancel

datatype terminal_outcome =
  TO_None | TO_Success | TO_Failed | TO_Cancelled | TO_Expired | TO_Skipped

datatype attempt_state =
    AS_None | AS_PendingFirstAttempt | AS_RunningAttempt | AS_AttemptInterrupted
  | AS_PendingRetryAttempt | AS_PendingReplayAttempt | AS_AttemptTerminal

datatype public_state =
    PS_Waiting | PS_Delayed | PS_RateLimited | PS_WaitingChildren | PS_Active | PS_Suspended
  | PS_Resumable | PS_Completed | PS_Failed | PS_Cancelled | PS_Expired | PS_Skipped

fun as_str :: "public_state \<Rightarrow> string" where
  "as_str PS_Waiting = ''waiting''"
| "as_str PS_Delayed = ''delayed''"
| "as_str PS_RateLimited = ''rate_limited''"
| "as_str PS_WaitingChildren = ''waiting_children''"
| "as_str PS_Active = ''active''"
| "as_str PS_Suspended = ''suspended''"
| "as_str PS_Resumable = ''resumable''"
| "as_str PS_Completed = ''completed''"
| "as_str PS_Failed = ''failed''"
| "as_str PS_Cancelled = ''cancelled''"
| "as_str PS_Expired = ''expired''"
| "as_str PS_Skipped = ''skipped''"

text \<open>The unknown-token error carries the offending string.\<close>

definition parse_public_state :: "string \<Rightarrow> string + public_state" where
  "parse_public_state s =
     (if s = ''waiting'' then Inr PS_Waiting
      else if s = ''delayed'' then Inr PS_Delayed
      else if s = ''rate_limited'' then Inr PS_RateLimited
      else if s = ''waiting_children'' then Inr PS_WaitingChildren
      else if s = ''active'' then Inr PS_Active
      else if s = ''suspended'' then Inr PS_Suspended
      else if s = ''resumable'' then Inr PS_Resumable
      else if s = ''completed'' then Inr PS_Completed
      else if s = ''failed'' then Inr PS_Failed
      else if s = ''cancelled'' then Inr PS_Cancelled
      else if s = ''expired'' then Inr PS_Expired
      else if s = ''skipped'' then Inr PS_Skipped
      else Inl (''unknown public_state: '' @ s))"

record state_vector =
  sv_lifecycle_phase :: lifecycle_phase
  sv_ownership_state :: ownership_state
  sv_eligibility_state :: eligibility_state
  sv_blocking_reason :: blocking_reason
  sv_terminal_outcome :: terminal_outcome
  sv_attempt_state :: attempt_state
  sv_public_state :: public_state

definition derive_public_state :: "state_vector \<Rightarrow> public_state" where
  "derive_public_state sv =
     (case sv_lifecycle_phase sv of
        LP_Terminal \<Rightarrow>
          (case sv_terminal_outcome sv of
             TO_Success \<Rightarrow> PS_Completed
           | TO_Failed \<Rightarrow> PS_Failed
           | TO_Cancelled \<Rightarrow> PS_Cancelled
           | TO_Expired \<Rightarrow> PS_Expired
           | TO_Skipped \<Rightarrow> PS_Skipped
           | TO_None \<Rightarrow> PS_Failed)
      | LP_Suspended \<Rightarrow> PS_Suspended
      | LP_Active \<Rightarrow> PS_Active
      | LP_Runnable \<Rightarrow>
          (case sv_eligibility_state sv of
             ES_EligibleNow \<Rightarrow> PS_Waiting
           | ES_NotEligibleUntilTime \<Rightarrow> PS_Delayed
           | ES_BlockedByDependencies \<Rightarrow> PS_WaitingChildren
           | ES_BlockedByBudget \<Rightarrow> PS_RateLimited
           | ES_BlockedByQuota \<Rightarrow> PS_RateLimited
           | ES_BlockedByRoute \<Rightarrow> PS_Waiting
           | ES_BlockedByLaneState \<Rightarrow> PS_Waiting
           | ES_BlockedByOperator \<Rightarrow> PS_Waiting
           | ES_NotApplicable \<Rightarrow> PS_Waiting)
      | LP_Submitted \<Rightarrow> PS_Waiting)"

definition is_consistent :: "state_vector \<Rightarrow> bool" where
  "is_consistent sv \<longleftrightarrow> sv_public_state sv = derive_public_state sv"

datatype attempt_lifecycle =
    AL_Created | AL_Started | AL_Suspended | AL_EndedSuccess | AL_EndedFailure
  | AL_EndedCancelled | AL_InterruptedReclaimed

fun is_terminal :: "attempt_lifecycle \<Rightarrow> bool" where
  "is_terminal AL_EndedSuccess = True"
| "is_terminal AL_EndedFailure = True"
| "is_terminal AL_EndedCancelled = True"
| "is_terminal AL_InterruptedReclaimed = True"
| "is_terminal _ = False"

text \<open>The public states that say an execution has ended.\<close>

definition public_terminal :: "public_state \<Rightarrow> bool" where
  "public_terminal p \<longleftrightarrow> p \<in> {PS_Completed, PS_Failed, PS_Cancelled, PS_Expired, PS_Skipped}"

lemmas sv_splits = lifecycle_phase.splits terminal_outcome.splits eligibility_state.splits

lemma parse_as_str [simp]: "parse_public_state (as_str p) = Inr p"
  by (cases p) (simp_all add: parse_public_state_def)

lemma as_str_inj: "as_str p = as_str q \<Longrightarrow> p = q"
  by (metis parse_as_str sum.inject(2))

lemma parse_public_state_Inr: "parse_public_state s = Inr p \<longleftrightarrow> s = as_str p"
  by (cases p) (auto simp: parse_public_state_def)

lemma derive_public_terminal:
  "public_terminal (derive_public_state sv) \<longleftrightarrow> sv_lifecycle_phase sv = LP_Terminal"
  by (auto simp: derive_public_state_def public_terminal_def split: sv_splits)

lemma derive_active_iff:
  "derive_public_state sv = PS_Active \<longleftrightarrow> sv_lifecycle_phase sv = LP_Active"
  by (auto simp: derive_public_state_def split: sv_splits)

lemma derive_never_resumable: "derive_public_state sv \<noteq> PS_Resumable"
  by (auto simp: derive_public_state_def split: sv_splits)

interpretation ps: wire_codec as_str parse_public_state id "\<lambda>_. True"
  by unfold_locales simp_all

section \<open>Properties\<close>

text \<open>
  \<open>parse_public_state\<close> accepts exactly the ten names that \<open>PublicState::as_str\<close> prints and
  gives each of them back.
\<close>

theorem public_state_roundtrip: "(parse_public_state s = Inr p) = (s = as_str p)"
  by (rule parse_public_state_Inr)

text \<open>
  The derived public state never misreports the phase: an ended label exactly in the terminal
  phase, \<open>active\<close> and \<open>suspended\<close> exactly in the phases of these names, and one of the four
  waiting labels exactly for submitted and runnable executions.
\<close>

theorem derive_public_state_classes:
  "public_terminal (derive_public_state sv) = (sv_lifecycle_phase sv = LP_Terminal) \<and>
   (derive_public_state sv = PS_Active) = (sv_lifecycle_phase sv = LP_Active) \<and>
   (derive_public_state sv = PS_Suspended) = (sv_lifecycle_phase sv = LP_Suspended) \<and>
   (derive_public_state sv \<in> {PS_Waiting, PS_Delayed, PS_WaitingChildren, PS_RateLimited}) =
     (sv_lifecycle_phase sv \<in> {LP_Submitted, LP_Runnable})"
  by (simp add: derive_public_terminal derive_active_iff)
    (auto simp: derive_public_state_def split: sv_splits)

text \<open>
  Two gaps of \<open>StateVector::is_consistent\<close>. A terminal vector without an outcome whose stored
  label is \<open>failed\<close> passes the check, although the comment in \<open>derive_public_state\<close> says callers
  detect that corruption through it. And a vector with the label \<open>resumable\<close>, which the engine
  stores for a satisfied suspension, never passes: no vector derives to it.
\<close>

theorem is_consistent_gaps:
  "is_consistent (sv\<lparr>sv_lifecycle_phase := LP_Terminal, sv_terminal_outcome := TO_None,
     sv_public_state := PS_Failed\<rparr>) \<and>
   \<not> is_consistent (sv\<lparr>sv_public_state := PS_Resumable\<rparr>)"
  using derive_never_resumable [of "sv\<lparr>sv_public_state := PS_Resumable\<rparr>"]
  by (simp add: is_consistent_def) (simp add: derive_public_state_def)

end
