(* ===== verification/Ids_Partition.thy ===== *)
theory Ids_Partition
  imports Rust_Std
begin

text \<open>
  Identifiers and partitions: \<open>ff-core/src/types.rs\<close> (execution and lane ids) and
  \<open>ff-core/src/partition.rs\<close> (families, hash tags, partition keys, partition functions).
  The \<open>uuid\<close> and \<open>crc16\<close> crates are not part of the repository: their functions are the fields
  of \<open>ext_lib\<close>, a parameter of every definition that calls them (\<open>uuid_error_text s\<close> is the text
  of the error that parsing \<open>s\<close> gives). A Rust panic (a failed
  \<open>assert!\<close> or \<open>expect\<close>) is the value \<open>Inl (Panic message)\<close>.
\<close>

type_synonym uuid = "128 word"
type_synonym lane_id = string
type_synonym execution_id = string

record ext_lib =
  uuid_parse_str :: "string \<Rightarrow> uuid option"
  uuid_error_text :: "string \<Rightarrow> string"
  uuid_to_string :: "uuid \<Rightarrow> string"
  uuid_as_bytes :: "uuid \<Rightarrow> u8 list"
  crc16_xmodem :: "u8 list \<Rightarrow> u16"

datatype panic = Panic string

section \<open>Partitions\<close>

datatype partition_family = Flow | Execution | Budget | Quota

fun prefix_of :: "partition_family \<Rightarrow> string" where
  "prefix_of Flow = ''fp''"
| "prefix_of Execution = ''fp''"
| "prefix_of Budget = ''b''"
| "prefix_of Quota = ''q''"

record partition_config =
  num_flow_partitions :: u16
  num_budget_partitions :: u16
  num_quota_partitions :: u16

definition default_partition_config :: partition_config where
  "default_partition_config =
     \<lparr>num_flow_partitions = 256, num_budget_partitions = 32, num_quota_partitions = 32\<rparr>"

fun count_for :: "partition_config \<Rightarrow> partition_family \<Rightarrow> u16" where
  "count_for c Flow = num_flow_partitions c"
| "count_for c Execution = num_flow_partitions c"
| "count_for c Budget = num_budget_partitions c"
| "count_for c Quota = num_quota_partitions c"

record partition =
  family :: partition_family
  index :: u16

definition hash_tag :: "partition \<Rightarrow> string" where
  "hash_tag p = ''{'' @ prefix_of (family p) @ '':'' @ show_nat (unat (index p)) @ ''}''"

datatype partition_key_parse_error =
  MissingBraces | MalformedBody | UnknownFamilyPrefix string | InvalidIndex string

definition parse_family :: "string \<Rightarrow> partition_key_parse_error + partition_family" where
  "parse_family p =
     (if p = ''fp'' then Inr Flow else if p = ''b'' then Inr Budget else if p = ''q'' then Inr Quota
      else Inl (UnknownFamilyPrefix p))"

definition partition_key_parse :: "string \<Rightarrow> partition_key_parse_error + partition" where
  "partition_key_parse s =
     rbind (ok_or (Option.bind (strip_prefix ''{'' s) (strip_suffix ''}'')) MissingBraces) (\<lambda>inner.
     rbind (ok_or (split_once CHR '':'' inner) MalformedBody) (\<lambda>(prefix, index_s).
     rbind (parse_family prefix) (\<lambda>fam.
     rbind (ok_or (parse_u16 index_s) (InvalidIndex index_s)) (\<lambda>i.
     Inr \<lparr>family = fam, index = i\<rparr>))))"

definition partition_for_uuid :: "ext_lib \<Rightarrow> u8 list \<Rightarrow> u16 \<Rightarrow> panic + u16" where
  "partition_for_uuid X bytes n =
     (if n > 0 then Inr (crc16_xmodem X bytes mod n)
      else Inl (Panic ''num_partitions must be > 0 (division by zero)''))"

definition flow_partition :: "ext_lib \<Rightarrow> uuid \<Rightarrow> partition_config \<Rightarrow> panic + partition" where
  "flow_partition X fid c =
     rbind (partition_for_uuid X (uuid_as_bytes X fid) (num_flow_partitions c)) (\<lambda>i.
     Inr \<lparr>family = Flow, index = i\<rparr>)"

definition budget_partition :: "ext_lib \<Rightarrow> uuid \<Rightarrow> partition_config \<Rightarrow> panic + partition" where
  "budget_partition X bid c =
     rbind (partition_for_uuid X (uuid_as_bytes X bid) (num_budget_partitions c)) (\<lambda>i.
     Inr \<lparr>family = Budget, index = i\<rparr>)"

definition quota_partition :: "ext_lib \<Rightarrow> uuid \<Rightarrow> partition_config \<Rightarrow> panic + partition" where
  "quota_partition X qid c =
     rbind (partition_for_uuid X (uuid_as_bytes X qid) (num_quota_partitions c)) (\<lambda>i.
     Inr \<lparr>family = Quota, index = i\<rparr>)"

text \<open>A solo partitioner is any function of the lane and the configuration; the default one hashes the lane.\<close>

definition crc16_solo_partitioner :: "ext_lib \<Rightarrow> lane_id \<Rightarrow> partition_config \<Rightarrow> panic + u16" where
  "crc16_solo_partitioner X lane c =
     (if num_flow_partitions c > 0
      then Inr (crc16_xmodem X (as_bytes lane) mod num_flow_partitions c)
      else Inl (Panic ''num_flow_partitions must be > 0 (division by zero)''))"

definition solo_partition_with ::
  "lane_id \<Rightarrow> partition_config \<Rightarrow> (lane_id \<Rightarrow> partition_config \<Rightarrow> panic + u16) \<Rightarrow> panic + partition" where
  "solo_partition_with lane c part =
     rbind (part lane c) (\<lambda>i. Inr \<lparr>family = Execution, index = i\<rparr>)"

definition solo_partition :: "ext_lib \<Rightarrow> lane_id \<Rightarrow> partition_config \<Rightarrow> panic + partition" where
  "solo_partition X lane c = solo_partition_with lane c (crc16_solo_partitioner X)"

section \<open>Execution ids\<close>

datatype execution_id_parse_error =
  MissingTag string | InvalidPartitionIndex string | InvalidUuid string

definition with_partition_and_uuid :: "ext_lib \<Rightarrow> u16 \<Rightarrow> uuid \<Rightarrow> execution_id" where
  "with_partition_and_uuid X p u =
     ''{fp:'' @ show_nat (unat p) @ ''}:'' @ uuid_to_string X u"

text \<open>
  \<open>ExecutionId::with_partition\<close> draws a random UUID: the drawn value is the argument \<open>fresh\<close>.
  The deterministic constructors take the UUID from their caller instead.
\<close>

definition with_partition :: "ext_lib \<Rightarrow> u16 \<Rightarrow> uuid \<Rightarrow> execution_id" where
  "with_partition X p fresh = ''{fp:'' @ show_nat (unat p) @ ''}:'' @ uuid_to_string X fresh"

definition for_flow :: "ext_lib \<Rightarrow> uuid \<Rightarrow> partition_config \<Rightarrow> uuid \<Rightarrow> panic + execution_id" where
  "for_flow X fid c fresh =
     rbind (flow_partition X fid c) (\<lambda>p. Inr (with_partition X (index p) fresh))"

definition solo :: "ext_lib \<Rightarrow> lane_id \<Rightarrow> partition_config \<Rightarrow> uuid \<Rightarrow> panic + execution_id" where
  "solo X lane c fresh =
     rbind (solo_partition X lane c) (\<lambda>p. Inr (with_partition X (index p) fresh))"

definition deterministic_for_flow ::
  "ext_lib \<Rightarrow> uuid \<Rightarrow> partition_config \<Rightarrow> uuid \<Rightarrow> panic + execution_id" where
  "deterministic_for_flow X fid c u =
     rbind (flow_partition X fid c) (\<lambda>p. Inr (with_partition_and_uuid X (index p) u))"

definition deterministic_solo ::
  "ext_lib \<Rightarrow> lane_id \<Rightarrow> partition_config \<Rightarrow> uuid \<Rightarrow> panic + execution_id" where
  "deterministic_solo X lane c u =
     rbind (solo_partition X lane c) (\<lambda>p. Inr (with_partition_and_uuid X (index p) u))"

text \<open>
  The field of \<open>ExecutionId\<close> is private: its values are those of the constructors above and of
  \<open>parse\<close>, which keeps the text it was given.
\<close>

definition execution_id_parse ::
  "ext_lib \<Rightarrow> string \<Rightarrow> execution_id_parse_error + execution_id" where
  "execution_id_parse X s =
     rbind (ok_or (strip_prefix ''{fp:'' s) (MissingTag s)) (\<lambda>rest.
     rbind (ok_or (find_sub ''}:'' rest) (MissingTag s)) (\<lambda>close.
     rbind (ok_or (parse_u16 (take close rest)) (InvalidPartitionIndex (take close rest))) (\<lambda>_.
     rbind (ok_or (uuid_parse_str X (drop (close + 2) rest)) (InvalidUuid (drop (close + 2) rest))) (\<lambda>_.
     Inr s))))"

text \<open>The \<open>Display\<close> texts of the parse errors.\<close>

fun execution_id_error_text :: "execution_id_parse_error \<Rightarrow> string" where
  "execution_id_error_text (MissingTag s) =
     ''execution_id is missing the `{fp:N}:` hash-tag prefix: '' @ s"
| "execution_id_error_text (InvalidPartitionIndex s) =
     ''execution_id partition index is not a valid u16: '' @ s"
| "execution_id_error_text (InvalidUuid s) =
     ''execution_id UUID suffix is not a valid UUID: '' @ s"

definition partition_of :: "execution_id \<Rightarrow> panic + u16" where
  "partition_of eid =
     (if length eid < 4 then Inl (Panic ''byte index 4 is out of bounds'')
      else let rest = drop 4 eid in
        rbind (ok_or (find_sub ''}:'' rest) (Panic ''invariant: valid ExecutionId'')) (\<lambda>close.
        ok_or (parse_u16 (take close rest)) (Panic ''invariant: valid partition index'')))"

definition execution_partition :: "execution_id \<Rightarrow> partition_config \<Rightarrow> panic + partition" where
  "execution_partition eid c =
     rbind (partition_of eid) (\<lambda>i. Inr \<lparr>family = Execution, index = i\<rparr>)"

section \<open>Lane ids\<close>

definition LANE_ID_MAX_BYTES :: nat where "LANE_ID_MAX_BYTES = 64"

datatype lane_id_error = LaneEmpty | LaneTooLong nat | LaneNonPrintable nat

definition printable_byte :: "char \<Rightarrow> bool" where
  "printable_byte c \<longleftrightarrow> (let b = of_char c :: nat in 32 \<le> b \<and> b \<le> 126)"

fun find_index :: "('a \<Rightarrow> bool) \<Rightarrow> nat \<Rightarrow> 'a list \<Rightarrow> nat option" where
  "find_index P i [] = None"
| "find_index P i (x # xs) = (if P x then Some i else find_index P (Suc i) xs)"

definition lane_validate :: "string \<Rightarrow> lane_id_error + unit" where
  "lane_validate s =
     (if s = [] then Inl LaneEmpty
      else if length s > LANE_ID_MAX_BYTES then Inl (LaneTooLong (length s))
      else case find_index (\<lambda>c. \<not> printable_byte c) 0 s of
             Some i \<Rightarrow> Inl (LaneNonPrintable i)
           | None \<Rightarrow> Inr ())"

definition lane_try_new :: "string \<Rightarrow> lane_id_error + lane_id" where
  "lane_try_new s = rbind (lane_validate s) (\<lambda>_. Inr s)"

section \<open>Lemmas\<close>

text \<open>The alias collapse of the wire form: an execution partition is a flow partition there.\<close>

definition wire_partition :: "partition \<Rightarrow> partition" where
  "wire_partition p = (if family p = Execution then p\<lparr>family := Flow\<rparr> else p)"

lemma prefix_of_no_colon [simp]: "CHR '':'' \<notin> set (prefix_of f)"
  by (cases f) simp_all

lemma parse_family_prefix_of [simp]:
  "parse_family (prefix_of f) = Inr (if f = Execution then Flow else f)"
  by (cases f) (simp_all add: parse_family_def)

lemma strip_braces [simp]:
  "Option.bind (strip_prefix ''{'' (CHR ''{'' # b @ ''}'')) (strip_suffix ''}'') = Some b"
  using strip_prefix_append [of "''{''" "b @ ''}''"] by (simp add: strip_suffix_def)

lemma partition_key_parse_hash_tag: "partition_key_parse (hash_tag p) = Inr (wire_partition p)"
  using strip_braces [of "prefix_of (family p) @ '':'' @ show_nat (unat (index p))"]
  by (cases p) (simp add: partition_key_parse_def hash_tag_def wire_partition_def split_once_append
      parse_u16_show_nat)

interpretation pk: wire_codec hash_tag partition_key_parse wire_partition "\<lambda>_. True"
  by unfold_locales
    (simp_all add: partition_key_parse_hash_tag, simp add: hash_tag_def wire_partition_def)

lemma partition_of_minted:
  "partition_of (''{fp:'' @ show_nat (unat p) @ ''}:'' @ r) = Inr p"
  using find_sub_absent_head [of "CHR ''}''" "show_nat (unat p)" "'':''" r]
  by (simp add: partition_of_def)

lemma execution_id_parse_minted:
  assumes "uuid_parse_str X (uuid_to_string X u) = Some u"
  shows "execution_id_parse X (with_partition_and_uuid X p u) = Inr (with_partition_and_uuid X p u)"
  using assms find_sub_absent_head [of "CHR ''}''" "show_nat (unat p)" "'':''" "uuid_to_string X u"]
    strip_prefix_append [of "''{fp:''" "show_nat (unat p) @ ''}:'' @ uuid_to_string X u"]
  by (simp add: execution_id_parse_def with_partition_and_uuid_def)

lemma with_partition_eq: "with_partition X p u = with_partition_and_uuid X p u"
  by (simp add: with_partition_def with_partition_and_uuid_def)

lemma partition_of_with_partition [simp]:
  "partition_of (with_partition_and_uuid X p u) = Inr p"
  using partition_of_minted [of p "uuid_to_string X u"] by (simp add: with_partition_and_uuid_def)

lemma partition_of_parsed:
  assumes "execution_id_parse X s = Inr e"
  shows "e = s \<and> (\<exists>i. partition_of e = Inr i)"
proof -
  from assms obtain rest close i where r: "strip_prefix ''{fp:'' s = Some rest"
    "find_sub ''}:'' rest = Some close" "parse_u16 (take close rest) = Some i" "e = s"
    by (auto simp: execution_id_parse_def ff_result)
  from r(1) have "s = ''{fp:'' @ rest" by (simp only: strip_prefix_Some_iff)
  with r show ?thesis by (simp add: partition_of_def)
qed

lemma partition_for_uuid_bound:
  "n > 0 \<Longrightarrow> \<exists>i. partition_for_uuid X b n = Inr i \<and> i < n"
  by (auto simp: partition_for_uuid_def word_gt_0 word_mod_less_divisor)

lemma find_index_None: "find_index P i xs = None \<longleftrightarrow> list_all (\<lambda>x. \<not> P x) xs"
  by (induction xs arbitrary: i) auto

section \<open>Properties\<close>

text \<open>
  C34. The partition key of a partition parses back to it, up to the documented collapse of the
  \<open>Execution\<close> alias into \<open>Flow\<close>; and two partitions have the same hash tag only when they
  agree up to that collapse, so distinct partitions never share a routing tag.
\<close>

theorem partition_key_roundtrip:
  "partition_key_parse (hash_tag p) = Inr (wire_partition p) \<and>
   (hash_tag p = hash_tag q) = (wire_partition p = wire_partition q)"
  using pk.parse_print pk.print_eq_iff by simp

text \<open>
  C33. An execution id minted for a flow is accepted by \<open>ExecutionId::parse\<close>, and the partition
  decoded from it has the hash tag of the flow's own partition, within the configured count: an
  execution lives on its flow's shard. Relies on the UUID text form parsing back.
\<close>

theorem for_flow_colocated:
  assumes "uuid_parse_str X (uuid_to_string X u) = Some u"
    and "num_flow_partitions c > 0"
  shows "\<exists>eid p q. for_flow X fid c u = Inr eid \<and> execution_id_parse X eid = Inr eid \<and>
    flow_partition X fid c = Inr p \<and> execution_partition eid c = Inr q \<and>
    hash_tag q = hash_tag p \<and> index q < num_flow_partitions c"
proof -
  obtain i where i: "partition_for_uuid X (uuid_as_bytes X fid) (num_flow_partitions c) = Inr i"
    "i < num_flow_partitions c"
    using partition_for_uuid_bound assms(2) by blast
  with execution_id_parse_minted [OF assms(1), of i] show ?thesis
    by (simp add: for_flow_def flow_partition_def execution_partition_def with_partition_eq hash_tag_def)
qed

definition sample_ext_lib :: ext_lib where
  "sample_ext_lib = \<lparr>
     uuid_parse_str = (\<lambda>s. map_option of_nat (parse_uint (2 ^ 128 - 1) s)),
     uuid_error_text = (\<lambda>_. ''invalid character''),
     uuid_to_string = (\<lambda>u. show_nat (unat u)),
     uuid_as_bytes = to_le_bytes 16,
     crc16_xmodem = (\<lambda>bs. of_nat (length bs))\<rparr>"

lemma sample_uuid_roundtrip [simp]:
  "uuid_parse_str sample_ext_lib (uuid_to_string sample_ext_lib u) = Some u"
proof -
  have "unat u \<le> 2 ^ 128 - 1" using unsigned_less [of u, where ?'a = nat] by simp
  then show ?thesis by (simp add: sample_ext_lib_def parse_uint_show_nat)
qed

theorem for_flow_colocated_witness:
  "uuid_parse_str sample_ext_lib (uuid_to_string sample_ext_lib 9) = Some 9 \<and>
   (\<exists>eid p q. for_flow sample_ext_lib 5 default_partition_config 9 = Inr eid \<and>
      execution_id_parse sample_ext_lib eid = Inr eid \<and>
      flow_partition sample_ext_lib 5 default_partition_config = Inr p \<and>
      execution_partition eid default_partition_config = Inr q \<and>
      hash_tag q = hash_tag p \<and> index q < num_flow_partitions default_partition_config)"
  using for_flow_colocated [of sample_ext_lib 9 default_partition_config 5]
  by (simp add: default_partition_config_def)

text \<open>
  \<open>ExecutionId::partition\<close> never panics on an id accepted by \<open>ExecutionId::parse\<close>, which
  keeps the text it was given.
\<close>

theorem parsed_execution_id_has_partition:
  "execution_id_parse X s = Inr e \<Longrightarrow> e = s \<and> (\<exists>i. partition_of e = Inr i)"
  by (rule partition_of_parsed)

theorem parsed_execution_id_has_partition_witness:
  "execution_id_parse sample_ext_lib ''{fp:7}:5'' = Inr ''{fp:7}:5'' \<and>
   (\<exists>i. partition_of ''{fp:7}:5'' = Inr i)"
proof -
  have "execution_id_parse sample_ext_lib ''{fp:7}:5'' = Inr ''{fp:7}:5''"
    by (simp add: execution_id_parse_def sample_ext_lib_def strip_prefix_def parse_u16_def
        parse_uint_def char_digit_def)
  with parsed_execution_id_has_partition show ?thesis by blast
qed

text \<open>
  The partition-key parser accepts indices that no partition prints: a sign and leading zeros
  pass. The accepted text then differs from the hash tag of the partition it parses to, so it names
  another routing slot, although the documentation of \<open>PartitionKey::parse\<close> promises the exact
  shape of \<open>Partition::hash_tag\<close>. Execution ids have the same gap.
\<close>

theorem noncanonical_index_accepted:
  "partition_key_parse ''{fp:+7}'' = Inr \<lparr>family = Flow, index = 7\<rparr> \<and>
   hash_tag \<lparr>family = Flow, index = 7\<rparr> = ''{fp:7}'' \<and>
   partition_of ''{fp:007}:5'' = Inr 7 \<and>
   execution_id_parse sample_ext_lib ''{fp:007}:5'' = Inr ''{fp:007}:5''"
  by (simp add: partition_key_parse_def strip_prefix_def strip_suffix_def parse_family_def parse_u16_def
      parse_uint_def char_digit_def hash_tag_def show_nat.simps digit_char_def partition_of_def
      execution_id_parse_def sample_ext_lib_def char_of_def bit_0)

text \<open>
  \<open>LaneId::try_new\<close> accepts a name exactly when it has 1 to 64 bytes, all of them printable
  ASCII, and then returns it unchanged.
\<close>

theorem lane_try_new_iff:
  "(lane_try_new s = Inr s') =
   (s' = s \<and> 1 \<le> length s \<and> length s \<le> 64 \<and> list_all printable_byte s)"
  using find_index_None [of "\<lambda>c. \<not> printable_byte c" 0 s]
  by (cases "find_index (\<lambda>c. \<not> printable_byte c) 0 s")
    (auto simp: lane_try_new_def lane_validate_def LANE_ID_MAX_BYTES_def Suc_le_eq)

end
