(* ===== verification/Caps.thy ===== *)
theory Caps
  imports Rust_Std
begin

text \<open>
  Capability matching: \<open>ff-core/src/caps.rs\<close> and the worker's \<open>CapabilitySet\<close> of
  \<open>ff-core/src/backend.rs\<close>. The sorted token set of a requirement is a \<open>string set\<close>; the
  worker's tokens are the list the worker advertises.
\<close>

record capability_set =
  worker_tokens :: "string list"

record capability_requirement =
  req_tokens :: "string set"

definition requirement_new :: "string list \<Rightarrow> capability_requirement" where
  "requirement_new ts = \<lparr>req_tokens = set (filter (\<lambda>t. t \<noteq> []) ts)\<rparr>"

definition requirement_from_csv :: "string \<Rightarrow> capability_requirement" where
  "requirement_from_csv csv = requirement_new (filter (\<lambda>t. t \<noteq> []) (split_char CHR '','' csv))"

definition requirement_is_empty :: "capability_requirement \<Rightarrow> bool" where
  "requirement_is_empty r \<longleftrightarrow> Set.is_empty (req_tokens r)"

definition caps_matches :: "capability_requirement \<Rightarrow> capability_set \<Rightarrow> bool" where
  "caps_matches required worker =
     (if requirement_is_empty required then True
      else (\<forall>t \<in> req_tokens required. List.member (worker_tokens worker) t))"

definition matches_csv :: "string \<Rightarrow> string set \<Rightarrow> bool" where
  "matches_csv csv worker_caps =
     list_all (\<lambda>t. t \<in> worker_caps) (filter (\<lambda>t. t \<noteq> []) (split_char CHR '','' csv))"

section \<open>Lemmas\<close>

text \<open>The wire form the Valkey side stores: the tokens joined with commas.\<close>

fun join_csv :: "string list \<Rightarrow> string" where
  "join_csv [] = []"
| "join_csv [t] = t"
| "join_csv (t # ts) = t @ CHR '','' # join_csv ts"

lemma caps_matches_iff: "caps_matches r w \<longleftrightarrow> req_tokens r \<subseteq> set (worker_tokens w)"
  by (auto simp: caps_matches_def requirement_is_empty_def Set.is_empty_iff)

lemma split_char_append:
  "c \<notin> set t \<Longrightarrow> split_char c (t @ c # s) = t # split_char c s"
  by (induction t) auto

lemma split_char_free: "c \<notin> set t \<Longrightarrow> split_char c t = [t]"
  by (induction t) auto

lemma split_join_csv:
  "ts \<noteq> [] \<Longrightarrow> list_all (\<lambda>t. CHR '','' \<notin> set t) ts \<Longrightarrow> split_char CHR '','' (join_csv ts) = ts"
  by (induction ts rule: join_csv.induct) (auto simp: split_char_append split_char_free)

section \<open>Properties\<close>

text \<open>
  C35. The subset predicate: a worker matches a requirement parsed from CSV exactly when it
  advertises every non-empty token between the commas; the allocation-free form \<open>matches_csv\<close>
  gives the same answer on the worker's token set; and an empty requirement matches every worker.
\<close>

theorem matches_csv_equiv:
  "caps_matches (requirement_from_csv csv) w =
     (set (split_char CHR '','' csv) - {[]} \<subseteq> set (worker_tokens w)) \<and>
   matches_csv csv (set (worker_tokens w)) = caps_matches (requirement_from_csv csv) w \<and>
   caps_matches (requirement_new []) w"
  by (auto simp: caps_matches_iff requirement_from_csv_def requirement_new_def matches_csv_def
      list_all_iff)

text \<open>
  The CSV wire form loses nothing: for tokens that are non-empty and free of commas, parsing
  the joined text gives back the requirement built from the tokens.
\<close>

theorem csv_roundtrip:
  assumes "list_all (\<lambda>t. t \<noteq> [] \<and> CHR '','' \<notin> set t) ts"
  shows "requirement_from_csv (join_csv ts) = requirement_new ts"
proof (cases "ts = []")
  case True
  then show ?thesis by (simp add: requirement_from_csv_def requirement_new_def)
next
  case False
  with assms have "split_char CHR '','' (join_csv ts) = ts"
    by (auto intro: split_join_csv simp: list_all_iff)
  then show ?thesis by (simp add: requirement_from_csv_def requirement_new_def)
qed

theorem csv_roundtrip_witness:
  "list_all (\<lambda>t. t \<noteq> [] \<and> CHR '','' \<notin> set t) [''cuda'', ''gpu''] \<and>
   requirement_from_csv (join_csv [''cuda'', ''gpu'']) = requirement_new [''cuda'', ''gpu'']"
  using csv_roundtrip [of "[''cuda'', ''gpu'']"] by simp

end
