(* ===== verification/Engine_Error.thy ===== *)
theory Engine_Error
  imports Ids_Partition
begin

text \<open>
  The error surface of the engine: \<open>ff-core/src/engine_error.rs\<close> and \<open>ff-core/src/error.rs\<close>,
  with the translation of database errors of \<open>ff-backend-postgres/src/error.rs\<close>. The boxed source
  of a transport error is the type parameter \<open>'s\<close>. Constructors carry a prefix per enum because
  the enums share variant names.
\<close>

section \<open>Kinds\<close>

datatype error_class =
    EC_Terminal | EC_Retryable | EC_Cooperative | EC_Informational | EC_Advisory | EC_Bug
  | EC_Expected | EC_SoftError

datatype validation_kind =
    VK_InvalidInput | VK_CapabilityMismatch | VK_InvalidCapabilities | VK_InvalidPolicyJson
  | VK_PayloadTooLarge | VK_SignalLimitExceeded | VK_InvalidWaitpointKey | VK_InvalidToken
  | VK_WaitpointNotTokenBound | VK_RetentionLimitExceeded | VK_InvalidLeaseForSuspend
  | VK_InvalidDependency | VK_InvalidWaitpointForExecution | VK_InvalidBlockingReason
  | VK_InvalidOffset | VK_Unauthorized | VK_InvalidBudgetScope | VK_BudgetOverrideNotAllowed
  | VK_InvalidQuotaSpec | VK_InvalidKid | VK_InvalidSecretHex | VK_InvalidGraceMs
  | VK_InvalidTagKey | VK_InvalidFrameType | VK_Corruption | VK_HandleFromOtherBackend

datatype contention_kind =
    CK_UseClaimResumedExecution | CK_NotAResumedExecution | CK_ExecutionNotLeaseable
  | CK_LeaseConflict | CK_InvalidClaimGrant | CK_ClaimGrantExpired | CK_NoEligibleExecution
  | CK_WaitpointNotFound | CK_WaitpointPendingUseBufferScript | CK_StaleGraphRevision
  | CK_ExecutionNotActive string string string string | CK_ExecutionNotEligible
  | CK_ExecutionNotInEligibleSet | CK_ExecutionNotReclaimable | CK_NoActiveLease
  | CK_RateLimitExceeded | CK_ConcurrencyLimitExceeded | CK_RetryExhausted

record edge_snapshot =
  es_edge_id :: uuid
  es_flow_id :: uuid
  es_upstream_execution_id :: execution_id
  es_downstream_execution_id :: execution_id
  es_dependency_kind :: string
  es_satisfaction_condition :: string
  es_data_passing_ref :: "string option"
  es_edge_state :: string
  es_created_at :: int
  es_created_by :: string

datatype conflict_kind =
    XK_DependencyAlreadyExists edge_snapshot | XK_CycleDetected | XK_SelfReferencingEdge
  | XK_ExecutionAlreadyInFlow | XK_WaitpointAlreadyExists | XK_BudgetAttachConflict
  | XK_QuotaAttachConflict | XK_RotationConflict string | XK_ActiveAttemptExists

datatype state_kind =
    SK_StaleLease | SK_LeaseExpired | SK_LeaseRevoked | SK_ExecutionNotSuspended
  | SK_AlreadySuspended | SK_WaitpointClosed | SK_TargetNotSignalable | SK_DuplicateSignal
  | SK_ResumeConditionNotMet | SK_WaitpointNotPending | SK_PendingWaitpointExpired
  | SK_WaitpointNotOpen | SK_ExecutionNotTerminal | SK_MaxReplaysExhausted | SK_StreamClosed
  | SK_StaleOwnerCannotAppend | SK_GrantAlreadyExists | SK_ExecutionNotInFlow
  | SK_FlowAlreadyTerminal | SK_DepsNotSatisfied | SK_NotBlockedByDeps | SK_NotRunnable
  | SK_Terminal | SK_BudgetExceeded | SK_BudgetSoftExceeded | SK_OkAlreadyApplied
  | SK_AttemptNotStarted | SK_AttemptAlreadyTerminal | SK_ExecutionNotEligibleForAttempt
  | SK_ReplayNotAllowed | SK_MaxRetriesExhausted | SK_StreamAlreadyClosed | SK_AlreadySatisfied

datatype bug_kind = BK_AttemptNotInCreatedState

datatype 's engine_error =
    NotFound string
  | Validation validation_kind string
  | Contention contention_kind
  | Conflict conflict_kind
  | State state_kind
  | Bug bug_kind
  | Transport string 's
  | Unavailable string
  | ResourceExhausted string u32 "u32 option"
  | Timeout string nat
  | StreamDisconnected "u8 list"
  | StreamBackpressure
  | Contextual "'s engine_error" string

section \<open>Classification and context\<close>

text \<open>The state kinds that callers treat as a no-op.\<close>

definition informational_state :: "state_kind \<Rightarrow> bool" where
  "informational_state k \<longleftrightarrow> k \<in> {
     SK_ExecutionNotSuspended, SK_AlreadySuspended, SK_AlreadySatisfied, SK_WaitpointClosed
     , SK_DuplicateSignal, SK_GrantAlreadyExists, SK_OkAlreadyApplied, SK_AttemptAlreadyTerminal
     , SK_StreamAlreadyClosed, SK_BudgetSoftExceeded, SK_WaitpointNotOpen, SK_WaitpointNotPending
     , SK_PendingWaitpointExpired, SK_NotBlockedByDeps, SK_DepsNotSatisfied}"

fun class_of :: "'s engine_error \<Rightarrow> error_class" where
  "class_of (NotFound _) = EC_Terminal"
| "class_of (Validation _ _) = EC_Terminal"
| "class_of (Contention _) = EC_Retryable"
| "class_of (Conflict _) = EC_Terminal"
| "class_of (State k) =
     (if k = SK_BudgetExceeded then EC_Cooperative
      else if informational_state k then EC_Informational else EC_Terminal)"
| "class_of (Bug _) = EC_Bug"
| "class_of (Transport _ _) = EC_Terminal"
| "class_of (Unavailable _) = EC_Terminal"
| "class_of (ResourceExhausted _ _ _) = EC_Retryable"
| "class_of (Timeout _ _) = EC_Terminal"
| "class_of (StreamDisconnected _) = EC_Terminal"
| "class_of StreamBackpressure = EC_Informational"
| "class_of (Contextual e _) = class_of e"

fun backend_context :: "'s engine_error \<Rightarrow> string \<Rightarrow> 's engine_error" where
  "backend_context (Transport b s) c = Contextual (Transport b s) c"
| "backend_context (Unavailable op) c = Contextual (Unavailable op) c"
| "backend_context (ResourceExhausted p m r) c = Contextual (ResourceExhausted p m r) c"
| "backend_context (Timeout op d) c = Contextual (Timeout op d) c"
| "backend_context (Contextual e c') c = Contextual (Contextual e c') c"
| "backend_context other c = other"

section \<open>Backend error kinds\<close>

datatype backend_error_kind =
    BEK_Transport | BEK_Protocol | BEK_Timeout | BEK_Auth | BEK_Cluster | BEK_BusyLoading
  | BEK_ScriptNotLoaded | BEK_Other

fun as_stable_str :: "backend_error_kind \<Rightarrow> string" where
  "as_stable_str BEK_Transport = ''transport''"
| "as_stable_str BEK_Protocol = ''protocol''"
| "as_stable_str BEK_Timeout = ''timeout''"
| "as_stable_str BEK_Auth = ''auth''"
| "as_stable_str BEK_Cluster = ''cluster''"
| "as_stable_str BEK_BusyLoading = ''busy_loading''"
| "as_stable_str BEK_ScriptNotLoaded = ''script_not_loaded''"
| "as_stable_str BEK_Other = ''other''"

definition is_retryable :: "backend_error_kind \<Rightarrow> bool" where
  "is_retryable k \<longleftrightarrow> k \<in> {BEK_Transport, BEK_Timeout, BEK_Cluster, BEK_BusyLoading}"

datatype backend_error = BE_Valkey backend_error_kind string | BE_RequiresDevMode

fun backend_error_kind_of :: "backend_error \<Rightarrow> backend_error_kind" where
  "backend_error_kind_of (BE_Valkey k _) = k"
| "backend_error_kind_of BE_RequiresDevMode = BEK_Protocol"

section \<open>Database errors\<close>

text \<open>
  What the backend observes of an \<open>sqlx::Error\<close>: whether it is a database error, and then its
  SQLSTATE code, if any, and its message.
\<close>

datatype sqlx_error = Sqlx_Database "string option" string | Sqlx_Other string

type_synonym pg_error = "sqlx_error engine_error"

definition map_sqlx_error :: "sqlx_error \<Rightarrow> pg_error" where
  "map_sqlx_error err =
     (case err of
        Sqlx_Database (Some code) msg \<Rightarrow>
          if code = ''23505'' then Conflict (XK_RotationConflict msg)
          else if code = ''40001'' \<or> code = ''40P01'' then Contention CK_LeaseConflict
          else Transport ''postgres'' err
      | _ \<Rightarrow> Transport ''postgres'' err)"

section \<open>Lemmas\<close>

lemma class_backend_context [simp]: "class_of (backend_context e c) = class_of e"
  by (cases e) simp_all

lemma map_sqlx_error_retryable_iff:
  "class_of (map_sqlx_error err) = EC_Retryable \<longleftrightarrow>
   (\<exists>msg. err = Sqlx_Database (Some ''40001'') msg \<or> err = Sqlx_Database (Some ''40P01'') msg)"
  by (auto simp: map_sqlx_error_def split: sqlx_error.splits option.splits)

end
