(* ===== verification/Script_Error.thy ===== *)
theory Script_Error
  imports Engine_Error
begin

text \<open>
  The errors of the Valkey functions: \<open>ff-script/src/error.rs\<close> (the codes, their classes, parsing
  a code), \<open>ff-script/src/engine_error_ext.rs\<close> (their translation to engine errors and the
  classification that looks inside a transport error), \<open>ff-script/src/retry.rs\<close> and
  \<open>ff-backend-valkey/src/backend_error.rs\<close> (the two tables over the client's error kinds).
\<close>

section \<open>The client's error kinds\<close>

datatype ferriskey_kind =
    FK_ResponseError | FK_ParseError | FK_AuthenticationFailed | FK_PermissionDenied | FK_TypeError
  | FK_ExecAbortError | FK_BusyLoadingError | FK_NoScriptError | FK_InvalidClientConfig
  | FK_Moved | FK_Ask | FK_TryAgain | FK_ClusterDown | FK_CrossSlot | FK_MasterDown | FK_IoError
  | FK_FatalSendError | FK_FatalReceiveError | FK_ClientError | FK_ExtensionError | FK_ReadOnly
  | FK_MasterNameNotFoundBySentinel | FK_NoValidReplicasFoundBySentinel | FK_EmptySentinelList
  | FK_NotBusy | FK_AllConnectionsUnavailable | FK_ConnectionNotFoundForRoute
  | FK_RESP3NotSupported | FK_NotAllSlotsCovered | FK_UserOperationError | FK_ProtocolDesync

record ferriskey_error =
  ferriskey_kind :: ferriskey_kind
  ferriskey_display :: string

definition is_retryable_kind :: "ferriskey_kind \<Rightarrow> bool" where
  "is_retryable_kind k \<longleftrightarrow>
     k \<in> {FK_IoError, FK_FatalSendError, FK_TryAgain, FK_BusyLoadingError, FK_ClusterDown}"

primrec kind_to_stable_str :: "ferriskey_kind \<Rightarrow> string" where
  "kind_to_stable_str FK_ResponseError = ''response_error''"
| "kind_to_stable_str FK_ParseError = ''parse_error''"
| "kind_to_stable_str FK_AuthenticationFailed = ''authentication_failed''"
| "kind_to_stable_str FK_PermissionDenied = ''permission_denied''"
| "kind_to_stable_str FK_TypeError = ''type_error''"
| "kind_to_stable_str FK_ExecAbortError = ''exec_abort''"
| "kind_to_stable_str FK_BusyLoadingError = ''busy_loading''"
| "kind_to_stable_str FK_NoScriptError = ''no_script''"
| "kind_to_stable_str FK_InvalidClientConfig = ''invalid_client_config''"
| "kind_to_stable_str FK_Moved = ''moved''"
| "kind_to_stable_str FK_Ask = ''ask''"
| "kind_to_stable_str FK_TryAgain = ''try_again''"
| "kind_to_stable_str FK_ClusterDown = ''cluster_down''"
| "kind_to_stable_str FK_CrossSlot = ''cross_slot''"
| "kind_to_stable_str FK_MasterDown = ''master_down''"
| "kind_to_stable_str FK_IoError = ''io_error''"
| "kind_to_stable_str FK_FatalSendError = ''fatal_send''"
| "kind_to_stable_str FK_FatalReceiveError = ''fatal_receive''"
| "kind_to_stable_str FK_ClientError = ''client_error''"
| "kind_to_stable_str FK_ExtensionError = ''extension_error''"
| "kind_to_stable_str FK_ReadOnly = ''read_only''"
| "kind_to_stable_str FK_MasterNameNotFoundBySentinel = ''master_name_not_found_by_sentinel''"
| "kind_to_stable_str FK_NoValidReplicasFoundBySentinel = ''no_valid_replicas_found_by_sentinel''"
| "kind_to_stable_str FK_EmptySentinelList = ''unknown''"
| "kind_to_stable_str FK_NotBusy = ''unknown''"
| "kind_to_stable_str FK_AllConnectionsUnavailable = ''unknown''"
| "kind_to_stable_str FK_ConnectionNotFoundForRoute = ''unknown''"
| "kind_to_stable_str FK_RESP3NotSupported = ''unknown''"
| "kind_to_stable_str FK_NotAllSlotsCovered = ''unknown''"
| "kind_to_stable_str FK_UserOperationError = ''unknown''"
| "kind_to_stable_str FK_ProtocolDesync = ''unknown''"

primrec classify_ferriskey_kind :: "ferriskey_kind \<Rightarrow> backend_error_kind" where
  "classify_ferriskey_kind FK_ResponseError = BEK_Protocol"
| "classify_ferriskey_kind FK_ParseError = BEK_Protocol"
| "classify_ferriskey_kind FK_AuthenticationFailed = BEK_Auth"
| "classify_ferriskey_kind FK_PermissionDenied = BEK_Auth"
| "classify_ferriskey_kind FK_TypeError = BEK_Protocol"
| "classify_ferriskey_kind FK_ExecAbortError = BEK_Protocol"
| "classify_ferriskey_kind FK_BusyLoadingError = BEK_BusyLoading"
| "classify_ferriskey_kind FK_NoScriptError = BEK_ScriptNotLoaded"
| "classify_ferriskey_kind FK_InvalidClientConfig = BEK_Protocol"
| "classify_ferriskey_kind FK_Moved = BEK_Cluster"
| "classify_ferriskey_kind FK_Ask = BEK_Cluster"
| "classify_ferriskey_kind FK_TryAgain = BEK_Cluster"
| "classify_ferriskey_kind FK_ClusterDown = BEK_Cluster"
| "classify_ferriskey_kind FK_CrossSlot = BEK_Cluster"
| "classify_ferriskey_kind FK_MasterDown = BEK_Cluster"
| "classify_ferriskey_kind FK_IoError = BEK_Transport"
| "classify_ferriskey_kind FK_FatalSendError = BEK_Transport"
| "classify_ferriskey_kind FK_FatalReceiveError = BEK_Transport"
| "classify_ferriskey_kind FK_ClientError = BEK_Protocol"
| "classify_ferriskey_kind FK_ExtensionError = BEK_Protocol"
| "classify_ferriskey_kind FK_ReadOnly = BEK_Protocol"
| "classify_ferriskey_kind FK_MasterNameNotFoundBySentinel = BEK_Cluster"
| "classify_ferriskey_kind FK_NoValidReplicasFoundBySentinel = BEK_Cluster"
| "classify_ferriskey_kind FK_EmptySentinelList = BEK_Protocol"
| "classify_ferriskey_kind FK_NotBusy = BEK_Protocol"
| "classify_ferriskey_kind FK_AllConnectionsUnavailable = BEK_Cluster"
| "classify_ferriskey_kind FK_ConnectionNotFoundForRoute = BEK_Cluster"
| "classify_ferriskey_kind FK_RESP3NotSupported = BEK_Protocol"
| "classify_ferriskey_kind FK_NotAllSlotsCovered = BEK_Cluster"
| "classify_ferriskey_kind FK_UserOperationError = BEK_Protocol"
| "classify_ferriskey_kind FK_ProtocolDesync = BEK_Transport"

definition backend_error_from_ferriskey :: "ferriskey_error \<Rightarrow> backend_error" where
  "backend_error_from_ferriskey e =
     BE_Valkey (classify_ferriskey_kind (ferriskey_kind e)) (ferriskey_display e)"

section \<open>Script errors\<close>

datatype (plugins only:) script_error =
    SE_StaleLease | SE_LeaseExpired | SE_LeaseRevoked
  | SE_ExecutionNotActive string string string string | SE_NoActiveLease | SE_FenceRequired
  | SE_PartialFenceTriple | SE_ActiveAttemptExists | SE_UseClaimResumedExecution
  | SE_NotAResumedExecution | SE_ExecutionNotLeaseable | SE_LeaseConflict | SE_InvalidClaimGrant
  | SE_ClaimGrantExpired | SE_NoEligibleExecution | SE_BudgetExceeded | SE_BudgetSoftExceeded
  | SE_ExecutionNotSuspended | SE_AlreadySuspended | SE_WaitpointClosed | SE_WaitpointNotFound
  | SE_TargetNotSignalable | SE_WaitpointPendingUseBufferScript | SE_DuplicateSignal
  | SE_PayloadTooLarge | SE_SignalLimitExceeded | SE_InvalidWaitpointKey | SE_InvalidToken
  | SE_InvalidLeaseForSuspend | SE_ResumeConditionNotMet | SE_WaitpointNotPending
  | SE_PendingWaitpointExpired | SE_InvalidWaitpointForExecution | SE_WaitpointAlreadyExists
  | SE_WaitpointNotOpen | SE_ExecutionNotTerminal | SE_MaxReplaysExhausted | SE_StreamClosed
  | SE_StaleOwnerCannotAppend | SE_RetentionLimitExceeded | SE_ExecutionNotEligible
  | SE_ExecutionNotInEligibleSet | SE_GrantAlreadyExists | SE_ExecutionNotReclaimable
  | SE_InvalidDependency | SE_StaleGraphRevision | SE_ExecutionAlreadyInFlow | SE_CycleDetected
  | SE_FlowNotFound | SE_ExecutionNotInFlow | SE_DependencyAlreadyExists | SE_SelfReferencingEdge
  | SE_FlowAlreadyTerminal | SE_DepsNotSatisfied | SE_NotBlockedByDeps | SE_NotRunnable
  | SE_Terminal | SE_InvalidBlockingReason | SE_OkAlreadyApplied | SE_AttemptNotFound
  | SE_AttemptNotInCreatedState | SE_AttemptNotStarted | SE_AttemptAlreadyTerminal
  | SE_ExecutionNotFound | SE_ExecutionNotEligibleForAttempt | SE_ReplayNotAllowed
  | SE_MaxRetriesExhausted | SE_StreamNotFound | SE_StreamAlreadyClosed | SE_InvalidFrameType
  | SE_InvalidOffset | SE_Unauthorized | SE_BudgetNotFound | SE_InvalidBudgetScope
  | SE_BudgetAttachConflict | SE_BudgetOverrideNotAllowed | SE_QuotaPolicyNotFound
  | SE_RateLimitExceeded | SE_ConcurrencyLimitExceeded | SE_QuotaAttachConflict
  | SE_InvalidQuotaSpec | SE_InvalidInput string | SE_CapabilityMismatch string
  | SE_InvalidCapabilities string | SE_InvalidPolicyJson string | SE_WaitpointNotTokenBound
  | SE_InvalidKid | SE_InvalidSecretHex | SE_InvalidGraceMs | SE_RotationConflict string
  | SE_InvalidTagKey string | SE_Valkey ferriskey_error | SE_Parse string "string option" string

primrec script_class :: "script_error \<Rightarrow> error_class" where
  "script_class SE_StaleLease = EC_Terminal"
| "script_class SE_LeaseExpired = EC_Terminal"
| "script_class SE_LeaseRevoked = EC_Terminal"
| "script_class (SE_ExecutionNotActive out le p a) = EC_Terminal"
| "script_class SE_NoActiveLease = EC_Informational"
| "script_class SE_FenceRequired = EC_Terminal"
| "script_class SE_PartialFenceTriple = EC_Terminal"
| "script_class SE_ActiveAttemptExists = EC_Bug"
| "script_class SE_UseClaimResumedExecution = EC_Retryable"
| "script_class SE_NotAResumedExecution = EC_Retryable"
| "script_class SE_ExecutionNotLeaseable = EC_Retryable"
| "script_class SE_LeaseConflict = EC_Retryable"
| "script_class SE_InvalidClaimGrant = EC_Retryable"
| "script_class SE_ClaimGrantExpired = EC_Retryable"
| "script_class SE_NoEligibleExecution = EC_Retryable"
| "script_class SE_BudgetExceeded = EC_Cooperative"
| "script_class SE_BudgetSoftExceeded = EC_Informational"
| "script_class SE_ExecutionNotSuspended = EC_Informational"
| "script_class SE_AlreadySuspended = EC_Informational"
| "script_class SE_WaitpointClosed = EC_Informational"
| "script_class SE_WaitpointNotFound = EC_Retryable"
| "script_class SE_TargetNotSignalable = EC_Terminal"
| "script_class SE_WaitpointPendingUseBufferScript = EC_Retryable"
| "script_class SE_DuplicateSignal = EC_Informational"
| "script_class SE_PayloadTooLarge = EC_Terminal"
| "script_class SE_SignalLimitExceeded = EC_Terminal"
| "script_class SE_InvalidWaitpointKey = EC_Terminal"
| "script_class SE_InvalidToken = EC_Terminal"
| "script_class SE_InvalidLeaseForSuspend = EC_Terminal"
| "script_class SE_ResumeConditionNotMet = EC_Terminal"
| "script_class SE_WaitpointNotPending = EC_Informational"
| "script_class SE_PendingWaitpointExpired = EC_Informational"
| "script_class SE_InvalidWaitpointForExecution = EC_Terminal"
| "script_class SE_WaitpointAlreadyExists = EC_Informational"
| "script_class SE_WaitpointNotOpen = EC_Informational"
| "script_class SE_ExecutionNotTerminal = EC_Terminal"
| "script_class SE_MaxReplaysExhausted = EC_Terminal"
| "script_class SE_StreamClosed = EC_Terminal"
| "script_class SE_StaleOwnerCannotAppend = EC_Terminal"
| "script_class SE_RetentionLimitExceeded = EC_Terminal"
| "script_class SE_ExecutionNotEligible = EC_Informational"
| "script_class SE_ExecutionNotInEligibleSet = EC_Informational"
| "script_class SE_GrantAlreadyExists = EC_Informational"
| "script_class SE_ExecutionNotReclaimable = EC_Informational"
| "script_class SE_InvalidDependency = EC_Terminal"
| "script_class SE_StaleGraphRevision = EC_Retryable"
| "script_class SE_ExecutionAlreadyInFlow = EC_Terminal"
| "script_class SE_CycleDetected = EC_Terminal"
| "script_class SE_FlowNotFound = EC_Terminal"
| "script_class SE_ExecutionNotInFlow = EC_Terminal"
| "script_class SE_DependencyAlreadyExists = EC_Terminal"
| "script_class SE_SelfReferencingEdge = EC_Terminal"
| "script_class SE_FlowAlreadyTerminal = EC_Terminal"
| "script_class SE_DepsNotSatisfied = EC_Informational"
| "script_class SE_NotBlockedByDeps = EC_Informational"
| "script_class SE_NotRunnable = EC_Terminal"
| "script_class SE_Terminal = EC_Terminal"
| "script_class SE_InvalidBlockingReason = EC_Terminal"
| "script_class SE_OkAlreadyApplied = EC_Informational"
| "script_class SE_AttemptNotFound = EC_Terminal"
| "script_class SE_AttemptNotInCreatedState = EC_Bug"
| "script_class SE_AttemptNotStarted = EC_Terminal"
| "script_class SE_AttemptAlreadyTerminal = EC_Informational"
| "script_class SE_ExecutionNotFound = EC_Terminal"
| "script_class SE_ExecutionNotEligibleForAttempt = EC_Terminal"
| "script_class SE_ReplayNotAllowed = EC_Terminal"
| "script_class SE_MaxRetriesExhausted = EC_Terminal"
| "script_class SE_StreamNotFound = EC_Expected"
| "script_class SE_StreamAlreadyClosed = EC_Informational"
| "script_class SE_InvalidFrameType = EC_SoftError"
| "script_class SE_InvalidOffset = EC_Retryable"
| "script_class SE_Unauthorized = EC_Terminal"
| "script_class SE_BudgetNotFound = EC_Terminal"
| "script_class SE_InvalidBudgetScope = EC_Terminal"
| "script_class SE_BudgetAttachConflict = EC_Terminal"
| "script_class SE_BudgetOverrideNotAllowed = EC_Terminal"
| "script_class SE_QuotaPolicyNotFound = EC_Terminal"
| "script_class SE_RateLimitExceeded = EC_Retryable"
| "script_class SE_ConcurrencyLimitExceeded = EC_Retryable"
| "script_class SE_QuotaAttachConflict = EC_Terminal"
| "script_class SE_InvalidQuotaSpec = EC_Terminal"
| "script_class (SE_InvalidInput d) = EC_Terminal"
| "script_class (SE_CapabilityMismatch d) = EC_Retryable"
| "script_class (SE_InvalidCapabilities d) = EC_Terminal"
| "script_class (SE_InvalidPolicyJson d) = EC_Terminal"
| "script_class SE_WaitpointNotTokenBound = EC_Terminal"
| "script_class SE_InvalidKid = EC_Terminal"
| "script_class SE_InvalidSecretHex = EC_Terminal"
| "script_class SE_InvalidGraceMs = EC_Terminal"
| "script_class (SE_RotationConflict d) = EC_Terminal"
| "script_class (SE_InvalidTagKey d) = EC_Terminal"
| "script_class (SE_Valkey fe) = (if is_retryable_kind (ferriskey_kind fe) then EC_Retryable else EC_Terminal)"
| "script_class (SE_Parse f x m) = EC_Terminal"

text \<open>The match of \<open>from_code\<close>, one pair per arm; a code that no arm names gives no error.\<close>

definition from_code_table :: "(string \<times> script_error) list" where
  "from_code_table = [
     (''stale_lease'', SE_StaleLease), (''lease_expired'', SE_LeaseExpired)
     , (''lease_revoked'', SE_LeaseRevoked)
     , (''execution_not_active'', SE_ExecutionNotActive [] [] [] [])
     , (''no_active_lease'', SE_NoActiveLease)
     , (''active_attempt_exists'', SE_ActiveAttemptExists)
     , (''use_claim_resumed_execution'', SE_UseClaimResumedExecution)
     , (''not_a_resumed_execution'', SE_NotAResumedExecution)
     , (''execution_not_leaseable'', SE_ExecutionNotLeaseable)
     , (''lease_conflict'', SE_LeaseConflict), (''invalid_claim_grant'', SE_InvalidClaimGrant)
     , (''claim_grant_expired'', SE_ClaimGrantExpired)
     , (''no_eligible_execution'', SE_NoEligibleExecution)
     , (''budget_exceeded'', SE_BudgetExceeded), (''budget_soft_exceeded'', SE_BudgetSoftExceeded)
     , (''execution_not_suspended'', SE_ExecutionNotSuspended)
     , (''already_suspended'', SE_AlreadySuspended), (''waitpoint_closed'', SE_WaitpointClosed)
     , (''waitpoint_not_found'', SE_WaitpointNotFound)
     , (''target_not_signalable'', SE_TargetNotSignalable)
     , (''waitpoint_pending_use_buffer_script'', SE_WaitpointPendingUseBufferScript)
     , (''duplicate_signal'', SE_DuplicateSignal), (''payload_too_large'', SE_PayloadTooLarge)
     , (''signal_limit_exceeded'', SE_SignalLimitExceeded)
     , (''invalid_waitpoint_key'', SE_InvalidWaitpointKey), (''invalid_token'', SE_InvalidToken)
     , (''invalid_lease_for_suspend'', SE_InvalidLeaseForSuspend)
     , (''resume_condition_not_met'', SE_ResumeConditionNotMet)
     , (''waitpoint_not_pending'', SE_WaitpointNotPending)
     , (''pending_waitpoint_expired'', SE_PendingWaitpointExpired)
     , (''invalid_waitpoint_for_execution'', SE_InvalidWaitpointForExecution)
     , (''waitpoint_already_exists'', SE_WaitpointAlreadyExists)
     , (''waitpoint_not_open'', SE_WaitpointNotOpen)
     , (''execution_not_terminal'', SE_ExecutionNotTerminal)
     , (''max_replays_exhausted'', SE_MaxReplaysExhausted), (''stream_closed'', SE_StreamClosed)
     , (''stale_owner_cannot_append'', SE_StaleOwnerCannotAppend)
     , (''retention_limit_exceeded'', SE_RetentionLimitExceeded)
     , (''execution_not_eligible'', SE_ExecutionNotEligible)
     , (''execution_not_in_eligible_set'', SE_ExecutionNotInEligibleSet)
     , (''grant_already_exists'', SE_GrantAlreadyExists)
     , (''execution_not_reclaimable'', SE_ExecutionNotReclaimable)
     , (''invalid_dependency'', SE_InvalidDependency)
     , (''stale_graph_revision'', SE_StaleGraphRevision)
     , (''execution_already_in_flow'', SE_ExecutionAlreadyInFlow)
     , (''cycle_detected'', SE_CycleDetected), (''flow_not_found'', SE_FlowNotFound)
     , (''execution_not_in_flow'', SE_ExecutionNotInFlow)
     , (''dependency_already_exists'', SE_DependencyAlreadyExists)
     , (''self_referencing_edge'', SE_SelfReferencingEdge)
     , (''flow_already_terminal'', SE_FlowAlreadyTerminal)
     , (''deps_not_satisfied'', SE_DepsNotSatisfied)
     , (''not_blocked_by_deps'', SE_NotBlockedByDeps), (''not_runnable'', SE_NotRunnable)
     , (''terminal'', SE_Terminal), (''invalid_blocking_reason'', SE_InvalidBlockingReason)
     , (''ok_already_applied'', SE_OkAlreadyApplied), (''attempt_not_found'', SE_AttemptNotFound)
     , (''attempt_not_in_created_state'', SE_AttemptNotInCreatedState)
     , (''attempt_not_started'', SE_AttemptNotStarted)
     , (''attempt_already_terminal'', SE_AttemptAlreadyTerminal)
     , (''execution_not_found'', SE_ExecutionNotFound)
     , (''execution_not_eligible_for_attempt'', SE_ExecutionNotEligibleForAttempt)
     , (''replay_not_allowed'', SE_ReplayNotAllowed)
     , (''max_retries_exhausted'', SE_MaxRetriesExhausted)
     , (''stream_not_found'', SE_StreamNotFound)
     , (''stream_already_closed'', SE_StreamAlreadyClosed)
     , (''invalid_frame_type'', SE_InvalidFrameType), (''invalid_offset'', SE_InvalidOffset)
     , (''unauthorized'', SE_Unauthorized), (''budget_not_found'', SE_BudgetNotFound)
     , (''invalid_budget_scope'', SE_InvalidBudgetScope)
     , (''budget_attach_conflict'', SE_BudgetAttachConflict)
     , (''budget_override_not_allowed'', SE_BudgetOverrideNotAllowed)
     , (''quota_policy_not_found'', SE_QuotaPolicyNotFound)
     , (''rate_limit_exceeded'', SE_RateLimitExceeded)
     , (''concurrency_limit_exceeded'', SE_ConcurrencyLimitExceeded)
     , (''quota_attach_conflict'', SE_QuotaAttachConflict)
     , (''invalid_quota_spec'', SE_InvalidQuotaSpec), (''invalid_input'', SE_InvalidInput [])
     , (''capability_mismatch'', SE_CapabilityMismatch [])
     , (''invalid_capabilities'', SE_InvalidCapabilities [])
     , (''invalid_policy_json'', SE_InvalidPolicyJson [])
     , (''waitpoint_not_token_bound'', SE_WaitpointNotTokenBound)
     , (''invalid_kid'', SE_InvalidKid), (''invalid_secret_hex'', SE_InvalidSecretHex)
     , (''invalid_grace_ms'', SE_InvalidGraceMs), (''rotation_conflict'', SE_RotationConflict [])
     , (''invalid_tag_key'', SE_InvalidTagKey []), (''fence_required'', SE_FenceRequired)
     , (''partial_fence_triple'', SE_PartialFenceTriple)]"

definition from_code :: "string \<Rightarrow> script_error option" where
  "from_code code = map_of from_code_table code"

definition detail_at :: "string list \<Rightarrow> nat \<Rightarrow> string" where
  "detail_at details i = (if i < length details then details ! i else [])"

definition with_details :: "string list \<Rightarrow> script_error \<Rightarrow> script_error" where
  "with_details details base =
     (let d = detail_at details in
      case base of
        SE_CapabilityMismatch _ \<Rightarrow> SE_CapabilityMismatch (d 0)
      | SE_InvalidCapabilities _ \<Rightarrow> SE_InvalidCapabilities (d 0)
      | SE_InvalidPolicyJson _ \<Rightarrow> SE_InvalidPolicyJson (d 0)
      | SE_InvalidInput _ \<Rightarrow> SE_InvalidInput (d 0)
      | SE_RotationConflict _ \<Rightarrow> SE_RotationConflict (d 0)
      | SE_InvalidTagKey _ \<Rightarrow> SE_InvalidTagKey (d 0)
      | SE_ExecutionNotActive _ _ _ _ \<Rightarrow> SE_ExecutionNotActive (d 0) (d 1) (d 2) (d 3)
      | other \<Rightarrow> other)"

definition from_code_with_details :: "string \<Rightarrow> string list \<Rightarrow> script_error option" where
  "from_code_with_details code details = map_option (with_details details) (from_code code)"

definition from_code_with_detail :: "string \<Rightarrow> string \<Rightarrow> script_error option" where
  "from_code_with_detail code detail = from_code_with_details code [detail]"

section \<open>Translation to engine errors\<close>

text \<open>
  The boxed source of a transport error can hold any error type; \<open>downcast_ref\<close> recovers a script
  error from it. Here a source is a script error or the text of another error.
\<close>

type_synonym boxed_source = "script_error + string"

definition transport_script :: "script_error \<Rightarrow> boxed_source engine_error" where
  "transport_script err = Transport ''valkey'' (Inl err)"

definition downcast_ref :: "boxed_source \<Rightarrow> script_error option" where
  "downcast_ref s = (case s of Inl e \<Rightarrow> Some e | Inr _ \<Rightarrow> None)"

fun transport_script_ref :: "boxed_source engine_error \<Rightarrow> script_error option" where
  "transport_script_ref (Transport _ s) = downcast_ref s"
| "transport_script_ref (Contextual e _) = transport_script_ref e"
| "transport_script_ref _ = None"

fun class_ext :: "boxed_source engine_error \<Rightarrow> error_class" where
  "class_ext (Transport _ s) =
     (case downcast_ref s of Some e \<Rightarrow> script_class e | None \<Rightarrow> EC_Terminal)"
| "class_ext (Contextual e _) = class_ext e"
| "class_ext other = class_of other"

primrec from_script :: "script_error \<Rightarrow> boxed_source engine_error" where
  "from_script SE_StaleLease = State SK_StaleLease"
| "from_script SE_LeaseExpired = State SK_LeaseExpired"
| "from_script SE_LeaseRevoked = State SK_LeaseRevoked"
| "from_script (SE_ExecutionNotActive out le p a) = Contention (CK_ExecutionNotActive out le p a)"
| "from_script SE_NoActiveLease = Contention CK_NoActiveLease"
| "from_script SE_FenceRequired = transport_script SE_FenceRequired"
| "from_script SE_PartialFenceTriple = transport_script SE_PartialFenceTriple"
| "from_script SE_ActiveAttemptExists = Conflict XK_ActiveAttemptExists"
| "from_script SE_UseClaimResumedExecution = Contention CK_UseClaimResumedExecution"
| "from_script SE_NotAResumedExecution = Contention CK_NotAResumedExecution"
| "from_script SE_ExecutionNotLeaseable = Contention CK_ExecutionNotLeaseable"
| "from_script SE_LeaseConflict = Contention CK_LeaseConflict"
| "from_script SE_InvalidClaimGrant = Contention CK_InvalidClaimGrant"
| "from_script SE_ClaimGrantExpired = Contention CK_ClaimGrantExpired"
| "from_script SE_NoEligibleExecution = Contention CK_NoEligibleExecution"
| "from_script SE_BudgetExceeded = State SK_BudgetExceeded"
| "from_script SE_BudgetSoftExceeded = State SK_BudgetSoftExceeded"
| "from_script SE_ExecutionNotSuspended = State SK_ExecutionNotSuspended"
| "from_script SE_AlreadySuspended = State SK_AlreadySuspended"
| "from_script SE_WaitpointClosed = State SK_WaitpointClosed"
| "from_script SE_WaitpointNotFound = Contention CK_WaitpointNotFound"
| "from_script SE_TargetNotSignalable = State SK_TargetNotSignalable"
| "from_script SE_WaitpointPendingUseBufferScript = Contention CK_WaitpointPendingUseBufferScript"
| "from_script SE_DuplicateSignal = State SK_DuplicateSignal"
| "from_script SE_PayloadTooLarge = Validation VK_PayloadTooLarge []"
| "from_script SE_SignalLimitExceeded = Validation VK_SignalLimitExceeded []"
| "from_script SE_InvalidWaitpointKey = Validation VK_InvalidWaitpointKey []"
| "from_script SE_InvalidToken = Validation VK_InvalidToken []"
| "from_script SE_InvalidLeaseForSuspend = Validation VK_InvalidLeaseForSuspend []"
| "from_script SE_ResumeConditionNotMet = State SK_ResumeConditionNotMet"
| "from_script SE_WaitpointNotPending = State SK_WaitpointNotPending"
| "from_script SE_PendingWaitpointExpired = State SK_PendingWaitpointExpired"
| "from_script SE_InvalidWaitpointForExecution = Validation VK_InvalidWaitpointForExecution []"
| "from_script SE_WaitpointAlreadyExists = Conflict XK_WaitpointAlreadyExists"
| "from_script SE_WaitpointNotOpen = State SK_WaitpointNotOpen"
| "from_script SE_ExecutionNotTerminal = State SK_ExecutionNotTerminal"
| "from_script SE_MaxReplaysExhausted = State SK_MaxReplaysExhausted"
| "from_script SE_StreamClosed = State SK_StreamClosed"
| "from_script SE_StaleOwnerCannotAppend = State SK_StaleOwnerCannotAppend"
| "from_script SE_RetentionLimitExceeded = Validation VK_RetentionLimitExceeded []"
| "from_script SE_ExecutionNotEligible = Contention CK_ExecutionNotEligible"
| "from_script SE_ExecutionNotInEligibleSet = Contention CK_ExecutionNotInEligibleSet"
| "from_script SE_GrantAlreadyExists = State SK_GrantAlreadyExists"
| "from_script SE_ExecutionNotReclaimable = Contention CK_ExecutionNotReclaimable"
| "from_script SE_InvalidDependency = Validation VK_InvalidDependency []"
| "from_script SE_StaleGraphRevision = Contention CK_StaleGraphRevision"
| "from_script SE_ExecutionAlreadyInFlow = Conflict XK_ExecutionAlreadyInFlow"
| "from_script SE_CycleDetected = Conflict XK_CycleDetected"
| "from_script SE_FlowNotFound = NotFound ''flow''"
| "from_script SE_ExecutionNotInFlow = State SK_ExecutionNotInFlow"
| "from_script SE_DependencyAlreadyExists = transport_script SE_DependencyAlreadyExists"
| "from_script SE_SelfReferencingEdge = Conflict XK_SelfReferencingEdge"
| "from_script SE_FlowAlreadyTerminal = State SK_FlowAlreadyTerminal"
| "from_script SE_DepsNotSatisfied = State SK_DepsNotSatisfied"
| "from_script SE_NotBlockedByDeps = State SK_NotBlockedByDeps"
| "from_script SE_NotRunnable = State SK_NotRunnable"
| "from_script SE_Terminal = State SK_Terminal"
| "from_script SE_InvalidBlockingReason = Validation VK_InvalidBlockingReason []"
| "from_script SE_OkAlreadyApplied = State SK_OkAlreadyApplied"
| "from_script SE_AttemptNotFound = NotFound ''attempt''"
| "from_script SE_AttemptNotInCreatedState = Bug BK_AttemptNotInCreatedState"
| "from_script SE_AttemptNotStarted = State SK_AttemptNotStarted"
| "from_script SE_AttemptAlreadyTerminal = State SK_AttemptAlreadyTerminal"
| "from_script SE_ExecutionNotFound = NotFound ''execution''"
| "from_script SE_ExecutionNotEligibleForAttempt = State SK_ExecutionNotEligibleForAttempt"
| "from_script SE_ReplayNotAllowed = State SK_ReplayNotAllowed"
| "from_script SE_MaxRetriesExhausted = State SK_MaxRetriesExhausted"
| "from_script SE_StreamNotFound = NotFound ''stream''"
| "from_script SE_StreamAlreadyClosed = State SK_StreamAlreadyClosed"
| "from_script SE_InvalidFrameType = Validation VK_InvalidFrameType []"
| "from_script SE_InvalidOffset = Validation VK_InvalidOffset []"
| "from_script SE_Unauthorized = Validation VK_Unauthorized []"
| "from_script SE_BudgetNotFound = NotFound ''budget''"
| "from_script SE_InvalidBudgetScope = Validation VK_InvalidBudgetScope []"
| "from_script SE_BudgetAttachConflict = Conflict XK_BudgetAttachConflict"
| "from_script SE_BudgetOverrideNotAllowed = Validation VK_BudgetOverrideNotAllowed []"
| "from_script SE_QuotaPolicyNotFound = NotFound ''quota_policy''"
| "from_script SE_RateLimitExceeded = Contention CK_RateLimitExceeded"
| "from_script SE_ConcurrencyLimitExceeded = Contention CK_ConcurrencyLimitExceeded"
| "from_script SE_QuotaAttachConflict = Conflict XK_QuotaAttachConflict"
| "from_script SE_InvalidQuotaSpec = Validation VK_InvalidQuotaSpec []"
| "from_script (SE_InvalidInput d) = Validation VK_InvalidInput d"
| "from_script (SE_CapabilityMismatch d) = Validation VK_CapabilityMismatch d"
| "from_script (SE_InvalidCapabilities d) = Validation VK_InvalidCapabilities d"
| "from_script (SE_InvalidPolicyJson d) = Validation VK_InvalidPolicyJson d"
| "from_script SE_WaitpointNotTokenBound = Validation VK_WaitpointNotTokenBound []"
| "from_script SE_InvalidKid = Validation VK_InvalidKid []"
| "from_script SE_InvalidSecretHex = Validation VK_InvalidSecretHex []"
| "from_script SE_InvalidGraceMs = Validation VK_InvalidGraceMs []"
| "from_script (SE_RotationConflict d) = Conflict (XK_RotationConflict d)"
| "from_script (SE_InvalidTagKey d) = Validation VK_InvalidTagKey d"
| "from_script (SE_Valkey fe) = transport_script (SE_Valkey fe)"
| "from_script (SE_Parse f x m) = transport_script (SE_Parse f x m)"

section \<open>Properties\<close>

text \<open>The errors whose class changes on the way to an engine error.\<close>

definition class_drift :: "script_error \<Rightarrow> bool" where
  "class_drift e \<longleftrightarrow>
     e \<in> {SE_ExecutionNotEligible, SE_ExecutionNotInEligibleSet, SE_ExecutionNotReclaimable,
       SE_NoActiveLease, SE_WaitpointAlreadyExists, SE_ActiveAttemptExists, SE_StreamNotFound,
       SE_InvalidFrameType, SE_InvalidOffset} \<or>
     (\<exists>d. e = SE_CapabilityMismatch d) \<or> (\<exists>out le p a. e = SE_ExecutionNotActive out le p a)"

lemmas script_class_defs =
  class_drift_def informational_state_def transport_script_def downcast_ref_def

lemma class_ext_backend_context [simp]: "class_ext (backend_context e c) = class_ext e"
  by (cases e) simp_all

lemma downcast_transport_script [simp]: "transport_script_ref (transport_script e) = Some e"
  by (simp add: transport_script_def downcast_ref_def)

text \<open>
  Translating a script error to an engine error keeps its class for every error but eleven, and
  wrapping the result in a call-site context never changes the class. Among the eleven, an
  execution that is not active turns from terminal to retryable, and a capability mismatch and an
  invalid offset from retryable to terminal, although the engine-side helper is documented to keep
  the classification of the script error.
\<close>

theorem from_script_class:
  "(class_ext (backend_context (from_script e) c) = script_class e) = (\<not> class_drift e)"
  by (cases e) (simp_all add: script_class_defs)

text \<open>
  The two retry tables over the client's error kinds: every kind that \<open>is_retryable_kind\<close>
  calls safe to retry lies in a retryable backend kind, but the backend kinds also call retryable
  what that table refuses, a lost response (the request may have been applied) among them.
\<close>

theorem retry_tables:
  "is_retryable (classify_ferriskey_kind k) =
   (is_retryable_kind k \<or>
    k \<in> {FK_FatalReceiveError, FK_ProtocolDesync, FK_Moved, FK_Ask, FK_CrossSlot, FK_MasterDown,
      FK_AllConnectionsUnavailable, FK_ConnectionNotFoundForRoute, FK_NotAllSlotsCovered,
      FK_MasterNameNotFoundBySentinel, FK_NoValidReplicasFoundBySentinel})"
  by (cases k) (simp_all add: is_retryable_def is_retryable_kind_def)

end
