(* ===== verification/Handle_Codec.thy ===== *)
theory Handle_Codec
  imports Engine_Error
begin

text \<open>
  The attempt cookie: \<open>ff-core/src/handle_codec.rs\<close> with the handle types of
  \<open>ff-core/src/backend.rs\<close>. The byte cursor of the decoder is a record that every read returns
  advanced. The contract of one field (what is written is read back, and a cut-off field is
  reported as truncated) is the locale \<open>field_codec\<close>, interpreted for each field type and for the
  whole field block.
\<close>

section \<open>Handles\<close>

datatype backend_tag = BT_Valkey | BT_Postgres | BT_Sqlite

fun wire_byte :: "backend_tag \<Rightarrow> u8" where
  "wire_byte BT_Valkey = 0x01"
| "wire_byte BT_Postgres = 0x02"
| "wire_byte BT_Sqlite = 0x03"

definition from_wire_byte :: "u8 \<Rightarrow> backend_tag option" where
  "from_wire_byte b =
     (if b = 0x01 then Some BT_Valkey else if b = 0x02 then Some BT_Postgres
      else if b = 0x03 then Some BT_Sqlite else None)"

datatype handle_kind = HK_Fresh | HK_Resumed | HK_Suspended | HK_Reclaimed

record handle =
  h_backend :: backend_tag
  h_kind :: handle_kind
  h_opaque :: "u8 list"

definition V2_MAGIC :: u8 where "V2_MAGIC = 0x02"
definition V2_WIRE_VERSION :: u8 where "V2_WIRE_VERSION = 0x01"
definition V1_VERSION_TAG :: u8 where "V1_VERSION_TAG = 0x01"

record handle_payload =
  hp_execution_id :: execution_id
  hp_attempt_index :: u32
  hp_attempt_id :: uuid
  hp_lease_id :: uuid
  hp_lease_epoch :: u64
  hp_lease_ttl_ms :: u64
  hp_lane_id :: lane_id
  hp_worker_instance_id :: string

record decoded_handle =
  dh_tag :: backend_tag
  dh_payload :: handle_payload

datatype handle_decode_error =
    Truncated nat nat nat
  | TrailingBytes nat nat
  | BadWireVersion u8
  | BadV1Version u8
  | BadBackendTag u8
  | InvalidUtf8 string
  | ParseField string string

section \<open>Cursor\<close>

record cursor =
  cur_bytes :: "u8 list"
  cur_pos :: nat

type_synonym 'a reader = "cursor \<Rightarrow> handle_decode_error + ('a \<times> cursor)"

definition cursor_new :: "u8 list \<Rightarrow> cursor" where
  "cursor_new bs = \<lparr>cur_bytes = bs, cur_pos = 0\<rparr>"

definition cursor_take :: "nat \<Rightarrow> u8 list reader" where
  "cursor_take n c =
     (if cur_pos c + n > length (cur_bytes c)
      then Inl (Truncated n (cur_pos c) (length (cur_bytes c)))
      else Inr (take n (drop (cur_pos c) (cur_bytes c)), c\<lparr>cur_pos := cur_pos c + n\<rparr>))"

definition read_u8 :: "u8 reader" where
  "read_u8 c = rbind (cursor_take 1 c) (\<lambda>(bs, c). Inr (hd bs, c))"

definition read_u32 :: "u32 reader" where
  "read_u32 c = rbind (cursor_take 4 c) (\<lambda>(bs, c). Inr (from_le_bytes bs, c))"

definition read_u64 :: "u64 reader" where
  "read_u64 c = rbind (cursor_take 8 c) (\<lambda>(bs, c). Inr (from_le_bytes bs, c))"

definition read_str :: "string \<Rightarrow> string reader" where
  "read_str field c =
     rbind (read_u32 c) (\<lambda>(len, c).
     rbind (cursor_take (unat len) c) (\<lambda>(bs, c).
     rbind (ok_or (from_utf8 bs) (InvalidUtf8 field)) (\<lambda>s.
     Inr (s, c))))"

definition expect_eof :: "cursor \<Rightarrow> handle_decode_error + unit" where
  "expect_eof c =
     (if cur_pos c \<noteq> length (cur_bytes c) then Inl (TrailingBytes (cur_pos c) (length (cur_bytes c)))
      else Inr ())"

section \<open>Field block\<close>

definition u32_max :: nat where "u32_max = 2 ^ 32 - 1"

definition write_str :: "string \<Rightarrow> u8 list" where
  "write_str s =
     (let bytes = as_bytes s;
          (len, tk) = (if length bytes \<le> u32_max then (of_nat (length bytes), length bytes)
                       else (of_nat u32_max, u32_max))
      in to_le_bytes 4 (len :: u32) @ take tk bytes)"

definition write_fields :: "ext_lib \<Rightarrow> handle_payload \<Rightarrow> u8 list" where
  "write_fields X f =
     write_str (hp_execution_id f) @
     to_le_bytes 4 (hp_attempt_index f) @
     write_str (uuid_to_string X (hp_attempt_id f)) @
     write_str (uuid_to_string X (hp_lease_id f)) @
     to_le_bytes 8 (hp_lease_epoch f) @
     to_le_bytes 8 (hp_lease_ttl_ms f) @
     write_str (hp_lane_id f) @
     write_str (hp_worker_instance_id f)"

definition parse_uuid_field :: "ext_lib \<Rightarrow> string \<Rightarrow> string \<Rightarrow> handle_decode_error + uuid" where
  "parse_uuid_field X field s =
     ok_or (uuid_parse_str X s) (ParseField field (uuid_error_text X s))"

definition read_fields :: "ext_lib \<Rightarrow> handle_payload reader" where
  "read_fields X c =
     rbind (read_str ''execution_id'' c) (\<lambda>(execution_id_str, c).
     rbind (map_err (\<lambda>e. ParseField ''execution_id'' (execution_id_error_text e))
              (execution_id_parse X execution_id_str)) (\<lambda>execution_id.
     rbind (read_u32 c) (\<lambda>(attempt_index, c).
     rbind (read_str ''attempt_id'' c) (\<lambda>(attempt_id_str, c).
     rbind (parse_uuid_field X ''attempt_id'' attempt_id_str) (\<lambda>attempt_id.
     rbind (read_str ''lease_id'' c) (\<lambda>(lease_id_str, c).
     rbind (parse_uuid_field X ''lease_id'' lease_id_str) (\<lambda>lease_id.
     rbind (read_u64 c) (\<lambda>(lease_epoch, c).
     rbind (read_u64 c) (\<lambda>(lease_ttl_ms, c).
     rbind (read_str ''lane_id'' c) (\<lambda>(lane_id_str, c).
     rbind (read_str ''worker_instance_id'' c) (\<lambda>(worker_str, c).
     Inr (\<lparr>hp_execution_id = execution_id, hp_attempt_index = attempt_index,
           hp_attempt_id = attempt_id, hp_lease_id = lease_id, hp_lease_epoch = lease_epoch,
           hp_lease_ttl_ms = lease_ttl_ms, hp_lane_id = lane_id_str,
           hp_worker_instance_id = worker_str\<rparr>, c))))))))))))"

section \<open>Encoding and decoding\<close>

definition encode :: "ext_lib \<Rightarrow> backend_tag \<Rightarrow> handle_payload \<Rightarrow> u8 list" where
  "encode X tag payload = [V2_MAGIC, V2_WIRE_VERSION, wire_byte tag] @ write_fields X payload"

definition v1_handle_for_tests :: "ext_lib \<Rightarrow> handle_payload \<Rightarrow> u8 list" where
  "v1_handle_for_tests X payload = [V1_VERSION_TAG] @ write_fields X payload"

definition read_tag :: "backend_tag reader" where
  "read_tag c =
     rbind (read_u8 c) (\<lambda>(lead, c).
     if lead = V2_MAGIC then
       rbind (read_u8 c) (\<lambda>(wire_version, c).
       if wire_version \<noteq> V2_WIRE_VERSION then Inl (BadWireVersion wire_version)
       else rbind (read_u8 c) (\<lambda>(tag_byte, c).
         rbind (ok_or (from_wire_byte tag_byte) (BadBackendTag tag_byte)) (\<lambda>tag. Inr (tag, c))))
     else if lead = V1_VERSION_TAG then Inr (BT_Valkey, c)
     else Inl (BadV1Version lead))"

definition decode :: "ext_lib \<Rightarrow> u8 list \<Rightarrow> handle_decode_error + decoded_handle" where
  "decode X opaque =
     rbind (read_tag (cursor_new opaque)) (\<lambda>(tag, c).
     rbind (read_fields X c) (\<lambda>(payload, c).
     rbind (expect_eof c) (\<lambda>_.
     Inr \<lparr>dh_tag = tag, dh_payload = payload\<rparr>)))"

section \<open>Error text\<close>

definition hex_digit :: "nat \<Rightarrow> char" where
  "hex_digit d = char_of (if d < 10 then 48 + d else 87 + d)"

text \<open>\<open>{:#x}\<close> of a byte.\<close>

definition show_hex_u8 :: "u8 \<Rightarrow> string" where
  "show_hex_u8 b =
     (let n = unat b in
      ''0x'' @ (if n < 16 then [hex_digit n] else [hex_digit (n div 16), hex_digit (n mod 16)]))"

fun decode_error_text :: "handle_decode_error \<Rightarrow> string" where
  "decode_error_text (Truncated needed at have) =
     ''truncated handle: needed '' @ show_nat needed @ '' bytes at offset '' @ show_nat at @
     '', have '' @ show_nat have"
| "decode_error_text (TrailingBytes pos len) =
     ''trailing bytes in handle: pos='' @ show_nat pos @ '', len='' @ show_nat len"
| "decode_error_text (BadWireVersion got) =
     ''handle v2 wire-version byte '' @ show_hex_u8 got @ '' not recognised''"
| "decode_error_text (BadV1Version got) =
     ''handle v1 version byte '' @ show_hex_u8 got @ '' not recognised (expected '' @
     show_hex_u8 V1_VERSION_TAG @ '')''"
| "decode_error_text (BadBackendTag got) =
     ''handle backend-tag byte '' @ show_hex_u8 got @ '' not recognised''"
| "decode_error_text (InvalidUtf8 field) = ''handle field `'' @ field @ ''` is not valid UTF-8''"
| "decode_error_text (ParseField field detail) =
     ''handle field `'' @ field @ ''` parse failed: '' @ detail"

definition decode_error_to_engine :: "handle_decode_error \<Rightarrow> 's engine_error" where
  "decode_error_to_engine err =
     Validation VK_Corruption (''handle_codec: '' @ decode_error_text err)"

section \<open>Field codecs\<close>

text \<open>The cursor after reading \<open>pre\<close>, with \<open>s\<close> still ahead.\<close>

definition cur_at :: "u8 list \<Rightarrow> u8 list \<Rightarrow> cursor" where
  "cur_at pre s = \<lparr>cur_bytes = pre @ s, cur_pos = length pre\<rparr>"

lemma cursor_new_at: "cursor_new bs = cur_at [] bs"
  by (simp add: cursor_new_def cur_at_def)

lemma expect_eof_at [simp]:
  "expect_eof (cur_at pre s) =
     (if s = [] then Inr () else Inl (TrailingBytes (length pre) (length pre + length s)))"
  by (simp add: expect_eof_def cur_at_def)

fun is_truncated :: "handle_decode_error + 'a \<Rightarrow> bool" where
  "is_truncated (Inl (Truncated _ _ _)) = True"
| "is_truncated _ = False"

lemma rbind_truncated: "is_truncated r \<Longrightarrow> is_truncated (rbind r k)"
  by (cases r rule: is_truncated.cases) auto

locale field_codec =
  fixes put :: "'a \<Rightarrow> u8 list"
    and get :: "'a reader"
    and ok :: "'a \<Rightarrow> bool"
  assumes get_put: "ok a \<Longrightarrow> get (cur_at pre (put a @ s)) = Inr (a, cur_at (pre @ put a) s)"
    and get_short: "ok a \<Longrightarrow> n < length (put a) \<Longrightarrow> is_truncated (get (cur_at pre (take n (put a))))"
begin

lemma put_cancel:
  assumes "ok a" "ok b" "put a @ s = put b @ t"
  shows "a = b \<and> s = t"
proof -
  from get_put [OF assms(1), of "[]" s] get_put [OF assms(2), of "[]" t] assms(3)
  have "a = b" by simp
  with assms(3) show ?thesis by simp
qed

lemma bind_put [simp]:
  "ok a \<Longrightarrow> rbind (get (cur_at pre (put a @ s))) k = k (a, cur_at (pre @ put a) s)"
  by (simp add: get_put)

lemma bind_put_end [simp]:
  "ok a \<Longrightarrow> rbind (get (cur_at pre (put a))) k = k (a, cur_at (pre @ put a) [])"
  using bind_put [where s = "[]"] by simp

lemma bind_short:
  assumes "ok a" "n < length (put a) + length rest"
    and "\<And>m. m < length rest \<Longrightarrow> is_truncated (k (a, cur_at (pre @ put a) (take m rest)))"
  shows "is_truncated (rbind (get (cur_at pre (take n (put a @ rest)))) k)"
proof (cases "n < length (put a)")
  case True
  then show ?thesis by (simp add: rbind_truncated [OF get_short [OF assms(1)]])
next
  case False
  with assms show ?thesis by (simp add: get_put)
qed

lemma last_short:
  "ok a \<Longrightarrow> n < length (put a) \<Longrightarrow> is_truncated (rbind (get (cur_at pre (take n (put a)))) k)"
  by (intro rbind_truncated get_short)

end

lemma cursor_take_at [simp]:
  "length b = n \<Longrightarrow> cursor_take n (cur_at pre (b @ s)) = Inr (b, cur_at (pre @ b) s)"
  by (simp add: cursor_take_def cur_at_def)

lemma cursor_take_short: "length s < n \<Longrightarrow> is_truncated (cursor_take n (cur_at pre s))"
  by (simp add: cursor_take_def cur_at_def)

interpretation u8c: field_codec "\<lambda>b. [b]" read_u8 "\<lambda>_. True"
proof (unfold_locales, goal_cases)
  case (1 a pre s)
  then show ?case using cursor_take_at [of "[a]" 1 pre s] by (simp add: read_u8_def)
next
  case (2 a n pre)
  then show ?case using cursor_take_short [of "[]" 1 pre]
    by (simp add: read_u8_def rbind_truncated)
qed

interpretation u32c: field_codec "to_le_bytes 4" read_u32 "\<lambda>_. True"
proof (unfold_locales, goal_cases)
  case (1 a pre s)
  then show ?case by (simp add: read_u32_def)
next
  case (2 a n pre)
  then show ?case by (auto simp: read_u32_def intro!: rbind_truncated cursor_take_short)
qed

interpretation u64c: field_codec "to_le_bytes 8" read_u64 "\<lambda>_. True"
proof (unfold_locales, goal_cases)
  case (1 a pre s)
  then show ?case by (simp add: read_u64_def)
next
  case (2 a n pre)
  then show ?case by (auto simp: read_u64_def intro!: rbind_truncated cursor_take_short)
qed

text \<open>A string that \<open>write_str\<close> writes whole: valid UTF-8 of at most \<open>u32::MAX\<close> bytes.\<close>

definition wire_str :: "string \<Rightarrow> bool" where
  "wire_str s \<longleftrightarrow> rust_str s \<and> length s \<le> u32_max"

lemma unat_of_nat_u32: "n \<le> u32_max \<Longrightarrow> unat (of_nat n :: u32) = n"
  by (simp add: u32_max_def unsigned_of_nat take_bit_nat_eq_self)

lemma write_str_short:
  "length s \<le> u32_max \<Longrightarrow> write_str s = to_le_bytes 4 (of_nat (length s) :: u32) @ as_bytes s"
  by (simp add: write_str_def)

interpretation strc: field_codec write_str "read_str field" wire_str for field
proof (unfold_locales, goal_cases)
  case (1 a pre s)
  then show ?case
    using u32c.get_put [of pre "of_nat (length a)" "as_bytes a @ s"]
    by (simp add: read_str_def write_str_short wire_str_def unat_of_nat_u32 append_assoc [symmetric]
        del: append_assoc)
next
  case (2 a n pre)
  then have a: "write_str a = to_le_bytes 4 (of_nat (length a) :: u32) @ as_bytes a"
    "unat (of_nat (length a) :: u32) = length a"
    by (simp_all add: write_str_short wire_str_def unat_of_nat_u32)
  show ?case unfolding read_str_def a(1)
    by (rule u32c.bind_short) (use 2 a in \<open>auto intro!: rbind_truncated cursor_take_short\<close>)
qed

section \<open>The field block as one field\<close>

text \<open>
  A payload that the codec carries unchanged: an execution id that parses, UUIDs whose text form
  parses back, and strings that are written whole. Every Rust string is valid UTF-8.
\<close>

definition uuid_ok :: "ext_lib \<Rightarrow> uuid \<Rightarrow> bool" where
  "uuid_ok X u \<longleftrightarrow> uuid_parse_str X (uuid_to_string X u) = Some u \<and> wire_str (uuid_to_string X u)"

definition payload_ok :: "ext_lib \<Rightarrow> handle_payload \<Rightarrow> bool" where
  "payload_ok X p \<longleftrightarrow>
     execution_id_parse X (hp_execution_id p) = Inr (hp_execution_id p) \<and>
     wire_str (hp_execution_id p) \<and> uuid_ok X (hp_attempt_id p) \<and> uuid_ok X (hp_lease_id p) \<and>
     wire_str (hp_lane_id p) \<and> wire_str (hp_worker_instance_id p)"

text \<open>
  The documented behaviour of the \<open>uuid\<close> crate that handles rely on: the text form parses back, is
  ASCII, and has at most 45 bytes (its longest form).
\<close>

definition uuid_lib_ok :: "ext_lib \<Rightarrow> bool" where
  "uuid_lib_ok X \<longleftrightarrow>
     (\<forall>u. uuid_parse_str X (uuid_to_string X u) = Some u \<and> ascii (uuid_to_string X u) \<and>
          length (uuid_to_string X u) \<le> 45)"

lemma uuid_lib_ok_uuid: "uuid_lib_ok X \<Longrightarrow> uuid_ok X u"
  by (auto simp: uuid_lib_ok_def uuid_ok_def wire_str_def ascii_rust_str u32_max_def
      intro: order_trans)

lemmas payload_simps = payload_ok_def uuid_ok_def parse_uuid_field_def

lemma read_fields_short:
  assumes "payload_ok X p" "n < length (write_fields X p)"
  shows "is_truncated (read_fields X (cur_at pre (take n (write_fields X p))))"
  using assms unfolding read_fields_def write_fields_def
  by (auto simp: payload_simps simp del: take_append
      intro!: strc.bind_short u32c.bind_short u64c.bind_short strc.last_short)

interpretation fields: field_codec "write_fields X" "read_fields X" "payload_ok X" for X
proof (unfold_locales, goal_cases)
  case (1 a pre s)
  then show ?case by (simp add: read_fields_def write_fields_def payload_simps)
next
  case (2 a n pre)
  then show ?case by (rule read_fields_short)
qed

section \<open>Whole handles\<close>

fun tag_bytes :: "backend_tag \<Rightarrow> u8 list" where
  "tag_bytes tag = [V2_MAGIC, V2_WIRE_VERSION, wire_byte tag]"

lemma from_wire_byte_wire_byte [simp]: "from_wire_byte (wire_byte t) = Some t"
  by (cases t) (simp_all add: from_wire_byte_def)

lemma read_u8_at [simp]: "read_u8 (cur_at pre (b # s)) = Inr (b, cur_at (pre @ [b]) s)"
  using u8c.get_put [of pre b s] by simp

lemma read_u8_end [simp]: "is_truncated (read_u8 (cur_at pre []))"
  using u8c.get_short [of 0 _ pre] by simp

lemma read_tag_at [simp]:
  "read_tag (cur_at pre (V2_MAGIC # V2_WIRE_VERSION # wire_byte t # s)) =
     Inr (t, cur_at (pre @ [V2_MAGIC, V2_WIRE_VERSION, wire_byte t]) s)"
  "read_tag (cur_at pre (V1_VERSION_TAG # s)) = Inr (BT_Valkey, cur_at (pre @ [V1_VERSION_TAG]) s)"
  by (simp_all add: read_tag_def V2_MAGIC_def V1_VERSION_TAG_def)

lemma read_tag_short:
  "n < 3 \<Longrightarrow> is_truncated (read_tag (cur_at pre (take n [V2_MAGIC, V2_WIRE_VERSION, wire_byte t])))"
  by (auto simp: read_tag_def less_Suc_eq numeral_3_eq_3 rbind_truncated)

interpretation tagc: field_codec tag_bytes read_tag "\<lambda>_. True"
  by unfold_locales (simp_all add: read_tag_short del: take_Suc_Cons)

lemma encode_eq: "encode X tag p = tag_bytes tag @ write_fields X p"
  by (simp add: encode_def)

lemma decode_encode:
  "payload_ok X p \<Longrightarrow> decode X (encode X tag p) = Inr \<lparr>dh_tag = tag, dh_payload = p\<rparr>"
  by (simp add: decode_def encode_def cursor_new_at)

lemma decode_v1:
  "payload_ok X p \<Longrightarrow>
   decode X (v1_handle_for_tests X p) = Inr \<lparr>dh_tag = BT_Valkey, dh_payload = p\<rparr>"
  by (simp add: decode_def v1_handle_for_tests_def cursor_new_at)

lemma decode_trailing:
  "payload_ok X p \<Longrightarrow> s \<noteq> [] \<Longrightarrow>
   decode X (encode X tag p @ s) =
     Inl (TrailingBytes (length (encode X tag p)) (length (encode X tag p) + length s))"
  by (simp add: decode_def encode_def cursor_new_at)

lemma decode_truncated:
  assumes "payload_ok X p" "n < length (encode X tag p)"
  shows "is_truncated (decode X (take n (encode X tag p)))"
  using assms unfolding decode_def encode_eq cursor_new_at
  by (intro tagc.bind_short) (auto simp del: take_append intro!: fields.last_short)

text \<open>What the clamp of \<open>write_str\<close> leaves of the two free-form strings.\<close>

definition clamp_payload :: "handle_payload \<Rightarrow> handle_payload" where
  "clamp_payload p = p\<lparr>hp_lane_id := take u32_max (hp_lane_id p),
     hp_worker_instance_id := take u32_max (hp_worker_instance_id p)\<rparr>"

lemma write_str_clamp: "write_str (take u32_max s) = write_str s"
  by (simp add: write_str_def Let_def as_bytes_def take_map min_def)

lemma write_fields_clamp: "write_fields X (clamp_payload p) = write_fields X p"
  by (simp add: write_fields_def clamp_payload_def write_str_clamp)

lemma clamp_idem: "clamp_payload (clamp_payload p) = clamp_payload p"
  by (simp add: clamp_payload_def)

interpretation hc: wire_codec
  "\<lambda>d. encode X (dh_tag d) (dh_payload d)" "decode X"
  "\<lambda>d. d\<lparr>dh_payload := clamp_payload (dh_payload d)\<rparr>"
  "\<lambda>d. payload_ok X (clamp_payload (dh_payload d))" for X
proof (unfold_locales, goal_cases)
  case (1 d)
  from decode_encode [OF this, of "dh_tag d"] show ?case
    by (cases d) (simp add: encode_def write_fields_clamp)
next
  case (2 d)
  then show ?case by (simp add: encode_def write_fields_clamp)
next
  case (3 d)
  then show ?case by (simp add: clamp_idem)
qed

lemma ascii_take: "ascii s \<Longrightarrow> ascii (take n s)"
  by (metis append_take_drop_id ascii_append)

lemma payload_ok_clamp: "payload_ok X p \<Longrightarrow> clamp_payload p = p"
  by (simp add: payload_ok_def clamp_payload_def wire_str_def)

section \<open>Properties\<close>

text \<open>
  C31. A handle decodes to the backend tag and the payload it was encoded from, and two handles are
  equal only if their tags and payloads are; a handle in the old Valkey layout decodes to the same
  payload with the Valkey tag.
\<close>

theorem handle_roundtrip:
  assumes "payload_ok X p" "payload_ok X q"
  shows "decode X (encode X tag p) = Inr \<lparr>dh_tag = tag, dh_payload = p\<rparr> \<and>
    decode X (v1_handle_for_tests X p) = Inr \<lparr>dh_tag = BT_Valkey, dh_payload = p\<rparr> \<and>
    (encode X tag p = encode X tag' q) = (tag = tag' \<and> p = q)"
  using assms decode_encode decode_v1 hc.print_eq_iff [of X "\<lparr>dh_tag = tag, dh_payload = p\<rparr>"
      "\<lparr>dh_tag = tag', dh_payload = q\<rparr>"]
  by (simp add: payload_ok_clamp)

definition sample_payload :: handle_payload where
  "sample_payload =
     \<lparr>hp_execution_id = ''{fp:7}:5'', hp_attempt_index = 3, hp_attempt_id = 11, hp_lease_id = 12,
      hp_lease_epoch = 4, hp_lease_ttl_ms = 30000, hp_lane_id = ''default'',
      hp_worker_instance_id = ''w-1''\<rparr>"

lemma sample_uuid_lib_ok [simp]: "uuid_lib_ok sample_ext_lib"
  unfolding uuid_lib_ok_def
proof (intro allI conjI)
  fix u :: uuid
  have "unat u < 2 ^ 128" by (rule order_less_le_trans [OF unsigned_less]) simp
  also have "\<dots> < 10 ^ 45" by simp
  finally show "length (uuid_to_string sample_ext_lib u) \<le> 45"
    by (simp add: sample_ext_lib_def length_show_nat)
qed (simp_all, simp add: sample_ext_lib_def)

lemma sample_payload_ok [simp]: "payload_ok sample_ext_lib sample_payload"
proof -
  have "execution_id_parse sample_ext_lib ''{fp:7}:5'' = Inr ''{fp:7}:5''"
    by (simp add: execution_id_parse_def sample_ext_lib_def strip_prefix_def parse_u16_def
        parse_uint_def char_digit_def)
  moreover have "uuid_ok sample_ext_lib u" for u by (simp add: uuid_lib_ok_uuid)
  ultimately show ?thesis
    by (simp add: payload_ok_def sample_payload_def wire_str_def ascii_rust_str ascii_def u32_max_def)
qed

theorem handle_roundtrip_witness:
  "payload_ok sample_ext_lib sample_payload \<and>
   decode sample_ext_lib (encode sample_ext_lib BT_Postgres sample_payload) =
     Inr \<lparr>dh_tag = BT_Postgres, dh_payload = sample_payload\<rparr>"
  using handle_roundtrip [of sample_ext_lib sample_payload sample_payload BT_Postgres] by simp

text \<open>
  C32. Nothing but the exact bytes of a handle is accepted in its place: every proper prefix is
  reported as truncated and every extension as trailing bytes, at the right offsets.
\<close>

theorem handle_decode_exact:
  assumes "payload_ok X p"
  shows "(n < length (encode X tag p) \<longrightarrow> is_truncated (decode X (take n (encode X tag p)))) \<and>
    (s \<noteq> [] \<longrightarrow> decode X (encode X tag p @ s) =
       Inl (TrailingBytes (length (encode X tag p)) (length (encode X tag p) + length s)))"
  using assms decode_truncated decode_trailing by blast

theorem handle_decode_exact_witness:
  "is_truncated (decode sample_ext_lib (take 3 (encode sample_ext_lib BT_Postgres sample_payload))) \<and>
   decode sample_ext_lib (encode sample_ext_lib BT_Postgres sample_payload @ [0]) =
     Inl (TrailingBytes (length (encode sample_ext_lib BT_Postgres sample_payload))
       (length (encode sample_ext_lib BT_Postgres sample_payload) + 1))"
proof -
  have "3 < length (encode sample_ext_lib BT_Postgres sample_payload)"
    by (simp add: encode_def write_fields_def)
  then show ?thesis
    using handle_decode_exact [of sample_ext_lib sample_payload 3 BT_Postgres "[0]"] by simp
qed

text \<open>
  A worker id longer than \<open>u32::MAX\<close> bytes is cut by \<open>write_str\<close> without notice: the handle
  decodes to the shortened id, although the comment there says that decoding detects the cut.
\<close>

theorem overlong_worker_id_cut:
  assumes "payload_ok X p" "ascii w" "u32_max < length w"
  shows "decode X (encode X tag (p\<lparr>hp_worker_instance_id := w\<rparr>)) =
     Inr \<lparr>dh_tag = tag, dh_payload = p\<lparr>hp_worker_instance_id := take u32_max w\<rparr>\<rparr> \<and>
    take u32_max w \<noteq> w"
proof -
  let ?q = "p\<lparr>hp_worker_instance_id := w\<rparr>"
  have c: "clamp_payload ?q = p\<lparr>hp_worker_instance_id := take u32_max w\<rparr>"
    using payload_ok_clamp [OF assms(1)] by (cases p) (simp add: clamp_payload_def)
  have "payload_ok X (clamp_payload ?q)"
    using assms ascii_rust_str [OF ascii_take] unfolding c by (simp add: payload_ok_def wire_str_def)
  with hc.parse_print [of X "\<lparr>dh_tag = tag, dh_payload = ?q\<rparr>"] c assms(3) show ?thesis by simp
qed

theorem overlong_worker_id_cut_witness:
  "\<exists>w. u32_max < length w \<and>
     decode sample_ext_lib (encode sample_ext_lib BT_Valkey (sample_payload\<lparr>hp_worker_instance_id := w\<rparr>)) =
     Inr \<lparr>dh_tag = BT_Valkey, dh_payload = sample_payload\<lparr>hp_worker_instance_id := take u32_max w\<rparr>\<rparr>"
proof -
  let ?w = "replicate (Suc u32_max) CHR ''w''"
  have "ascii ?w" "u32_max < length ?w" by (simp_all add: ascii_def list_all_iff)
  with overlong_worker_id_cut [OF sample_payload_ok, of ?w BT_Valkey] show ?thesis by blast
qed

end
