(* ===== verification/Sql_Table.thy ===== *)
theory Sql_Table
  imports Engine_Error "HOL-Library.Product_Lexorder"
begin

text \<open>
  The part of SQL and of the database that the Postgres backend uses: statements over a table held
  as a list of rows, \<open>jsonb\<close> values, integer columns with overflow, and transactions. A statement
  that fails gives an \<open>sqlx_error\<close>; a transaction whose body fails leaves the database as it was.
\<close>

section \<open>Statements\<close>

definition sql_select :: "('r \<Rightarrow> bool) \<Rightarrow> 'r list \<Rightarrow> 'r list" where
  "sql_select P t = filter P t"

text \<open>\<open>fetch_optional\<close> of a statement that selects by primary key.\<close>

definition sql_fetch :: "('r \<Rightarrow> bool) \<Rightarrow> 'r list \<Rightarrow> 'r option" where
  "sql_fetch P t = List.find P t"

text \<open>\<open>ORDER BY\<close> an ascending key with \<open>LIMIT 1\<close>; rows with equal keys come in table order.\<close>

definition sql_first_by :: "('r \<Rightarrow> 'k::linorder) \<Rightarrow> ('r \<Rightarrow> bool) \<Rightarrow> 'r list \<Rightarrow> 'r option" where
  "sql_first_by key P t =
     (case sort_key key (filter P t) of [] \<Rightarrow> None | r # _ \<Rightarrow> Some r)"

definition sql_order_limit :: "('r \<Rightarrow> 'k::linorder) \<Rightarrow> nat \<Rightarrow> ('r \<Rightarrow> bool) \<Rightarrow> 'r list \<Rightarrow> 'r list" where
  "sql_order_limit key n P t = take n (sort_key key (filter P t))"

definition sql_update :: "('r \<Rightarrow> bool) \<Rightarrow> ('r \<Rightarrow> 'r) \<Rightarrow> 'r list \<Rightarrow> 'r list" where
  "sql_update P f t = map (\<lambda>r. if P r then f r else r) t"

text \<open>An update whose expressions can fail: one failing row fails the statement.\<close>

fun sql_try_update ::
  "('r \<Rightarrow> bool) \<Rightarrow> ('r \<Rightarrow> sqlx_error + 'r) \<Rightarrow> 'r list \<Rightarrow> sqlx_error + 'r list" where
  "sql_try_update P f [] = Inr []"
| "sql_try_update P f (r # t) =
     rbind (if P r then f r else Inr r) (\<lambda>r'.
     rbind (sql_try_update P f t) (\<lambda>t'. Inr (r' # t')))"

definition sql_count :: "('r \<Rightarrow> bool) \<Rightarrow> 'r list \<Rightarrow> nat" where
  "sql_count P t = length (filter P t)"

definition sql_delete :: "('r \<Rightarrow> bool) \<Rightarrow> 'r list \<Rightarrow> 'r list" where
  "sql_delete P t = filter (\<lambda>r. \<not> P r) t"

definition sql_insert_or_nothing :: "('r \<Rightarrow> 'k) \<Rightarrow> 'r \<Rightarrow> 'r list \<Rightarrow> 'r list" where
  "sql_insert_or_nothing key r t = (if key r \<in> key ` set t then t else t @ [r])"

definition sql_upsert ::
  "('r \<Rightarrow> 'k) \<Rightarrow> 'r \<Rightarrow> ('r \<Rightarrow> sqlx_error + 'r) \<Rightarrow> 'r list \<Rightarrow> sqlx_error + 'r list" where
  "sql_upsert key r upd t =
     (if key r \<in> key ` set t then sql_try_update (\<lambda>r'. key r' = key r) upd t
      else Inr (t @ [r]))"

section \<open>Integer columns\<close>

definition out_of_range :: "string \<Rightarrow> sqlx_error" where
  "out_of_range ty = Sqlx_Database (Some ''22003'') (ty @ '' out of range'')"

definition int4_add :: "int \<Rightarrow> int \<Rightarrow> sqlx_error + int" where
  "int4_add a b =
     (if - i32_max - 1 \<le> a + b \<and> a + b \<le> i32_max then Inr (a + b) else Inl (out_of_range ''integer''))"

definition int8_add :: "int \<Rightarrow> int \<Rightarrow> sqlx_error + int" where
  "int8_add a b =
     (if i64_min \<le> a + b \<and> a + b \<le> i64_max then Inr (a + b) else Inl (out_of_range ''bigint''))"

section \<open>JSON columns\<close>

datatype json =
    JNull | JBool bool | JNum int | JStr string | JArr "json list" | JObj "(string \<times> json) list"

text \<open>The operator \<open>->\<close>; a missing key or a value that is no object gives the SQL null.\<close>

fun json_get :: "string \<Rightarrow> json \<Rightarrow> json option" where
  "json_get k (JObj kvs) = map_of kvs k"
| "json_get k _ = None"

text \<open>
  The operator \<open>->>\<close>. The text of a value that is no string is Postgres' own rendering, the
  parameter \<open>render\<close>.
\<close>

definition json_get_text :: "(json \<Rightarrow> string) \<Rightarrow> string \<Rightarrow> json \<Rightarrow> string option" where
  "json_get_text render k j =
     (case json_get k j of
        None \<Rightarrow> None | Some JNull \<Rightarrow> None | Some (JStr s) \<Rightarrow> Some s | Some v \<Rightarrow> Some (render v))"

fun json_elems :: "json \<Rightarrow> json list" where
  "json_elems (JArr xs) = xs"
| "json_elems j = [j]"

text \<open>The operator \<open>||\<close>: on objects the right side wins; otherwise both sides act as arrays.\<close>

fun json_concat :: "json \<Rightarrow> json \<Rightarrow> json" where
  "json_concat (JObj a) (JObj b) = JObj (filter (\<lambda>(k, _). k \<notin> fst ` set b) a @ b)"
| "json_concat a b = JArr (json_elems a @ json_elems b)"

section \<open>Transactions\<close>

text \<open>
  What can go wrong outside the statements of a transaction: it can fail before its commit (nothing
  is kept), or its commit can take effect although the acknowledgement is lost.
\<close>

datatype tx_fault = No_fault | Fails_before sqlx_error | Commit_ack_lost sqlx_error

definition run_tx ::
  "tx_fault \<Rightarrow> ('d \<Rightarrow> pg_error + ('a \<times> 'd)) \<Rightarrow> 'd \<Rightarrow> (pg_error + 'a) \<times> 'd" where
  "run_tx flt body d =
     (case flt of
        Fails_before e \<Rightarrow> (Inl (map_sqlx_error e), d)
      | No_fault \<Rightarrow> (case body d of Inl e \<Rightarrow> (Inl e, d) | Inr (a, d') \<Rightarrow> (Inr a, d'))
      | Commit_ack_lost e \<Rightarrow>
          (case body d of Inl e' \<Rightarrow> (Inl e', d) | Inr (a, d') \<Rightarrow> (Inl (map_sqlx_error e), d')))"

section \<open>Lemmas\<close>

named_theorems sql_defs \<open>definitions of the statements\<close>

declare sql_select_def [sql_defs] sql_fetch_def [sql_defs] sql_update_def [sql_defs]
  sql_delete_def [sql_defs] sql_count_def [sql_defs]

text \<open>The row with a given primary key.\<close>

definition row_at :: "('r \<Rightarrow> 'k) \<Rightarrow> 'k \<Rightarrow> 'r list \<Rightarrow> 'r option" where
  "row_at key k t = List.find (\<lambda>r. key r = k) t"

lemma find_map_if:
  "(\<And>r. Q (if P r then f r else r) \<longleftrightarrow> Q r) \<Longrightarrow>
   List.find Q (sql_update P f t) = map_option (\<lambda>r. if P r then f r else r) (List.find Q t)"
  by (induction t) (auto simp: sql_update_def)

lemma row_at_update:
  "(\<And>r. key (f r) = key r) \<Longrightarrow>
   row_at key k (sql_update P f t) = map_option (\<lambda>r. if P r then f r else r) (row_at key k t)"
  unfolding row_at_def by (rule find_map_if) auto

lemma map_key_update: "(\<And>r. key (f r) = key r) \<Longrightarrow> map key (sql_update P f t) = map key t"
  by (induction t) (auto simp: sql_update_def)

lemma set_sql_update: "r \<in> set (sql_update P f t) \<longleftrightarrow> (\<exists>r0 \<in> set t. r = (if P r0 then f r0 else r0))"
  by (auto simp: sql_update_def)

lemma row_at_Some: "row_at key k t = Some r \<Longrightarrow> r \<in> set t \<and> key r = k"
  by (auto simp: row_at_def find_Some_iff)

lemma row_at_None: "row_at key k t = None \<longleftrightarrow> k \<notin> key ` set t"
  by (auto simp: row_at_def find_None_iff)

lemma row_at_distinct:
  "distinct (map key t) \<Longrightarrow> r \<in> set t \<Longrightarrow> row_at key (key r) t = Some r"
  by (induction t) (auto simp: row_at_def)

lemma row_at_append: "row_at key k (t @ u) = (case row_at key k t of None \<Rightarrow> row_at key k u | s \<Rightarrow> s)"
  by (induction t) (auto simp: row_at_def)

lemma try_update_Inr:
  "sql_try_update P f t = Inr t' \<Longrightarrow>
   list_all2 (\<lambda>r r'. (if P r then f r else Inr r) = Inr r') t t'"
  by (induction t arbitrary: t') (auto simp: rbind_Inr_iff)

lemma try_update_keys:
  "sql_try_update P f t = Inr t' \<Longrightarrow> (\<And>r r'. f r = Inr r' \<Longrightarrow> key r' = key r) \<Longrightarrow>
   map key t' = map key t"
  by (induction t arbitrary: t') (auto simp: rbind_Inr_iff split: if_splits)

lemma try_update_row_at:
  "sql_try_update P f t = Inr t' \<Longrightarrow> (\<And>r r'. f r = Inr r' \<Longrightarrow> key r' = key r) \<Longrightarrow>
   (case row_at key k t of
      None \<Rightarrow> row_at key k t' = None
    | Some r \<Rightarrow> \<exists>r'. row_at key k t' = Some r' \<and> (if P r then f r = Inr r' else r' = r))"
  by (induction t arbitrary: t') (auto simp: rbind_Inr_iff row_at_def split: if_splits option.splits)

lemma first_by_None [simp]: "sql_first_by key P t = None \<longleftrightarrow> (\<forall>r \<in> set t. \<not> P r)"
  by (auto simp: sql_first_by_def split: list.splits)
    (metis filter_empty_conv list.simps(3) length_sort length_0_conv)+

lemma first_by_Some:
  assumes "sql_first_by key P t = Some r"
  shows "r \<in> set t \<and> P r \<and> (\<forall>r' \<in> set t. P r' \<longrightarrow> key r \<le> key r')"
proof -
  from assms obtain rs where s: "sort_key key (filter P t) = r # rs"
    by (auto simp: sql_first_by_def split: list.splits)
  have "sorted (map key (r # rs))" unfolding s [symmetric] by (rule sorted_sort_key)
  moreover have "set (r # rs) = {x \<in> set t. P x}" unfolding s [symmetric] by simp
  ultimately show ?thesis by auto
qed

lemma order_limit_set: "r \<in> set (sql_order_limit key n P t) \<Longrightarrow> r \<in> set t \<and> P r"
  unfolding sql_order_limit_def by (auto dest: in_set_takeD)

lemma run_tx_No_fault [simp]:
  "run_tx No_fault body d = (case body d of Inl e \<Rightarrow> (Inl e, d) | Inr (a, d') \<Rightarrow> (Inr a, d'))"
  by (simp add: run_tx_def)

lemma run_tx_snd: "snd (run_tx flt body d) = d \<or> (\<exists>a. body d = Inr (a, snd (run_tx flt body d)))"
  by (auto simp: run_tx_def split: tx_fault.splits sum.splits)

lemma run_tx_Inr:
  "run_tx flt body d = (Inr a, d') \<longleftrightarrow> flt = No_fault \<and> body d = Inr (a, d')"
  by (auto simp: run_tx_def split: tx_fault.splits sum.splits)

lemma run_tx_Inl_body: "body d = Inl e \<Longrightarrow> snd (run_tx flt body d) = d"
  by (auto simp: run_tx_def split: tx_fault.splits)

end
