(* ===== verification/Pg_Schema.thy ===== *)
theory Pg_Schema
  imports Sql_Table
begin

text \<open>
  The tables of the Postgres backend (\<open>ff-backend-postgres/migrations\<close>) that the modelled operations
  use, and the two outbox writers that most of them share: the lease events of
  \<open>lease_event.rs\<close> and the completion events. A database is the record of its tables; each table
  is the list of its rows. Columns that hold \<open>NULL\<close> are options; state columns are the text the
  SQL writes.
\<close>

section \<open>Rows\<close>

record exec_core =
  ec_partition_key :: int
  ec_execution_id :: uuid
  ec_flow_id :: "uuid option"
  ec_lane_id :: string
  ec_required_capabilities :: "string list"
  ec_attempt_index :: int
  ec_lifecycle_phase :: string
  ec_ownership_state :: string
  ec_eligibility_state :: string
  ec_public_state :: string
  ec_attempt_state :: string
  ec_blocking_reason :: "string option"
  ec_cancellation_reason :: "string option"
  ec_cancelled_by :: "string option"
  ec_priority :: int
  ec_created_at_ms :: int
  ec_started_at_ms :: "int option"
  ec_terminal_at_ms :: "int option"
  ec_deadline_at_ms :: "int option"
  ec_payload :: "u8 list option"
  ec_result :: "u8 list option"
  ec_policy :: "json option"
  ec_raw_fields :: json

record attempt =
  at_partition_key :: int
  at_execution_id :: uuid
  at_attempt_index :: int
  at_worker_id :: "string option"
  at_worker_instance_id :: "string option"
  at_lease_epoch :: int
  at_lease_expires_at_ms :: "int option"
  at_started_at_ms :: "int option"
  at_terminal_at_ms :: "int option"
  at_outcome :: "string option"
  at_usage :: "json option"
  at_policy :: "json option"
  at_raw_fields :: json

record edge =
  ed_partition_key :: int
  ed_flow_id :: uuid
  ed_edge_id :: uuid
  ed_upstream_eid :: uuid
  ed_downstream_eid :: uuid
  ed_policy :: json
  ed_policy_version :: int

record edge_group =
  eg_partition_key :: int
  eg_flow_id :: uuid
  eg_downstream_eid :: uuid
  eg_policy :: json
  eg_k_target :: int
  eg_success_count :: int
  eg_fail_count :: int
  eg_skip_count :: int
  eg_running_count :: int
  eg_cancel_siblings_pending_flag :: bool
  eg_cancel_siblings_pending_members :: "string list"

record pending_cancel =
  pc_partition_key :: int
  pc_flow_id :: uuid
  pc_downstream_eid :: uuid
  pc_enqueued_at_ms :: int

record completion_event =
  ce_partition_key :: int
  ce_event_id :: int
  ce_execution_id :: uuid
  ce_flow_id :: "uuid option"
  ce_outcome :: string
  ce_namespace :: "string option"
  ce_instance_tag :: "string option"
  ce_occurred_at_ms :: int
  ce_committed_at_ms :: int
  ce_dispatched_at_ms :: "int option"

record lease_event =
  le_event_id :: int
  le_execution_id :: string
  le_lease_id :: "string option"
  le_event_type :: string
  le_occurred_at_ms :: int
  le_partition_key :: int
  le_namespace :: "string option"
  le_instance_tag :: "string option"

record lane_row =
  ln_lane_id :: string
  ln_registered_at_ms :: int
  ln_registered_by :: string

record flow_core =
  fl_partition_key :: int
  fl_flow_id :: uuid
  fl_graph_revision :: int
  fl_public_flow_state :: string
  fl_created_at_ms :: int
  fl_terminal_at_ms :: "int option"
  fl_raw_fields :: json

record flow_summary_row =
  fs_partition_key :: int
  fs_flow_id :: uuid
  fs_total_members :: int
  fs_sampled_members :: int
  fs_completed :: int
  fs_failed :: int
  fs_cancelled :: int
  fs_expired :: int
  fs_skipped :: int
  fs_active :: int
  fs_suspended :: int
  fs_waiting :: int
  fs_delayed :: int
  fs_rate_limited :: int
  fs_waiting_children :: int
  fs_public_flow_state :: string
  fs_last_summary_update_at :: int

record cancel_backlog =
  cb_partition_key :: int
  cb_flow_id :: uuid
  cb_requested_at_ms :: int
  cb_requester :: string
  cb_reason :: string
  cb_cancellation_policy :: string
  cb_status :: string

record backlog_member =
  bm_partition_key :: int
  bm_flow_id :: uuid
  bm_execution_id :: string

record operator_event =
  oe_event_id :: int
  oe_execution_id :: string
  oe_event_type :: string
  oe_details :: json
  oe_occurred_at_ms :: int
  oe_partition_key :: int
  oe_namespace :: "string option"
  oe_instance_tag :: "string option"

text \<open>
  The tables of suspensions: the current suspension of an execution, its waitpoints, the keys their
  tokens are signed with, the outcomes cached by idempotency key, and the signal outbox. The column
  \<open>condition\<close> of a waitpoint is never read or written.
\<close>

record suspension =
  sc_partition_key :: int
  sc_execution_id :: uuid
  sc_suspension_id :: uuid
  sc_suspended_at_ms :: int
  sc_timeout_at_ms :: "int option"
  sc_reason_code :: "string option"
  sc_condition :: json
  sc_satisfied_set :: json
  sc_member_map :: json
  sc_timeout_behavior :: "string option"

record waitpoint =
  wp_partition_key :: int
  wp_waitpoint_id :: uuid
  wp_execution_id :: uuid
  wp_token_kid :: string
  wp_token :: string
  wp_created_at_ms :: int
  wp_expires_at_ms :: "int option"
  wp_waitpoint_key :: string
  wp_state :: string
  wp_required_signal_names :: "string list"
  wp_activated_at_ms :: "int option"

record hmac_row =
  hk_kid :: string
  hk_secret :: "u8 list"
  hk_rotated_at_ms :: int
  hk_active :: bool

record suspend_dedup =
  sd_partition_key :: int
  sd_idempotency_key :: string
  sd_outcome_json :: json
  sd_created_at_ms :: int

record signal_event =
  se_event_id :: int
  se_execution_id :: string
  se_signal_id :: string
  se_waitpoint_id :: "string option"
  se_source_identity :: "string option"
  se_delivered_at_ms :: int
  se_partition_key :: int
  se_namespace :: "string option"
  se_instance_tag :: "string option"

section \<open>Database and environment\<close>

text \<open>The identity columns of the outboxes are counters of the database.\<close>

record db =
  t_exec :: "exec_core list"
  t_attempt :: "attempt list"
  t_edge :: "edge list"
  t_edge_group :: "edge_group list"
  t_pending_cancel :: "pending_cancel list"
  t_completion :: "completion_event list"
  t_lease_event :: "lease_event list"
  t_lane_registry :: "lane_row list"
  next_completion_id :: int
  next_lease_event_id :: int
  t_flow :: "flow_core list"
  t_flow_summary :: "flow_summary_row list"
  t_cancel_backlog :: "cancel_backlog list"
  t_backlog_member :: "backlog_member list"
  t_operator_event :: "operator_event list"
  next_operator_event_id :: int
  t_suspension :: "suspension list"
  t_waitpoint :: "waitpoint list"
  t_hmac :: "hmac_row list"
  t_suspend_dedup :: "suspend_dedup list"
  t_signal_event :: "signal_event list"
  next_signal_event_id :: int

text \<open>
  What one call of an operation finds around it: the external libraries, Postgres' rendering of
  JSON values and its cast of a text to \<open>int\<close>, the fate of its transaction and of its reads outside
  a transaction, the clock, the rows that other transactions hold locked, and the random UUIDs it
  draws.
\<close>

record pg_env =
  pe_lib :: ext_lib
  pe_jsonb_text :: "json \<Rightarrow> string"
  pe_int4_in :: "string \<Rightarrow> sqlx_error + int"
  pe_fault :: tx_fault
  pe_read_error :: "sqlx_error option"
  pe_now :: int
  pe_locked :: "int \<Rightarrow> uuid \<Rightarrow> bool"
  pe_fresh :: "nat \<Rightarrow> uuid"

definition exec_key :: "exec_core \<Rightarrow> int \<times> uuid" where
  "exec_key r = (ec_partition_key r, ec_execution_id r)"

definition attempt_key :: "attempt \<Rightarrow> int \<times> uuid \<times> int" where
  "attempt_key r = (at_partition_key r, at_execution_id r, at_attempt_index r)"

definition edge_key :: "edge \<Rightarrow> int \<times> uuid \<times> uuid" where
  "edge_key r = (ed_partition_key r, ed_flow_id r, ed_edge_id r)"

definition edge_group_key :: "edge_group \<Rightarrow> int \<times> uuid \<times> uuid" where
  "edge_group_key r = (eg_partition_key r, eg_flow_id r, eg_downstream_eid r)"

definition pending_cancel_key :: "pending_cancel \<Rightarrow> int \<times> uuid \<times> uuid" where
  "pending_cancel_key r = (pc_partition_key r, pc_flow_id r, pc_downstream_eid r)"

definition flow_key :: "flow_core \<Rightarrow> int \<times> uuid" where
  "flow_key r = (fl_partition_key r, fl_flow_id r)"

definition flow_summary_key :: "flow_summary_row \<Rightarrow> int \<times> uuid" where
  "flow_summary_key r = (fs_partition_key r, fs_flow_id r)"

definition cancel_backlog_key :: "cancel_backlog \<Rightarrow> int \<times> uuid" where
  "cancel_backlog_key r = (cb_partition_key r, cb_flow_id r)"

definition backlog_member_key :: "backlog_member \<Rightarrow> int \<times> uuid \<times> string" where
  "backlog_member_key r = (bm_partition_key r, bm_flow_id r, bm_execution_id r)"

definition suspension_key :: "suspension \<Rightarrow> int \<times> uuid" where
  "suspension_key r = (sc_partition_key r, sc_execution_id r)"

definition waitpoint_id_key :: "waitpoint \<Rightarrow> int \<times> uuid" where
  "waitpoint_id_key r = (wp_partition_key r, wp_waitpoint_id r)"

definition suspend_dedup_key :: "suspend_dedup \<Rightarrow> int \<times> string" where
  "suspend_dedup_key r = (sd_partition_key r, sd_idempotency_key r)"

text \<open>The conditions \<open>WHERE partition_key = .. AND execution_id = ..\<close> of the statements.\<close>

definition exec_is :: "int \<Rightarrow> uuid \<Rightarrow> exec_core \<Rightarrow> bool" where
  "exec_is part uid r \<longleftrightarrow> ec_partition_key r = part \<and> ec_execution_id r = uid"

definition attempt_is :: "int \<Rightarrow> uuid \<Rightarrow> int \<Rightarrow> attempt \<Rightarrow> bool" where
  "attempt_is part uid idx r \<longleftrightarrow>
     at_partition_key r = part \<and> at_execution_id r = uid \<and> at_attempt_index r = idx"

definition update_exec :: "int \<Rightarrow> uuid \<Rightarrow> (exec_core \<Rightarrow> exec_core) \<Rightarrow> db \<Rightarrow> db" where
  "update_exec part uid f d = d\<lparr>t_exec := sql_update (exec_is part uid) f (t_exec d)\<rparr>"

definition update_attempt :: "int \<Rightarrow> uuid \<Rightarrow> int \<Rightarrow> (attempt \<Rightarrow> attempt) \<Rightarrow> db \<Rightarrow> db" where
  "update_attempt part uid idx f d =
     d\<lparr>t_attempt := sql_update (attempt_is part uid idx) f (t_attempt d)\<rparr>"

definition try_update_exec ::
  "int \<Rightarrow> uuid \<Rightarrow> (exec_core \<Rightarrow> sqlx_error + exec_core) \<Rightarrow> db \<Rightarrow> pg_error + db" where
  "try_update_exec part uid f d =
     rbind (map_err map_sqlx_error (sql_try_update (exec_is part uid) f (t_exec d)))
       (\<lambda>t. Inr (d\<lparr>t_exec := t\<rparr>))"

definition try_update_attempt ::
  "int \<Rightarrow> uuid \<Rightarrow> int \<Rightarrow> (attempt \<Rightarrow> sqlx_error + attempt) \<Rightarrow> db \<Rightarrow> pg_error + db" where
  "try_update_attempt part uid idx f d =
     rbind (map_err map_sqlx_error (sql_try_update (attempt_is part uid idx) f (t_attempt d)))
       (\<lambda>t. Inr (d\<lparr>t_attempt := t\<rparr>))"

section \<open>Outboxes\<close>

definition EVENT_ACQUIRED :: string where "EVENT_ACQUIRED = ''acquired''"
definition EVENT_RENEWED :: string where "EVENT_RENEWED = ''renewed''"
definition EVENT_EXPIRED :: string where "EVENT_EXPIRED = ''expired''"
definition EVENT_RECLAIMED :: string where "EVENT_RECLAIMED = ''reclaimed''"
definition EVENT_REVOKED :: string where "EVENT_REVOKED = ''revoked''"

definition raw_namespace :: "pg_env \<Rightarrow> exec_core \<Rightarrow> string option" where
  "raw_namespace E r = json_get_text (pe_jsonb_text E) ''namespace'' (ec_raw_fields r)"

definition raw_instance_tag :: "pg_env \<Rightarrow> exec_core \<Rightarrow> string option" where
  "raw_instance_tag E r =
     Option.bind (json_get ''tags'' (ec_raw_fields r))
       (json_get_text (pe_jsonb_text E) ''cairn.instance_id'')"

text \<open>
  One row per matching execution (at most one, by the primary key), or one row with null tags when
  no execution matches.
\<close>

definition emit ::
  "pg_env \<Rightarrow> int \<Rightarrow> uuid \<Rightarrow> string option \<Rightarrow> string \<Rightarrow> int \<Rightarrow> db \<Rightarrow> db" where
  "emit E part uid lease_id event_type occurred_at d =
     (let row = (\<lambda>i ns tag. \<lparr>le_event_id = next_lease_event_id d + int i,
                  le_execution_id = uuid_to_string (pe_lib E) uid, le_lease_id = lease_id,
                  le_event_type = event_type, le_occurred_at_ms = occurred_at,
                  le_partition_key = part, le_namespace = ns, le_instance_tag = tag\<rparr>);
          matches = sql_select (exec_is part uid) (t_exec d);
          new = (if matches = [] then [row 0 None None]
                 else map (\<lambda>(i, r). row i (raw_namespace E r) (raw_instance_tag E r))
                        (List.enumerate 0 matches))
      in d\<lparr>t_lease_event := t_lease_event d @ new,
           next_lease_event_id := next_lease_event_id d + int (length new)\<rparr>)"

text \<open>\<open>INSERT INTO ff_completion_event .. SELECT .. FROM ff_exec_core\<close>, as the terminal operations write it.\<close>

definition insert_completion :: "int \<Rightarrow> uuid \<Rightarrow> string \<Rightarrow> int \<Rightarrow> db \<Rightarrow> db" where
  "insert_completion part uid outcome now d =
     (let matches = sql_select (exec_is part uid) (t_exec d);
          new = map (\<lambda>(i, r).
                  \<lparr>ce_partition_key = ec_partition_key r, ce_event_id = next_completion_id d + int i,
                   ce_execution_id = ec_execution_id r, ce_flow_id = ec_flow_id r,
                   ce_outcome = outcome, ce_namespace = None, ce_instance_tag = None,
                   ce_occurred_at_ms = now, ce_committed_at_ms = now, ce_dispatched_at_ms = None\<rparr>)
                  (List.enumerate 0 matches)
      in d\<lparr>t_completion := t_completion d @ new,
           next_completion_id := next_completion_id d + int (length new)\<rparr>)"

section \<open>Well-formed databases and their evolution\<close>

text \<open>Primary keys are unique, and the identity columns stay below their counters.\<close>

definition db_wf :: "db \<Rightarrow> bool" where
  "db_wf d \<longleftrightarrow>
     distinct (map exec_key (t_exec d)) \<and> distinct (map attempt_key (t_attempt d)) \<and>
     distinct (map edge_key (t_edge d)) \<and> distinct (map edge_group_key (t_edge_group d)) \<and>
     distinct (map pending_cancel_key (t_pending_cancel d)) \<and>
     distinct (map ce_event_id (t_completion d)) \<and>
     list_all (\<lambda>c. ce_event_id c < next_completion_id d) (t_completion d) \<and>
     distinct (map le_event_id (t_lease_event d)) \<and>
     list_all (\<lambda>l. le_event_id l < next_lease_event_id d) (t_lease_event d) \<and>
     distinct (map flow_key (t_flow d)) \<and> distinct (map flow_summary_key (t_flow_summary d)) \<and>
     distinct (map cancel_backlog_key (t_cancel_backlog d)) \<and>
     distinct (map backlog_member_key (t_backlog_member d)) \<and>
     distinct (map oe_event_id (t_operator_event d)) \<and>
     list_all (\<lambda>v. oe_event_id v < next_operator_event_id d) (t_operator_event d) \<and>
     distinct (map suspension_key (t_suspension d)) \<and> distinct (map waitpoint_id_key (t_waitpoint d)) \<and>
     distinct (map hk_kid (t_hmac d)) \<and> distinct (map suspend_dedup_key (t_suspend_dedup d)) \<and>
     distinct (map se_event_id (t_signal_event d)) \<and>
     list_all (\<lambda>v. se_event_id v < next_signal_event_id d) (t_signal_event d)"

definition exec_at :: "db \<Rightarrow> int \<Rightarrow> uuid \<Rightarrow> exec_core option" where
  "exec_at d part uid = row_at exec_key (part, uid) (t_exec d)"

definition attempt_at :: "db \<Rightarrow> int \<Rightarrow> uuid \<Rightarrow> int \<Rightarrow> attempt option" where
  "attempt_at d part uid idx = row_at attempt_key (part, uid, idx) (t_attempt d)"

text \<open>
  The values the state columns take and the ranges of the integer columns. The readers of
  \<open>exec_core.rs\<close> know all of these values; the lifecycle phases are those that the backend writes.
\<close>

definition PHASES :: "string set" where
  "PHASES = {''submitted'', ''runnable'', ''active'', ''suspended'', ''terminal'', ''cancelled''}"

definition OWNERSHIPS :: "string set" where
  "OWNERSHIPS = {''unowned'', ''released'', ''leased'', ''lease_expired_reclaimable'', ''lease_revoked''}"

definition ELIGIBILITIES :: "string set" where
  "ELIGIBILITIES = {''eligible_now'', ''pending_claim'', ''not_eligible_until_time'',
     ''blocked_by_dependencies'', ''blocked_by_budget'', ''blocked_by_quota'', ''blocked_by_route'',
     ''blocked_by_lane_state'', ''blocked_by_operator'', ''not_applicable'', ''cancelled''}"

definition ATTEMPT_STATES :: "string set" where
  "ATTEMPT_STATES = {''none'', ''pending'', ''pending_claim'', ''pending_first_attempt'', ''running'',
     ''running_attempt'', ''attempt_interrupted'', ''pending_retry_attempt'', ''pending_replay_attempt'',
     ''attempt_terminal'', ''cancelled''}"

definition PUBLIC_STATES :: "string set" where
  "PUBLIC_STATES = {''waiting'', ''delayed'', ''rate_limited'', ''waiting_children'', ''active'', ''running'',
     ''suspended'', ''resumable'', ''completed'', ''failed'', ''cancelled'', ''expired'', ''skipped''}"

definition BLOCKINGS :: "string set" where
  "BLOCKINGS = {[], ''none'', ''waiting_for_worker'', ''waiting_for_retry_backoff'',
     ''waiting_for_resume_delay'', ''waiting_for_delay'', ''waiting_for_signal'', ''waiting_for_approval'',
     ''waiting_for_callback'', ''waiting_for_tool_result'', ''waiting_for_children'', ''waiting_for_budget'',
     ''waiting_for_quota'', ''waiting_for_capable_worker'', ''waiting_for_locality_match'',
     ''paused_by_operator'', ''paused_by_policy'', ''paused_by_flow_cancel''}"

definition exec_typed :: "exec_core \<Rightarrow> bool" where
  "exec_typed r \<longleftrightarrow>
     ec_lifecycle_phase r \<in> PHASES \<and> ec_ownership_state r \<in> OWNERSHIPS \<and>
     ec_eligibility_state r \<in> ELIGIBILITIES \<and> ec_attempt_state r \<in> ATTEMPT_STATES \<and>
     ec_public_state r \<in> PUBLIC_STATES \<and>
     (case ec_blocking_reason r of None \<Rightarrow> True | Some b \<Rightarrow> b \<in> BLOCKINGS) \<and>
     0 \<le> ec_attempt_index r \<and> ec_attempt_index r \<le> i32_max"

definition OUTCOMES :: "string set" where
  "OUTCOMES = {''success'', ''failed'', ''retry'', ''interrupted'', ''waiting_children'',
     ''lease_expired_reclaimable'', ''cancelled'', ''attempt_interrupted''}"

definition attempt_typed :: "attempt \<Rightarrow> bool" where
  "attempt_typed a \<longleftrightarrow>
     (case at_outcome a of None \<Rightarrow> True | Some out \<Rightarrow> out \<in> OUTCOMES) \<and>
     0 \<le> at_lease_epoch a \<and> at_lease_epoch a \<le> i64_max \<and> 0 \<le> at_attempt_index a \<and>
     at_attempt_index a \<le> i32_max"

definition db_typed :: "db \<Rightarrow> bool" where
  "db_typed d \<longleftrightarrow> list_all exec_typed (t_exec d) \<and> list_all attempt_typed (t_attempt d)"

text \<open>
  What no operation takes back: an attempt keeps its row and its lease epoch never falls; an
  execution keeps its row, lane and creation time, its attempt index never falls, its first start
  time is never overwritten and it never changes its flow; an edge keeps its ends and stays applied;
  a flow keeps its row, its graph revision never falls and once closed it never reopens; a signing
  key keeps its secret and a cached outcome of a suspension stays; an emitted event stays.
\<close>

definition attempt_le :: "attempt \<Rightarrow> attempt \<Rightarrow> bool" where
  "attempt_le a b \<longleftrightarrow>
     attempt_key b = attempt_key a \<and> at_lease_epoch a \<le> at_lease_epoch b \<and>
     (attempt_typed a \<longrightarrow> attempt_typed b)"

definition exec_le :: "exec_core \<Rightarrow> exec_core \<Rightarrow> bool" where
  "exec_le a b \<longleftrightarrow>
     exec_key b = exec_key a \<and> ec_lane_id b = ec_lane_id a \<and>
     ec_created_at_ms b = ec_created_at_ms a \<and> ec_attempt_index a \<le> ec_attempt_index b \<and>
     (ec_started_at_ms a = None \<or> ec_started_at_ms b = ec_started_at_ms a) \<and>
     (ec_flow_id a = None \<or> ec_flow_id b = ec_flow_id a) \<and>
     (exec_typed a \<longrightarrow> exec_typed b)"

text \<open>Whether \<open>apply_dependency_to_child\<close> has counted the edge: \<open>policy.applied_at_ms\<close> is an \<open>i64\<close>.\<close>

fun json_as_i64 :: "json \<Rightarrow> int option" where
  "json_as_i64 (JNum n) = (if i64_min \<le> n \<and> n \<le> i64_max then Some n else None)"
| "json_as_i64 _ = None"

definition edge_applied :: "edge \<Rightarrow> bool" where
  "edge_applied r \<longleftrightarrow> Option.bind (json_get ''applied_at_ms'' (ed_policy r)) json_as_i64 \<noteq> None"

definition edge_le :: "edge \<Rightarrow> edge \<Rightarrow> bool" where
  "edge_le a b \<longleftrightarrow>
     edge_key b = edge_key a \<and> ed_upstream_eid b = ed_upstream_eid a \<and>
     ed_downstream_eid b = ed_downstream_eid a \<and> (edge_applied a \<longrightarrow> edge_applied b)"

definition flow_le :: "flow_core \<Rightarrow> flow_core \<Rightarrow> bool" where
  "flow_le a b \<longleftrightarrow>
     flow_key b = flow_key a \<and> fl_created_at_ms b = fl_created_at_ms a \<and>
     fl_graph_revision a \<le> fl_graph_revision b \<and>
     (fl_public_flow_state a = ''open'' \<or> fl_public_flow_state b \<noteq> ''open'')"

definition hmac_le :: "hmac_row \<Rightarrow> hmac_row \<Rightarrow> bool" where
  "hmac_le a b \<longleftrightarrow> hk_kid b = hk_kid a \<and> hk_secret b = hk_secret a"

definition completion_id :: "completion_event \<Rightarrow> int \<times> uuid \<times> string" where
  "completion_id c = (ce_event_id c, ce_execution_id c, ce_outcome c)"

definition rows_le :: "('r \<Rightarrow> 'k) \<Rightarrow> ('r \<Rightarrow> 'r \<Rightarrow> bool) \<Rightarrow> 'r list \<Rightarrow> 'r list \<Rightarrow> bool" where
  "rows_le key le t u \<longleftrightarrow>
     (\<forall>k r. row_at key k t = Some r \<longrightarrow> (\<exists>r'. row_at key k u = Some r' \<and> le r r'))"

definition db_evolves :: "db \<Rightarrow> db \<Rightarrow> bool" where
  "db_evolves d d' \<longleftrightarrow>
     (db_wf d \<longrightarrow> db_wf d') \<and> (db_typed d \<longrightarrow> db_typed d') \<and>
     rows_le attempt_key attempt_le (t_attempt d) (t_attempt d') \<and>
     rows_le exec_key exec_le (t_exec d) (t_exec d') \<and>
     rows_le edge_key edge_le (t_edge d) (t_edge d') \<and>
     rows_le flow_key flow_le (t_flow d) (t_flow d') \<and>
     rows_le hk_kid hmac_le (t_hmac d) (t_hmac d') \<and>
     rows_le suspend_dedup_key (=) (t_suspend_dedup d) (t_suspend_dedup d') \<and>
     set (t_signal_event d) \<subseteq> set (t_signal_event d') \<and>
     set (t_operator_event d) \<subseteq> set (t_operator_event d') \<and>
     set (map completion_id (t_completion d)) \<subseteq> set (map completion_id (t_completion d')) \<and>
     set (t_lease_event d) \<subseteq> set (t_lease_event d')"

lemma rows_le_refl: "(\<And>r. le r r) \<Longrightarrow> rows_le key le t t"
  by (simp add: rows_le_def)

lemma rows_le_trans:
  "rows_le key le t u \<Longrightarrow> rows_le key le u v \<Longrightarrow> (\<And>a b c. le a b \<Longrightarrow> le b c \<Longrightarrow> le a c) \<Longrightarrow>
   rows_le key le t v"
  unfolding rows_le_def by meson

lemma rows_le_update:
  "(\<And>r. key (f r) = key r) \<Longrightarrow> (\<And>r. le r r) \<Longrightarrow> (\<And>r. P r \<Longrightarrow> le r (f r)) \<Longrightarrow>
   rows_le key le t (sql_update P f t)"
  by (auto simp: rows_le_def row_at_update)

lemma rows_le_try_update:
  assumes "sql_try_update P f t = Inr t'" "\<And>r r'. f r = Inr r' \<Longrightarrow> key r' = key r" "\<And>r. le r r"
    "\<And>r r'. f r = Inr r' \<Longrightarrow> le r r'"
  shows "rows_le key le t t'"
  unfolding rows_le_def
proof (intro allI impI)
  fix k r
  assume "row_at key k t = Some r"
  with try_update_row_at [where key = key and k = k, OF assms(1,2)] obtain r' where
    "row_at key k t' = Some r'" "if P r then f r = Inr r' else r' = r" by auto
  with assms(3,4) show "\<exists>r'. row_at key k t' = Some r' \<and> le r r'" by (auto split: if_splits)
qed

lemma rows_le_append: "(\<And>r. le r r) \<Longrightarrow> rows_le key le t (t @ u)"
  by (simp add: rows_le_def row_at_append)

lemma attempt_le_refl [simp]: "attempt_le a a"
  by (simp add: attempt_le_def)

lemma exec_le_refl [simp]: "exec_le a a"
  by (simp add: exec_le_def)

lemma edge_le_refl [simp]: "edge_le a a"
  by (simp add: edge_le_def)

lemma flow_le_refl [simp]: "flow_le a a"
  by (simp add: flow_le_def)

lemma hmac_le_refl [simp]: "hmac_le a a"
  by (simp add: hmac_le_def)

lemma hmac_le_trans: "hmac_le a b \<Longrightarrow> hmac_le b c \<Longrightarrow> hmac_le a c"
  by (simp add: hmac_le_def)

lemma edge_le_trans: "edge_le a b \<Longrightarrow> edge_le b c \<Longrightarrow> edge_le a c"
  by (simp add: edge_le_def)

lemma flow_le_trans: "flow_le a b \<Longrightarrow> flow_le b c \<Longrightarrow> flow_le a c"
  by (auto simp: flow_le_def)

lemma attempt_le_trans: "attempt_le a b \<Longrightarrow> attempt_le b c \<Longrightarrow> attempt_le a c"
  by (simp add: attempt_le_def)

lemma exec_le_trans: "exec_le a b \<Longrightarrow> exec_le b c \<Longrightarrow> exec_le a c"
  by (auto simp: exec_le_def)

lemma db_evolves_refl [simp]: "db_evolves d d"
  by (simp add: db_evolves_def rows_le_refl)

lemma rows_eq_trans: "rows_le key (=) t u \<Longrightarrow> rows_le key (=) u v \<Longrightarrow> rows_le key (=) t v"
  by (simp add: rows_le_def)

lemma db_evolves_trans:
  assumes "db_evolves d e" "db_evolves e f"
  shows "db_evolves d f"
  unfolding db_evolves_def
proof (intro conjI)
  note de = assms(1) [unfolded db_evolves_def] and ef = assms(2) [unfolded db_evolves_def]
  show "db_wf d \<longrightarrow> db_wf f" "db_typed d \<longrightarrow> db_typed f" using de ef by iprover+
  show "rows_le attempt_key attempt_le (t_attempt d) (t_attempt f)"
    by (rule rows_le_trans [OF _ _ attempt_le_trans]) (use de ef in iprover)+
  show "rows_le exec_key exec_le (t_exec d) (t_exec f)"
    by (rule rows_le_trans [OF _ _ exec_le_trans]) (use de ef in iprover)+
  show "rows_le edge_key edge_le (t_edge d) (t_edge f)"
    by (rule rows_le_trans [OF _ _ edge_le_trans]) (use de ef in iprover)+
  show "rows_le flow_key flow_le (t_flow d) (t_flow f)"
    by (rule rows_le_trans [OF _ _ flow_le_trans]) (use de ef in iprover)+
  show "rows_le hk_kid hmac_le (t_hmac d) (t_hmac f)"
    by (rule rows_le_trans [OF _ _ hmac_le_trans]) (use de ef in iprover)+
  show "rows_le suspend_dedup_key (=) (t_suspend_dedup d) (t_suspend_dedup f)"
    by (rule rows_eq_trans) (use de ef in iprover)+
  show "set (t_signal_event d) \<subseteq> set (t_signal_event f)" "set (t_operator_event d) \<subseteq> set (t_operator_event f)"
    "set (map completion_id (t_completion d)) \<subseteq> set (map completion_id (t_completion f))"
    "set (t_lease_event d) \<subseteq> set (t_lease_event f)"
    by (rule subset_trans; use de ef in iprover)+
qed

lemma column_values [simp]:
  "''submitted'' \<in> PHASES" "''runnable'' \<in> PHASES" "''active'' \<in> PHASES" "''terminal'' \<in> PHASES"
  "''unowned'' \<in> OWNERSHIPS" "''leased'' \<in> OWNERSHIPS"
  "''eligible_now'' \<in> ELIGIBILITIES" "''not_eligible_until_time'' \<in> ELIGIBILITIES"
  "''blocked_by_dependencies'' \<in> ELIGIBILITIES" "''not_applicable'' \<in> ELIGIBILITIES"
  "''pending'' \<in> ATTEMPT_STATES" "''running_attempt'' \<in> ATTEMPT_STATES"
  "''attempt_interrupted'' \<in> ATTEMPT_STATES" "''pending_retry_attempt'' \<in> ATTEMPT_STATES"
  "''attempt_terminal'' \<in> ATTEMPT_STATES" "''cancelled'' \<in> ATTEMPT_STATES"
  "''waiting'' \<in> PUBLIC_STATES" "''running'' \<in> PUBLIC_STATES" "''cancelled'' \<in> PUBLIC_STATES"
  "''skipped'' \<in> PUBLIC_STATES" "''waiting_for_children'' \<in> BLOCKINGS"
  "''waiting_children'' \<in> PUBLIC_STATES" "''pending_replay_attempt'' \<in> ATTEMPT_STATES"
  "''cancelled'' \<in> PHASES" "''suspended'' \<in> PHASES" "''cancelled'' \<in> ELIGIBILITIES"
  "''released'' \<in> OWNERSHIPS" "''suspended'' \<in> PUBLIC_STATES" "''resumable'' \<in> PUBLIC_STATES"
  "''delayed'' \<in> PUBLIC_STATES" "''waiting_for_worker'' \<in> BLOCKINGS" "''waiting_for_resume_delay'' \<in> BLOCKINGS"
  "''attempt_interrupted'' \<in> OUTCOMES"
  "''success'' \<in> OUTCOMES" "''failed'' \<in> OUTCOMES" "''retry'' \<in> OUTCOMES" "''interrupted'' \<in> OUTCOMES"
  "''waiting_children'' \<in> OUTCOMES" "''lease_expired_reclaimable'' \<in> OUTCOMES" "''cancelled'' \<in> OUTCOMES"
  by (simp_all add: BLOCKINGS_def OUTCOMES_def PHASES_def OWNERSHIPS_def ELIGIBILITIES_def ATTEMPT_STATES_def PUBLIC_STATES_def)

lemma all_sql_update: "list_all Q t \<Longrightarrow> (\<And>r. Q r \<Longrightarrow> Q (f r)) \<Longrightarrow> list_all Q (sql_update P f t)"
  by (auto simp: sql_update_def list_all_iff)

lemma all_try_update:
  assumes "sql_try_update P f t = Inr t'" "list_all Q t" "\<And>r r'. f r = Inr r' \<Longrightarrow> Q r \<Longrightarrow> Q r'"
  shows "list_all Q t'"
  using assms(1,2)
proof (induction t arbitrary: t')
  case (Cons r t)
  then show ?case using assms(3) by (auto simp: rbind_Inr_iff split: if_splits)
qed simp

named_theorems evolves \<open>the primitives and how operations compose them\<close>

lemma evolves_exec_rows:
  assumes "map exec_key t = map exec_key (t_exec d)" "rows_le exec_key exec_le (t_exec d) t"
    and "list_all exec_typed (t_exec d) \<Longrightarrow> list_all exec_typed t"
  shows "db_evolves d (d\<lparr>t_exec := t\<rparr>)"
  using assms by (simp add: db_evolves_def db_wf_def db_typed_def rows_le_refl)

lemma evolves_attempt_rows:
  assumes "distinct (map attempt_key (t_attempt d)) \<Longrightarrow> distinct (map attempt_key t)"
    "rows_le attempt_key attempt_le (t_attempt d) t"
    and "db_typed d \<Longrightarrow> list_all attempt_typed t"
  shows "db_evolves d (d\<lparr>t_attempt := t\<rparr>)"
  using assms by (simp add: db_evolves_def db_wf_def db_typed_def rows_le_refl)

lemma evolves_update_exec [evolves]:
  "(\<And>r. exec_le r (f r)) \<Longrightarrow> db_evolves d (update_exec part uid f d)"
  unfolding update_exec_def
  by (intro evolves_exec_rows map_key_update rows_le_update all_sql_update) (auto simp: exec_le_def)

lemma evolves_update_attempt [evolves]:
  "(\<And>r. attempt_le r (f r)) \<Longrightarrow> db_evolves d (update_attempt part uid idx f d)"
  unfolding update_attempt_def
  by (intro evolves_attempt_rows rows_le_update all_sql_update)
    (auto simp: attempt_le_def db_typed_def map_key_update [of attempt_key])

lemma evolves_try_update_exec [evolves]:
  assumes "try_update_exec part uid f d = Inr d'" "\<And>r r'. f r = Inr r' \<Longrightarrow> exec_le r r'"
  shows "db_evolves d d'"
proof -
  obtain t where t: "sql_try_update (exec_is part uid) f (t_exec d) = Inr t" "d' = d\<lparr>t_exec := t\<rparr>"
    using assms(1)
    by (cases "sql_try_update (exec_is part uid) f (t_exec d)") (auto simp: try_update_exec_def)
  show ?thesis unfolding t(2)
    by (intro evolves_exec_rows try_update_keys [OF t(1)] rows_le_try_update [OF t(1)]
        all_try_update [OF t(1)])
      (use assms(2) in \<open>auto simp: exec_le_def\<close>)
qed

lemma evolves_try_update_attempt [evolves]:
  assumes "try_update_attempt part uid idx f d = Inr d'" "\<And>r r'. f r = Inr r' \<Longrightarrow> attempt_le r r'"
  shows "db_evolves d d'"
proof -
  obtain t where t: "sql_try_update (attempt_is part uid idx) f (t_attempt d) = Inr t"
    "d' = d\<lparr>t_attempt := t\<rparr>"
    using assms(1)
    by (cases "sql_try_update (attempt_is part uid idx) f (t_attempt d)")
      (auto simp: try_update_attempt_def)
  have "map attempt_key t = map attempt_key (t_attempt d)"
    by (rule try_update_keys [OF t(1)]) (use assms(2) in \<open>auto simp: attempt_le_def\<close>)
  then show ?thesis unfolding t(2)
    by (intro evolves_attempt_rows rows_le_try_update [OF t(1)] all_try_update [OF t(1)])
      (use assms(2) in \<open>auto simp: attempt_le_def db_typed_def\<close>)
qed

lemma enumerated_ids:
  assumes "\<And>i r. f (row i r) = n + int i"
  shows "map f (map (\<lambda>(i, r). row i r) (List.enumerate 0 xs)) = map (\<lambda>i. n + int i) [0..<length xs]"
  by (rule nth_equalityI) (simp_all add: assms nth_enumerate_eq)

lemma fresh_ids:
  assumes "map f new = map (\<lambda>i. n + int i) [0..<m]" "distinct (map f old)"
    "list_all (\<lambda>r. f r < n) old"
  shows "distinct (map f (old @ new)) \<and> list_all (\<lambda>r. f r < n + int m) (old @ new)"
proof -
  have s: "f ` set new = (\<lambda>i. n + int i) ` {0..<m}" using assms(1) by (metis list.set_map set_upt)
  have new: "n \<le> f r \<and> f r < n + int m" if "r \<in> set new" for r
  proof -
    from that s have "f r \<in> (\<lambda>i. n + int i) ` {0..<m}" by blast
    then show ?thesis by auto
  qed
  have "distinct (map f new)" unfolding assms(1) by (auto simp: distinct_map inj_on_def)
  with assms(2,3) new show ?thesis by (fastforce simp: list_all_iff)
qed

lemma evolves_lease_events:
  assumes "map le_event_id new = map (\<lambda>i. next_lease_event_id d + int i) [0..<length new]"
  shows "db_evolves d (d\<lparr>t_lease_event := t_lease_event d @ new,
     next_lease_event_id := next_lease_event_id d + int (length new)\<rparr>)"
  using fresh_ids [OF assms, of "t_lease_event d"]
  by (auto simp: db_evolves_def db_wf_def db_typed_def rows_le_refl)

lemma evolves_completions:
  assumes "map ce_event_id new = map (\<lambda>i. next_completion_id d + int i) [0..<length new]"
  shows "db_evolves d (d\<lparr>t_completion := t_completion d @ new,
     next_completion_id := next_completion_id d + int (length new)\<rparr>)"
  using fresh_ids [OF assms, of "t_completion d"]
  by (auto simp: db_evolves_def db_wf_def db_typed_def rows_le_refl)

lemma evolves_emit [evolves]: "db_evolves d (emit E part uid l ev at d)"
  unfolding emit_def Let_def
  by (rule evolves_lease_events)
    (auto intro!: enumerated_ids [THEN trans] simp del: map_map)

lemma evolves_insert_completion [evolves]: "db_evolves d (insert_completion part uid out now d)"
  unfolding insert_completion_def Let_def
  by (rule evolves_completions) (auto intro!: enumerated_ids [THEN trans] simp del: map_map)

lemma evolves_run_tx [evolves]:
  "(\<And>a d'. body d = Inr (a, d') \<Longrightarrow> db_evolves d d') \<Longrightarrow> db_evolves d (snd (run_tx flt body d))"
  using run_tx_snd [of flt body d] by (metis db_evolves_refl)

section \<open>Lookups\<close>

named_theorems db_lookup \<open>what the primitives do to the rows of executions and attempts\<close>

lemma fetch_exec: "sql_fetch (exec_is part uid) (t_exec d) = exec_at d part uid"
  unfolding sql_fetch_def exec_at_def row_at_def
  by (rule arg_cong [where f = "\<lambda>P. List.find P (t_exec d)"]) (auto simp: exec_is_def exec_key_def)

lemma fetch_attempt: "sql_fetch (attempt_is part uid idx) (t_attempt d) = attempt_at d part uid idx"
  unfolding sql_fetch_def attempt_at_def row_at_def
  by (rule arg_cong [where f = "\<lambda>P. List.find P (t_attempt d)"])
    (auto simp: attempt_is_def attempt_key_def)

lemma exec_at_key: "exec_at d part uid = Some r \<Longrightarrow> r \<in> set (t_exec d) \<and> exec_is part uid r"
  using row_at_Some unfolding exec_at_def exec_is_def exec_key_def by fastforce

lemma attempt_at_key:
  "attempt_at d part uid idx = Some r \<Longrightarrow> r \<in> set (t_attempt d) \<and> attempt_is part uid idx r"
  using row_at_Some unfolding attempt_at_def attempt_is_def attempt_key_def by fastforce

lemma exec_at_distinct:
  "db_wf d \<Longrightarrow> r \<in> set (t_exec d) \<Longrightarrow> exec_at d (ec_partition_key r) (ec_execution_id r) = Some r"
  using row_at_distinct [of exec_key "t_exec d" r] by (simp add: db_wf_def exec_at_def exec_key_def)

lemma attempt_at_distinct:
  "db_wf d \<Longrightarrow> r \<in> set (t_attempt d) \<Longrightarrow>
   attempt_at d (at_partition_key r) (at_execution_id r) (at_attempt_index r) = Some r"
  using row_at_distinct [of attempt_key "t_attempt d" r]
  by (simp add: db_wf_def attempt_at_def attempt_key_def)

lemma exec_at_update_exec [db_lookup]:
  assumes "\<And>r. exec_key (f r) = exec_key r"
  shows "exec_at (update_exec part uid f d) p u =
    (if p = part \<and> u = uid then map_option f (exec_at d p u) else exec_at d p u)"
  using row_at_update [where key = exec_key and f = f, OF assms, of "(p, u)" "exec_is part uid" "t_exec d"] exec_at_key [of d p u]
  by (cases "exec_at d p u") (auto simp: exec_at_def update_exec_def exec_is_def)

lemma attempt_at_update_attempt [db_lookup]:
  assumes "\<And>r. attempt_key (f r) = attempt_key r"
  shows "attempt_at (update_attempt part uid idx f d) p u i =
    (if p = part \<and> u = uid \<and> i = idx then map_option f (attempt_at d p u i) else attempt_at d p u i)"
  using row_at_update [where key = attempt_key and f = f, OF assms, of "(p, u, i)" "attempt_is part uid idx" "t_attempt d"]
    attempt_at_key [of d p u i]
  by (cases "attempt_at d p u i") (auto simp: attempt_at_def update_attempt_def attempt_is_def)

lemma try_update_exec_at:
  assumes "try_update_exec part uid f d = Inr d'" "\<And>r r'. f r = Inr r' \<Longrightarrow> exec_key r' = exec_key r"
  shows "if p = part \<and> u = uid
    then (case exec_at d p u of None \<Rightarrow> exec_at d' p u = None
          | Some r \<Rightarrow> \<exists>r'. exec_at d' p u = Some r' \<and> f r = Inr r')
    else exec_at d' p u = exec_at d p u"
proof -
  obtain t where t: "sql_try_update (exec_is part uid) f (t_exec d) = Inr t" "d' = d\<lparr>t_exec := t\<rparr>"
    using assms(1)
    by (cases "sql_try_update (exec_is part uid) f (t_exec d)") (auto simp: try_update_exec_def)
  show ?thesis
    using try_update_row_at [where key = exec_key and k = "(p, u)", OF t(1) assms(2)] exec_at_key [of d p u] t(2)
    by (auto simp: exec_at_def exec_is_def split: option.splits)
qed

lemma try_update_attempt_at:
  assumes "try_update_attempt part uid idx f d = Inr d'"
    "\<And>r r'. f r = Inr r' \<Longrightarrow> attempt_key r' = attempt_key r"
  shows "if p = part \<and> u = uid \<and> i = idx
    then (case attempt_at d p u i of None \<Rightarrow> attempt_at d' p u i = None
          | Some r \<Rightarrow> \<exists>r'. attempt_at d' p u i = Some r' \<and> f r = Inr r')
    else attempt_at d' p u i = attempt_at d p u i"
proof -
  obtain t where t: "sql_try_update (attempt_is part uid idx) f (t_attempt d) = Inr t"
    "d' = d\<lparr>t_attempt := t\<rparr>"
    using assms(1)
    by (cases "sql_try_update (attempt_is part uid idx) f (t_attempt d)")
      (auto simp: try_update_attempt_def)
  show ?thesis
    using try_update_row_at [where key = attempt_key and k = "(p, u, i)", OF t(1) assms(2)] attempt_at_key [of d p u i] t(2)
    by (auto simp: attempt_at_def attempt_is_def split: option.splits)
qed

text \<open>The tables that a primitive leaves alone.\<close>

lemma update_exec_tables [db_lookup]:
  "t_attempt (update_exec part uid f d) = t_attempt d"
  "t_completion (update_exec part uid f d) = t_completion d"
  "t_edge (update_exec part uid f d) = t_edge d"
  "t_edge_group (update_exec part uid f d) = t_edge_group d"
  "t_pending_cancel (update_exec part uid f d) = t_pending_cancel d"
  "next_completion_id (update_exec part uid f d) = next_completion_id d"
  by (simp_all add: update_exec_def)

lemma update_attempt_tables [db_lookup]:
  "t_exec (update_attempt part uid idx f d) = t_exec d"
  "t_completion (update_attempt part uid idx f d) = t_completion d"
  "t_edge (update_attempt part uid idx f d) = t_edge d"
  "t_edge_group (update_attempt part uid idx f d) = t_edge_group d"
  "t_pending_cancel (update_attempt part uid idx f d) = t_pending_cancel d"
  "next_completion_id (update_attempt part uid idx f d) = next_completion_id d"
  by (simp_all add: update_attempt_def)

lemma emit_tables [db_lookup]:
  "t_exec (emit E part uid l ev at d) = t_exec d"
  "t_attempt (emit E part uid l ev at d) = t_attempt d"
  "t_completion (emit E part uid l ev at d) = t_completion d"
  "t_edge (emit E part uid l ev at d) = t_edge d"
  "t_edge_group (emit E part uid l ev at d) = t_edge_group d"
  "t_pending_cancel (emit E part uid l ev at d) = t_pending_cancel d"
  "next_completion_id (emit E part uid l ev at d) = next_completion_id d"
  by (simp_all add: emit_def Let_def)

lemma insert_completion_tables [db_lookup]:
  "t_exec (insert_completion part uid out now d) = t_exec d"
  "t_attempt (insert_completion part uid out now d) = t_attempt d"
  "t_edge (insert_completion part uid out now d) = t_edge d"
  "t_edge_group (insert_completion part uid out now d) = t_edge_group d"
  "t_pending_cancel (insert_completion part uid out now d) = t_pending_cancel d"
  by (simp_all add: insert_completion_def Let_def)

lemma at_other_tables [db_lookup]:
  "exec_at (update_attempt part uid idx g d) p u = exec_at d p u"
  "exec_at (emit E part uid l ev at d) p u = exec_at d p u"
  "exec_at (insert_completion part uid out now d) p u = exec_at d p u"
  "attempt_at (update_exec part uid f d) p u i = attempt_at d p u i"
  "attempt_at (emit E part uid l ev at d) p u i = attempt_at d p u i"
  "attempt_at (insert_completion part uid out now d) p u i = attempt_at d p u i"
  by (simp_all add: exec_at_def attempt_at_def db_lookup)

text \<open>
  The change from one database to the next concerns the rows of one execution only, apart from the
  two outboxes.
\<close>

definition touches_only :: "int \<Rightarrow> uuid \<Rightarrow> db \<Rightarrow> db \<Rightarrow> bool" where
  "touches_only part uid d d' \<longleftrightarrow>
     (\<forall>p u. (p, u) \<noteq> (part, uid) \<longrightarrow> exec_at d' p u = exec_at d p u) \<and>
     (\<forall>p u i. (p, u) \<noteq> (part, uid) \<longrightarrow> attempt_at d' p u i = attempt_at d p u i) \<and>
     t_edge d' = t_edge d \<and> t_edge_group d' = t_edge_group d \<and>
     t_pending_cancel d' = t_pending_cancel d"

lemma touches_only_refl [simp]: "touches_only part uid d d"
  by (simp add: touches_only_def)

lemma touches_only_trans:
  "touches_only part uid d e \<Longrightarrow> touches_only part uid e f \<Longrightarrow> touches_only part uid d f"
  by (simp add: touches_only_def)

section \<open>Composing statements\<close>

text \<open>The rules by which the proofs follow a sequence of statements, from the last one back.\<close>

lemmas evolves_then =
  db_evolves_trans [OF _ evolves_update_exec] db_evolves_trans [OF _ evolves_update_attempt]
  db_evolves_trans [OF _ evolves_emit] db_evolves_trans [OF _ evolves_insert_completion]

lemmas evolves_try =
  db_evolves_trans [OF _ evolves_try_update_exec] db_evolves_trans [OF _ evolves_try_update_attempt]

lemma touches_then:
  "touches_only part uid d e \<Longrightarrow> (\<And>r. exec_key (f r) = exec_key r) \<Longrightarrow>
   touches_only part uid d (update_exec part uid f e)"
  "touches_only part uid d e \<Longrightarrow> (\<And>r. attempt_key (g r) = attempt_key r) \<Longrightarrow>
   touches_only part uid d (update_attempt part uid idx g e)"
  "touches_only part uid d e \<Longrightarrow> touches_only part uid d (emit E p u l ev at e)"
  "touches_only part uid d e \<Longrightarrow> touches_only part uid d (insert_completion p u out now e)"
  by (auto simp: touches_only_def db_lookup)

lemma try_update_exec_tables:
  assumes "try_update_exec part uid f d = Inr d'"
  shows "t_attempt d' = t_attempt d" "t_edge d' = t_edge d" "t_edge_group d' = t_edge_group d"
    "t_pending_cancel d' = t_pending_cancel d" "t_completion d' = t_completion d"
  using assms
  by (cases "sql_try_update (exec_is part uid) f (t_exec d)"; auto simp: try_update_exec_def)+

lemma try_update_attempt_tables:
  assumes "try_update_attempt part uid idx f d = Inr d'"
  shows "t_exec d' = t_exec d" "t_edge d' = t_edge d" "t_edge_group d' = t_edge_group d"
    "t_pending_cancel d' = t_pending_cancel d" "t_completion d' = t_completion d"
  using assms
  by (cases "sql_try_update (attempt_is part uid idx) f (t_attempt d)";
      auto simp: try_update_attempt_def)+

lemma touches_try_exec:
  assumes "touches_only part uid d e" "try_update_exec part uid f e = Inr e'"
    "\<And>r r'. f r = Inr r' \<Longrightarrow> exec_key r' = exec_key r"
  shows "touches_only part uid d e'"
proof -
  have "exec_at e' p u = exec_at e p u" if "(p, u) \<noteq> (part, uid)" for p u
    using try_update_exec_at [OF assms(2,3), of p u] that by auto
  with assms(1) try_update_exec_tables [OF assms(2)] show ?thesis
    by (simp add: touches_only_def attempt_at_def)
qed

lemma touches_try_attempt:
  assumes "touches_only part uid d e" "try_update_attempt part uid idx f e = Inr e'"
    "\<And>r r'. f r = Inr r' \<Longrightarrow> attempt_key r' = attempt_key r"
  shows "touches_only part uid d e'"
proof -
  have "attempt_at e' p u i = attempt_at e p u i" if "(p, u) \<noteq> (part, uid)" for p u i
    using try_update_attempt_at [OF assms(2,3), of p u i] that by auto
  with assms(1) try_update_attempt_tables [OF assms(2)] show ?thesis
    by (simp add: touches_only_def exec_at_def)
qed

definition same_epochs :: "int \<Rightarrow> uuid \<Rightarrow> db \<Rightarrow> db \<Rightarrow> bool" where
  "same_epochs part uid d d' \<longleftrightarrow>
     (\<forall>i. map_option at_lease_epoch (attempt_at d' part uid i) =
          map_option at_lease_epoch (attempt_at d part uid i))"

lemma same_epochs_refl [simp]: "same_epochs part uid d d"
  by (simp add: same_epochs_def)

lemma epochs_then:
  "same_epochs part uid d e \<Longrightarrow> same_epochs part uid d (update_exec p u f e)"
  "same_epochs part uid d e \<Longrightarrow> (\<And>r. attempt_key (g r) = attempt_key r) \<Longrightarrow>
   (\<And>r. at_lease_epoch (g r) = at_lease_epoch r) \<Longrightarrow>
   same_epochs part uid d (update_attempt p u idx g e)"
  "same_epochs part uid d e \<Longrightarrow> same_epochs part uid d (emit E p u l ev at e)"
  "same_epochs part uid d e \<Longrightarrow> same_epochs part uid d (insert_completion p u out now e)"
  by (auto simp: same_epochs_def db_lookup option.map_comp comp_def)

lemma epochs_try:
  "same_epochs part uid d e \<Longrightarrow> try_update_exec p u h e = Inr e' \<Longrightarrow> same_epochs part uid d e'"
  using try_update_exec_tables(1) by (auto simp: same_epochs_def attempt_at_def)

section \<open>Completion events\<close>

definition completion_row :: "db \<Rightarrow> string \<Rightarrow> int \<Rightarrow> exec_core \<Rightarrow> completion_event" where
  "completion_row d outcome now r =
     \<lparr>ce_partition_key = ec_partition_key r, ce_event_id = next_completion_id d,
      ce_execution_id = ec_execution_id r, ce_flow_id = ec_flow_id r, ce_outcome = outcome,
      ce_namespace = None, ce_instance_tag = None, ce_occurred_at_ms = now,
      ce_committed_at_ms = now, ce_dispatched_at_ms = None\<rparr>"

lemma filter_key_unique:
  "distinct (map key t) \<Longrightarrow> row_at key k t = Some r \<Longrightarrow> filter (\<lambda>x. key x = k) t = [r]"
proof (induction t)
  case (Cons x t)
  then show ?case
    by (cases "key x = k") (auto simp: row_at_def filter_empty_conv image_iff)
qed (simp add: row_at_def)

lemma exec_is_key: "exec_is part uid = (\<lambda>x. exec_key x = (part, uid))"
  by (auto simp: exec_is_def exec_key_def)

lemma select_exec_unique:
  "db_wf d \<Longrightarrow> exec_at d part uid = Some r \<Longrightarrow> sql_select (exec_is part uid) (t_exec d) = [r]"
  using filter_key_unique [of exec_key "t_exec d" "(part, uid)" r]
  by (simp add: db_wf_def sql_select_def exec_at_def exec_is_key)

lemma insert_completion_row:
  "db_wf d \<Longrightarrow> exec_at d part uid = Some r \<Longrightarrow>
   t_completion (insert_completion part uid outcome now d) =
     t_completion d @ [completion_row d outcome now r]"
  by (simp add: insert_completion_def select_exec_unique completion_row_def Let_def)

lemma evolves_wf: "db_evolves d d' \<Longrightarrow> db_wf d \<Longrightarrow> db_wf d'"
  by (simp add: db_evolves_def)

lemma try_update_ok:
  "(\<And>r. r \<in> set t \<Longrightarrow> P r \<Longrightarrow> \<exists>r'. f r = Inr r') \<Longrightarrow> \<exists>t'. sql_try_update P f t = Inr t'"
proof (induction t)
  case (Cons r t)
  then obtain t' where "sql_try_update P f t = Inr t'" by auto
  moreover have "\<exists>r'. (if P r then f r else Inr r) = Inr r'" using Cons.prems [of r] by auto
  ultimately show ?case by auto
qed simp

lemma try_update_exec_ok:
  assumes "db_wf d" "exec_at d part uid = Some r" "f r = Inr r'"
  shows "\<exists>d'. try_update_exec part uid f d = Inr d'"
proof -
  have "x = r" if "x \<in> set (t_exec d)" "exec_is part uid x" for x
    using exec_at_distinct [OF assms(1) that(1)] that(2) assms(2) by (auto simp: exec_is_def)
  then obtain t where "sql_try_update (exec_is part uid) f (t_exec d) = Inr t"
    using try_update_ok [of "t_exec d" "exec_is part uid" f] assms(3) by blast
  then show ?thesis by (simp add: try_update_exec_def)
qed

lemma try_update_attempt_ok:
  assumes "db_wf d" "attempt_at d part uid idx = Some r" "f r = Inr r'"
  shows "\<exists>d'. try_update_attempt part uid idx f d = Inr d'"
proof -
  have "x = r" if "x \<in> set (t_attempt d)" "attempt_is part uid idx x" for x
    using attempt_at_distinct [OF assms(1) that(1)] that(2) assms(2) by (auto simp: attempt_is_def)
  then obtain t where "sql_try_update (attempt_is part uid idx) f (t_attempt d) = Inr t"
    using try_update_ok [of "t_attempt d" "attempt_is part uid idx" f] assms(3) by blast
  then show ?thesis by (simp add: try_update_attempt_def)
qed

end
