(* ===== verification/Pg_Attempt.thy ===== *)
theory Pg_Attempt
  imports Pg_Schema Handle_Codec Caps
begin

text \<open>
  The attempt lifecycle of the Postgres backend: \<open>ff-backend-postgres/src/attempt.rs\<close>. Claiming
  hands out a handle whose lease epoch fences every later operation of that worker. Each operation
  takes the environment of the call, its arguments and the database, and returns its result with
  the database it leaves behind.
\<close>

section \<open>Helpers\<close>

definition invalid_input :: "string \<Rightarrow> pg_error" where
  "invalid_input detail = Validation VK_InvalidInput detail"

definition split_exec_id :: "ext_lib \<Rightarrow> execution_id \<Rightarrow> pg_error + (int \<times> uuid)" where
  "split_exec_id X s =
     rbind (ok_or (strip_prefix ''{fp:'' s)
       (invalid_input (''execution_id missing `{fp:` prefix: '' @ s))) (\<lambda>rest.
     rbind (ok_or (find_sub ''}:'' rest)
       (invalid_input (''execution_id missing `}:`: '' @ s))) (\<lambda>close.
     rbind (ok_or (parse_i16 (take close rest))
       (invalid_input (''execution_id partition index not u16: '' @ s))) (\<lambda>part.
     rbind (ok_or (uuid_parse_str X (drop (close + 2) rest))
       (invalid_input (''execution_id UUID invalid: '' @ s))) (\<lambda>uid.
     Inr (part, uid)))))"

fun backend_tag_debug :: "backend_tag \<Rightarrow> string" where
  "backend_tag_debug BT_Valkey = ''Valkey''"
| "backend_tag_debug BT_Postgres = ''Postgres''"
| "backend_tag_debug BT_Sqlite = ''Sqlite''"

definition decode_handle :: "ext_lib \<Rightarrow> handle \<Rightarrow> pg_error + handle_payload" where
  "decode_handle X h =
     (if h_backend h \<noteq> BT_Postgres
      then Inl (Validation VK_Corruption
        (''handle minted by '' @ backend_tag_debug (h_backend h) @ '' passed to Postgres backend''))
      else rbind (map_err decode_error_to_engine (decode X (h_opaque h))) (\<lambda>decoded.
        if dh_tag decoded \<noteq> BT_Postgres
        then Inl (Validation VK_Corruption
          (''inner handle tag mismatch: '' @ backend_tag_debug (dh_tag decoded)))
        else Inr (dh_payload decoded)))"

definition mint_handle :: "ext_lib \<Rightarrow> handle_payload \<Rightarrow> handle_kind \<Rightarrow> handle" where
  "mint_handle X payload kind =
     \<lparr>h_backend = BT_Postgres, h_kind = kind, h_opaque = encode X BT_Postgres payload\<rparr>"

section \<open>Claiming\<close>

record claim_policy =
  cp_max_wait :: "nat option"
  cp_worker_id :: string
  cp_worker_instance_id :: string
  cp_lease_ttl_ms :: u32

text \<open>The row that the claim of a partition selects, and the statements that lease it.\<close>

definition claim_candidate :: "pg_env \<Rightarrow> int \<Rightarrow> lane_id \<Rightarrow> db \<Rightarrow> exec_core option" where
  "claim_candidate E part lane d =
     sql_first_by (\<lambda>r. (- ec_priority r, ec_created_at_ms r))
       (\<lambda>r. ec_partition_key r = part \<and> ec_lane_id r = lane \<and>
          ec_lifecycle_phase r = ''runnable'' \<and> ec_eligibility_state r = ''eligible_now'' \<and>
          \<not> pe_locked E part (ec_execution_id r))
       (t_exec d)"

definition new_attempt :: "pg_env \<Rightarrow> int \<Rightarrow> claim_policy \<Rightarrow> exec_core \<Rightarrow> attempt" where
  "new_attempt E part policy r =
     (let now = pe_now E;
          expires = saturating_add now (int (unat (cp_lease_ttl_ms policy)))
      in
     \<lparr>at_partition_key = part, at_execution_id = ec_execution_id r,
      at_attempt_index = ec_attempt_index r,
      at_worker_id = Some (cp_worker_id policy),
      at_worker_instance_id = Some (cp_worker_instance_id policy), at_lease_epoch = 1,
      at_lease_expires_at_ms = Some expires, at_started_at_ms = Some now, at_terminal_at_ms = None,
      at_outcome = None, at_usage = None, at_policy = None, at_raw_fields = JObj []\<rparr>)"

definition conflict_update :: "attempt \<Rightarrow> attempt \<Rightarrow> sqlx_error + attempt" where
  "conflict_update excluded r =
     rbind (int8_add (at_lease_epoch r) 1) (\<lambda>ep.
     Inr (r\<lparr>at_worker_id := at_worker_id excluded,
            at_worker_instance_id := at_worker_instance_id excluded,
            at_lease_epoch := ep,
            at_lease_expires_at_ms := at_lease_expires_at_ms excluded,
            at_started_at_ms := at_started_at_ms excluded,
            at_outcome := None\<rparr>))"

definition activate_exec :: "int \<Rightarrow> exec_core \<Rightarrow> exec_core" where
  "activate_exec now r =
     r\<lparr>ec_lifecycle_phase := ''active'', ec_ownership_state := ''leased'',
       ec_eligibility_state := ''not_applicable'', ec_public_state := ''running'',
       ec_attempt_state := ''running_attempt'',
       ec_started_at_ms := (case ec_started_at_ms r of None \<Rightarrow> Some now | Some s \<Rightarrow> Some s)\<rparr>"

text \<open>
  The transaction of \<open>try_claim_in_partition\<close>: no candidate, or a candidate whose capabilities the
  worker lacks, is a rollback and no handle. Otherwise the claimed id, attempt index and epoch.
\<close>

definition claim_tx ::
  "pg_env \<Rightarrow> int \<Rightarrow> lane_id \<Rightarrow> capability_set \<Rightarrow> claim_policy \<Rightarrow> db \<Rightarrow>
   pg_error + ((uuid \<times> int \<times> int) option \<times> db)" where
  "claim_tx E part lane caps policy d =
     (case claim_candidate E part lane d of
        None \<Rightarrow> Inr (None, d)
      | Some r \<Rightarrow>
          if \<not> caps_matches (requirement_new (ec_required_capabilities r)) caps then Inr (None, d)
          else
            let uid = ec_execution_id r; idx = ec_attempt_index r; now = pe_now E;
                fresh = new_attempt E part policy r
            in rbind (map_err map_sqlx_error
                 (sql_upsert attempt_key fresh (conflict_update fresh) (t_attempt d))) (\<lambda>t.
               let d1 = d\<lparr>t_attempt := t\<rparr> in
               rbind (ok_or (sql_fetch (attempt_is part uid idx) (t_attempt d1))
                 (map_sqlx_error (Sqlx_Other ''RowNotFound''))) (\<lambda>a.
               Inr (Some (uid, idx, at_lease_epoch a),
                    emit E part uid None EVENT_ACQUIRED now
                      (update_exec part uid (activate_exec now) d1)))))"

definition claim_handle ::
  "pg_env \<Rightarrow> int \<Rightarrow> lane_id \<Rightarrow> claim_policy \<Rightarrow> uuid \<times> int \<times> int \<Rightarrow> pg_error + handle" where
  "claim_handle E part lane policy claimed =
     (case claimed of (uid, idx, epoch) \<Rightarrow>
        rbind (map_err (\<lambda>e. invalid_input (''reassembling exec id: '' @ execution_id_error_text e))
          (execution_id_parse (pe_lib E)
            (''{fp:'' @ show_int part @ ''}:'' @ uuid_to_string (pe_lib E) uid))) (\<lambda>eid.
        Inr (mint_handle (pe_lib E)
          \<lparr>hp_execution_id = eid, hp_attempt_index = of_int (max idx 0),
           hp_attempt_id = pe_fresh E 0, hp_lease_id = pe_fresh E 1,
           hp_lease_epoch = of_nat (u64_of_i64_or 1 epoch),
           hp_lease_ttl_ms = of_nat (unat (cp_lease_ttl_ms policy)), hp_lane_id = lane,
           hp_worker_instance_id = cp_worker_instance_id policy\<rparr> HK_Fresh)))"

definition try_claim_in_partition ::
  "pg_env \<Rightarrow> int \<Rightarrow> lane_id \<Rightarrow> capability_set \<Rightarrow> claim_policy \<Rightarrow> db \<Rightarrow>
   (pg_error + handle option) \<times> db" where
  "try_claim_in_partition E part lane caps policy d =
     (case run_tx (pe_fault E) (claim_tx E part lane caps policy) d of
        (Inl e, d') \<Rightarrow> (Inl e, d')
      | (Inr None, d') \<Rightarrow> (Inr None, d')
      | (Inr (Some c), d') \<Rightarrow> 
          (rbind (claim_handle E part lane policy c) (\<lambda>h. Inr (Some h)), d'))"

text \<open>The loop over the partitions, each with the environment its own transaction finds.\<close>

fun claim_loop ::
  "(int \<Rightarrow> pg_env) \<Rightarrow> int list \<Rightarrow> lane_id \<Rightarrow> capability_set \<Rightarrow> claim_policy \<Rightarrow> db \<Rightarrow>
   (pg_error + handle option) \<times> db" where
  "claim_loop env [] lane caps policy d = (Inr None, d)"
| "claim_loop env (part # parts) lane caps policy d =
     (case try_claim_in_partition (env part) part lane caps policy d of
        (Inl e, d') \<Rightarrow> (Inl e, d')
      | (Inr (Some h), d') \<Rightarrow> (Inr (Some h), d')
      | (Inr None, d') \<Rightarrow> claim_loop env parts lane caps policy d')"

definition claim ::
  "(int \<Rightarrow> pg_env) \<Rightarrow> lane_id \<Rightarrow> capability_set \<Rightarrow> claim_policy \<Rightarrow> db \<Rightarrow>
   (pg_error + handle option) \<times> db" where
  "claim env lane caps policy d = claim_loop env [0..255] lane caps policy d"

section \<open>Resuming\<close>

record resume_grant =
  rg_execution_id :: execution_id
  rg_partition_key :: string
  rg_grant_key :: string
  rg_expires_at_ms :: u64
  rg_lane_id :: lane_id

record resume_token =
  rt_grant :: resume_grant
  rt_worker_id :: string
  rt_worker_instance_id :: string
  rt_lease_ttl_ms :: u32

definition latest_attempt :: "int \<Rightarrow> uuid \<Rightarrow> db \<Rightarrow> attempt option" where
  "latest_attempt part uid d =
     sql_first_by (\<lambda>r. - at_attempt_index r)
       (\<lambda>r. at_partition_key r = part \<and> at_execution_id r = uid) (t_attempt d)"

definition lease_live :: "int \<Rightarrow> attempt \<Rightarrow> bool" where
  "lease_live now a = (case at_lease_expires_at_ms a of Some ex \<Rightarrow> ex > now | None \<Rightarrow> False)"

definition resume_attempt :: "resume_token \<Rightarrow> int \<Rightarrow> attempt \<Rightarrow> sqlx_error + attempt" where
  "resume_attempt token now r =
     rbind (int8_add (at_lease_epoch r) 1) (\<lambda>ep.
     Inr (r\<lparr>at_worker_id := Some (rt_worker_id token),
            at_worker_instance_id := Some (rt_worker_instance_id token), at_lease_epoch := ep,
            at_lease_expires_at_ms := Some (saturating_add now (int (unat (rt_lease_ttl_ms token)))),
            at_started_at_ms := Some now, at_outcome := None\<rparr>))"

definition reactivate_exec :: "exec_core \<Rightarrow> exec_core" where
  "reactivate_exec r =
     r\<lparr>ec_lifecycle_phase := ''active'', ec_ownership_state := ''leased'',
       ec_eligibility_state := ''not_applicable'', ec_attempt_state := ''running_attempt''\<rparr>"

definition resume_tx ::
  "pg_env \<Rightarrow> resume_token \<Rightarrow> int \<Rightarrow> uuid \<Rightarrow> db \<Rightarrow> pg_error + ((int \<times> int) option \<times> db)" where
  "resume_tx E token part uid d =
     rbind (ok_or (latest_attempt part uid d) (NotFound ''attempt'')) (\<lambda>a.
     let now = pe_now E; idx = at_attempt_index a in
     if lease_live now a then Inr (None, d)
     else rbind (try_update_attempt part uid idx (resume_attempt token now) d) (\<lambda>d1.
       Inr (Some (idx, at_lease_epoch a),
            emit E part uid None EVENT_RECLAIMED now (update_exec part uid reactivate_exec d1))))"

definition resume_handle :: "pg_env \<Rightarrow> resume_token \<Rightarrow> int \<times> int \<Rightarrow> handle" where
  "resume_handle E token resumed =
     (case resumed of (idx, current_epoch) \<Rightarrow>
        mint_handle (pe_lib E)
          \<lparr>hp_execution_id = rg_execution_id (rt_grant token), hp_attempt_index = of_int (max idx 0),
           hp_attempt_id = pe_fresh E 0, hp_lease_id = pe_fresh E 1,
           hp_lease_epoch = of_nat (u64_of_i64_or 0 (saturating_add current_epoch 1)),
           hp_lease_ttl_ms = of_nat (unat (rt_lease_ttl_ms token)),
           hp_lane_id = rg_lane_id (rt_grant token),
           hp_worker_instance_id = rt_worker_instance_id token\<rparr> HK_Resumed)"

definition claim_from_resume_grant ::
  "pg_env \<Rightarrow> resume_token \<Rightarrow> db \<Rightarrow> (pg_error + handle option) \<times> db" where
  "claim_from_resume_grant E token d =
     (case split_exec_id (pe_lib E) (rg_execution_id (rt_grant token)) of
        Inl e \<Rightarrow> (Inl e, d)
      | Inr (part, uid) \<Rightarrow>
          (case run_tx (pe_fault E) (resume_tx E token part uid) d of
             (Inl e, d') \<Rightarrow> (Inl e, d')
           | (Inr None, d') \<Rightarrow> (Inr None, d')
           | (Inr (Some c), d') \<Rightarrow> (Inr (Some (resume_handle E token c)), d')))"

section \<open>Fenced operations\<close>

definition fence_check :: "int \<Rightarrow> uuid \<Rightarrow> int \<Rightarrow> u64 \<Rightarrow> db \<Rightarrow> pg_error + unit" where
  "fence_check part uid idx expected_epoch d =
     rbind (ok_or (sql_fetch (attempt_is part uid idx) (t_attempt d)) (NotFound ''attempt'')) (\<lambda>a.
     if u64_of_i64_or 0 (at_lease_epoch a) \<noteq> unat expected_epoch
     then Inl (Contention CK_LeaseConflict) else Inr ())"

text \<open>
  The shape of every operation on a handle: decode it, split its execution id, and in one
  transaction check the fence and run the statements of the operation.
\<close>

type_synonym 'a fenced_body = "pg_env \<Rightarrow> handle_payload \<Rightarrow> int \<Rightarrow> uuid \<Rightarrow> int \<Rightarrow> db \<Rightarrow> pg_error + ('a \<times> db)"

definition handle_target :: "ext_lib \<Rightarrow> handle \<Rightarrow> pg_error + (handle_payload \<times> int \<times> uuid)" where
  "handle_target X h =
     rbind (decode_handle X h) (\<lambda>p.
     rbind (split_exec_id X (hp_execution_id p)) (\<lambda>(part, uid).
     Inr (p, part, uid)))"

definition fenced_tx :: "'a fenced_body \<Rightarrow> pg_env \<Rightarrow> handle \<Rightarrow> db \<Rightarrow> (pg_error + 'a) \<times> db" where
  "fenced_tx body E h d =
     (case handle_target (pe_lib E) h of
        Inl e \<Rightarrow> (Inl e, d)
      | Inr (p, part, uid) \<Rightarrow>
           let idx = i32_of_u32_or_0 (hp_attempt_index p) in
           run_tx (pe_fault E) (\<lambda>d.
             rbind (fence_check part uid idx (hp_lease_epoch p) d) (\<lambda>_. body E p part uid idx d)) d)"

record lease_renewal =
  lr_expires_at_ms :: nat
  lr_lease_epoch :: u64

definition renew_body :: "lease_renewal fenced_body" where
  "renew_body E p part uid idx d =
     (let now = pe_now E;
          new_expires = saturating_add now (i64_of_u64_or_0 (hp_lease_ttl_ms p));
          d1 = update_attempt part uid idx (\<lambda>r. r\<lparr>at_lease_expires_at_ms := Some new_expires\<rparr>) d
      in Inr (\<lparr>lr_expires_at_ms = u64_of_i64_or 0 new_expires, lr_lease_epoch = hp_lease_epoch p\<rparr>,
              emit E part uid None EVENT_RENEWED now d1))"

definition renew :: "pg_env \<Rightarrow> handle \<Rightarrow> db \<Rightarrow> (pg_error + lease_renewal) \<times> db" where
  "renew = fenced_tx renew_body"

definition progress_patch :: "u8 option \<Rightarrow> string option \<Rightarrow> json" where
  "progress_patch percent message =
     JObj ((case percent of None \<Rightarrow> [] | Some p \<Rightarrow> [(''progress_pct'', JNum (int (unat p)))]) @
           (case message of None \<Rightarrow> [] | Some m \<Rightarrow> [(''progress_message'', JStr m)]))"

definition progress_body :: "u8 option \<Rightarrow> string option \<Rightarrow> unit fenced_body" where
  "progress_body percent message E p part uid idx d =
     Inr ((), update_exec part uid
       (\<lambda>r. r\<lparr>ec_raw_fields := json_concat (ec_raw_fields r) (progress_patch percent message)\<rparr>) d)"

definition progress ::
  "u8 option \<Rightarrow> string option \<Rightarrow> pg_env \<Rightarrow> handle \<Rightarrow> db \<Rightarrow> (pg_error + unit) \<times> db" where
  "progress percent message = fenced_tx (progress_body percent message)"

text \<open>The two statements that end an attempt and its execution.\<close>

definition end_attempt :: "int option \<Rightarrow> string \<Rightarrow> attempt \<Rightarrow> attempt" where
  "end_attempt terminal_at outcome r =
     r\<lparr>at_terminal_at_ms := (case terminal_at of None \<Rightarrow> at_terminal_at_ms r | t \<Rightarrow> t),
       at_outcome := Some outcome, at_lease_expires_at_ms := None\<rparr>"

definition terminal_exec :: "int \<Rightarrow> exec_core \<Rightarrow> exec_core" where
  "terminal_exec now r =
     r\<lparr>ec_lifecycle_phase := ''terminal'', ec_ownership_state := ''unowned'',
       ec_eligibility_state := ''not_applicable'', ec_attempt_state := ''attempt_terminal'',
       ec_terminal_at_ms := Some now\<rparr>"

definition complete_body :: "u8 list option \<Rightarrow> unit fenced_body" where
  "complete_body payload_bytes E p part uid idx d =
     (let now = pe_now E;
          d1 = update_attempt part uid idx (end_attempt (Some now) ''success'') d;
          d2 = update_exec part uid (\<lambda>r. (terminal_exec now r)\<lparr>ec_result := payload_bytes\<rparr>) d1;
          d3 = insert_completion part uid ''success'' now d2
      in Inr ((), emit E part uid None EVENT_REVOKED now d3))"

definition complete ::
  "u8 list option \<Rightarrow> pg_env \<Rightarrow> handle \<Rightarrow> db \<Rightarrow> (pg_error + unit) \<times> db" where
  "complete payload_bytes = fenced_tx (complete_body payload_bytes)"

datatype failure_class = FC_Transient | FC_Permanent | FC_InfraCrash | FC_Timeout | FC_Cancelled

record failure_reason =
  fr_message :: string
  fr_detail :: "u8 list option"

datatype fail_outcome = RetryScheduled int | TerminalFailed

definition note_failure :: "string \<Rightarrow> exec_core \<Rightarrow> exec_core" where
  "note_failure msg r =
     r\<lparr>ec_raw_fields := json_concat (ec_raw_fields r) (JObj [(''last_failure_message'', JStr msg)])\<rparr>"

definition retry_exec :: "exec_core \<Rightarrow> sqlx_error + exec_core" where
  "retry_exec r =
     rbind (int4_add (ec_attempt_index r) 1) (\<lambda>i.
     Inr (r\<lparr>ec_lifecycle_phase := ''runnable'', ec_ownership_state := ''unowned'',
            ec_eligibility_state := ''eligible_now'', ec_attempt_state := ''pending_retry_attempt'',
            ec_attempt_index := i\<rparr>))"

definition fail_body :: "failure_reason \<Rightarrow> failure_class \<Rightarrow> fail_outcome fenced_body" where
  "fail_body reason classification E p part uid idx d =
     (let now = pe_now E in
      if classification \<in> {FC_Transient, FC_InfraCrash} then
        let d1 = update_attempt part uid idx (end_attempt (Some now) ''retry'') d in
        rbind (try_update_exec part uid
          (\<lambda>r. rbind (retry_exec r) (\<lambda>r'. Inr (note_failure (fr_message reason) r'))) d1) (\<lambda>d2.
        Inr (RetryScheduled now, emit E part uid None EVENT_REVOKED now d2))
      else
        let d1 = update_attempt part uid idx (end_attempt (Some now) ''failed'') d;
            d2 = update_exec part uid (\<lambda>r. note_failure (fr_message reason) (terminal_exec now r)) d1;
            d3 = insert_completion part uid ''failed'' now d2
        in Inr (TerminalFailed, emit E part uid None EVENT_REVOKED now d3))"

definition fail ::
  "failure_reason \<Rightarrow> failure_class \<Rightarrow> pg_env \<Rightarrow> handle \<Rightarrow> db \<Rightarrow> (pg_error + fail_outcome) \<times> db" where
  "fail reason classification = fenced_tx (fail_body reason classification)"

definition delay_body :: "int \<Rightarrow> unit fenced_body" where
  "delay_body delay_until E p part uid idx d =
     (let d1 = update_attempt part uid idx (end_attempt None ''interrupted'') d;
          d2 = update_exec part uid (\<lambda>r.
                 r\<lparr>ec_lifecycle_phase := ''runnable'', ec_ownership_state := ''unowned'',
                   ec_eligibility_state := ''not_eligible_until_time'',
                   ec_attempt_state := ''attempt_interrupted'',
                   ec_deadline_at_ms := Some delay_until\<rparr>) d1
      in Inr ((), emit E part uid None EVENT_REVOKED (pe_now E) d2))"

definition delay :: "int \<Rightarrow> pg_env \<Rightarrow> handle \<Rightarrow> db \<Rightarrow> (pg_error + unit) \<times> db" where
  "delay delay_until = fenced_tx (delay_body delay_until)"

definition wait_children_body :: "unit fenced_body" where
  "wait_children_body E p part uid idx d =
     (let d1 = update_attempt part uid idx (end_attempt None ''waiting_children'') d;
          d2 = update_exec part uid (\<lambda>r.
                 r\<lparr>ec_lifecycle_phase := ''runnable'', ec_ownership_state := ''unowned'',
                   ec_eligibility_state := ''blocked_by_dependencies'',
                   ec_attempt_state := ''attempt_interrupted'',
                   ec_blocking_reason := Some ''waiting_for_children''\<rparr>) d1
      in Inr ((), emit E part uid None EVENT_REVOKED (pe_now E) d2))"

definition wait_children :: "pg_env \<Rightarrow> handle \<Rightarrow> db \<Rightarrow> (pg_error + unit) \<times> db" where
  "wait_children = fenced_tx wait_children_body"

section \<open>The contract of a fenced operation\<close>

text \<open>
  What the statements behind the fence promise: they evolve the database, touch the rows of the
  handle's execution only, and leave the epoch of the handle's attempt alone.
\<close>

locale fenced_op =
  fixes body :: "'a fenced_body"
  assumes body_evolves: "body E p part uid idx d = Inr (a, d') \<Longrightarrow> db_evolves d d'"
    and body_touches: "body E p part uid idx d = Inr (a, d') \<Longrightarrow> touches_only part uid d d'"
    and body_epoch: "body E p part uid idx d = Inr (a, d') \<Longrightarrow>
      map_option at_lease_epoch (attempt_at d' part uid i) =
      map_option at_lease_epoch (attempt_at d part uid i)"
begin

lemma op_cases:
  assumes "fenced_tx body E h d = (r, d')"
  obtains "d' = d" "\<exists>e. r = Inl e"
  | p part uid a where "handle_target (pe_lib E) h = Inr (p, part, uid)"
      "fence_check part uid (i32_of_u32_or_0 (hp_attempt_index p)) (hp_lease_epoch p) d = Inr ()"
      "body E p part uid (i32_of_u32_or_0 (hp_attempt_index p)) d = Inr (a, d')"
      "r = Inr a \<or> (\<exists>e. r = Inl e)"
  using assms
  by (auto simp: fenced_tx_def run_tx_def Let_def rbind_def
      split: sum.splits prod.splits tx_fault.splits)

lemma op_evolves: "db_evolves d (snd (fenced_tx body E h d))"
  by (cases "fenced_tx body E h d" rule: prod.exhaust) (auto elim: op_cases dest: body_evolves)

lemma op_epoch:
  "fenced_tx body E h d = (r, d') \<Longrightarrow>
   map_option at_lease_epoch (attempt_at d' part uid i) =
   map_option at_lease_epoch (attempt_at d part uid i)"
proof (elim op_cases)
  fix p pt u a
  assume *: "body E p pt u (i32_of_u32_or_0 (hp_attempt_index p)) d = Inr (a, d')"
  show ?thesis
    using body_epoch [OF *, of i] body_touches [OF *]
    by (cases "(part, uid) = (pt, u)") (auto simp: touches_only_def)
qed simp

lemma op_stale:
  assumes "handle_target (pe_lib E) h = Inr (p, part, uid)"
    "fence_check part uid (i32_of_u32_or_0 (hp_attempt_index p)) (hp_lease_epoch p) d = Inl e"
    "pe_fault E = No_fault"
  shows "fenced_tx body E h d = (Inl e, d)"
  using assms by (simp add: fenced_tx_def Let_def)

lemma op_touches:
  "fenced_tx body E h d = (r, d') \<Longrightarrow> handle_target (pe_lib E) h = Inr (p, part, uid) \<Longrightarrow>
   touches_only part uid d d'"
  by (elim op_cases) (auto dest: body_touches)

end

lemma fence_check_eq:
  "fence_check part uid idx ep d =
     (case attempt_at d part uid idx of
        None \<Rightarrow> Inl (NotFound ''attempt'')
      | Some a \<Rightarrow> if u64_of_i64_or 0 (at_lease_epoch a) = unat ep then Inr ()
                  else Inl (Contention CK_LeaseConflict))"
  by (simp add: fence_check_def fetch_attempt split: option.splits)

text \<open>The row changes of the statements, as steps of \<open>attempt_le\<close> and \<open>exec_le\<close>.\<close>

lemmas row_keys = exec_key_def attempt_key_def

lemma end_attempt_keeps [simp]:
  "attempt_key (end_attempt t out r) = attempt_key r"
  "at_lease_epoch (end_attempt t out r) = at_lease_epoch r"
  "out \<in> OUTCOMES \<Longrightarrow> attempt_le r (end_attempt t out r)"
  by (simp_all add: end_attempt_def attempt_le_def attempt_typed_def attempt_key_def)

lemma terminal_exec_keeps [simp]:
  "exec_key (terminal_exec now r) = exec_key r"
  "exec_le r (terminal_exec now r)"
  by (simp_all add: terminal_exec_def exec_le_def exec_typed_def exec_key_def)

lemma note_failure_keeps [simp]:
  "exec_key (note_failure m r) = exec_key r"
  "exec_le r (note_failure m r') = exec_le r r'"
  by (simp_all add: note_failure_def exec_le_def exec_typed_def exec_key_def)

lemma retry_exec_keeps:
  "retry_exec r = Inr r' \<Longrightarrow> exec_key r' = exec_key r \<and> exec_le r r'"
  by (auto simp: retry_exec_def int4_add_def rbind_Inr_iff exec_le_def exec_typed_def exec_key_def split: if_splits)

lemmas statement_rules = evolves_then touches_then epochs_then

lemma fenced_opI:
  assumes "\<And>E p part uid idx d a d'. body E p part uid idx d = Inr (a, d') \<Longrightarrow>
    db_evolves d d' \<and> touches_only part uid d d' \<and> same_epochs part uid d d'"
  shows "fenced_op body"
  using assms by unfold_locales (auto simp: same_epochs_def)

interpretation renew: fenced_op renew_body
  by (rule fenced_opI)
    (auto simp: renew_body_def Let_def attempt_le_def attempt_typed_def attempt_key_def intro!: statement_rules)

interpretation progress: fenced_op "progress_body percent message" for percent message
  by (rule fenced_opI)
    (auto simp: progress_body_def exec_le_def exec_typed_def exec_key_def intro!: statement_rules)

interpretation complete: fenced_op "complete_body payload_bytes" for payload_bytes
  by (rule fenced_opI)
    (auto simp: complete_body_def Let_def intro!: statement_rules,
     auto simp: terminal_exec_def exec_le_def exec_typed_def exec_key_def)

interpretation delay: fenced_op "delay_body delay_until" for delay_until
  by (rule fenced_opI)
    (auto simp: delay_body_def Let_def exec_le_def exec_typed_def exec_key_def intro!: statement_rules)

interpretation wait_children: fenced_op wait_children_body
  by (rule fenced_opI)
    (auto simp: wait_children_body_def Let_def exec_le_def exec_typed_def exec_key_def intro!: statement_rules)

lemma retry_note_keeps:
  "rbind (retry_exec r) (\<lambda>r'. Inr (note_failure m r')) = Inr r2 \<Longrightarrow>
   exec_key r2 = exec_key r \<and> exec_le r r2"
  by (auto simp: rbind_Inr_iff dest: retry_exec_keeps)

lemma fail_body_steps:
  assumes "fail_body reason c E p part uid idx d = Inr (a, d')"
  shows "db_evolves d d' \<and> touches_only part uid d d' \<and> same_epochs part uid d d'"
proof (cases "c \<in> {FC_Transient, FC_InfraCrash}")
  case True
  let ?d1 = "update_attempt part uid idx (end_attempt (Some (pe_now E)) ''retry'') d"
  let ?f = "\<lambda>r. rbind (retry_exec r) (\<lambda>r'. Inr (note_failure (fr_message reason) r'))"
  from assms True obtain d2 where d2: "try_update_exec part uid ?f ?d1 = Inr d2"
    "d' = emit E part uid None EVENT_REVOKED (pe_now E) d2"
    by (auto simp: fail_body_def Let_def rbind_Inr_iff)
  have "db_evolves d d2"
    by (rule evolves_try(1) [OF _ d2(1)]) (auto intro!: statement_rules dest: retry_note_keeps)
  moreover have "touches_only part uid d d2"
    by (rule touches_try_exec [OF _ d2(1)]) (auto intro!: statement_rules dest: retry_note_keeps)
  moreover have "same_epochs part uid d d2"
    by (rule epochs_try [OF _ d2(1)]) (auto intro!: statement_rules)
  ultimately show ?thesis unfolding d2(2) by (auto intro: statement_rules)
next
  case False
  with assms show ?thesis by (auto simp: fail_body_def Let_def intro!: statement_rules)
qed

interpretation fail: fenced_op "fail_body reason classification" for reason classification
  by (rule fenced_opI) (rule fail_body_steps)

section \<open>Claims and the database\<close>

lemma conflict_update_keeps:
  "conflict_update x r = Inr r' \<Longrightarrow> attempt_key r' = attempt_key r \<and> attempt_le r r' \<and>
   at_lease_epoch r' = at_lease_epoch r + 1"
  by (auto simp: conflict_update_def int8_add_def rbind_Inr_iff attempt_le_def attempt_typed_def attempt_key_def
      split: if_splits)

lemma activate_exec_keeps [simp]:
  "exec_key (activate_exec now r) = exec_key r" "exec_le r (activate_exec now r)"
  by (auto simp: activate_exec_def exec_key_def exec_le_def exec_typed_def split: option.splits)

lemma reactivate_exec_keeps [simp]:
  "exec_key (reactivate_exec r) = exec_key r" "exec_le r (reactivate_exec r)"
  by (simp_all add: reactivate_exec_def exec_key_def exec_le_def exec_typed_def)

lemma resume_attempt_keeps:
  "resume_attempt tok now r = Inr r' \<Longrightarrow> attempt_key r' = attempt_key r \<and> attempt_le r r' \<and>
   at_lease_epoch r' = at_lease_epoch r + 1"
  by (auto simp: resume_attempt_def int8_add_def rbind_Inr_iff attempt_le_def attempt_typed_def attempt_key_def
      split: if_splits)

lemma upsert_evolves:
  assumes "sql_upsert attempt_key a (conflict_update a) (t_attempt d) = Inr t"
    and typed: "db_typed d \<Longrightarrow> attempt_typed a"
  shows "db_evolves d (d\<lparr>t_attempt := t\<rparr>)"
proof (cases "attempt_key a \<in> attempt_key ` set (t_attempt d)")
  case True
  with assms have u: "sql_try_update (\<lambda>r. attempt_key r = attempt_key a) (conflict_update a)
      (t_attempt d) = Inr t"
    by (simp add: sql_upsert_def)
  have "map attempt_key t = map attempt_key (t_attempt d)"
    by (rule try_update_keys [OF u]) (auto dest: conflict_update_keeps)
  then show ?thesis
    by (intro evolves_attempt_rows rows_le_try_update [OF u] all_try_update [OF u])
      (auto simp: db_typed_def attempt_le_def dest: conflict_update_keeps)
next
  case False
  with assms show ?thesis
    by (intro evolves_attempt_rows) (auto simp: sql_upsert_def db_typed_def intro!: rows_le_append)
qed

lemma claim_tx_cases:
  assumes "claim_tx E part lane caps policy d = Inr (c, d')"
  obtains "c = None" "d' = d"
  | r t a where "claim_candidate E part lane d = Some r"
      "caps_matches (requirement_new (ec_required_capabilities r)) caps"
      "sql_upsert attempt_key (new_attempt E part policy r)
         (conflict_update (new_attempt E part policy r)) (t_attempt d) = Inr t"
      "attempt_at (d\<lparr>t_attempt := t\<rparr>) part (ec_execution_id r) (ec_attempt_index r) = Some a"
      "c = Some (ec_execution_id r, ec_attempt_index r, at_lease_epoch a)"
      "d' = emit E part (ec_execution_id r) None EVENT_ACQUIRED (pe_now E)
        (update_exec part (ec_execution_id r) (activate_exec (pe_now E)) (d\<lparr>t_attempt := t\<rparr>))"
proof (cases "claim_candidate E part lane d")
  case None
  with assms show ?thesis by (intro that(1)) (simp_all add: claim_tx_def)
next
  case (Some r)
  show ?thesis
  proof (cases "caps_matches (requirement_new (ec_required_capabilities r)) caps")
    case False
    with assms Some show ?thesis by (intro that(1)) (simp_all add: claim_tx_def)
  next
    case True
    with assms Some obtain t a where "sql_upsert attempt_key (new_attempt E part policy r)
         (conflict_update (new_attempt E part policy r)) (t_attempt d) = Inr t"
      "sql_fetch (attempt_is part (ec_execution_id r) (ec_attempt_index r))
         (t_attempt (d\<lparr>t_attempt := t\<rparr>)) = Some a"
      "c = Some (ec_execution_id r, ec_attempt_index r, at_lease_epoch a)"
      "d' = emit E part (ec_execution_id r) None EVENT_ACQUIRED (pe_now E)
        (update_exec part (ec_execution_id r) (activate_exec (pe_now E)) (d\<lparr>t_attempt := t\<rparr>))"
      by (auto simp: claim_tx_def Let_def rbind_Inr_iff map_err_def split: sum.splits)
    with Some True show ?thesis by (intro that(2)) (simp_all only: fetch_attempt)
  qed
qed

lemma new_attempt_typed:
  "claim_candidate E part lane d = Some r \<Longrightarrow> db_typed d \<Longrightarrow> attempt_typed (new_attempt E part policy r)"
  by (auto simp: claim_candidate_def db_typed_def list_all_iff exec_typed_def attempt_typed_def
      new_attempt_def Let_def i64_max_def dest!: first_by_Some)

lemma claim_tx_evolves: "claim_tx E part lane caps policy d = Inr (c, d') \<Longrightarrow> db_evolves d d'"
  by (elim claim_tx_cases) (auto intro!: statement_rules upsert_evolves intro: new_attempt_typed)

lemma try_claim_evolves: "db_evolves d (snd (try_claim_in_partition E part lane caps policy d))"
  using evolves_run_tx [of "claim_tx E part lane caps policy" d "pe_fault E"] claim_tx_evolves
  by (auto simp: try_claim_in_partition_def split: prod.splits sum.splits option.splits)

lemma claim_loop_evolves: "db_evolves d (snd (claim_loop env parts lane caps policy d))"
proof (induction parts arbitrary: d)
  case (Cons part parts)
  from try_claim_evolves [of d "env part" part lane caps policy] Cons.IH show ?case
    by (auto split: prod.splits sum.splits option.splits intro: db_evolves_trans)
qed simp

lemma claim_evolves: "db_evolves d (snd (claim env lane caps policy d))"
  by (simp add: claim_def claim_loop_evolves)

lemma resume_tx_cases:
  assumes "resume_tx E token part uid d = Inr (c, d')"
  obtains a where "latest_attempt part uid d = Some a" "lease_live (pe_now E) a" "c = None" "d' = d"
  | a d1 where "latest_attempt part uid d = Some a" "\<not> lease_live (pe_now E) a"
      "try_update_attempt part uid (at_attempt_index a) (resume_attempt token (pe_now E)) d = Inr d1"
      "c = Some (at_attempt_index a, at_lease_epoch a)"
      "d' = emit E part uid None EVENT_RECLAIMED (pe_now E) (update_exec part uid reactivate_exec d1)"
  using assms by (auto simp: resume_tx_def Let_def rbind_Inr_iff split: if_splits)

lemma resume_tx_evolves:
  assumes "resume_tx E token part uid d = Inr (c, d')"
  shows "db_evolves d d'"
  using assms
proof (cases rule: resume_tx_cases)
  case (2 a d1)
  have "db_evolves d d1"
    by (rule evolves_try_update_attempt [OF 2(3)]) (auto dest: resume_attempt_keeps)
  with 2(5) show ?thesis by (auto intro!: statement_rules)
qed simp

lemma resume_evolves: "db_evolves d (snd (claim_from_resume_grant E token d))"
proof -
  have "db_evolves d (snd (run_tx (pe_fault E) (resume_tx E token part uid) d))" for part uid
    by (rule evolves_run_tx) (rule resume_tx_evolves)
  then show ?thesis
    by (auto simp: claim_from_resume_grant_def split: prod.splits sum.splits option.splits)
      (metis snd_conv)+
qed

section \<open>Claimed executions\<close>

lemma parse_i16_show_int: "0 \<le> i \<Longrightarrow> i \<le> i16_max \<Longrightarrow> parse_i16 (show_int i) = Some i"
proof -
  assume i: "0 \<le> i" "i \<le> i16_max"
  have "CHR ''-'' \<notin> set (show_nat (nat i))" by (rule show_nat_no_char) simp
  then have "hd (show_nat (nat i)) \<noteq> CHR ''-''" using hd_in_set [OF show_nat_ne [of "nat i"]] by metis
  with i parse_uint_show_nat [of "nat i" 32767] show ?thesis
    by (simp add: parse_i16_def show_int_def i16_max_def)
qed

lemma split_exec_id_minted:
  assumes "0 \<le> part" "part \<le> i16_max" "uuid_parse_str X (uuid_to_string X u) = Some u"
  shows "split_exec_id X (''{fp:'' @ show_int part @ ''}:'' @ uuid_to_string X u) = Inr (part, u)"
proof -
  have "show_int part = show_nat (nat part)" using assms(1) by (simp add: show_int_def)
  then show ?thesis
    using parse_i16_show_int [OF assms(1,2)] assms(3)
      find_sub_absent_head [of "CHR ''}''" "show_nat (nat part)" "'':''" "uuid_to_string X u"]
      strip_prefix_append [of "''{fp:''" "show_int part @ ''}:'' @ uuid_to_string X u"]
    by (simp add: split_exec_id_def)
qed

text \<open>The condition of the claim query, on one row.\<close>

definition claimable :: "pg_env \<Rightarrow> int \<Rightarrow> lane_id \<Rightarrow> exec_core \<Rightarrow> bool" where
  "claimable E part lane r \<longleftrightarrow>
     ec_partition_key r = part \<and> ec_lane_id r = lane \<and> ec_lifecycle_phase r = ''runnable'' \<and>
     ec_eligibility_state r = ''eligible_now'' \<and> \<not> pe_locked E part (ec_execution_id r)"

lemma claim_candidate_Some:
  assumes "claim_candidate E part lane d = Some r"
  shows "r \<in> set (t_exec d) \<and> claimable E part lane r \<and>
    (\<forall>r' \<in> set (t_exec d). claimable E part lane r' \<longrightarrow>
       ec_priority r' < ec_priority r \<or>
       ec_priority r' = ec_priority r \<and> ec_created_at_ms r \<le> ec_created_at_ms r')"
  using first_by_Some [OF assms [unfolded claim_candidate_def]]
  by (fastforce simp: claimable_def less_eq_prod_def)

lemma new_attempt_key [simp]:
  "attempt_key (new_attempt E part policy r) = (part, ec_execution_id r, ec_attempt_index r)"
  by (simp add: new_attempt_def attempt_key_def Let_def)

lemma upsert_attempt_at:
  assumes "sql_upsert attempt_key n (conflict_update n) (t_attempt d) = Inr t"
    and "attempt_key n = (part, uid, idx)" "at_lease_epoch n = 1" "at_outcome n = None"
  shows "\<exists>a. attempt_at (d\<lparr>t_attempt := t\<rparr>) part uid idx = Some a \<and>
    at_worker_id a = at_worker_id n \<and> at_worker_instance_id a = at_worker_instance_id n \<and>
    at_lease_expires_at_ms a = at_lease_expires_at_ms n \<and> at_outcome a = None \<and>
    at_lease_epoch a =
      (case attempt_at d part uid idx of None \<Rightarrow> 1 | Some old \<Rightarrow> at_lease_epoch old + 1) \<and>
    at_lease_epoch a \<le> i64_max"
proof (cases "attempt_at d part uid idx")
  case None
  then have "attempt_key n \<notin> attempt_key ` set (t_attempt d)"
    using assms(2) by (simp add: attempt_at_def row_at_None)
  then have t: "t = t_attempt d @ [n]" using assms(1) by (simp add: sql_upsert_def)
  have "row_at attempt_key (part, uid, idx) t = Some n"
    using None assms(2) unfolding t attempt_at_def by (simp add: row_at_append) (simp add: row_at_def)
  with assms None show ?thesis by (simp add: attempt_at_def i64_max_def)
next
  case (Some old)
  then have "attempt_key n \<in> attempt_key ` set (t_attempt d)"
    using attempt_at_key assms(2) unfolding attempt_at_def by (metis imageI row_at_Some)
  with assms(1) have u: "sql_try_update (\<lambda>r. attempt_key r = attempt_key n) (conflict_update n)
      (t_attempt d) = Inr t"
    by (simp add: sql_upsert_def)
  have "\<exists>a. row_at attempt_key (part, uid, idx) t = Some a \<and> conflict_update n old = Inr a"
    using try_update_row_at [where key = attempt_key and k = "(part, uid, idx)", OF u] Some assms(2)
      row_at_Some [of attempt_key "(part, uid, idx)" "t_attempt d" old]
    by (auto simp: attempt_at_def dest: conflict_update_keeps)
  with Some show ?thesis
    by (auto simp: attempt_at_def conflict_update_def int8_add_def rbind_Inr_iff split: if_splits)
qed

lemma upsert_attempt_other:
  assumes "sql_upsert attempt_key n (conflict_update n) (t_attempt d) = Inr t"
    and "attempt_key n = (part, uid, idx)" "(p, u, i) \<noteq> (part, uid, idx)"
  shows "attempt_at (d\<lparr>t_attempt := t\<rparr>) p u i = attempt_at d p u i"
proof (cases "attempt_key n \<in> attempt_key ` set (t_attempt d)")
  case True
  with assms(1) have u: "sql_try_update (\<lambda>r. attempt_key r = attempt_key n) (conflict_update n)
      (t_attempt d) = Inr t"
    by (simp add: sql_upsert_def)
  have "case row_at attempt_key (p, u, i) (t_attempt d) of
      None \<Rightarrow> row_at attempt_key (p, u, i) t = None
    | Some r \<Rightarrow> \<exists>r'. row_at attempt_key (p, u, i) t = Some r' \<and>
        (if attempt_key r = attempt_key n then conflict_update n r = Inr r' else r' = r)"
    by (rule try_update_row_at [OF u]) (auto dest: conflict_update_keeps)
  with assms(2,3) row_at_Some [of attempt_key "(p, u, i)" "t_attempt d"] show ?thesis
    by (auto simp: attempt_at_def split: option.splits)
next
  case False
  with assms(1) have "t = t_attempt d @ [n]" by (simp add: sql_upsert_def)
  moreover have "row_at attempt_key (p, u, i) [n] = None" using assms(2,3) by (auto simp: row_at_def)
  ultimately show ?thesis by (simp add: attempt_at_def row_at_append split: option.splits)
qed

lemma claim_tx_effect:
  assumes "db_wf d" "claim_tx E part lane caps policy d = Inr (Some (uid, idx, epoch), d')"
  obtains r a where "claim_candidate E part lane d = Some r" "exec_at d part uid = Some r"
    "ec_execution_id r = uid" "ec_attempt_index r = idx"
    "caps_matches (requirement_new (ec_required_capabilities r)) caps"
    "exec_at d' part uid = Some (activate_exec (pe_now E) r)"
    "attempt_at d' part uid idx = Some a" "at_lease_epoch a = epoch"
    "at_worker_id a = Some (cp_worker_id policy)"
    "at_worker_instance_id a = Some (cp_worker_instance_id policy)"
    "at_lease_expires_at_ms a =
       Some (saturating_add (pe_now E) (int (unat (cp_lease_ttl_ms policy))))"
    "epoch = (case attempt_at d part uid idx of None \<Rightarrow> 1 | Some old \<Rightarrow> at_lease_epoch old + 1)"
    "epoch \<le> i64_max" "touches_only part uid d d'"
  using assms(2)
proof (cases rule: claim_tx_cases)
  case (2 r t a)
  let ?n = "new_attempt E part policy r"
  have uid: "ec_execution_id r = uid" "ec_attempt_index r = idx" "at_lease_epoch a = epoch"
    using 2(5) by auto
  have r: "exec_at d part uid = Some r"
    using exec_at_distinct [OF assms(1), of r] claim_candidate_Some [OF 2(1)] uid(1)
    by (auto simp: claimable_def)
  have n: "attempt_key ?n = (part, uid, idx)" "at_lease_epoch ?n = 1" "at_outcome ?n = None"
    by (simp_all add: uid) (simp_all add: new_attempt_def Let_def)
  from upsert_attempt_at [OF 2(3) n] 2(4) uid have a:
    "at_worker_id a = at_worker_id ?n" "at_worker_instance_id a = at_worker_instance_id ?n"
    "at_lease_expires_at_ms a = at_lease_expires_at_ms ?n"
    "epoch = (case attempt_at d part uid idx of None \<Rightarrow> 1 | Some old \<Rightarrow> at_lease_epoch old + 1)"
    "epoch \<le> i64_max"
    by auto
  have at: "attempt_at d' part uid idx = Some a" using 2(4) uid 2(6) by (simp add: db_lookup)
  have ex: "exec_at d' p u = (if p = part \<and> u = uid then map_option (activate_exec (pe_now E))
      (exec_at d p u) else exec_at d p u)" for p u
    using uid 2(6) by (simp add: db_lookup) (simp add: exec_at_def)
  have "touches_only part uid d d'"
    using upsert_attempt_other [OF 2(3) n(1)] ex 2(6)
    by (auto simp: touches_only_def db_lookup)
  then show thesis
    using that [OF 2(1) r uid(1,2) 2(2) _ at uid(3)] a ex r by (simp add: new_attempt_def Let_def)
qed simp

lemma minted_target:
  assumes "payload_ok X p" "split_exec_id X (hp_execution_id p) = Inr (part, uid)"
  shows "handle_target X (mint_handle X p kind) = Inr (p, part, uid)"
  using assms decode_encode [OF assms(1), of BT_Postgres]
  by (simp add: handle_target_def decode_handle_def mint_handle_def)

lemma i32_of_u32_of_int:
  "0 \<le> i \<Longrightarrow> i \<le> i32_max \<Longrightarrow> i32_of_u32_or_0 (of_int (max i 0)) = i"
  by (simp add: i32_of_u32_or_0_def i32_max_def unsigned_of_int max_def take_bit_int_eq_self
      flip: nat_take_bit_eq)

lemma unat_epoch: "0 \<le> e \<Longrightarrow> e \<le> i64_max \<Longrightarrow> unat (of_nat (u64_of_i64_or k e) :: u64) = nat e"
  by (simp add: u64_of_i64_or_def i64_max_def unsigned_of_int take_bit_int_eq_self)

lemma claimed_payload_ok:
  assumes "uuid_lib_ok X" "0 \<le> part" "part \<le> i16_max" "wire_str lane" "wire_str w"
  shows "execution_id_parse X (''{fp:'' @ show_int part @ ''}:'' @ uuid_to_string X u) =
      Inr (''{fp:'' @ show_int part @ ''}:'' @ uuid_to_string X u) \<and>
    payload_ok X \<lparr>hp_execution_id = ''{fp:'' @ show_int part @ ''}:'' @ uuid_to_string X u,
      hp_attempt_index = i, hp_attempt_id = a, hp_lease_id = l, hp_lease_epoch = e,
      hp_lease_ttl_ms = t, hp_lane_id = lane, hp_worker_instance_id = w\<rparr>"
proof -
  let ?s = "''{fp:'' @ show_int part @ ''}:'' @ uuid_to_string X u"
  have u16: "show_int part = show_nat (unat (of_int part :: u16))"
    using assms(2,3) by (simp add: show_int_def i16_max_def unsigned_of_int take_bit_int_eq_self)
  have p: "execution_id_parse X ?s = Inr ?s"
    using execution_id_parse_minted [of X u "of_int part"] assms(1) unfolding u16
    by (simp add: with_partition_and_uuid_def uuid_lib_ok_def)
  have "length (show_int part) \<le> 5"
    using assms(2,3) length_show_nat [of "nat part" 5] by (simp add: show_int_def i16_max_def)
  moreover have "ascii (show_int part)" using assms(2) by (simp add: show_int_def)
  moreover have "length (uuid_to_string X u) \<le> 45" "ascii (uuid_to_string X u)"
    using assms(1) by (auto simp: uuid_lib_ok_def)
  ultimately have "wire_str ?s" by (simp add: wire_str_def ascii_rust_str ascii_def u32_max_def)
  with p assms show ?thesis by (simp add: payload_ok_def uuid_lib_ok_uuid)
qed

end
