(* ===== verification/Pg_Fencing.thy ===== *)
theory Pg_Fencing
  imports Pg_Attempt
begin

text \<open>
  Properties of the attempt lifecycle: what a claim hands out, that a superseded handle can do
  nothing, what the terminal operations write, and where the fence is weaker than it should be.
\<close>

section \<open>A sample database\<close>

definition sample_env :: "int \<Rightarrow> pg_env" where
  "sample_env now =
     \<lparr>pe_lib = sample_ext_lib, pe_jsonb_text = (\<lambda>_. []), pe_int4_in = (\<lambda>_. Inr 0),
      pe_fault = No_fault, pe_read_error = None, pe_now = now,
      pe_locked = (\<lambda>_ _. False), pe_fresh = (\<lambda>i. of_nat (100 + i))\<rparr>"

definition sample_exec :: "uuid \<Rightarrow> string \<Rightarrow> string \<Rightarrow> string list \<Rightarrow> exec_core" where
  "sample_exec uid phase elig caps =
     \<lparr>ec_partition_key = 7, ec_execution_id = uid, ec_flow_id = None, ec_lane_id = ''default'',
      ec_required_capabilities = caps, ec_attempt_index = 3, ec_lifecycle_phase = phase,
      ec_ownership_state = ''unowned'', ec_eligibility_state = elig, ec_public_state = ''waiting'',
      ec_attempt_state = ''pending'', ec_blocking_reason = None, ec_cancellation_reason = None,
      ec_cancelled_by = None, ec_priority = 0, ec_created_at_ms = 10, ec_started_at_ms = None,
      ec_terminal_at_ms = None, ec_deadline_at_ms = None, ec_payload = None, ec_result = None,
      ec_policy = None, ec_raw_fields = JObj []\<rparr>"

definition sample_attempt :: "int \<Rightarrow> attempt" where
  "sample_attempt epoch =
     \<lparr>at_partition_key = 7, at_execution_id = 5, at_attempt_index = 3, at_worker_id = Some ''w'',
      at_worker_instance_id = Some ''w-1'', at_lease_epoch = epoch,
      at_lease_expires_at_ms = Some 1000, at_started_at_ms = Some 20, at_terminal_at_ms = None,
      at_outcome = None, at_usage = None, at_policy = None, at_raw_fields = JObj []\<rparr>"

definition sample_db :: "exec_core list \<Rightarrow> attempt list \<Rightarrow> db" where
  "sample_db xs as =
     \<lparr>t_exec = xs, t_attempt = as, t_edge = [], t_edge_group = [], t_pending_cancel = [],
      t_completion = [], t_lease_event = [], t_lane_registry = [], next_completion_id = 1,
      next_lease_event_id = 1, t_flow = [], t_flow_summary = [], t_cancel_backlog = [],
      t_backlog_member = [], t_operator_event = [], next_operator_event_id = 1,
      t_suspension = [], t_waitpoint = [], t_hmac = [], t_suspend_dedup = [], t_signal_event = [],
      next_signal_event_id = 1\<rparr>"

text \<open>The execution \<open>{fp:7}:5\<close> in its fourth attempt, leased at epoch 4, and the handle of that lease.\<close>

definition leased_db :: db where
  "leased_db = sample_db [sample_exec 5 ''active'' ''not_applicable'' []] [sample_attempt 4]"

definition sample_handle :: handle where
  "sample_handle = mint_handle sample_ext_lib sample_payload HK_Fresh"

lemma sample_target [simp]: "handle_target sample_ext_lib sample_handle = Inr (sample_payload, 7, 5)"
proof -
  have "split_exec_id sample_ext_lib ''{fp:7}:5'' = Inr (7, 5)"
    by (simp add: split_exec_id_def sample_ext_lib_def strip_prefix_def parse_i16_def parse_uint_def
        char_digit_def)
  then show ?thesis
    unfolding sample_handle_def
    by (intro minted_target sample_payload_ok) (simp add: sample_payload_def)
qed

lemmas sample_defs = sample_env_def leased_db_def sample_db_def sample_exec_def sample_attempt_def

lemma sample_env_simps [simp]:
  "pe_lib (sample_env t) = sample_ext_lib" "pe_fault (sample_env t) = No_fault"
  "pe_now (sample_env t) = t"
  by (simp_all add: sample_env_def)

lemma sample_index [simp]:
  "i32_of_u32_or_0 (hp_attempt_index sample_payload) = 3" "unat (hp_lease_epoch sample_payload) = 4"
  by (simp_all add: sample_payload_def i32_of_u32_or_0_def i32_max_def)

lemma leased_attempt [simp]: "attempt_at leased_db 7 5 3 = Some (sample_attempt 4)"
  by (simp add: sample_defs attempt_at_def row_at_def attempt_key_def)

lemma leased_exec [simp]:
  "exec_at leased_db 7 5 = Some (sample_exec 5 ''active'' ''not_applicable'' [])"
  by (simp add: sample_defs exec_at_def row_at_def exec_key_def)

lemma leased_wf [simp]: "db_wf leased_db"
  by (simp add: db_wf_def sample_defs)

section \<open>Fencing\<close>

text \<open>The error of an operation behind a failing fence.\<close>

definition stale_error :: "pg_env \<Rightarrow> pg_error" where
  "stale_error E =
     (case pe_fault E of Fails_before e \<Rightarrow> map_sqlx_error e | _ \<Rightarrow> Contention CK_LeaseConflict)"

lemma stale_fenced_tx:
  assumes "handle_target (pe_lib E) h = Inr (p, part, uid)"
    and "attempt_at d part uid (i32_of_u32_or_0 (hp_attempt_index p)) = Some a"
    and "u64_of_i64_or 0 (at_lease_epoch a) \<noteq> unat (hp_lease_epoch p)"
  shows "fenced_tx body E h d = (Inl (stale_error E), d)"
  using assms
  by (simp add: fenced_tx_def fence_check_eq run_tx_def stale_error_def split: tx_fault.splits)



section \<open>Claims\<close>

lemma i64_of_u64_small: "n < 2 ^ 32 \<Longrightarrow> i64_of_u64_or_0 (of_nat n) = int n"
  by (simp add: i64_of_u64_or_0_def i64_max_def unsigned_of_nat take_bit_nat_eq_self)

lemma try_claim_Some:
  assumes "try_claim_in_partition E part lane caps policy d = (Inr (Some h), d')"
  obtains uid idx epoch where
    "claim_tx E part lane caps policy d = Inr (Some (uid, idx, epoch), d')"
    "claim_handle E part lane policy (uid, idx, epoch) = Inr h"
proof -
  from assms obtain c where "run_tx (pe_fault E) (claim_tx E part lane caps policy) d = (Inr (Some c), d')"
    "claim_handle E part lane policy c = Inr h"
    by (auto simp: try_claim_in_partition_def rbind_Inr_iff split: prod.splits sum.splits option.splits)
  with that show thesis by (cases c) (auto simp: run_tx_Inr)
qed

text \<open>
  C7. What a claim does when it hands out a handle: the execution was claimable in the partition and
  lane (runnable, eligible, not locked), no claimable execution there has a higher priority or the
  same priority and an earlier creation, and the worker advertises all its capabilities. Afterwards
  it is active and leased, its attempt belongs to the worker until the lease time has passed, and
  the attempt's epoch is above every epoch handed out for it before. No other execution changes.
\<close>

theorem claim_spec:
  assumes "db_wf d"
    and "try_claim_in_partition E part lane caps policy d = (Inr (Some h), d')"
  shows "\<exists>r a. r \<in> set (t_exec d) \<and> claimable E part lane r \<and>
    (\<forall>r' \<in> set (t_exec d). claimable E part lane r' \<longrightarrow>
       ec_priority r' < ec_priority r \<or>
       ec_priority r' = ec_priority r \<and> ec_created_at_ms r \<le> ec_created_at_ms r') \<and>
    set (ec_required_capabilities r) - {[]} \<subseteq> set (worker_tokens caps) \<and>
    exec_at d' part (ec_execution_id r) = Some (activate_exec (pe_now E) r) \<and>
    attempt_at d' part (ec_execution_id r) (ec_attempt_index r) = Some a \<and>
    at_worker_id a = Some (cp_worker_id policy) \<and>
    at_worker_instance_id a = Some (cp_worker_instance_id policy) \<and>
    at_lease_expires_at_ms a =
      Some (saturating_add (pe_now E) (int (unat (cp_lease_ttl_ms policy)))) \<and>
    (\<forall>old. attempt_at d part (ec_execution_id r) (ec_attempt_index r) = Some old \<longrightarrow>
       at_lease_epoch old < at_lease_epoch a) \<and>
    touches_only part (ec_execution_id r) d d'"
proof -
  from assms(2) obtain uid idx epoch where
    c: "claim_tx E part lane caps policy d = Inr (Some (uid, idx, epoch), d')"
    by (rule try_claim_Some)
  from claim_tx_effect [OF assms(1) c] obtain r a where
    r: "claim_candidate E part lane d = Some r" "ec_execution_id r = uid" "ec_attempt_index r = idx"
      "caps_matches (requirement_new (ec_required_capabilities r)) caps"
      "exec_at d' part uid = Some (activate_exec (pe_now E) r)"
      "attempt_at d' part uid idx = Some a" "at_lease_epoch a = epoch"
      "at_worker_id a = Some (cp_worker_id policy)"
      "at_worker_instance_id a = Some (cp_worker_instance_id policy)"
      "at_lease_expires_at_ms a =
         Some (saturating_add (pe_now E) (int (unat (cp_lease_ttl_ms policy))))"
      "epoch = (case attempt_at d part uid idx of None \<Rightarrow> 1 | Some old \<Rightarrow> at_lease_epoch old + 1)"
      "touches_only part uid d d'" .
  have "set (ec_required_capabilities r) - {[]} \<subseteq> set (worker_tokens caps)"
    using r(4) by (auto simp: caps_matches_iff requirement_new_def)
  with r claim_candidate_Some [OF r(1)] show ?thesis by (intro exI [of _ r] exI [of _ a]) auto
qed

definition claimable_db :: db where
  "claimable_db = sample_db [sample_exec 5 ''runnable'' ''eligible_now'' [''gpu'']] []"

definition sample_policy :: claim_policy where
  "sample_policy =
     \<lparr>cp_max_wait = None, cp_worker_id = ''w'', cp_worker_instance_id = ''w-1'', cp_lease_ttl_ms = 30000\<rparr>"

lemma claimable_wf [simp]: "db_wf claimable_db"
  by (simp add: db_wf_def claimable_db_def sample_defs)

lemma sample_claim:
  "\<exists>h d'. try_claim_in_partition (sample_env 50) 7 ''default'' \<lparr>worker_tokens = [''gpu'']\<rparr>
     sample_policy claimable_db = (Inr (Some h), d')"
proof -
  let ?r = "sample_exec 5 ''runnable'' ''eligible_now'' [''gpu'']"
  have c: "claim_candidate (sample_env 50) 7 ''default'' claimable_db = Some ?r"
    by (simp add: claim_candidate_def sql_first_by_def claimable_db_def sample_defs)
  have caps: "caps_matches (requirement_new (ec_required_capabilities ?r)) \<lparr>worker_tokens = [''gpu'']\<rparr>"
    by (simp add: caps_matches_iff requirement_new_def sample_exec_def)
  have t: "t_attempt claimable_db = []" by (simp add: claimable_db_def sample_db_def)
  have "\<exists>d'. claim_tx (sample_env 50) 7 ''default'' \<lparr>worker_tokens = [''gpu'']\<rparr> sample_policy claimable_db
    = Inr (Some (5, 3, 1), d')"
    using c caps t
    by (simp add: claim_tx_def sql_upsert_def sql_fetch_def attempt_is_def new_attempt_def Let_def)
       (simp add: sample_exec_def)
  moreover have "\<exists>h. claim_handle (sample_env 50) 7 ''default'' sample_policy (5, 3, 1) = Inr h"
    using claimed_payload_ok [of sample_ext_lib 7 "''default''" "''w-1''" 5]
    by (simp add: claim_handle_def sample_env_def i16_max_def wire_str_def ascii_rust_str ascii_def
        u32_max_def)
  ultimately show ?thesis
    by (auto simp: try_claim_in_partition_def sample_env_def)
qed

theorem claim_spec_witness:
  "\<exists>h d' r a. try_claim_in_partition (sample_env 50) 7 ''default'' \<lparr>worker_tokens = [''gpu'']\<rparr>
      sample_policy claimable_db = (Inr (Some h), d') \<and>
    r \<in> set (t_exec claimable_db) \<and>
    exec_at d' 7 (ec_execution_id r) = Some (activate_exec 50 r) \<and>
    attempt_at d' 7 (ec_execution_id r) (ec_attempt_index r) = Some a \<and>
    at_worker_id a = Some ''w''"
proof -
  obtain h d' where *: "try_claim_in_partition (sample_env 50) 7 ''default''
      \<lparr>worker_tokens = [''gpu'']\<rparr> sample_policy claimable_db = (Inr (Some h), d')"
    using sample_claim by blast
  have "cp_worker_id sample_policy = ''w''" by (simp add: sample_policy_def)
  with claim_spec [OF claimable_wf *] * show ?thesis unfolding sample_env_simps by metis
qed

text \<open>
  C9. The handle of a claim is good: it decodes to the claimed execution, and an immediate renewal
  with it passes the fence and extends the lease. Relies on the documented text form of UUIDs and on
  lane and worker names that fit the handle.
\<close>

theorem claimed_handle_valid:
  assumes "db_wf d" "db_typed d" "uuid_lib_ok (pe_lib E)" "0 \<le> part" "part \<le> i16_max"
    and "wire_str lane" "wire_str (cp_worker_instance_id policy)"
    and "try_claim_in_partition E part lane caps policy d = (Inr (Some h), d')"
    and "pe_lib E' = pe_lib E" "pe_fault E' = No_fault"
  shows "\<exists>p uid r. handle_target (pe_lib E) h = Inr (p, part, uid) \<and>
    exec_at d' part uid = Some (activate_exec (pe_now E) r) \<and>
    fst (renew E' h d') = Inr \<lparr>
      lr_expires_at_ms = u64_of_i64_or 0 (saturating_add (pe_now E') (int (unat (cp_lease_ttl_ms policy)))),
      lr_lease_epoch = hp_lease_epoch p\<rparr>"
proof -
  let ?X = "pe_lib E"
  from assms(8) obtain uid idx epoch where
    c: "claim_tx E part lane caps policy d = Inr (Some (uid, idx, epoch), d')"
    and h: "claim_handle E part lane policy (uid, idx, epoch) = Inr h"
    by (rule try_claim_Some)
  from claim_tx_effect [OF assms(1) c] obtain r a where
    r: "exec_at d part uid = Some r" "ec_attempt_index r = idx"
      "exec_at d' part uid = Some (activate_exec (pe_now E) r)"
      "attempt_at d' part uid idx = Some a" "at_lease_epoch a = epoch"
      "epoch = (case attempt_at d part uid idx of None \<Rightarrow> 1 | Some old \<Rightarrow> at_lease_epoch old + 1)"
      "epoch \<le> i64_max" .
  have idx: "0 \<le> idx" "idx \<le> i32_max"
    using r(1,2) assms(2) exec_at_key [of d part uid r] by (auto simp: db_typed_def exec_typed_def attempt_typed_def list_all_iff)
  have ep: "0 \<le> epoch"
    using r(6) assms(2) attempt_at_key [of d part uid idx]
    by (fastforce simp: db_typed_def exec_typed_def attempt_typed_def list_all_iff split: option.splits)
  define p where "p = \<lparr>hp_execution_id = ''{fp:'' @ show_int part @ ''}:'' @ uuid_to_string ?X uid,
    hp_attempt_index = of_int (max idx 0), hp_attempt_id = pe_fresh E 0, hp_lease_id = pe_fresh E 1,
    hp_lease_epoch = of_nat (u64_of_i64_or 1 epoch),
    hp_lease_ttl_ms = of_nat (unat (cp_lease_ttl_ms policy)), hp_lane_id = lane,
    hp_worker_instance_id = cp_worker_instance_id policy\<rparr>"
  have ok: "payload_ok ?X p" and hp: "h = mint_handle ?X p HK_Fresh"
    using claimed_payload_ok [OF assms(3-7), of uid] h by (auto simp: p_def claim_handle_def)
  have tgt: "handle_target ?X h = Inr (p, part, uid)" unfolding hp
    by (rule minted_target [OF ok])
      (use assms(3-5) split_exec_id_minted in \<open>auto simp: p_def uuid_lib_ok_def\<close>)
  have f: "i32_of_u32_or_0 (hp_attempt_index p) = idx" "unat (hp_lease_epoch p) = nat epoch"
    using i32_of_u32_of_int [OF idx] unat_epoch [OF ep r(7), of 1] by (simp_all add: p_def)
  have "unat (cp_lease_ttl_ms policy) < 2 ^ 32" by (rule order_less_le_trans [OF unsigned_less]) simp
  then have "i64_of_u64_or_0 (hp_lease_ttl_ms p) = int (unat (cp_lease_ttl_ms policy))"
    by (simp only: p_def handle_payload.simps i64_of_u64_small)
  with r f ep tgt assms(9,10) show ?thesis
    by (auto simp: renew_def fenced_tx_def fence_check_eq renew_body_def Let_def u64_of_i64_or_def)
qed

theorem claimed_handle_valid_witness:
  "\<exists>h d' p uid r. try_claim_in_partition (sample_env 50) 7 ''default'' \<lparr>worker_tokens = [''gpu'']\<rparr>
      sample_policy claimable_db = (Inr (Some h), d') \<and>
    handle_target sample_ext_lib h = Inr (p, 7, uid) \<and>
    exec_at d' 7 uid = Some (activate_exec 50 r)"
proof -
  obtain h d' where *: "try_claim_in_partition (sample_env 50) 7 ''default''
      \<lparr>worker_tokens = [''gpu'']\<rparr> sample_policy claimable_db = (Inr (Some h), d')"
    using sample_claim by blast
  have "db_typed claimable_db"
    by (simp add: db_typed_def exec_typed_def attempt_typed_def claimable_db_def sample_defs i32_max_def)
  moreover have "wire_str ''default''" "wire_str (cp_worker_instance_id sample_policy)"
    by (simp_all add: sample_policy_def wire_str_def ascii_rust_str ascii_def u32_max_def)
  ultimately show ?thesis
    using claimed_handle_valid [OF claimable_wf _ _ _ _ _ _ *, of "sample_env 60"] *
    by (auto simp: i16_max_def)
qed

text \<open>
  C8. No execution is handed out twice in a row: after a claim, no other claim in the same
  partition, whatever its lane, worker or clock, returns the same execution until some operation
  makes it runnable again.
\<close>

theorem claims_exclusive:
  assumes "db_wf d"
    and "claim_tx E part lane caps policy d = Inr (Some (uid, idx, epoch), d')"
    and "claim_tx E' part lane' caps' policy' d' = Inr (Some (uid', idx', epoch'), d'')"
  shows "uid' \<noteq> uid"
proof
  assume "uid' = uid"
  from claim_tx_effect [OF assms(1,2)] obtain r where
    "exec_at d' part uid = Some (activate_exec (pe_now E) r)" .
  moreover have wf: "db_wf d'" using claim_tx_evolves [OF assms(2)] assms(1) by (simp add: db_evolves_def)
  from claim_tx_effect [OF wf assms(3)] obtain r' where
    "claim_candidate E' part lane' d' = Some r'" "exec_at d' part uid' = Some r'" .
  ultimately show False
    using \<open>uid' = uid\<close> claim_candidate_Some [of E' part lane' d' r']
    by (auto simp: claimable_def activate_exec_def)
qed

definition two_db :: db where
  "two_db = sample_db [sample_exec 5 ''runnable'' ''eligible_now'' [],
     sample_exec 6 ''runnable'' ''eligible_now'' []] []"

theorem claims_exclusive_witness:
  "\<exists>d' d'' idx ep idx' ep'.
     claim_tx (sample_env 50) 7 ''default'' \<lparr>worker_tokens = []\<rparr> sample_policy two_db =
       Inr (Some (5, idx, ep), d') \<and>
     claim_tx (sample_env 51) 7 ''default'' \<lparr>worker_tokens = []\<rparr> sample_policy d' =
       Inr (Some (6, idx', ep'), d'') \<and> (6 :: uuid) \<noteq> 5"
proof -
  have wf: "db_wf two_db"
    by (simp add: db_wf_def two_db_def sample_defs exec_key_def)
  note c = claim_tx_def claim_candidate_def sql_first_by_def two_db_def sample_defs sql_upsert_def
    sql_fetch_def attempt_is_def attempt_key_def new_attempt_def caps_matches_iff requirement_new_def
    update_exec_def sql_update_def exec_is_def emit_def activate_exec_def sql_select_def Let_def
  obtain d' where 1: "claim_tx (sample_env 50) 7 ''default'' \<lparr>worker_tokens = []\<rparr> sample_policy two_db =
      Inr (Some (5, 3, 1), d')" and d': "d' = snd (projr (claim_tx (sample_env 50) 7 ''default''
      \<lparr>worker_tokens = []\<rparr> sample_policy two_db))"
    by (simp add: c)
  have 2: "\<exists>d''. claim_tx (sample_env 51) 7 ''default'' \<lparr>worker_tokens = []\<rparr> sample_policy d' =
      Inr (Some (6, 3, 1), d'')"
    unfolding d' by (simp add: c)
  from 1 2 claims_exclusive [OF wf 1] show ?thesis by blast
qed

lemma claim_loop_None:
  assumes "\<And>part. part \<in> set parts \<Longrightarrow>
    claim_tx (env part) part lane caps policy d = Inr (None, d) \<and> pe_fault (env part) = No_fault"
  shows "claim_loop env parts lane caps policy d = (Inr None, d)"
  using assms by (induction parts) (simp_all add: try_claim_in_partition_def)

definition blocked_db :: db where
  "blocked_db = sample_db [(sample_exec 5 ''runnable'' ''eligible_now'' [''gpu''])\<lparr>ec_priority := 1\<rparr>,
     sample_exec 6 ''runnable'' ''eligible_now'' []] []"

text \<open>
  One execution whose capabilities the worker lacks hides every later one of its partition: the
  claim looks at the first candidate only, so it reports that there is no work although an
  execution that the worker can run is waiting.
\<close>

theorem claim_head_of_line:
  "claim (\<lambda>_. sample_env 50) ''default'' \<lparr>worker_tokens = []\<rparr> sample_policy blocked_db =
     (Inr None, blocked_db) \<and>
   sample_exec 6 ''runnable'' ''eligible_now'' [] \<in> set (t_exec blocked_db) \<and>
   claimable (sample_env 50) 7 ''default'' (sample_exec 6 ''runnable'' ''eligible_now'' []) \<and>
   caps_matches (requirement_new []) \<lparr>worker_tokens = []\<rparr>"
proof -
  have "claim_tx (sample_env 50) part ''default'' \<lparr>worker_tokens = []\<rparr> sample_policy blocked_db =
      Inr (None, blocked_db)" for part
    by (cases "part = 7")
      (simp_all add: claim_tx_def claim_candidate_def sql_first_by_def caps_matches_iff
        requirement_new_def blocked_db_def sample_defs less_eq_prod_def)
  then have "claim (\<lambda>_. sample_env 50) ''default'' \<lparr>worker_tokens = []\<rparr> sample_policy blocked_db =
     (Inr None, blocked_db)"
    unfolding claim_def by (intro claim_loop_None) simp
  then show ?thesis
    by (simp add: blocked_db_def claimable_def sample_defs caps_matches_iff requirement_new_def)
qed

section \<open>Ending an attempt\<close>

lemma fenced_tx_Inr:
  assumes "fenced_tx body E h d = (Inr a, d')" "handle_target (pe_lib E) h = Inr (p, part, uid)"
  shows "fence_check part uid (i32_of_u32_or_0 (hp_attempt_index p)) (hp_lease_epoch p) d = Inr () \<and>
    body E p part uid (i32_of_u32_or_0 (hp_attempt_index p)) d = Inr (a, d')"
  using assms by (auto simp: fenced_tx_def Let_def run_tx_Inr rbind_Inr_iff)

lemma complete_body_effect:
  assumes "db_wf d" "exec_at d part uid = Some r"
    "complete_body b E p part uid idx d = Inr (u, d')"
  shows "exec_at d' part uid = Some ((terminal_exec (pe_now E) r)\<lparr>ec_result := b\<rparr>) \<and>
    attempt_at d' part uid idx =
      map_option (end_attempt (Some (pe_now E)) ''success'') (attempt_at d part uid idx) \<and>
    t_completion d' = t_completion d @ [completion_row d ''success'' (pe_now E) r]"
proof -
  let ?d1 = "update_attempt part uid idx (end_attempt (Some (pe_now E)) ''success'') d"
  let ?r' = "(terminal_exec (pe_now E) r)\<lparr>ec_result := b\<rparr>"
  let ?d2 = "update_exec part uid (\<lambda>r. (terminal_exec (pe_now E) r)\<lparr>ec_result := b\<rparr>) ?d1"
  have k: "exec_key ((terminal_exec t x)\<lparr>ec_result := b\<rparr>) = exec_key x" for t x
    by (simp add: terminal_exec_def exec_key_def)
  have "db_evolves d ?d2"
    by (auto intro!: statement_rules simp: terminal_exec_def exec_le_def exec_typed_def exec_key_def)
  with assms(1) have "db_wf ?d2" by (rule evolves_wf [rotated])
  moreover have "exec_at ?d2 part uid = Some ?r'" using assms(2) k by (simp add: db_lookup)
  ultimately have "t_completion (insert_completion part uid ''success'' (pe_now E) ?d2) =
      t_completion d @ [completion_row ?d2 ''success'' (pe_now E) ?r']"
    by (simp add: insert_completion_row db_lookup)
  moreover have "completion_row ?d2 ''success'' (pe_now E) ?r' = completion_row d ''success'' (pe_now E) r"
    by (simp add: completion_row_def db_lookup terminal_exec_def)
  ultimately show ?thesis
    using assms(2,3) k by (auto simp: complete_body_def Let_def db_lookup)
qed

text \<open>
  A completion ends the execution: it is terminal, unowned, with the result and
  the time of the call; its attempt is closed with a success and no lease; exactly one completion
  event is appended, carrying the flow of the execution; and no other execution changes.
\<close>

theorem complete_effect:
  assumes "db_wf d" "handle_target (pe_lib E) h = Inr (p, part, uid)"
    and "exec_at d part uid = Some r" "complete b E h d = (Inr (), d')"
  shows "exec_at d' part uid = Some ((terminal_exec (pe_now E) r)\<lparr>ec_result := b\<rparr>) \<and>
    (\<exists>a. attempt_at d part uid (i32_of_u32_or_0 (hp_attempt_index p)) = Some a \<and>
       attempt_at d' part uid (i32_of_u32_or_0 (hp_attempt_index p)) =
         Some (end_attempt (Some (pe_now E)) ''success'' a)) \<and>
    t_completion d' = t_completion d @ [completion_row d ''success'' (pe_now E) r] \<and>
    touches_only part uid d d'"
proof -
  have f: "fence_check part uid (i32_of_u32_or_0 (hp_attempt_index p)) (hp_lease_epoch p) d = Inr ()"
    "complete_body b E p part uid (i32_of_u32_or_0 (hp_attempt_index p)) d = Inr ((), d')"
    using fenced_tx_Inr [OF assms(4) [unfolded complete_def] assms(2)] by auto
  with complete_body_effect [OF assms(1,3) f(2)] complete.body_touches [OF f(2)] show ?thesis
    by (auto simp: fence_check_eq split: option.splits)
qed

theorem complete_effect_witness:
  "\<exists>d'. complete (Some [1]) (sample_env 50) sample_handle leased_db = (Inr (), d') \<and>
     t_completion d' = [completion_row leased_db ''success'' 50
       (sample_exec 5 ''active'' ''not_applicable'' [])]"
proof -
  have "\<exists>d'. complete (Some [1]) (sample_env 50) sample_handle leased_db = (Inr (), d')"
    by (simp add: complete_def fenced_tx_def fence_check_eq complete_body_def Let_def
        u64_of_i64_or_def sample_attempt_def)
  then obtain d' where *: "complete (Some [1]) (sample_env 50) sample_handle leased_db = (Inr (), d')" ..
  have "t_completion leased_db = []" by (simp add: sample_defs)
  with complete_effect [OF leased_wf _ _ *, of sample_payload 7 5] * show ?thesis by auto
qed

lemma fenced_tx_pass:
  assumes "handle_target (pe_lib E) h = Inr (p, part, uid)"
    and "fence_check part uid (i32_of_u32_or_0 (hp_attempt_index p)) (hp_lease_epoch p) d = Inr ()"
    and "body E p part uid (i32_of_u32_or_0 (hp_attempt_index p)) d = Inr (a, d')"
  shows "fenced_tx body E h d =
    (case pe_fault E of
       No_fault \<Rightarrow> (Inr a, d') | Fails_before e \<Rightarrow> (Inl (map_sqlx_error e), d)
     | Commit_ack_lost e \<Rightarrow> (Inl (map_sqlx_error e), d'))"
  using assms by (simp add: fenced_tx_def run_tx_def split: tx_fault.splits)

lemma fence_kept:
  assumes "same_epochs part uid d d'" "fence_check part uid idx ep d = Inr ()"
  shows "fence_check part uid idx ep d' = Inr ()"
proof -
  from assms(1) have "map_option at_lease_epoch (attempt_at d' part uid idx) =
      map_option at_lease_epoch (attempt_at d part uid idx)"
    by (simp add: same_epochs_def)
  with assms(2) show ?thesis
    by (cases "attempt_at d part uid idx"; cases "attempt_at d' part uid idx")
      (auto simp: fence_check_eq split: if_splits)
qed

lemma complete_body_Inr: "\<exists>d'. complete_body b E p part uid idx d = Inr ((), d')"
  by (simp add: complete_body_def Let_def)

text \<open>
  Retrying a completion whose acknowledgement was lost, which the interface invites callers to
  do, completes the execution a second time: the fence still passes, and a second completion event
  of the same execution is appended.
\<close>

theorem complete_retry_duplicates:
  assumes "db_wf d" "handle_target (pe_lib E) h = Inr (p, part, uid)"
    and "fence_check part uid (i32_of_u32_or_0 (hp_attempt_index p)) (hp_lease_epoch p) d = Inr ()"
    and "exec_at d part uid = Some r" "pe_fault E = Commit_ack_lost e"
    and "pe_fault E' = No_fault" "pe_lib E' = pe_lib E"
  shows "\<exists>d' d'' c1 c2. complete b E h d = (Inl (map_sqlx_error e), d') \<and>
    complete b E' h d' = (Inr (), d'') \<and> t_completion d'' = t_completion d @ [c1, c2] \<and>
    ce_execution_id c1 = uid \<and> ce_execution_id c2 = uid \<and>
    ce_outcome c1 = ''success'' \<and> ce_outcome c2 = ''success''"
proof -
  let ?i = "i32_of_u32_or_0 (hp_attempt_index p)"
  obtain d' where 1: "complete_body b E p part uid ?i d = Inr ((), d')"
    using complete_body_Inr by blast
  obtain d'' where 2: "complete_body b E' p part uid ?i d' = Inr ((), d'')"
    using complete_body_Inr by blast
  have f: "fence_check part uid ?i (hp_lease_epoch p) d' = Inr ()"
    using complete.body_epoch [OF 1] by (intro fence_kept [OF _ assms(3)]) (simp add: same_epochs_def)
  have wf: "db_wf d'" using complete.body_evolves [OF 1] assms(1) by (rule evolves_wf)
  note e1 = complete_body_effect [OF assms(1,4) 1]
  from e1 have x: "exec_at d' part uid = Some ((terminal_exec (pe_now E) r)\<lparr>ec_result := b\<rparr>)" by simp
  note e2 = complete_body_effect [OF wf x 2]
  have "ec_execution_id r = uid" using exec_at_key [OF assms(4)] by (simp add: exec_is_def)
  moreover have "complete b E h d = (Inl (map_sqlx_error e), d')" "complete b E' h d' = (Inr (), d'')"
    using fenced_tx_pass [OF assms(2,3), of "complete_body b"] 1 2
      fenced_tx_pass [of E' h p part uid d' "complete_body b"] assms(2,5,6,7) f
    by (simp_all add: complete_def)
  ultimately show ?thesis
    using e1 e2 by (auto simp: completion_row_def terminal_exec_def)
qed

definition lossy_env :: pg_env where
  "lossy_env = (sample_env 50)\<lparr>pe_fault := Commit_ack_lost (Sqlx_Other ''connection reset'')\<rparr>"

lemma lossy_env_simps [simp]:
  "pe_lib lossy_env = sample_ext_lib"
  "pe_fault lossy_env = Commit_ack_lost (Sqlx_Other ''connection reset'')"
  by (simp_all add: lossy_env_def)

lemma leased_completion [simp]: "t_completion leased_db = []"
  by (simp add: sample_defs)

lemma map_sqlx_other [simp]: "map_sqlx_error (Sqlx_Other m) = Transport ''postgres'' (Sqlx_Other m)"
  by (simp add: map_sqlx_error_def)

lemma leased_fence [simp]: "fence_check 7 5 3 (hp_lease_epoch sample_payload) leased_db = Inr ()"
  by (simp add: fence_check_eq u64_of_i64_or_def sample_attempt_def)

theorem complete_retry_duplicates_witness:
  "\<exists>d' d'' c1 c2. complete None lossy_env sample_handle leased_db =
      (Inl (Transport ''postgres'' (Sqlx_Other ''connection reset'')), d') \<and>
    complete None (sample_env 51) sample_handle d' = (Inr (), d'') \<and>
    t_completion d'' = [c1, c2] \<and> ce_execution_id c1 = 5 \<and> ce_execution_id c2 = 5"
proof -
  have "\<exists>d' d'' c1 c2. complete None lossy_env sample_handle leased_db =
      (Inl (map_sqlx_error (Sqlx_Other ''connection reset'')), d') \<and>
    complete None (sample_env 51) sample_handle d' = (Inr (), d'') \<and>
    t_completion d'' = t_completion leased_db @ [c1, c2] \<and> ce_execution_id c1 = 5 \<and>
    ce_execution_id c2 = 5 \<and> ce_outcome c1 = ''success'' \<and> ce_outcome c2 = ''success''"
    by (rule complete_retry_duplicates [of _ _ _ sample_payload 7]) simp_all
  then show ?thesis unfolding map_sqlx_other leased_completion append_Nil by blast
qed

lemma fail_retry_body:
  assumes "db_wf d" "exec_at d part uid = Some r" "cls \<in> {FC_Transient, FC_InfraCrash}"
    "fail_body reason cls E p part uid idx d = Inr (out, d')"
  shows "out = RetryScheduled (pe_now E) \<and> t_completion d' = t_completion d \<and>
    (\<exists>r'. retry_exec r = Inr r' \<and> exec_at d' part uid = Some (note_failure (fr_message reason) r'))"
proof -
  let ?d1 = "update_attempt part uid idx (end_attempt (Some (pe_now E)) ''retry'') d"
  let ?f = "\<lambda>r. rbind (retry_exec r) (\<lambda>r'. Inr (note_failure (fr_message reason) r'))"
  from assms(3,4) obtain d2 where d2: "try_update_exec part uid ?f ?d1 = Inr d2"
    "d' = emit E part uid None EVENT_REVOKED (pe_now E) d2" "out = RetryScheduled (pe_now E)"
    by (auto simp: fail_body_def Let_def rbind_Inr_iff)
  have "\<exists>r'. exec_at d2 part uid = Some r' \<and> ?f r = Inr r'"
    using try_update_exec_at [OF d2(1), of part uid] assms(2)
    by (auto simp: db_lookup dest: retry_note_keeps)
  then show ?thesis
    using d2(2,3) try_update_exec_tables [OF d2(1)] by (auto simp: db_lookup rbind_Inr_iff)
qed

lemma fail_retry_ok:
  assumes "db_wf d" "exec_at d part uid = Some r" "cls \<in> {FC_Transient, FC_InfraCrash}"
    "0 \<le> ec_attempt_index r" "ec_attempt_index r < i32_max"
  shows "\<exists>d'. fail_body reason cls E p part uid idx d = Inr (RetryScheduled (pe_now E), d')"
proof -
  let ?d1 = "update_attempt part uid idx (end_attempt (Some (pe_now E)) ''retry'') d"
  have "db_wf ?d1" by (rule evolves_wf [OF _ assms(1)]) (auto intro!: statement_rules)
  moreover have "exec_at ?d1 part uid = Some r" using assms(2) by (simp add: db_lookup)
  moreover have "\<exists>r'. retry_exec r = Inr r'"
    using assms(4,5) by (simp add: retry_exec_def int4_add_def i32_max_def)
  ultimately show ?thesis
    using assms(3) try_update_exec_ok [of ?d1 part uid r
        "\<lambda>r. rbind (retry_exec r) (\<lambda>r'. Inr (note_failure (fr_message reason) r'))"]
    by (auto simp: fail_body_def Let_def)
qed

lemma fail_terminal_body:
  assumes "db_wf d" "exec_at d part uid = Some r" "cls \<notin> {FC_Transient, FC_InfraCrash}"
    "fail_body reason cls E p part uid idx d = Inr (out, d')"
  shows "out = TerminalFailed \<and>
    exec_at d' part uid = Some (note_failure (fr_message reason) (terminal_exec (pe_now E) r)) \<and>
    t_completion d' = t_completion d @ [completion_row d ''failed'' (pe_now E) r]"
proof -
  let ?d1 = "update_attempt part uid idx (end_attempt (Some (pe_now E)) ''failed'') d"
  let ?r' = "note_failure (fr_message reason) (terminal_exec (pe_now E) r)"
  let ?d2 = "update_exec part uid (\<lambda>r. note_failure (fr_message reason) (terminal_exec (pe_now E) r)) ?d1"
  have "db_evolves d ?d2" by (auto intro!: statement_rules)
  with assms(1) have "db_wf ?d2" by (rule evolves_wf [rotated])
  moreover have "exec_at ?d2 part uid = Some ?r'" using assms(2) by (simp add: db_lookup)
  ultimately have "t_completion (insert_completion part uid ''failed'' (pe_now E) ?d2) =
      t_completion d @ [completion_row ?d2 ''failed'' (pe_now E) ?r']"
    by (simp add: insert_completion_row db_lookup)
  moreover have "completion_row ?d2 ''failed'' (pe_now E) ?r' = completion_row d ''failed'' (pe_now E) r"
    by (simp add: completion_row_def db_lookup terminal_exec_def note_failure_def)
  ultimately show ?thesis
    using assms(2,3,4) by (auto simp: fail_body_def Let_def db_lookup)
qed

text \<open>
  C26. A failure is retried exactly when it is classified transient or an infrastructure crash,
  whatever the retry policy of the execution says and however many attempts it has had: then the
  execution is runnable and eligible at once under the next attempt index, and no event is emitted.
  Every other class ends the execution with exactly one \<open>failed\<close> completion event.
\<close>

theorem fail_effect:
  assumes "db_wf d" "handle_target (pe_lib E) h = Inr (p, part, uid)"
    and "exec_at d part uid = Some r" "fail reason cls E h d = (Inr out, d')"
  shows "if cls \<in> {FC_Transient, FC_InfraCrash}
    then out = RetryScheduled (pe_now E) \<and> t_completion d' = t_completion d \<and>
      (\<exists>r'. exec_at d' part uid = Some r' \<and> ec_lifecycle_phase r' = ''runnable'' \<and>
         ec_eligibility_state r' = ''eligible_now'' \<and> ec_ownership_state r' = ''unowned'' \<and>
         ec_attempt_index r' = ec_attempt_index r + 1)
    else out = TerminalFailed \<and>
      exec_at d' part uid = Some (note_failure (fr_message reason) (terminal_exec (pe_now E) r)) \<and>
      t_completion d' = t_completion d @ [completion_row d ''failed'' (pe_now E) r]"
proof -
  have b: "fail_body reason cls E p part uid (i32_of_u32_or_0 (hp_attempt_index p)) d = Inr (out, d')"
    using fenced_tx_Inr [OF assms(4) [unfolded fail_def] assms(2)] by blast
  have "ec_lifecycle_phase r' = ''runnable'' \<and> ec_eligibility_state r' = ''eligible_now'' \<and>
      ec_ownership_state r' = ''unowned'' \<and> ec_attempt_index r' = ec_attempt_index r + 1"
    if "retry_exec r = Inr r'" for r'
    using that by (auto simp: retry_exec_def rbind_Inr_iff int4_add_def split: if_splits)
  with fail_retry_body [OF assms(1,3) _ b] fail_terminal_body [OF assms(1,3) _ b] show ?thesis
    by (auto simp: note_failure_def)
qed

theorem fail_effect_witness:
  "\<exists>d' r'. fail \<lparr>fr_message = ''boom'', fr_detail = None\<rparr> FC_Transient (sample_env 50) sample_handle
      leased_db = (Inr (RetryScheduled 50), d') \<and>
    exec_at d' 7 5 = Some r' \<and> ec_lifecycle_phase r' = ''runnable'' \<and> ec_attempt_index r' = 4"
proof -
  let ?reason = "\<lparr>fr_message = ''boom'', fr_detail = None\<rparr>"
  have "\<exists>d'. fail_body ?reason FC_Transient (sample_env 50) sample_payload 7 5 3 leased_db =
      Inr (RetryScheduled 50, d')"
    using fail_retry_ok [OF leased_wf leased_exec, of FC_Transient ?reason "sample_env 50"]
    by (simp add: sample_exec_def i32_max_def)
  then obtain d' where *: "fail ?reason FC_Transient (sample_env 50) sample_handle leased_db =
      (Inr (RetryScheduled 50), d')"
    using fenced_tx_pass [of "sample_env 50" sample_handle sample_payload 7 5 leased_db
        "fail_body ?reason FC_Transient"]
    by (auto simp: fail_def)
  have "ec_attempt_index (sample_exec 5 ''active'' ''not_applicable'' []) + 1 = 4"
    by (simp add: sample_exec_def)
  then show ?thesis
    using fail_effect [OF leased_wf _ leased_exec *, of sample_payload] * by auto
qed

text \<open>
  Ending an execution is not final for the worker that ended it: after a successful completion
  the same handle still passes the fence, and reporting a transient failure with it makes the
  terminal execution runnable again.
\<close>

theorem complete_then_fail_revives:
  assumes "db_wf d" "handle_target (pe_lib E) h = Inr (p, part, uid)"
    and "exec_at d part uid = Some r" "complete b E h d = (Inr (), d')"
    and "pe_fault E' = No_fault" "pe_lib E' = pe_lib E"
    and "0 \<le> ec_attempt_index r" "ec_attempt_index r < i32_max"
  shows "\<exists>d'' r1 r2. exec_at d' part uid = Some r1 \<and> ec_lifecycle_phase r1 = ''terminal'' \<and>
    fail reason FC_Transient E' h d' = (Inr (RetryScheduled (pe_now E')), d'') \<and>
    exec_at d'' part uid = Some r2 \<and> ec_lifecycle_phase r2 = ''runnable'' \<and>
    ec_eligibility_state r2 = ''eligible_now''"
proof -
  let ?i = "i32_of_u32_or_0 (hp_attempt_index p)"
  have c: "fence_check part uid ?i (hp_lease_epoch p) d = Inr ()"
    "complete_body b E p part uid ?i d = Inr ((), d')"
    using fenced_tx_Inr [OF assms(4) [unfolded complete_def] assms(2)] by auto
  have wf: "db_wf d'" using complete.body_evolves [OF c(2)] assms(1) by (rule evolves_wf)
  have f: "fence_check part uid ?i (hp_lease_epoch p) d' = Inr ()"
    using complete.body_epoch [OF c(2)] by (intro fence_kept [OF _ c(1)]) (simp add: same_epochs_def)
  let ?r1 = "(terminal_exec (pe_now E) r)\<lparr>ec_result := b\<rparr>"
  have r1: "exec_at d' part uid = Some ?r1" using complete_body_effect [OF assms(1,3) c(2)] by simp
  moreover have "ec_attempt_index ?r1 = ec_attempt_index r" "ec_lifecycle_phase ?r1 = ''terminal''"
    by (simp_all add: terminal_exec_def)
  ultimately obtain d'' where b: "fail_body reason FC_Transient E' p part uid ?i d' =
      Inr (RetryScheduled (pe_now E'), d'')"
    using fail_retry_ok [OF wf r1, of FC_Transient reason E' p ?i] assms(7,8) by auto
  then have 2: "fail reason FC_Transient E' h d' = (Inr (RetryScheduled (pe_now E')), d'')"
    using fenced_tx_pass [of E' h p part uid d' "fail_body reason FC_Transient"] f assms(2,5,6)
    by (simp add: fail_def)
  obtain r' where "retry_exec ?r1 = Inr r'" "exec_at d'' part uid = Some (note_failure (fr_message reason) r')"
    using fail_retry_body [OF wf r1 _ b] by auto
  then have "\<exists>r2. exec_at d'' part uid = Some r2 \<and> ec_lifecycle_phase r2 = ''runnable'' \<and>
      ec_eligibility_state r2 = ''eligible_now''"
    by (auto simp: retry_exec_def rbind_Inr_iff note_failure_def)
  with r1 2 \<open>ec_lifecycle_phase ?r1 = ''terminal''\<close> show ?thesis by blast
qed

theorem complete_then_fail_revives_witness:
  "\<exists>d' d'' r2. complete None (sample_env 50) sample_handle leased_db = (Inr (), d') \<and>
    fail \<lparr>fr_message = ''boom'', fr_detail = None\<rparr> FC_Transient (sample_env 60) sample_handle d' =
      (Inr (RetryScheduled 60), d'') \<and>
    exec_at d'' 7 5 = Some r2 \<and> ec_lifecycle_phase r2 = ''runnable''"
proof -
  obtain d' where c: "complete_body None (sample_env 50) sample_payload 7 5 3 leased_db = Inr ((), d')"
    using complete_body_Inr by blast
  then have 1: "complete None (sample_env 50) sample_handle leased_db = (Inr (), d')"
    using fenced_tx_pass [of "sample_env 50" sample_handle sample_payload 7 5 leased_db
        "complete_body None"]
    by (simp add: complete_def)
  have i: "ec_attempt_index (sample_exec 5 ''active'' ''not_applicable'' []) = 3"
    by (simp add: sample_exec_def)
  show ?thesis
    using complete_then_fail_revives [OF leased_wf _ leased_exec 1, of sample_payload "sample_env 60"
        "\<lparr>fr_message = ''boom'', fr_detail = None\<rparr>"] 1
    unfolding i by (auto simp: i32_max_def)
qed

section \<open>Resuming\<close>

lemma latest_attempt_Some:
  assumes "db_wf d" "latest_attempt part uid d = Some a"
  shows "attempt_at d part uid (at_attempt_index a) = Some a \<and>
    (\<forall>i b. attempt_at d part uid i = Some b \<longrightarrow> i \<le> at_attempt_index a)"
proof -
  note f = first_by_Some [OF assms(2) [unfolded latest_attempt_def]]
  have "attempt_at d part uid (at_attempt_index a) = Some a"
    using attempt_at_distinct [OF assms(1), of a] f by auto
  moreover have "i \<le> at_attempt_index a" if "attempt_at d part uid i = Some b" for i b
    using attempt_at_key [OF that] f by (auto simp: attempt_is_def)
  ultimately show ?thesis by blast
qed

text \<open>
  Resuming takes over only what nobody holds: with a live lease on the latest attempt it returns
  no handle and changes nothing. Otherwise the epoch of the latest attempt rises by one, so from then
  on the fence rejects every handle minted for the old epoch.
\<close>

theorem resume_supersedes:
  assumes "db_wf d" "db_typed d" "pe_fault E = No_fault"
    and "split_exec_id (pe_lib E) (rg_execution_id (rt_grant token)) = Inr (part, uid)"
    and "latest_attempt part uid d = Some a" "at_lease_epoch a < i64_max"
  shows "if lease_live (pe_now E) a then claim_from_resume_grant E token d = (Inr None, d)
    else \<exists>h d' a'. claim_from_resume_grant E token d = (Inr (Some h), d') \<and>
      attempt_at d' part uid (at_attempt_index a) = Some a' \<and>
      at_lease_epoch a' = at_lease_epoch a + 1 \<and>
      at_worker_instance_id a' = Some (rt_worker_instance_id token) \<and>
      (\<forall>ep. unat ep = u64_of_i64_or 0 (at_lease_epoch a) \<longrightarrow>
         fence_check part uid (at_attempt_index a) ep d' = Inl (Contention CK_LeaseConflict))"
proof (cases "lease_live (pe_now E) a")
  case True
  with assms show ?thesis by (simp add: claim_from_resume_grant_def resume_tx_def)
next
  case False
  note l = latest_attempt_Some [OF assms(1,5)]
  let ?i = "at_attempt_index a"
  have ep: "0 \<le> at_lease_epoch a"
    using l attempt_at_key [of d part uid ?i a] assms(2) by (auto simp: db_typed_def exec_typed_def attempt_typed_def list_all_iff)
  define a' where "a' = projr (resume_attempt token (pe_now E) a)"
  have ra: "resume_attempt token (pe_now E) a = Inr a'"
    using assms(6) ep by (simp add: a'_def resume_attempt_def int8_add_def i64_min_def)
  obtain d1 where d1: "try_update_attempt part uid ?i (resume_attempt token (pe_now E)) d = Inr d1"
    using try_update_attempt_ok [OF assms(1)] l ra by blast
  have at: "attempt_at d1 part uid ?i = Some a'"
    using try_update_attempt_at [OF d1, of part uid ?i] l ra by (auto dest: resume_attempt_keeps)
  have k: "at_lease_epoch a' = at_lease_epoch a + 1" using resume_attempt_keeps [OF ra] by simp
  have w: "at_worker_instance_id a' = Some (rt_worker_instance_id token)"
    using ra by (auto simp: resume_attempt_def rbind_Inr_iff)
  let ?d' = "emit E part uid None EVENT_RECLAIMED (pe_now E) (update_exec part uid reactivate_exec d1)"
  have "claim_from_resume_grant E token d =
      (Inr (Some (resume_handle E token (?i, at_lease_epoch a))), ?d')"
    using assms False d1 by (simp add: claim_from_resume_grant_def resume_tx_def Let_def)
  moreover have "attempt_at ?d' part uid ?i = Some a'" using at by (simp add: db_lookup)
  ultimately show ?thesis
    using False k w ep by (auto simp: fence_check_eq u64_of_i64_or_def)
qed

definition sample_token :: resume_token where
  "sample_token =
     \<lparr>rt_grant = \<lparr>rg_execution_id = ''{fp:7}:5'', rg_partition_key = ''{fp:7}'', rg_grant_key = [],
        rg_expires_at_ms = 0, rg_lane_id = ''default''\<rparr>,
      rt_worker_id = ''v'', rt_worker_instance_id = ''v-1'', rt_lease_ttl_ms = 30000\<rparr>"

theorem resume_supersedes_witness:
  "claim_from_resume_grant (sample_env 50) sample_token leased_db = (Inr None, leased_db) \<and>
   (\<exists>h d' a'. claim_from_resume_grant (sample_env 2000) sample_token leased_db = (Inr (Some h), d') \<and>
      attempt_at d' 7 5 3 = Some a' \<and> at_lease_epoch a' = 5 \<and>
      fence_check 7 5 3 4 d' = Inl (Contention CK_LeaseConflict))"
proof -
  have t: "db_typed leased_db" by (simp add: db_typed_def exec_typed_def attempt_typed_def sample_defs i64_max_def i32_max_def)
  have s: "split_exec_id sample_ext_lib (rg_execution_id (rt_grant sample_token)) = Inr (7, 5)"
    by (simp add: sample_token_def split_exec_id_def sample_ext_lib_def strip_prefix_def parse_i16_def
        parse_uint_def char_digit_def)
  have l: "latest_attempt 7 5 leased_db = Some (sample_attempt 4)"
    by (simp add: latest_attempt_def sql_first_by_def sample_defs)
  have a: "at_lease_epoch (sample_attempt 4) = 4" "at_attempt_index (sample_attempt 4) = 3"
    "lease_live 50 (sample_attempt 4)" "\<not> lease_live 2000 (sample_attempt 4)"
    by (simp_all add: sample_attempt_def lease_live_def)
  have u: "u64_of_i64_or 0 4 = 4" "unat (4 :: u64) = 4" by (simp_all add: u64_of_i64_or_def)
  show ?thesis
    using resume_supersedes [OF leased_wf t, of "sample_env 50" sample_token 7 5 "sample_attempt 4"]
      resume_supersedes [OF leased_wf t, of "sample_env 2000" sample_token 7 5 "sample_attempt 4"]
      s l a u(1) by (simp add: i64_max_def) (metis u(2))
qed

end
