(* ===== verification/Pg_Reconcilers.thy ===== *)
theory Pg_Reconcilers
  imports Pg_Fencing
begin

text \<open>
  The background scanners of the Postgres backend that watch leases and deadlines:
  \<open>reconcilers/lease_expiry.rs\<close>, \<open>reconcilers/attempt_timeout.rs\<close>,
  \<open>reconcilers/execution_deadline.rs\<close> and \<open>reconcilers/delayed_promoter.rs\<close>, with the scanner
  filter of \<open>ff-core/src/backend.rs\<close>. A scan reads its candidates first and then handles them one
  by one, each in a transaction of its own; the environment of the \<open>i\<close>-th one is \<open>envs i\<close>.
\<close>

section \<open>Filters and reports\<close>

record scanner_filter =
  sf_namespace :: "string option"
  sf_instance_tag :: "(string \<times> string) option"

definition NOOP :: scanner_filter where
  "NOOP = \<lparr>sf_namespace = None, sf_instance_tag = None\<rparr>"

definition is_noop :: "scanner_filter \<Rightarrow> bool" where
  "is_noop f \<longleftrightarrow> sf_namespace f = None \<and> sf_instance_tag f = None"

definition filter_matches :: "scanner_filter \<Rightarrow> string option \<Rightarrow> string option \<Rightarrow> bool" where
  "filter_matches f core_namespace tag_value \<longleftrightarrow>
     (case sf_namespace f of None \<Rightarrow> True | Some want \<Rightarrow> core_namespace = Some want) \<and>
     (case sf_instance_tag f of None \<Rightarrow> True | Some (_, want) \<Rightarrow> tag_value = Some want)"

fun json_as_str :: "json \<Rightarrow> string option" where
  "json_as_str (JStr s) = Some s"
| "json_as_str _ = None"

fun json_as_u64 :: "json \<Rightarrow> nat option" where
  "json_as_u64 (JNum n) = (if 0 \<le> n \<and> n < 2 ^ 64 then Some (nat n) else None)"
| "json_as_u64 _ = None"

definition skip_by_filter :: "pg_env \<Rightarrow> int \<Rightarrow> uuid \<Rightarrow> scanner_filter \<Rightarrow> db \<Rightarrow> bool" where
  "skip_by_filter E part uid f d =
     (if is_noop f then False
      else case (if pe_read_error E = None then sql_fetch (exec_is part uid) (t_exec d) else None) of
        None \<Rightarrow> True
      | Some r \<Rightarrow>
          (case sf_namespace f of None \<Rightarrow> False
           | Some want \<Rightarrow> json_get_text (pe_jsonb_text E) ''namespace'' (ec_raw_fields r) \<noteq> Some want) \<or>
          (case sf_instance_tag f of None \<Rightarrow> False
           | Some (k, v) \<Rightarrow>
               Option.bind (Option.bind (json_get ''tags'' (ec_raw_fields r)) (json_get k)) json_as_str
                 \<noteq> Some v))"

record scan_report =
  processed :: nat
  errors :: nat

definition BATCH_SIZE :: nat where "BATCH_SIZE = 1000"

type_synonym row_action = "pg_env \<Rightarrow> int \<Rightarrow> uuid \<Rightarrow> int \<Rightarrow> int \<Rightarrow> db \<Rightarrow> (pg_error + unit) \<times> db"

text \<open>The loop over the candidates \<open>(execution_id, attempt_index)\<close> of a scan.\<close>

fun scan_rows ::
  "row_action \<Rightarrow> (nat \<Rightarrow> pg_env) \<Rightarrow> int \<Rightarrow> scanner_filter \<Rightarrow> int \<Rightarrow> nat \<Rightarrow> (uuid \<times> int) list \<Rightarrow>
   scan_report \<Rightarrow> db \<Rightarrow> scan_report \<times> db" where
  "scan_rows act envs part f now i [] rep d = (rep, d)"
| "scan_rows act envs part f now i ((uid, idx) # rows) rep d =
     (if skip_by_filter (envs i) part uid f d
      then scan_rows act envs part f now (Suc i) rows rep d
      else case act (envs i) part uid idx now d of
        (Inr _, d') \<Rightarrow> scan_rows act envs part f now (Suc i) rows (rep\<lparr>processed := processed rep + 1\<rparr>) d'
      | (Inl _, d') \<Rightarrow> scan_rows act envs part f now (Suc i) rows (rep\<lparr>errors := errors rep + 1\<rparr>) d')"

definition scan_tick ::
  "(db \<Rightarrow> (uuid \<times> int) list) \<Rightarrow> row_action \<Rightarrow> pg_env \<Rightarrow> (nat \<Rightarrow> pg_env) \<Rightarrow> int \<Rightarrow> scanner_filter \<Rightarrow> db \<Rightarrow>
   (pg_error + scan_report) \<times> db" where
  "scan_tick candidates act E envs part f d =
     (case pe_read_error E of
        Some e \<Rightarrow> (Inl (map_sqlx_error e), d)
      | None \<Rightarrow>
          (case scan_rows act envs part f (pe_now E) 0 (candidates d) \<lparr>processed = 0, errors = 0\<rparr> d of
             (rep, d') \<Rightarrow> (Inr rep, d')))"

definition lease_expired :: "int \<Rightarrow> attempt \<Rightarrow> bool" where
  "lease_expired now a = (case at_lease_expires_at_ms a of Some e \<Rightarrow> e < now | None \<Rightarrow> False)"

definition expiry_order :: "attempt \<Rightarrow> int" where
  "expiry_order a = (case at_lease_expires_at_ms a of Some e \<Rightarrow> e | None \<Rightarrow> 0)"

section \<open>Lease expiry\<close>

definition release_attempt :: "attempt \<Rightarrow> attempt" where
  "release_attempt a =
     a\<lparr>at_lease_expires_at_ms := None, at_outcome := Some ''lease_expired_reclaimable''\<rparr>"

definition release_exec :: "int \<Rightarrow> exec_core \<Rightarrow> exec_core" where
  "release_exec now r =
     (if ec_lifecycle_phase r = ''active''
      then r\<lparr>ec_lifecycle_phase := ''runnable'', ec_ownership_state := ''unowned'',
             ec_eligibility_state := ''eligible_now'', ec_attempt_state := ''attempt_interrupted'',
             ec_raw_fields := json_concat (ec_raw_fields r) (JObj [(''lease_expired_at_ms'', JNum now)])\<rparr>
      else r)"

definition release_tx :: "pg_env \<Rightarrow> int \<Rightarrow> uuid \<Rightarrow> int \<Rightarrow> int \<Rightarrow> db \<Rightarrow> pg_error + (unit \<times> db)" where
  "release_tx E part uid idx now d =
     (case sql_fetch (attempt_is part uid idx) (t_attempt d) of
        None \<Rightarrow> Inr ((), d)
      | Some a \<Rightarrow>
          if \<not> lease_expired now a then Inr ((), d)
          else Inr ((), emit E part uid None EVENT_EXPIRED now
                 (update_exec part uid (release_exec now) (update_attempt part uid idx release_attempt d))))"

definition release_one :: row_action where
  "release_one E part uid idx now d = run_tx (pe_fault E) (release_tx E part uid idx now) d"

definition lease_candidates :: "int \<Rightarrow> int \<Rightarrow> db \<Rightarrow> (uuid \<times> int) list" where
  "lease_candidates part now d =
     map (\<lambda>a. (at_execution_id a, at_attempt_index a))
       (sql_order_limit expiry_order BATCH_SIZE
         (\<lambda>a. at_partition_key a = part \<and> lease_expired now a) (t_attempt d))"

definition lease_expiry_scan_tick ::
  "pg_env \<Rightarrow> (nat \<Rightarrow> pg_env) \<Rightarrow> int \<Rightarrow> scanner_filter \<Rightarrow> db \<Rightarrow> (pg_error + scan_report) \<times> db" where
  "lease_expiry_scan_tick E envs part f d =
     scan_tick (lease_candidates part (pe_now E)) release_one E envs part f d"

definition release_for_execution :: "pg_env \<Rightarrow> int \<Rightarrow> uuid \<Rightarrow> db \<Rightarrow> (pg_error + unit) \<times> db" where
  "release_for_execution E part uid d =
     (case pe_read_error E of
        Some e \<Rightarrow> (Inl (map_sqlx_error e), d)
      | None \<Rightarrow>
          (case sql_first_by expiry_order
                  (\<lambda>a. at_partition_key a = part \<and> at_execution_id a = uid \<and> lease_expired (pe_now E) a)
                  (t_attempt d) of
             None \<Rightarrow> (Inr (), d)
           | Some a \<Rightarrow> release_one E part uid (at_attempt_index a) (pe_now E) d))"

section \<open>Attempt timeout\<close>

definition GRACE_MS :: int where "GRACE_MS = 0"

definition extract_max_retries :: "json option \<Rightarrow> nat" where
  "extract_max_retries policy =
     (case Option.bind (Option.bind (Option.bind policy (json_get ''retry_policy''))
             (json_get ''max_retries'')) json_as_u64 of
        Some n \<Rightarrow> if n < 2 ^ 32 then n else 0
      | None \<Rightarrow> 0)"

definition expire_tx :: "pg_env \<Rightarrow> int \<Rightarrow> uuid \<Rightarrow> int \<Rightarrow> int \<Rightarrow> db \<Rightarrow> pg_error + (unit \<times> db)" where
  "expire_tx E part uid idx now d =
     (case sql_fetch (attempt_is part uid idx) (t_attempt d) of
        None \<Rightarrow> Inr ((), d)
      | Some a \<Rightarrow>
          if \<not> lease_expired now a then Inr ((), d)
          else case sql_fetch (exec_is part uid) (t_exec d) of
            None \<Rightarrow> Inr ((), d)
          | Some core \<Rightarrow>
              if ec_lifecycle_phase core \<noteq> ''active'' then Inr ((), d)
              else
                let retries_remain = ec_attempt_index core < int (extract_max_retries (ec_policy core));
                    d1 = update_attempt part uid idx (end_attempt (Some now) ''interrupted'') d
                in rbind
                     (if retries_remain
                      then try_update_exec part uid (\<lambda>r. rbind (retry_exec r) (\<lambda>r'.
                             Inr (note_failure ''attempt_timeout'' r'))) d1
                      else Inr (insert_completion part uid ''expired'' now
                             (update_exec part uid (\<lambda>r. note_failure ''attempt_timeout'' (terminal_exec now r)) d1)))
                     (\<lambda>d2. Inr ((), emit E part uid None EVENT_EXPIRED now d2)))"

definition expire_one :: row_action where
  "expire_one E part uid idx now d = run_tx (pe_fault E) (expire_tx E part uid idx now) d"

text \<open>The join condition: the execution of the attempt is active.\<close>

definition exec_active :: "db \<Rightarrow> attempt \<Rightarrow> bool" where
  "exec_active d a \<longleftrightarrow>
     list_ex (\<lambda>c. ec_partition_key c = at_partition_key a \<and> ec_execution_id c = at_execution_id a \<and>
       ec_lifecycle_phase c = ''active'') (t_exec d)"

definition timeout_candidates :: "int \<Rightarrow> int \<Rightarrow> db \<Rightarrow> (uuid \<times> int) list" where
  "timeout_candidates part now d =
     map (\<lambda>a. (at_execution_id a, at_attempt_index a))
       (sql_order_limit expiry_order BATCH_SIZE
         (\<lambda>a. at_partition_key a = part \<and> lease_expired (saturating_sub now GRACE_MS) a \<and> exec_active d a)
         (t_attempt d))"

definition attempt_timeout_scan_tick ::
  "pg_env \<Rightarrow> (nat \<Rightarrow> pg_env) \<Rightarrow> int \<Rightarrow> scanner_filter \<Rightarrow> db \<Rightarrow> (pg_error + scan_report) \<times> db" where
  "attempt_timeout_scan_tick E envs part f d =
     scan_tick (timeout_candidates part (pe_now E)) expire_one E envs part f d"

definition timeout_for_execution :: "pg_env \<Rightarrow> int \<Rightarrow> uuid \<Rightarrow> db \<Rightarrow> (pg_error + unit) \<times> db" where
  "timeout_for_execution E part uid d =
     (case pe_read_error E of
        Some e \<Rightarrow> (Inl (map_sqlx_error e), d)
      | None \<Rightarrow>
          (case sql_first_by expiry_order
                  (\<lambda>a. at_partition_key a = part \<and> at_execution_id a = uid \<and>
                     lease_expired (pe_now E) a \<and> exec_active d a)
                  (t_attempt d) of
             None \<Rightarrow> (Inr (), d)
           | Some a \<Rightarrow> expire_one E part uid (at_attempt_index a) (pe_now E) d))"

section \<open>Execution deadline\<close>

definition deadline_tx :: "pg_env \<Rightarrow> int \<Rightarrow> uuid \<Rightarrow> int \<Rightarrow> db \<Rightarrow> pg_error + (unit \<times> db)" where
  "deadline_tx E part uid now d =
     (case sql_fetch (exec_is part uid) (t_exec d) of
        None \<Rightarrow> Inr ((), d)
      | Some core \<Rightarrow>
          if ec_lifecycle_phase core \<noteq> ''active'' \<or>
             \<not> (case ec_deadline_at_ms core of Some t \<Rightarrow> t < now | None \<Rightarrow> False)
          then Inr ((), d)
          else
            let d1 = update_attempt part uid (ec_attempt_index core)
                       (end_attempt (Some now) ''interrupted'') d;
                d2 = update_exec part uid (\<lambda>r. note_failure ''execution_deadline'' (terminal_exec now r)) d1;
                d3 = insert_completion part uid ''expired'' now d2
            in Inr ((), emit E part uid None EVENT_EXPIRED now d3))"

definition deadline_expire_for_execution ::
  "pg_env \<Rightarrow> int \<Rightarrow> uuid \<Rightarrow> int \<Rightarrow> db \<Rightarrow> (pg_error + unit) \<times> db" where
  "deadline_expire_for_execution E part uid now d = run_tx (pe_fault E) (deadline_tx E part uid now) d"

section \<open>Delayed promotion\<close>

definition promote_tx :: "int \<Rightarrow> uuid \<Rightarrow> int \<Rightarrow> db \<Rightarrow> pg_error + (unit \<times> db)" where
  "promote_tx part uid now d =
     (case sql_fetch (exec_is part uid) (t_exec d) of
        None \<Rightarrow> Inr ((), d)
      | Some r \<Rightarrow>
          if ec_lifecycle_phase r \<noteq> ''runnable'' \<or> ec_eligibility_state r \<noteq> ''not_eligible_until_time'' \<or>
             \<not> (case ec_deadline_at_ms r of Some t \<Rightarrow> t \<le> now | None \<Rightarrow> False)
          then Inr ((), d)
          else Inr ((), update_exec part uid
                 (\<lambda>r. r\<lparr>ec_eligibility_state := ''eligible_now'', ec_deadline_at_ms := None\<rparr>) d))"

definition promote_for_execution ::
  "pg_env \<Rightarrow> int \<Rightarrow> uuid \<Rightarrow> int \<Rightarrow> db \<Rightarrow> (pg_error + unit) \<times> db" where
  "promote_for_execution E part uid now d = run_tx (pe_fault E) (promote_tx part uid now) d"

section \<open>The contract of a row action\<close>

text \<open>
  A scanner's row action evolves the database, touches the rows of its execution only, and does
  nothing to an execution that has ended.
\<close>

locale scan_action =
  fixes act :: row_action
  assumes act_evolves: "db_evolves d (snd (act E part uid idx now d))"
    and act_touches: "touches_only part uid d (snd (act E part uid idx now d))"
    and act_terminal: "exec_at d part uid = Some r \<Longrightarrow> ec_lifecycle_phase r = ''terminal'' \<Longrightarrow>
      exec_at (snd (act E part uid idx now d)) part uid = Some r"
begin

lemma act_keeps_terminal:
  assumes "exec_at d p u = Some r" "ec_lifecycle_phase r = ''terminal''"
  shows "exec_at (snd (act E part uid idx now d)) p u = Some r"
  using assms act_terminal [of d part uid r E idx now] act_touches [of part uid d E idx now]
  by (cases "(p, u) = (part, uid)") (auto simp: touches_only_def)

lemma rows_evolves: "db_evolves d (snd (scan_rows act envs part f now i rows rep d))"
proof (induction rows arbitrary: i rep d)
  case (Cons row rows)
  obtain uid idx where row: "row = (uid, idx)" by force
  show ?case
  proof (cases "act (envs i) part uid idx now d")
    case (Pair res d')
    then have "db_evolves d d'" using act_evolves [of d "envs i" part uid idx now] by simp
    with Cons.IH show ?thesis
      by (auto simp: row Pair split: sum.splits intro: db_evolves_trans)
  qed
qed simp

lemma rows_terminal:
  assumes "exec_at d p u = Some r" "ec_lifecycle_phase r = ''terminal''"
  shows "exec_at (snd (scan_rows act envs part f now i rows rep d)) p u = Some r"
  using assms
proof (induction rows arbitrary: i rep d)
  case (Cons row rows)
  obtain uid idx where row: "row = (uid, idx)" by force
  show ?case
  proof (cases "act (envs i) part uid idx now d")
    case (Pair res d')
    then have "exec_at d' p u = Some r"
      using act_keeps_terminal [OF Cons.prems, of "envs i" part uid idx now] by simp
    with Cons show ?thesis by (auto simp: row Pair split: sum.splits)
  qed
qed simp

lemma tick_evolves: "db_evolves d (snd (scan_tick cand act E envs part f d))"
  using rows_evolves by (auto simp: scan_tick_def split: option.splits prod.splits) (metis snd_conv)

lemma tick_terminal:
  "exec_at d p u = Some r \<Longrightarrow> ec_lifecycle_phase r = ''terminal'' \<Longrightarrow>
   exec_at (snd (scan_tick cand act E envs part f d)) p u = Some r"
  using rows_terminal by (auto simp: scan_tick_def split: option.splits prod.splits) (metis snd_conv)

lemma rows_counted:
  "processed (fst (scan_rows act envs part f now i rows rep d)) +
   errors (fst (scan_rows act envs part f now i rows rep d)) \<le>
   processed rep + errors rep + length rows"
proof (induction rows arbitrary: i rep d)
  case (Cons row rows)
  obtain uid idx where row: "row = (uid, idx)" by force
  from Cons.IH [of "Suc i" rep d]
    Cons.IH [of "Suc i" "rep\<lparr>processed := processed rep + 1\<rparr>"]
    Cons.IH [of "Suc i" "rep\<lparr>errors := errors rep + 1\<rparr>"]
  show ?case by (auto simp: row split: prod.splits sum.splits)
qed simp

end

lemma release_attempt_keeps [simp]:
  "attempt_key (release_attempt a) = attempt_key a" "attempt_le a (release_attempt a)"
  "at_lease_epoch (release_attempt a) = at_lease_epoch a"
  by (simp_all add: release_attempt_def attempt_key_def attempt_le_def attempt_typed_def)

lemma release_exec_keeps [simp]:
  "exec_key (release_exec now r) = exec_key r" "exec_le r (release_exec now r)"
  by (simp_all add: release_exec_def exec_key_def exec_le_def exec_typed_def)

text \<open>A transaction body whose every outcome satisfies a reflexive relation, run whole or not at all.\<close>

lemma run_tx_rel:
  "(\<And>a d'. body d = Inr (a, d') \<Longrightarrow> R d d') \<Longrightarrow> R d d \<Longrightarrow> R d (snd (run_tx flt body d))"
  using run_tx_snd [of flt body d] by metis

lemma release_tx_steps:
  assumes "release_tx E part uid idx now d = Inr (u, d')"
  shows "db_evolves d d' \<and> touches_only part uid d d' \<and> same_epochs part uid d d'"
  using assms
  by (auto simp: release_tx_def split: option.splits if_splits intro!: statement_rules)

lemma scan_actionI:
  assumes "\<And>E part uid idx now d. act E part uid idx now d = run_tx (pe_fault E) (tx E part uid idx now) d"
    and "\<And>E part uid idx now d u d'. tx E part uid idx now d = Inr (u, d') \<Longrightarrow>
      db_evolves d d' \<and> touches_only part uid d d' \<and> same_epochs part uid d d'"
    and "\<And>E part uid idx now d u d' r. tx E part uid idx now d = Inr (u, d') \<Longrightarrow>
      exec_at d part uid = Some r \<Longrightarrow> ec_lifecycle_phase r = ''terminal'' \<Longrightarrow> exec_at d' part uid = Some r"
  shows "scan_action act"
proof (unfold_locales, goal_cases)
  case (1 d E part uid idx now)
  show ?case unfolding assms(1) by (rule run_tx_rel) (auto dest: assms(2))
next
  case (2 part uid d E idx now)
  show ?case unfolding assms(1) by (rule run_tx_rel) (auto dest: assms(2))
next
  case (3 d part uid r E idx now)
  then show ?case unfolding assms(1)
    by (intro run_tx_rel [where R = "\<lambda>d d'. exec_at d' part uid = Some r"]) (auto dest: assms(3))
qed

interpretation release: scan_action release_one
  by (rule scan_actionI [OF release_one_def release_tx_steps])
    (auto simp: release_tx_def db_lookup release_exec_def exec_key_def split: option.splits if_splits)

lemma expire_tx_cases:
  assumes "expire_tx E part uid idx now d = Inr (u, d')"
  obtains "d' = d"
  | a core d2 where "attempt_at d part uid idx = Some a" "lease_expired now a"
      "exec_at d part uid = Some core" "ec_lifecycle_phase core = ''active''"
      "ec_attempt_index core < int (extract_max_retries (ec_policy core))"
      "try_update_exec part uid (\<lambda>r. rbind (retry_exec r) (\<lambda>r'.
         Inr (note_failure ''attempt_timeout'' r')))
         (update_attempt part uid idx (end_attempt (Some now) ''interrupted'') d) = Inr d2"
      "d' = emit E part uid None EVENT_EXPIRED now d2"
  | a core where "attempt_at d part uid idx = Some a" "lease_expired now a"
      "exec_at d part uid = Some core" "ec_lifecycle_phase core = ''active''"
      "\<not> ec_attempt_index core < int (extract_max_retries (ec_policy core))"
      "d' = emit E part uid None EVENT_EXPIRED now (insert_completion part uid ''expired'' now
         (update_exec part uid (\<lambda>r. note_failure ''attempt_timeout'' (terminal_exec now r))
           (update_attempt part uid idx (end_attempt (Some now) ''interrupted'') d)))"
  using assms unfolding expire_tx_def fetch_attempt fetch_exec
  by (auto simp: Let_def rbind_Inr_iff split: option.splits if_splits)

lemma expire_tx_steps:
  assumes "expire_tx E part uid idx now d = Inr (u, d')"
  shows "db_evolves d d' \<and> touches_only part uid d d' \<and> same_epochs part uid d d'"
  using assms
proof (cases rule: expire_tx_cases)
  case (2 a core d2)
  have "db_evolves d d2"
    by (rule evolves_try(1) [OF _ 2(6)]) (auto intro!: statement_rules dest: retry_note_keeps)
  moreover have "touches_only part uid d d2"
    by (rule touches_try_exec [OF _ 2(6)]) (auto intro!: statement_rules dest: retry_note_keeps)
  moreover have "same_epochs part uid d d2"
    by (rule epochs_try [OF _ 2(6)]) (auto intro!: statement_rules)
  ultimately show ?thesis unfolding 2(7) by (auto intro: statement_rules)
qed (auto intro!: statement_rules)

interpretation expire: scan_action expire_one
  by (rule scan_actionI [OF expire_one_def expire_tx_steps]) (auto elim: expire_tx_cases)

text \<open>The two per-execution reconcilers, as row actions whose attempt index plays no role.\<close>

lemma deadline_tx_steps:
  assumes "deadline_tx E part uid now d = Inr (u, d')"
  shows "db_evolves d d' \<and> touches_only part uid d d' \<and> same_epochs part uid d d'"
  using assms
  by (auto simp: deadline_tx_def Let_def split: option.splits if_splits intro!: statement_rules)

interpretation deadline: scan_action "\<lambda>E part uid idx now. deadline_expire_for_execution E part uid now"
  by (rule scan_actionI [OF deadline_expire_for_execution_def deadline_tx_steps])
    (auto simp: deadline_tx_def fetch_exec)

lemma promote_tx_steps:
  assumes "promote_tx part uid now d = Inr (u, d')"
  shows "db_evolves d d' \<and> touches_only part uid d d' \<and> same_epochs part uid d d'"
  using assms
  by (auto simp: promote_tx_def exec_le_def exec_typed_def exec_key_def split: option.splits if_splits
      intro!: statement_rules)

interpretation promote: scan_action "\<lambda>E part uid idx now. promote_for_execution E part uid now"
  by (rule scan_actionI [OF promote_for_execution_def promote_tx_steps])
    (auto simp: promote_tx_def fetch_exec)

section \<open>Properties\<close>



text \<open>
  C28. The lease-expiry action: an attempt whose lease has not lapsed, or that has none, is left
  alone and so is its execution. A lapsed lease is cleared without changing the epoch, and an active
  execution becomes runnable, unowned and eligible, so that the claim query finds it again.
\<close>

theorem lease_release_spec:
  assumes "attempt_at d part uid idx = Some a" "exec_at d part uid = Some r" "pe_fault E = No_fault"
  shows "if lease_expired now a
    then release_one E part uid idx now d = (Inr (), snd (release_one E part uid idx now d)) \<and>
      attempt_at (snd (release_one E part uid idx now d)) part uid idx = Some (release_attempt a) \<and>
      at_lease_epoch (release_attempt a) = at_lease_epoch a \<and>
      \<not> lease_live t (release_attempt a) \<and>
      exec_at (snd (release_one E part uid idx now d)) part uid = Some (release_exec now r) \<and>
      (ec_lifecycle_phase r = ''active'' \<and> \<not> pe_locked E' part uid \<longrightarrow>
         claimable E' part (ec_lane_id r) (release_exec now r))
    else release_one E part uid idx now d = (Inr (), d)"
  using assms exec_at_key [OF assms(2)]
  by (auto simp: release_one_def release_tx_def fetch_attempt db_lookup release_attempt_def
      attempt_key_def lease_live_def claimable_def release_exec_def exec_key_def exec_is_def)

theorem lease_release_spec_witness:
  "release_one (sample_env 50) 7 5 3 50 leased_db = (Inr (), leased_db) \<and>
   exec_at (snd (release_one (sample_env 5000) 7 5 3 5000 leased_db)) 7 5 =
     Some (release_exec 5000 (sample_exec 5 ''active'' ''not_applicable'' []))"
proof -
  have "\<not> lease_expired 50 (sample_attempt 4)" "lease_expired 5000 (sample_attempt 4)"
    by (simp_all add: lease_expired_def sample_attempt_def)
  then show ?thesis
    using lease_release_spec [OF leased_attempt leased_exec, of "sample_env 50" 50]
      lease_release_spec [OF leased_attempt leased_exec, of "sample_env 5000" 5000]
    by simp
qed

lemma expire_tx_retry:
  assumes "db_wf d" "attempt_at d part uid idx = Some a" "lease_expired now a"
    "exec_at d part uid = Some r" "ec_lifecycle_phase r = ''active''"
    "ec_attempt_index r < int (extract_max_retries (ec_policy r))"
    "retry_exec r = Inr r'"
  shows "\<exists>d'. expire_tx E part uid idx now d = Inr ((), d') \<and>
    attempt_at d' part uid idx = Some (end_attempt (Some now) ''interrupted'' a) \<and>
    exec_at d' part uid = Some (note_failure ''attempt_timeout'' r') \<and>
    t_completion d' = t_completion d"
proof -
  let ?d1 = "update_attempt part uid idx (end_attempt (Some now) ''interrupted'') d"
  let ?f = "\<lambda>r. rbind (retry_exec r) (\<lambda>r'. Inr (note_failure ''attempt_timeout'' r'))"
  have "db_wf ?d1" by (rule evolves_wf [OF _ assms(1)]) (auto intro!: statement_rules)
  then obtain d2 where d2: "try_update_exec part uid ?f ?d1 = Inr d2"
    using try_update_exec_ok [of ?d1 part uid r ?f] assms(4,7) by (auto simp: db_lookup)
  have "exec_at d2 part uid = Some (note_failure ''attempt_timeout'' r')"
    using try_update_exec_at [OF d2, of part uid] assms(4,7) by (auto simp: db_lookup dest: retry_note_keeps)
  moreover have "attempt_at d2 part uid idx = attempt_at ?d1 part uid idx"
    using try_update_exec_tables [OF d2] by (simp add: attempt_at_def)
  ultimately show ?thesis
    using assms d2 try_update_exec_tables [OF d2]
    by (simp add: expire_tx_def fetch_attempt fetch_exec db_lookup)
qed

lemma expire_tx_terminal:
  assumes "db_wf d" "attempt_at d part uid idx = Some a" "lease_expired now a"
    "exec_at d part uid = Some r" "ec_lifecycle_phase r = ''active''"
    "\<not> ec_attempt_index r < int (extract_max_retries (ec_policy r))"
  shows "\<exists>d'. expire_tx E part uid idx now d = Inr ((), d') \<and>
    attempt_at d' part uid idx = Some (end_attempt (Some now) ''interrupted'' a) \<and>
    exec_at d' part uid = Some (note_failure ''attempt_timeout'' (terminal_exec now r)) \<and>
    t_completion d' = t_completion d @ [completion_row d ''expired'' now r]"
proof -
  let ?r' = "note_failure ''attempt_timeout'' (terminal_exec now r)"
  let ?d2 = "update_exec part uid (\<lambda>r. note_failure ''attempt_timeout'' (terminal_exec now r))
    (update_attempt part uid idx (end_attempt (Some now) ''interrupted'') d)"
  have "db_evolves d ?d2" by (auto intro!: statement_rules)
  with assms(1) have "db_wf ?d2" by (rule evolves_wf [rotated])
  moreover have x: "exec_at ?d2 part uid = Some ?r'" using assms(4) by (simp add: db_lookup)
  ultimately have "t_completion (insert_completion part uid ''expired'' now ?d2) =
      t_completion d @ [completion_row ?d2 ''expired'' now ?r']"
    by (simp add: insert_completion_row db_lookup)
  moreover have "completion_row ?d2 ''expired'' now ?r' = completion_row d ''expired'' now r"
    by (simp add: completion_row_def db_lookup terminal_exec_def note_failure_def)
  ultimately show ?thesis
    using assms x by (simp add: expire_tx_def fetch_attempt fetch_exec db_lookup)
qed

text \<open>
  C29. The attempt-timeout action on an active execution bounds the retries: a lapsed lease gives a
  retry, without a completion event and under the next attempt index, exactly while the attempt index
  is below the policy's \<open>max_retries\<close>; after that it ends the execution with exactly one
  \<open>expired\<close> completion event. The lapsed attempt is closed as interrupted in both cases.
\<close>

theorem attempt_timeout_spec:
  assumes "db_wf d" "attempt_at d part uid idx = Some a" "lease_expired now a"
    and "exec_at d part uid = Some r" "ec_lifecycle_phase r = ''active''"
    and "0 \<le> ec_attempt_index r" "ec_attempt_index r < i32_max" "pe_fault E = No_fault"
  shows "\<exists>d' r'. expire_one E part uid idx now d = (Inr (), d') \<and>
    attempt_at d' part uid idx = Some (end_attempt (Some now) ''interrupted'' a) \<and>
    exec_at d' part uid = Some r' \<and>
    (if ec_attempt_index r < int (extract_max_retries (ec_policy r))
     then ec_lifecycle_phase r' = ''runnable'' \<and> ec_eligibility_state r' = ''eligible_now'' \<and>
       ec_attempt_index r' = ec_attempt_index r + 1 \<and> t_completion d' = t_completion d
     else ec_lifecycle_phase r' = ''terminal'' \<and>
       t_completion d' = t_completion d @ [completion_row d ''expired'' now r])"
proof (cases "ec_attempt_index r < int (extract_max_retries (ec_policy r))")
  case True
  obtain r' where r': "retry_exec r = Inr r'" "ec_lifecycle_phase r' = ''runnable''"
    "ec_eligibility_state r' = ''eligible_now''" "ec_attempt_index r' = ec_attempt_index r + 1"
    using assms(6,7) by (auto simp: retry_exec_def int4_add_def i32_max_def)
  then show ?thesis
    using expire_tx_retry [OF assms(1-5) True r'(1), of E] True assms(8)
    by (auto simp: expire_one_def run_tx_def note_failure_def)
next
  case False
  show ?thesis
    using expire_tx_terminal [OF assms(1-5) False, of E] False assms(8)
    by (auto simp: expire_one_def run_tx_def note_failure_def terminal_exec_def)
qed

theorem attempt_timeout_spec_witness:
  "\<exists>d' r'. expire_one (sample_env 5000) 7 5 3 5000 leased_db = (Inr (), d') \<and>
     exec_at d' 7 5 = Some r' \<and> ec_lifecycle_phase r' = ''terminal'' \<and> length (t_completion d') = 1"
proof -
  let ?r = "sample_exec 5 ''active'' ''not_applicable'' []"
  have e: "lease_expired 5000 (sample_attempt 4)"
    by (simp add: lease_expired_def sample_attempt_def)
  have "ec_lifecycle_phase ?r = ''active''" "0 \<le> ec_attempt_index ?r" "ec_attempt_index ?r < i32_max"
    "\<not> ec_attempt_index ?r < int (extract_max_retries (ec_policy ?r))"
    by (simp_all add: sample_exec_def i32_max_def extract_max_retries_def)
  then show ?thesis
    using attempt_timeout_spec [OF leased_wf leased_attempt e leased_exec, of "sample_env 5000"] by auto
qed

lemma delay_effect:
  assumes "handle_target (pe_lib E) h = Inr (p, part, uid)" "exec_at d part uid = Some r"
    and "delay t E h d = (Inr (), d')"
  shows "\<exists>r'. exec_at d' part uid = Some r' \<and> ec_lifecycle_phase r' = ''runnable'' \<and>
    ec_eligibility_state r' = ''not_eligible_until_time'' \<and> ec_deadline_at_ms r' = Some t"
proof -
  have "delay_body t E p part uid (i32_of_u32_or_0 (hp_attempt_index p)) d = Inr ((), d')"
    using fenced_tx_Inr [OF assms(3) [unfolded delay_def] assms(1)] by blast
  with assms(2) show ?thesis by (auto simp: delay_body_def Let_def db_lookup exec_key_def)
qed

text \<open>
  C30. A delayed execution sleeps until its time and is then eligible: promotion before the chosen
  time changes nothing, and at or after it makes the execution eligible to be claimed. The wake-up
  time is kept in the column of the execution deadline, so the deadline that the execution was
  created with is gone afterwards and the deadline scanner never ends it again.
\<close>

theorem delay_then_promote:
  assumes "handle_target (pe_lib E) h = Inr (p, part, uid)" "exec_at d part uid = Some r"
    and "delay t E h d = (Inr (), d')" "pe_fault E' = No_fault"
  shows "(now < t \<longrightarrow> promote_for_execution E' part uid now d' = (Inr (), d')) \<and>
    (t \<le> now \<longrightarrow> (\<exists>d'' r''. promote_for_execution E' part uid now d' = (Inr (), d'') \<and>
       exec_at d'' part uid = Some r'' \<and> ec_lifecycle_phase r'' = ''runnable'' \<and>
       ec_eligibility_state r'' = ''eligible_now'' \<and> ec_deadline_at_ms r'' = None \<and>
       (\<forall>E'' later. deadline_tx E'' part uid later d'' = Inr ((), d''))))"
proof -
  from delay_effect [OF assms(1-3)] obtain r' where r': "exec_at d' part uid = Some r'"
    "ec_lifecycle_phase r' = ''runnable''" "ec_eligibility_state r' = ''not_eligible_until_time''"
    "ec_deadline_at_ms r' = Some t" by blast
  then show ?thesis
    using assms(4)
    by (auto simp: promote_for_execution_def promote_tx_def deadline_tx_def fetch_exec db_lookup
        exec_key_def)
qed

theorem delay_then_promote_witness:
  "\<exists>d' d'' r''. delay 90 (sample_env 50) sample_handle leased_db = (Inr (), d') \<and>
     promote_for_execution (sample_env 89) 7 5 89 d' = (Inr (), d') \<and>
     promote_for_execution (sample_env 90) 7 5 90 d' = (Inr (), d'') \<and>
     exec_at d'' 7 5 = Some r'' \<and> ec_eligibility_state r'' = ''eligible_now''"
proof -
  have "\<exists>d'. delay_body 90 (sample_env 50) sample_payload 7 5 3 leased_db = Inr ((), d')"
    by (simp add: delay_body_def Let_def)
  then obtain d' where d': "delay 90 (sample_env 50) sample_handle leased_db = (Inr (), d')"
    using fenced_tx_pass [of "sample_env 50" sample_handle sample_payload 7 5 leased_db "delay_body 90"]
    by (auto simp: delay_def)
  then show ?thesis
    using delay_then_promote [OF _ leased_exec d', of sample_payload "sample_env 89" 89]
      delay_then_promote [OF _ leased_exec d', of sample_payload "sample_env 90" 90] by auto
qed

text \<open>
  C36. A lease that an outdated handle keeps alive can cost the current worker its execution. The fence
  looks at the epoch of the handle's own attempt only, so after a retry the handle of the previous
  attempt still renews that attempt's lease; when this lease lapses, the lease-expiry action makes the
  execution runnable and unowned although the lease of the current attempt is live.
\<close>

theorem stale_renewal_releases_execution:
  assumes "handle_target (pe_lib E) h = Inr (p, part, uid)" "idx = i32_of_u32_or_0 (hp_attempt_index p)"
    and "renew E h d = (Inr ren, d1)"
    and "exec_at d part uid = Some r" "ec_lifecycle_phase r = ''active''" "ec_attempt_index r \<noteq> idx"
    and "attempt_at d part uid (ec_attempt_index r) = Some b" "lease_live now b"
    and "saturating_add (pe_now E) (i64_of_u64_or_0 (hp_lease_ttl_ms p)) < now"
    and "pe_fault E' = No_fault"
  shows "\<exists>d2 r2. release_one E' part uid idx now d1 = (Inr (), d2) \<and>
    exec_at d2 part uid = Some r2 \<and> ec_lifecycle_phase r2 = ''runnable'' \<and>
    ec_ownership_state r2 = ''unowned'' \<and> ec_attempt_index r2 = ec_attempt_index r \<and>
    attempt_at d2 part uid (ec_attempt_index r) = Some b"
proof -
  let ?u = "\<lambda>r. r\<lparr>at_lease_expires_at_ms :=
    Some (saturating_add (pe_now E) (i64_of_u64_or_0 (hp_lease_ttl_ms p)))\<rparr>"
  have f: "fence_check part uid idx (hp_lease_epoch p) d = Inr ()"
    and b: "renew_body E p part uid idx d = Inr (ren, d1)"
    using fenced_tx_Inr [OF assms(3) [unfolded renew_def] assms(1)] assms(2) by auto
  from f obtain a where a: "attempt_at d part uid idx = Some a"
    by (cases "attempt_at d part uid idx") (auto simp: fence_check_eq)
  from b have d1: "exec_at d1 part uid = Some r" "attempt_at d1 part uid (ec_attempt_index r) = Some b"
    "attempt_at d1 part uid idx = Some (?u a)"
    using assms(4,6,7) a by (auto simp: renew_body_def Let_def db_lookup attempt_key_def)
  then have "lease_expired now (?u a)" using assms(9) by (simp add: lease_expired_def)
  with d1 assms(5,6,10) show ?thesis
    by (auto simp: release_one_def release_tx_def fetch_attempt db_lookup release_exec_def exec_key_def)
qed

definition retried_db :: db where
  "retried_db = sample_db [(sample_exec 5 ''active'' ''not_applicable'' [])\<lparr>ec_attempt_index := 4\<rparr>]
     [sample_attempt 4, (sample_attempt 1)\<lparr>at_attempt_index := 4, at_lease_expires_at_ms := Some 1000000\<rparr>]"

theorem stale_renewal_releases_execution_witness:
  "\<exists>ren d1 d2 r2. renew (sample_env 50) sample_handle retried_db = (Inr ren, d1) \<and>
     release_one (sample_env 900000) 7 5 3 900000 d1 = (Inr (), d2) \<and>
     exec_at d2 7 5 = Some r2 \<and> ec_lifecycle_phase r2 = ''runnable''"
proof -
  let ?r = "(sample_exec 5 ''active'' ''not_applicable'' [])\<lparr>ec_attempt_index := 4\<rparr>"
  let ?b = "(sample_attempt 1)\<lparr>at_attempt_index := 4, at_lease_expires_at_ms := Some 1000000\<rparr>"
  have r: "exec_at retried_db 7 5 = Some ?r" "attempt_at retried_db 7 5 3 = Some (sample_attempt 4)"
    "attempt_at retried_db 7 5 4 = Some ?b"
    by (simp_all add: retried_db_def sample_db_def exec_at_def attempt_at_def row_at_def exec_key_def
        attempt_key_def) (simp_all add: sample_exec_def sample_attempt_def)
  then have f: "fence_check 7 5 3 (hp_lease_epoch sample_payload) retried_db = Inr ()"
    by (simp add: fence_check_eq u64_of_i64_or_def sample_attempt_def sample_payload_def)
  obtain ren d1 where d1: "renew (sample_env 50) sample_handle retried_db = (Inr ren, d1)"
    using fenced_tx_pass [of "sample_env 50" sample_handle sample_payload 7 5 retried_db renew_body] f
    by (auto simp: renew_def renew_body_def Let_def)
  have "lease_live 900000 ?b" "ec_lifecycle_phase ?r = ''active''" "ec_attempt_index ?r = 4"
    "saturating_add 50 (i64_of_u64_or_0 (hp_lease_ttl_ms sample_payload)) < 900000"
    by (simp_all add: lease_live_def sample_exec_def sample_payload_def i64_of_u64_or_0_def
        saturating_add_def sat_i64_def i64_max_def i64_min_def)
  then show ?thesis
    using stale_renewal_releases_execution [OF _ _ d1 r(1), of sample_payload 3 ?b 900000 "sample_env 900000"]
      d1 r(3) by auto
qed

end
