(* ===== verification/Pg_Dispatch.thy ===== *)
theory Pg_Dispatch
  imports Pg_Reconcilers
begin

text \<open>
  The dependency cascade of the Postgres backend (\<open>ff-backend-postgres/src/dispatch.rs\<close>) and its
  reconciler (\<open>reconcilers/dependency.rs\<close>). An event of the completion outbox is claimed by setting
  its dispatch time; then one transaction per outgoing edge counts the outcome on the edge group of
  the downstream execution, evaluates the group's policy and applies the decision. Rows of a query
  without \<open>ORDER BY\<close> come in table order.
\<close>

section \<open>Policies\<close>

datatype on_satisfied = CancelRemaining | LetRun

datatype edge_dependency_policy = AllOf | AnyOf on_satisfied | Quorum u32 on_satisfied

datatype decision = Pending | Satisfied bool | Impossible

datatype outcome_kind = OK_Success | OK_Fail | OK_Skip

definition outcome_kind_from_str :: "string \<Rightarrow> outcome_kind" where
  "outcome_kind_from_str s =
     (if s = ''success'' then OK_Success else if s = ''skipped'' then OK_Skip else OK_Fail)"

text \<open>Signed 32-bit arithmetic as a release build has it: \<open>+\<close>, \<open>-\<close> and \<open>as i32\<close> wrap around.\<close>

definition wrap_i32 :: "int \<Rightarrow> int" where
  "wrap_i32 x = (x + 2 ^ 31) mod 2 ^ 32 - 2 ^ 31"

definition evaluate :: "edge_dependency_policy \<Rightarrow> int \<Rightarrow> int \<Rightarrow> int \<Rightarrow> int \<Rightarrow> decision" where
  "evaluate policy success failed skip tot =
     (let nonsuccess = wrap_i32 (failed + skip) in
      case policy of
        AllOf \<Rightarrow>
          if success = tot \<and> tot > 0 then Satisfied False
          else if nonsuccess > 0 then Impossible
          else Pending
      | AnyOf on_sat \<Rightarrow>
          if success \<ge> 1 then Satisfied (on_sat = CancelRemaining)
          else if nonsuccess \<ge> tot \<and> tot > 0 then Impossible
          else Pending
      | Quorum k on_sat \<Rightarrow>
          let k = wrap_i32 (int (unat k)) in
          if success \<ge> k then Satisfied (on_sat = CancelRemaining)
          else if wrap_i32 (tot - nonsuccess) < k then Impossible
          else Pending)"

definition parse_on_satisfied :: "json \<Rightarrow> on_satisfied" where
  "parse_on_satisfied v =
     (if Option.bind (json_get ''on_satisfied'' v) json_as_str = Some ''let_run'' then LetRun
      else CancelRemaining)"

definition decode_policy :: "json \<Rightarrow> edge_dependency_policy" where
  "decode_policy v =
     (let kind = (case Option.bind (json_get ''kind'' v) json_as_str of
                    Some k \<Rightarrow> k | None \<Rightarrow> ''all_of'')
      in if kind = ''any_of'' then AnyOf (parse_on_satisfied v)
         else if kind = ''quorum'' then
           Quorum (case Option.bind (json_get ''k'' v) json_as_u64 of
                     Some n \<Rightarrow> if n < 2 ^ 32 then of_nat n else 1
                   | None \<Rightarrow> 1)
             (parse_on_satisfied v)
         else AllOf)"

section \<open>One hop\<close>

definition group_is :: "int \<Rightarrow> uuid \<Rightarrow> uuid \<Rightarrow> edge_group \<Rightarrow> bool" where
  "group_is part flow down g \<longleftrightarrow>
     eg_partition_key g = part \<and> eg_flow_id g = flow \<and> eg_downstream_eid g = down"

definition update_group :: "int \<Rightarrow> uuid \<Rightarrow> uuid \<Rightarrow> (edge_group \<Rightarrow> edge_group) \<Rightarrow> db \<Rightarrow> db" where
  "update_group part flow down f d =
     d\<lparr>t_edge_group := sql_update (group_is part flow down) f (t_edge_group d)\<rparr>"

text \<open>The counters after one upstream outcome.\<close>

definition bump :: "outcome_kind \<Rightarrow> edge_group \<Rightarrow> edge_group" where
  "bump oc g =
     (let running = (if eg_running_count g > 0 then eg_running_count g - 1 else eg_running_count g)
      in g\<lparr>eg_success_count := (if oc = OK_Success then wrap_i32 (eg_success_count g + 1) else eg_success_count g),
           eg_fail_count := (if oc = OK_Fail then wrap_i32 (eg_fail_count g + 1) else eg_fail_count g),
           eg_skip_count := (if oc = OK_Skip then wrap_i32 (eg_skip_count g + 1) else eg_skip_count g),
           eg_running_count := max running 0\<rparr>)"

definition group_total :: "edge_group \<Rightarrow> int" where
  "group_total g =
     wrap_i32 (wrap_i32 (wrap_i32 (eg_success_count g + eg_fail_count g) + eg_skip_count g) +
       max (eg_running_count g) 0)"

definition group_decision :: "edge_group \<Rightarrow> decision" where
  "group_decision g =
     evaluate (decode_policy (eg_policy g)) (eg_success_count g) (eg_fail_count g) (eg_skip_count g)
       (group_total g)"

text \<open>\<open>lifecycle_phase NOT IN ('terminal','cancelled')\<close>\<close>

definition not_ended :: "exec_core \<Rightarrow> bool" where
  "not_ended r \<longleftrightarrow> ec_lifecycle_phase r \<notin> {''terminal'', ''cancelled''}"

definition make_eligible :: "exec_core \<Rightarrow> exec_core" where
  "make_eligible r =
     (if not_ended r
      then r\<lparr>ec_eligibility_state := ''eligible_now'',
             ec_lifecycle_phase := (if ec_lifecycle_phase r = ''blocked'' then ''runnable''
                                    else ec_lifecycle_phase r)\<rparr>
      else r)"

definition make_skipped :: "int \<Rightarrow> exec_core \<Rightarrow> exec_core" where
  "make_skipped now r =
     (if not_ended r
      then r\<lparr>ec_lifecycle_phase := ''terminal'', ec_eligibility_state := ''not_applicable'',
             ec_public_state := ''skipped'', ec_attempt_state := ''attempt_terminal'',
             ec_terminal_at_ms := (case ec_terminal_at_ms r of None \<Rightarrow> Some now | t \<Rightarrow> t)\<rparr>
      else r)"

text \<open>The join of the executions with the edges into the downstream execution.\<close>

definition sibling_members :: "pg_env \<Rightarrow> int \<Rightarrow> uuid \<Rightarrow> uuid \<Rightarrow> uuid \<Rightarrow> db \<Rightarrow> string list" where
  "sibling_members E part flow up down d =
     concat (map (\<lambda>c. map (\<lambda>_. uuid_to_string (pe_lib E) (ec_execution_id c))
         (filter (\<lambda>e. ed_upstream_eid e = ec_execution_id c \<and> ed_partition_key e = part \<and>
            ed_flow_id e = flow \<and> ed_downstream_eid e = down) (t_edge d)))
       (filter (\<lambda>c. ec_partition_key c = part \<and> not_ended c \<and> ec_public_state c \<noteq> ''skipped'' \<and>
          ec_execution_id c \<noteq> up) (t_exec d)))"

definition enqueue_cancel :: "pg_env \<Rightarrow> int \<Rightarrow> uuid \<Rightarrow> uuid \<Rightarrow> uuid \<Rightarrow> db \<Rightarrow> db" where
  "enqueue_cancel E part flow up down d =
     (let members = sibling_members E part flow up down d;
          d1 = d\<lparr>t_pending_cancel := sql_insert_or_nothing pending_cancel_key
                   \<lparr>pc_partition_key = part, pc_flow_id = flow, pc_downstream_eid = down,
                    pc_enqueued_at_ms = pe_now E\<rparr> (t_pending_cancel d)\<rparr>
      in update_group part flow down
           (\<lambda>g. g\<lparr>eg_cancel_siblings_pending_flag := True,
                  eg_cancel_siblings_pending_members := members\<rparr>) d1)"

definition insert_completion_values :: "int \<Rightarrow> uuid \<Rightarrow> uuid option \<Rightarrow> string \<Rightarrow> int \<Rightarrow> db \<Rightarrow> db" where
  "insert_completion_values part uid flow outcome now d =
     d\<lparr>t_completion := t_completion d @
         [\<lparr>ce_partition_key = part, ce_event_id = next_completion_id d, ce_execution_id = uid,
           ce_flow_id = flow, ce_outcome = outcome, ce_namespace = None, ce_instance_tag = None,
           ce_occurred_at_ms = now, ce_committed_at_ms = now, ce_dispatched_at_ms = None\<rparr>],
       next_completion_id := next_completion_id d + 1\<rparr>"

definition apply_decision ::
  "pg_env \<Rightarrow> int \<Rightarrow> uuid \<Rightarrow> uuid \<Rightarrow> uuid \<Rightarrow> bool \<Rightarrow> decision \<Rightarrow> db \<Rightarrow> db" where
  "apply_decision E part flow up down already_flagged dec d =
     (case dec of
        Pending \<Rightarrow> d
      | Satisfied cancel_siblings \<Rightarrow>
          let d1 = update_exec part down make_eligible d
          in if cancel_siblings \<and> \<not> already_flagged then enqueue_cancel E part flow up down d1 else d1
      | Impossible \<Rightarrow>
          let updated = sql_fetch (\<lambda>r. exec_is part down r \<and> not_ended r) (t_exec d);
              d1 = update_exec part down (make_skipped (pe_now E)) d
          in if updated \<noteq> None
             then insert_completion_values part down (Some flow) ''skipped'' (pe_now E) d1 else d1)"

definition advance_tx ::
  "pg_env \<Rightarrow> int \<Rightarrow> uuid \<Rightarrow> uuid \<Rightarrow> uuid \<Rightarrow> outcome_kind \<Rightarrow> db \<Rightarrow> pg_error + (unit \<times> db)" where
  "advance_tx E part flow up down oc d =
     (case sql_fetch (group_is part flow down) (t_edge_group d) of
        None \<Rightarrow> Inr ((), d)
      | Some g \<Rightarrow>
          Inr ((), apply_decision E part flow up down (eg_cancel_siblings_pending_flag g)
                     (group_decision (bump oc g)) (update_group part flow down (bump oc) d)))"

definition advance_edge_group ::
  "pg_env \<Rightarrow> int \<Rightarrow> uuid \<Rightarrow> uuid \<Rightarrow> uuid \<Rightarrow> outcome_kind \<Rightarrow> db \<Rightarrow> (pg_error + unit) \<times> db" where
  "advance_edge_group E part flow up down oc d =
     run_tx (pe_fault E) (advance_tx E part flow up down oc) d"

section \<open>Retries and dispatch\<close>

definition ADVANCE_MAX_ATTEMPTS :: nat where "ADVANCE_MAX_ATTEMPTS = 3"

definition is_serialization_conflict :: "pg_error \<Rightarrow> bool" where
  "is_serialization_conflict err \<longleftrightarrow>
     (case err of
        Contention CK_LeaseConflict \<Rightarrow> True
      | Transport _ (Sqlx_Database (Some code) _) \<Rightarrow> code = ''55P03''
      | _ \<Rightarrow> False)"

text \<open>The loop over the attempts, from \<open>attempt\<close> on; \<open>env\<close> gives each attempt its environment.\<close>

function advance_loop ::
  "(nat \<Rightarrow> pg_env) \<Rightarrow> int \<Rightarrow> uuid \<Rightarrow> uuid \<Rightarrow> uuid \<Rightarrow> outcome_kind \<Rightarrow> nat \<Rightarrow> db \<Rightarrow> (pg_error + unit) \<times> db" where
  "advance_loop env part flow up down oc attempt d =
     (if attempt < ADVANCE_MAX_ATTEMPTS
      then case advance_edge_group (env attempt) part flow up down oc d of
             (Inr _, d') \<Rightarrow> (Inr (), d')
           | (Inl err, d') \<Rightarrow>
               if is_serialization_conflict err
               then if attempt + 1 < ADVANCE_MAX_ATTEMPTS
                    then advance_loop env part flow up down oc (attempt + 1) d'
                    else (Inl (Contention CK_RetryExhausted), d')
               else (Inl err, d')
      else (Inl (Contention CK_RetryExhausted), d))"
  by pat_completeness auto
termination
  by (relation "measure (\<lambda>(_, _, _, _, _, _, attempt, _). ADVANCE_MAX_ATTEMPTS - attempt)") auto

declare advance_loop.simps [simp del]

definition advance_edge_group_with_retry ::
  "(nat \<Rightarrow> pg_env) \<Rightarrow> int \<Rightarrow> uuid \<Rightarrow> uuid \<Rightarrow> uuid \<Rightarrow> outcome_kind \<Rightarrow> db \<Rightarrow> (pg_error + unit) \<times> db" where
  "advance_edge_group_with_retry env part flow up down oc d =
     advance_loop env part flow up down oc 0 d"

datatype dispatch_outcome = NoOp | Advanced nat

fun cascade ::
  "(nat \<Rightarrow> nat \<Rightarrow> pg_env) \<Rightarrow> int \<Rightarrow> uuid \<Rightarrow> uuid \<Rightarrow> outcome_kind \<Rightarrow> edge list \<Rightarrow> nat \<Rightarrow> db \<Rightarrow>
   (pg_error + dispatch_outcome) \<times> db" where
  "cascade env part flow up oc [] advanced d = (Inr (Advanced advanced), d)"
| "cascade env part flow up oc (e # es) advanced d =
     (case advance_edge_group_with_retry (env advanced) part flow up (ed_downstream_eid e) oc d of
        (Inl err, d') \<Rightarrow> (Inl err, d')
      | (Inr _, d') \<Rightarrow> cascade env part flow up oc es (advanced + 1) d')"

text \<open>The claim of an event: one statement in a transaction of its own.\<close>

definition undispatched :: "int \<Rightarrow> completion_event \<Rightarrow> bool" where
  "undispatched event_id c \<longleftrightarrow> ce_event_id c = event_id \<and> ce_dispatched_at_ms c = None"

definition claim_event :: "pg_env \<Rightarrow> int \<Rightarrow> db \<Rightarrow> pg_error + (completion_event option \<times> db)" where
  "claim_event E event_id d =
     Inr (sql_fetch (undispatched event_id) (t_completion d),
          d\<lparr>t_completion := sql_update (undispatched event_id)
              (\<lambda>c. c\<lparr>ce_dispatched_at_ms := Some (pe_now E)\<rparr>) (t_completion d)\<rparr>)"

definition outgoing :: "int \<Rightarrow> uuid \<Rightarrow> uuid \<Rightarrow> db \<Rightarrow> edge list" where
  "outgoing part flow uid d =
     sql_select (\<lambda>e. ed_partition_key e = part \<and> ed_flow_id e = flow \<and> ed_upstream_eid e = uid)
       (t_edge d)"

definition dispatch_completion ::
  "pg_env \<Rightarrow> (nat \<Rightarrow> nat \<Rightarrow> pg_env) \<Rightarrow> int \<Rightarrow> db \<Rightarrow> (pg_error + dispatch_outcome) \<times> db" where
  "dispatch_completion E env event_id d =
     (case run_tx (pe_fault E) (claim_event E event_id) d of
        (Inl e, d') \<Rightarrow> (Inl e, d')
      | (Inr None, d') \<Rightarrow> (Inr NoOp, d')
      | (Inr (Some row), d') \<Rightarrow>
          (case ce_flow_id row of
             None \<Rightarrow> (Inr (Advanced 0), d')
           | Some flow \<Rightarrow>
               (case pe_read_error E of
                  Some e \<Rightarrow> (Inl (map_sqlx_error e), d')
                | None \<Rightarrow>
                    cascade env (ce_partition_key row) flow (ce_execution_id row)
                      (outcome_kind_from_str (ce_outcome row))
                      (outgoing (ce_partition_key row) flow (ce_execution_id row) d') 0 d')))"

section \<open>The dependency reconciler\<close>

record reconcile_report =
  rr_scanned :: nat
  rr_reconciled :: nat
  rr_noop :: nat
  rr_filtered :: nat
  rr_errors :: nat

definition BATCH_LIMIT :: nat where "BATCH_LIMIT = 1000"
definition DEFAULT_STALE_THRESHOLD_MS :: int where "DEFAULT_STALE_THRESHOLD_MS = 1000"

text \<open>\<open>$n IS NULL OR column = $n\<close>\<close>

definition null_or_eq :: "string option \<Rightarrow> string option \<Rightarrow> bool" where
  "null_or_eq param col \<longleftrightarrow> param = None \<or> col = param"

definition stale_events :: "int \<Rightarrow> scanner_filter \<Rightarrow> db \<Rightarrow> int list" where
  "stale_events cutoff f d =
     map ce_event_id
       (sql_order_limit ce_event_id BATCH_LIMIT
         (\<lambda>c. ce_dispatched_at_ms c = None \<and> ce_committed_at_ms c < cutoff \<and>
            null_or_eq (sf_namespace f) (ce_namespace c) \<and>
            null_or_eq (map_option snd (sf_instance_tag f)) (ce_instance_tag c))
         (t_completion d))"

fun reconcile_rows ::
  "(nat \<Rightarrow> pg_env \<times> (nat \<Rightarrow> nat \<Rightarrow> pg_env)) \<Rightarrow> nat \<Rightarrow> int list \<Rightarrow> reconcile_report \<Rightarrow> db \<Rightarrow> reconcile_report \<times> db" where
  "reconcile_rows envs i [] rep d = (rep, d)"
| "reconcile_rows envs i (ev # evs) rep d =
     (case dispatch_completion (fst (envs i)) (snd (envs i)) ev d of
        (Inr (Advanced _), d') \<Rightarrow>
          reconcile_rows envs (Suc i) evs (rep\<lparr>rr_reconciled := rr_reconciled rep + 1\<rparr>) d'
      | (Inr NoOp, d') \<Rightarrow> reconcile_rows envs (Suc i) evs (rep\<lparr>rr_noop := rr_noop rep + 1\<rparr>) d'
      | (Inl _, d') \<Rightarrow> reconcile_rows envs (Suc i) evs (rep\<lparr>rr_errors := rr_errors rep + 1\<rparr>) d')"

definition reconcile_tick ::
  "pg_env \<Rightarrow> (nat \<Rightarrow> pg_env \<times> (nat \<Rightarrow> nat \<Rightarrow> pg_env)) \<Rightarrow> scanner_filter \<Rightarrow> int \<Rightarrow> db \<Rightarrow>
   (pg_error + reconcile_report) \<times> db" where
  "reconcile_tick E envs f stale_threshold_ms d =
     (case pe_read_error E of
        Some e \<Rightarrow> (Inl (map_sqlx_error e), d)
      | None \<Rightarrow>
          let rows = stale_events (saturating_sub (pe_now E) stale_threshold_ms) f d;
              (rep, d') = reconcile_rows envs 0 rows
                \<lparr>rr_scanned = length rows, rr_reconciled = 0, rr_noop = 0, rr_filtered = 0, rr_errors = 0\<rparr> d
          in (Inr rep, d'))"

section \<open>Lemmas\<close>

lemma wrap_i32_id [simp]: "- (2 ^ 31) \<le> x \<Longrightarrow> x < 2 ^ 31 \<Longrightarrow> wrap_i32 x = x"
  by (simp add: wrap_i32_def)

definition group_at :: "db \<Rightarrow> int \<Rightarrow> uuid \<Rightarrow> uuid \<Rightarrow> edge_group option" where
  "group_at d part flow down = row_at edge_group_key (part, flow, down) (t_edge_group d)"

lemma fetch_group: "sql_fetch (group_is part flow down) (t_edge_group d) = group_at d part flow down"
  unfolding sql_fetch_def group_at_def row_at_def
  by (rule arg_cong [where f = "\<lambda>P. List.find P (t_edge_group d)"])
    (auto simp: group_is_def edge_group_key_def)

lemma group_at_update [db_lookup]:
  assumes "\<And>g. edge_group_key (f g) = edge_group_key g"
  shows "group_at (update_group part flow down f d) p w u =
    (if p = part \<and> w = flow \<and> u = down then map_option f (group_at d p w u) else group_at d p w u)"
proof -
  have "group_is part flow down g \<longleftrightarrow> (p, w, u) = (part, flow, down)" if "group_at d p w u = Some g" for g
    using row_at_Some [OF that [unfolded group_at_def]] by (auto simp: edge_group_key_def group_is_def)
  then show ?thesis
    using row_at_update [where key = edge_group_key and f = f, OF assms, of "(p, w, u)"
        "group_is part flow down" "t_edge_group d"]
    by (cases "group_at d p w u") (auto simp: group_at_def update_group_def)
qed

lemma bump_key [simp]: "edge_group_key (bump oc g) = edge_group_key g"
  by (simp add: bump_def Let_def edge_group_key_def)

lemma make_eligible_keeps [simp]: "exec_le r (make_eligible r)" "exec_key (make_eligible r) = exec_key r"
  by (simp_all add: make_eligible_def exec_le_def exec_typed_def exec_key_def)

lemma make_skipped_keeps [simp]:
  "exec_le r (make_skipped now r)" "exec_key (make_skipped now r) = exec_key r"
  by (simp_all add: make_skipped_def exec_le_def exec_typed_def exec_key_def)

lemma update_group_tables [db_lookup]:
  "t_exec (update_group part flow down f d) = t_exec d"
  "t_attempt (update_group part flow down f d) = t_attempt d"
  "t_completion (update_group part flow down f d) = t_completion d"
  "t_edge (update_group part flow down f d) = t_edge d"
  "t_pending_cancel (update_group part flow down f d) = t_pending_cancel d"
  "next_completion_id (update_group part flow down f d) = next_completion_id d"
  "exec_at (update_group part flow down f d) p u = exec_at d p u"
  "attempt_at (update_group part flow down f d) p u i = attempt_at d p u i"
  by (simp_all add: update_group_def exec_at_def attempt_at_def)

lemma insert_values_tables [db_lookup]:
  "t_exec (insert_completion_values part uid fl out now d) = t_exec d"
  "t_attempt (insert_completion_values part uid fl out now d) = t_attempt d"
  "t_edge (insert_completion_values part uid fl out now d) = t_edge d"
  "t_edge_group (insert_completion_values part uid fl out now d) = t_edge_group d"
  "exec_at (insert_completion_values part uid fl out now d) p u = exec_at d p u"
  "attempt_at (insert_completion_values part uid fl out now d) p u i = attempt_at d p u i"
  by (simp_all add: insert_completion_values_def exec_at_def attempt_at_def)

lemma evolves_update_group:
  "(\<And>g. edge_group_key (f g) = edge_group_key g) \<Longrightarrow> db_evolves d (update_group part flow down f d)"
  by (simp add: db_evolves_def db_wf_def db_typed_def update_group_def rows_le_refl map_key_update)

lemma evolves_insert_values: "db_evolves d (insert_completion_values part uid fl out now d)"
  using evolves_completions [of "[_]" d]
  by (simp add: insert_completion_values_def)

lemma evolves_enqueue: "db_evolves d (enqueue_cancel E part flow up down d)"
proof -
  have "db_evolves d (d\<lparr>t_pending_cancel := sql_insert_or_nothing pending_cancel_key r (t_pending_cancel d)\<rparr>)" for r
    by (auto simp: db_evolves_def db_wf_def db_typed_def sql_insert_or_nothing_def rows_le_refl)
  then show ?thesis
    unfolding enqueue_cancel_def Let_def
    by (rule db_evolves_trans) (auto intro: evolves_update_group simp: edge_group_key_def)
qed

lemma apply_decision_evolves: "db_evolves d (apply_decision E part flow up down fl dec d)"
  by (cases dec)
    (auto simp: apply_decision_def Let_def
      intro!: db_evolves_trans [OF _ evolves_enqueue] db_evolves_trans [OF _ evolves_insert_values]
        evolves_update_exec)

lemma advance_tx_evolves: "advance_tx E part flow up down oc d = Inr (u, d') \<Longrightarrow> db_evolves d d'"
  by (auto simp: advance_tx_def split: option.splits
      intro!: db_evolves_trans [OF evolves_update_group apply_decision_evolves])

lemma advance_evolves: "db_evolves d (snd (advance_edge_group E part flow up down oc d))"
  unfolding advance_edge_group_def by (rule evolves_run_tx) (rule advance_tx_evolves)

text \<open>What every hop does to the database, the retries and the cascade do too.\<close>

lemma cascade_rel:
  assumes refl: "\<And>d. R d d" and trans: "\<And>d e f. R d e \<Longrightarrow> R e f \<Longrightarrow> R d f"
    and hop: "\<And>E part flow up down oc d. R d (snd (advance_edge_group E part flow up down oc d))"
  shows "R d (snd (cascade env part flow up oc es n d))"
proof -
  have loop: "R d (snd (advance_loop env part flow up down oc k d))" for env down k d
  proof (induction env part flow up down oc k d rule: advance_loop.induct)
    case (1 env part flow up down oc k d)
    show ?case
    proof (cases "advance_edge_group (env k) part flow up down oc d")
      case (Pair res d')
      then have d': "R d d'" using hop [of d "env k" part flow up down oc] by simp
      show ?thesis
      proof (cases "\<exists>err. res = Inl err \<and> is_serialization_conflict err \<and> k + 1 < ADVANCE_MAX_ATTEMPTS")
        case True
        then obtain err where e: "res = Inl err" "is_serialization_conflict err" "k + 1 < ADVANCE_MAX_ATTEMPTS"
          by blast
        with 1 [OF _ Pair [symmetric], of err] have "R d' (snd (advance_loop env part flow up down oc (k + 1) d'))"
          by simp
        from trans [OF d' this] e Pair show ?thesis by (subst advance_loop.simps) simp
      next
        case False
        with Pair d' refl [of d] show ?thesis by (subst advance_loop.simps) (cases res; simp)
      qed
    qed
  qed
  show ?thesis
  proof (induction es arbitrary: n d)
    case (Cons e es)
    show ?case
    proof (cases "advance_edge_group_with_retry (env n) part flow up (ed_downstream_eid e) oc d")
      case (Pair res d')
      then have "R d d'"
        using loop [of d "env n" "ed_downstream_eid e" 0] by (simp add: advance_edge_group_with_retry_def)
      with trans [OF this Cons.IH [where n = "n + 1"]] Pair show ?thesis by (cases res) simp_all
    qed
  qed (simp add: refl)
qed

definition completions_grow :: "db \<Rightarrow> db \<Rightarrow> bool" where
  "completions_grow d d' \<longleftrightarrow> next_completion_id d \<le> next_completion_id d' \<and>
     (\<exists>new. t_completion d' = t_completion d @ new \<and>
        (\<forall>c \<in> set new. next_completion_id d \<le> ce_event_id c))"

lemma completions_grow_refl: "completions_grow d d"
  by (simp add: completions_grow_def)

lemma completions_grow_trans: "completions_grow d e \<Longrightarrow> completions_grow e f \<Longrightarrow> completions_grow d f"
  unfolding completions_grow_def by fastforce

lemma advance_grows: "completions_grow d (snd (advance_edge_group E part flow up down oc d))"
  unfolding advance_edge_group_def
proof (rule run_tx_rel [of _ _ completions_grow])
  show "completions_grow d d'" if "advance_tx E part flow up down oc d = Inr (u, d')" for u d'
    using that
    by (auto simp: advance_tx_def apply_decision_def Let_def enqueue_cancel_def completions_grow_def
        db_lookup insert_completion_values_def split: option.splits decision.splits)
qed (rule completions_grow_refl)

lemmas cascade_evolves = cascade_rel [of db_evolves, OF db_evolves_refl db_evolves_trans advance_evolves]
lemmas cascade_grows =
  cascade_rel [of completions_grow, OF completions_grow_refl completions_grow_trans advance_grows]

lemma claim_event_evolves:
  assumes "claim_event E ev d = Inr (c, d')"
  shows "db_evolves d d'"
proof -
  let ?f = "\<lambda>c. c\<lparr>ce_dispatched_at_ms := Some (pe_now E)\<rparr>"
  have d': "d' = d\<lparr>t_completion := sql_update (undispatched ev) ?f (t_completion d)\<rparr>"
    using assms by (simp add: claim_event_def)
  have *: "map ce_event_id (t_completion d') = map ce_event_id (t_completion d)"
    "map completion_id (t_completion d') = map completion_id (t_completion d)"
    unfolding d' by (simp_all add: map_key_update completion_id_def)
  have ids: "list_all (\<lambda>c. ce_event_id c < n) t = list_all (\<lambda>i. i < n) (map ce_event_id t)"
    for n and t :: "completion_event list" by (simp add: list_all_iff)
  have "list_all (\<lambda>c. ce_event_id c < n) (t_completion d') =
      list_all (\<lambda>c. ce_event_id c < n) (t_completion d)" for n
    by (simp only: ids *)
  with * show ?thesis
    by (auto simp: db_evolves_def db_wf_def db_typed_def rows_le_refl d' simp del: list.set_map)
qed

lemma dispatch_evolves: "db_evolves d (snd (dispatch_completion E env ev d))"
proof -
  obtain res d' where r: "run_tx (pe_fault E) (claim_event E ev) d = (res, d')" by force
  have "db_evolves d d'"
    using evolves_run_tx [of "claim_event E ev" d "pe_fault E"] claim_event_evolves r by auto
  then show ?thesis
    by (auto simp: dispatch_completion_def r split: sum.splits option.splits
        intro: db_evolves_trans [OF _ cascade_evolves])
qed

section \<open>Properties\<close>

text \<open>
  What a policy asks of the number of successes once all upstream executions have ended, and whether
  it cancels the siblings of the deciding success.
\<close>

fun meets :: "edge_dependency_policy \<Rightarrow> int \<Rightarrow> int \<Rightarrow> bool" where
  "meets AllOf successes n \<longleftrightarrow> successes = n"
| "meets (AnyOf _) successes n \<longleftrightarrow> successes \<ge> 1"
| "meets (Quorum k _) successes n \<longleftrightarrow> successes \<ge> int (unat k)"

fun cancels_rest :: "edge_dependency_policy \<Rightarrow> bool" where
  "cancels_rest AllOf = False"
| "cancels_rest (AnyOf on_sat) = (on_sat = CancelRemaining)"
| "cancels_rest (Quorum _ on_sat) = (on_sat = CancelRemaining)"

fun quorum_size :: "edge_dependency_policy \<Rightarrow> nat" where
  "quorum_size (Quorum k _) = unat k"
| "quorum_size _ = 0"

text \<open>
  C19. The policy evaluation decides exactly as soon as the outcome is certain: it reports the group
  satisfied when the policy is met however the upstream executions that are still open end,
  impossible when it is not met however they end, and pending in every other case. This needs a
  quorum size below \<open>2 ^ 31\<close>, since the code narrows it to a signed 32-bit integer.
\<close>

theorem evaluate_decides:
  assumes "0 \<le> s" "0 \<le> f" "0 \<le> k" "s + f + k \<le> n" "0 < n" "n < 2 ^ 31" "quorum_size p < 2 ^ 31"
  shows "evaluate p s f k n =
    (if \<forall>x. s \<le> x \<and> x \<le> n - f - k \<longrightarrow> meets p x n then Satisfied (cancels_rest p)
     else if \<forall>x. s \<le> x \<and> x \<le> n - f - k \<longrightarrow> \<not> meets p x n then Impossible
     else Pending)"
proof -
  have least: "(\<forall>x. s \<le> x \<and> x \<le> n - f - k \<longrightarrow> x \<ge> c) \<longleftrightarrow> s \<ge> c"
    and most: "(\<forall>x. s \<le> x \<and> x \<le> n - f - k \<longrightarrow> \<not> x \<ge> c) \<longleftrightarrow> n - f - k < c" for c :: int
    using assms(4) by (auto dest: spec [of _ "n - f - k"])
  have all: "(\<forall>x. s \<le> x \<and> x \<le> n - f - k \<longrightarrow> x = n) \<longleftrightarrow> s = n"
    and none: "(\<forall>x. s \<le> x \<and> x \<le> n - f - k \<longrightarrow> x \<noteq> n) \<longleftrightarrow> f + k > 0"
    using assms(1-4) by (auto, presburger+)
  have w: "wrap_i32 (f + k) = f + k" "wrap_i32 (n - (f + k)) = n - f - k"
    using assms(1-4,6) by simp_all
  show ?thesis
  proof (cases p)
    case AllOf
    then show ?thesis using assms by (simp add: evaluate_def w all none)
  next
    case (AnyOf on_sat)
    then show ?thesis using assms by (simp add: evaluate_def w least most)
  next
    case (Quorum q on_sat)
    then have "unat q < 2 ^ 31" using assms(7) by simp
    then have "int (unat q) < 2 ^ 31" by (simp only: of_nat_less_numeral_power_cancel_iff)
    then have "wrap_i32 (int (unat q)) = int (unat q)"
      by (intro wrap_i32_id [OF order_trans [OF _ of_nat_0_le_iff]]) simp_all
    with Quorum show ?thesis using assms by (simp add: evaluate_def w least most Let_def)
  qed
qed

theorem evaluate_decides_witness: "evaluate (Quorum 2 LetRun) 1 1 0 3 = Pending"
proof -
  let ?p = "Quorum 2 LetRun"
  have "\<not> (\<forall>x::int. 1 \<le> x \<and> x \<le> 3 - 1 - 0 \<longrightarrow> meets ?p x 3)"
    by (rule notI) (drule spec [of _ 1], simp)
  moreover have "\<not> (\<forall>x::int. 1 \<le> x \<and> x \<le> 3 - 1 - 0 \<longrightarrow> \<not> meets ?p x 3)"
    by (rule notI) (drule spec [of _ 2], simp)
  moreover have "evaluate ?p 1 1 0 3 =
    (if \<forall>x. 1 \<le> x \<and> x \<le> 3 - 1 - 0 \<longrightarrow> meets ?p x 3 then Satisfied (cancels_rest ?p)
     else if \<forall>x. 1 \<le> x \<and> x \<le> 3 - 1 - 0 \<longrightarrow> \<not> meets ?p x 3 then Impossible
     else Pending)"
    by (rule evaluate_decides) simp_all
  ultimately show ?thesis by (simp only: if_False)
qed

text \<open>Counters as the database keeps them: not negative, and with room for another outcome.\<close>

definition counters_ok :: "edge_group \<Rightarrow> bool" where
  "counters_ok g \<longleftrightarrow>
     0 \<le> eg_success_count g \<and> 0 \<le> eg_fail_count g \<and> 0 \<le> eg_skip_count g \<and> 0 \<le> eg_running_count g \<and>
     eg_success_count g + eg_fail_count g + eg_skip_count g + eg_running_count g < 2 ^ 31 - 1"

definition outcomes_seen :: "edge_group \<Rightarrow> int" where
  "outcomes_seen g = eg_success_count g + eg_fail_count g + eg_skip_count g"

lemma bump_counts:
  assumes "counters_ok g"
  shows "outcomes_seen (bump oc g) = outcomes_seen g + 1"
    "eg_success_count (bump oc g) = eg_success_count g + (if oc = OK_Success then 1 else 0)"
    "eg_running_count (bump oc g) = max (eg_running_count g - 1) 0"
    "0 < eg_running_count g \<Longrightarrow> group_total (bump oc g) = group_total g"
  using assms by (cases oc; auto simp: bump_def counters_ok_def outcomes_seen_def group_total_def Let_def)+

lemma enqueue_effect:
  "group_at (enqueue_cancel E part flow up down d) part flow down =
     map_option (\<lambda>g. g\<lparr>eg_cancel_siblings_pending_flag := True,
       eg_cancel_siblings_pending_members := sibling_members E part flow up down d\<rparr>)
       (group_at d part flow down)"
  "(part, flow, down) \<in> pending_cancel_key ` set (t_pending_cancel (enqueue_cancel E part flow up down d))"
  "exec_at (enqueue_cancel E part flow up down d) p u = exec_at d p u"
  "t_completion (enqueue_cancel E part flow up down d) = t_completion d"
proof -
  show "group_at (enqueue_cancel E part flow up down d) part flow down =
     map_option (\<lambda>g. g\<lparr>eg_cancel_siblings_pending_flag := True,
       eg_cancel_siblings_pending_members := sibling_members E part flow up down d\<rparr>)
       (group_at d part flow down)"
    unfolding enqueue_cancel_def Let_def by (subst group_at_update) (simp_all add: group_at_def edge_group_key_def)
qed (auto simp: enqueue_cancel_def Let_def db_lookup sql_insert_or_nothing_def pending_cancel_key_def
    exec_at_def)

lemma fetch_not_ended:
  assumes "db_wf d" "exec_at d part uid = Some r"
  shows "sql_fetch (\<lambda>x. exec_is part uid x \<and> not_ended x) (t_exec d) \<noteq> None \<longleftrightarrow> not_ended r"
proof -
  have "x = r" if "x \<in> set (t_exec d)" "exec_is part uid x" for x
    using exec_at_distinct [OF assms(1) that(1)] that(2) assms(2) by (auto simp: exec_is_def)
  with exec_at_key [OF assms(2)] show ?thesis
    by (auto simp: sql_fetch_def find_None_iff)
qed

lemma insert_values_outcomes [db_lookup]:
  "map (\<lambda>c. (ce_execution_id c, ce_outcome c)) (t_completion (insert_completion_values part uid fl out now d)) =
   map (\<lambda>c. (ce_execution_id c, ce_outcome c)) (t_completion d) @ [(uid, out)]"
  by (simp add: insert_completion_values_def)

lemma group_at_other [db_lookup]:
  "group_at (update_exec p u h d) part flow down = group_at d part flow down"
  "group_at (insert_completion_values p u fl out now d) part flow down = group_at d part flow down"
  by (simp_all add: group_at_def update_exec_def insert_completion_values_def)

lemma advance_run:
  assumes "group_at d part flow down = Some g" "pe_fault E = No_fault"
  shows "advance_edge_group E part flow up down oc d =
    (Inr (), apply_decision E part flow up down (eg_cancel_siblings_pending_flag g)
      (group_decision (bump oc g)) (update_group part flow down (bump oc) d))"
  using assms by (simp add: advance_edge_group_def advance_tx_def fetch_group)


definition sample_group :: "json \<Rightarrow> int \<Rightarrow> int \<Rightarrow> edge_group" where
  "sample_group policy success running =
     \<lparr>eg_partition_key = 7, eg_flow_id = 9, eg_downstream_eid = 5, eg_policy = policy, eg_k_target = 0,
      eg_success_count = success, eg_fail_count = 0, eg_skip_count = 0, eg_running_count = running,
      eg_cancel_siblings_pending_flag = False, eg_cancel_siblings_pending_members = []\<rparr>"

definition sample_event :: completion_event where
  "sample_event =
     \<lparr>ce_partition_key = 7, ce_event_id = 0, ce_execution_id = 6, ce_flow_id = Some 9,
      ce_outcome = ''success'', ce_namespace = None, ce_instance_tag = None, ce_occurred_at_ms = 40,
      ce_committed_at_ms = 40, ce_dispatched_at_ms = None\<rparr>"

text \<open>Execution 5 waits for execution 6, whose completion event is in the outbox.\<close>

definition flow_db :: "exec_core \<Rightarrow> edge_group \<Rightarrow> db" where
  "flow_db r g = (sample_db [r] [])
     \<lparr>t_edge := [\<lparr>ed_partition_key = 7, ed_flow_id = 9, ed_edge_id = 1, ed_upstream_eid = 6,
        ed_downstream_eid = 5, ed_policy = JNull, ed_policy_version = 0\<rparr>],
      t_edge_group := [g], t_completion := [sample_event], next_completion_id := 1\<rparr>"

lemma flow_db_rows:
  "exec_at (flow_db (sample_exec 5 ph el []) g) 7 5 = Some (sample_exec 5 ph el [])"
  "group_at (flow_db r (sample_group pol s n)) 7 9 5 = Some (sample_group pol s n)"
  "db_wf (flow_db r g)"
  by (simp_all add: flow_db_def sample_db_def exec_at_def group_at_def row_at_def exec_key_def
      edge_group_key_def sample_group_def db_wf_def sample_event_def) (simp add: sample_exec_def)


definition event_claimed :: "int \<Rightarrow> db \<Rightarrow> bool" where
  "event_claimed ev d \<longleftrightarrow> ev < next_completion_id d \<and>
     (\<forall>c \<in> set (t_completion d). ce_event_id c = ev \<longrightarrow> ce_dispatched_at_ms c \<noteq> None)"

lemma grow_event_claimed: "completions_grow d d' \<Longrightarrow> event_claimed ev d \<Longrightarrow> event_claimed ev d'"
  by (fastforce simp: completions_grow_def event_claimed_def)

lemma event_claimed_noop:
  assumes "\<not> (\<exists>c \<in> set (t_completion d). undispatched ev c)"
  shows "claim_event E ev d = Inr (None, d)" "ev \<notin> set (stale_events cutoff f d)"
proof -
  have "sql_update (undispatched ev) h (t_completion d) = t_completion d" for h
    using assms by (simp add: sql_update_def map_idI)
  moreover have "sql_fetch (undispatched ev) (t_completion d) = None"
    using assms by (simp add: sql_fetch_def find_None_iff)
  ultimately show "claim_event E ev d = Inr (None, d)" by (simp add: claim_event_def)
  show "ev \<notin> set (stale_events cutoff f d)"
    using assms
    by (auto simp: stale_events_def sql_order_limit_def undispatched_def dest!: in_set_takeD)
qed

lemma claim_event_marks:
  assumes "db_wf d" "claim_event E ev d = Inr (Some row, d')"
  shows "event_claimed ev d'"
  unfolding event_claimed_def
proof (intro conjI ballI impI)
  from assms(2) have d': "d' = d\<lparr>t_completion := sql_update (undispatched ev)
      (\<lambda>c. c\<lparr>ce_dispatched_at_ms := Some (pe_now E)\<rparr>) (t_completion d)\<rparr>"
    and row: "row \<in> set (t_completion d)" "ce_event_id row = ev"
    by (auto simp: claim_event_def sql_fetch_def find_Some_iff undispatched_def)
  from row assms(1) show "ev < next_completion_id d'" unfolding d' by (auto simp: db_wf_def list_all_iff)
  fix c
  assume "c \<in> set (t_completion d')" "ce_event_id c = ev"
  then obtain r where c: "c = (if undispatched ev r then r\<lparr>ce_dispatched_at_ms := Some (pe_now E)\<rparr> else r)"
    unfolding d' by (auto simp: set_sql_update)
  show "ce_dispatched_at_ms c \<noteq> None"
  proof (cases "undispatched ev r")
    case False
    with c have "c = r" by simp
    with False \<open>ce_event_id c = ev\<close> show ?thesis by (simp add: undispatched_def)
  qed (simp add: c)
qed

lemma dispatch_keeps_claim:
  assumes "db_wf d" "\<And>e. pe_fault E \<noteq> Fails_before e" "dispatch_completion E env ev d = (res, d')"
  shows "\<not> (\<exists>c \<in> set (t_completion d'). undispatched ev c)"
proof (cases "\<exists>c \<in> set (t_completion d). undispatched ev c")
  case False
  then have "d' = d"
    using assms(2,3) event_claimed_noop(1) [of d ev E]
    by (cases "pe_fault E") (auto simp: dispatch_completion_def run_tx_def)
  with False show ?thesis by simp
next
  case True
  then obtain row d1 where c: "claim_event E ev d = Inr (Some row, d1)"
    by (cases "sql_fetch (undispatched ev) (t_completion d)")
      (auto simp: claim_event_def sql_fetch_def find_None_iff)
  let ?cascade = "\<lambda>flow. cascade env (ce_partition_key row) flow (ce_execution_id row)
    (outcome_kind_from_str (ce_outcome row))
    (outgoing (ce_partition_key row) flow (ce_execution_id row) d1) 0 d1"
  have "d' = d1 \<or> (\<exists>flow. ?cascade flow = (res, d'))"
    using assms(2,3) c
    by (cases "pe_fault E") (auto simp: dispatch_completion_def run_tx_def split: option.splits)
  moreover have "completions_grow d1 (snd (?cascade flow))" for flow by (rule cascade_grows)
  ultimately have "completions_grow d1 d'"
    by (elim disjE exE) (simp_all add: completions_grow_refl, metis snd_conv)
  then have "event_claimed ev d'"
    using claim_event_marks [OF assms(1) c] by (rule grow_event_claimed)
  then show ?thesis by (auto simp: event_claimed_def undispatched_def)
qed

text \<open>
  C18. An event of the outbox is dispatched at most once: after a call of the dispatcher whose claim
  took effect, however its cascade went on and whether or not the caller saw the answer, a further
  call for the event does nothing and no tick of the reconciler selects it.
\<close>

theorem dispatch_at_most_once:
  assumes "db_wf d" "\<And>e. pe_fault E \<noteq> Fails_before e" "dispatch_completion E env ev d = (res, d')"
    and "pe_fault E' = No_fault"
  shows "dispatch_completion E' env' ev d' = (Inr NoOp, d') \<and> ev \<notin> set (stale_events cutoff f d')"
  using event_claimed_noop [OF dispatch_keeps_claim [OF assms(1-3)]] assms(4)
  by (simp add: dispatch_completion_def run_tx_def)

theorem dispatch_at_most_once_witness:
  "dispatch_completion (sample_env 60) (\<lambda>_ _. sample_env 60) 0
     (snd (dispatch_completion (sample_env 50) (\<lambda>_ _. sample_env 50) 0
       (flow_db (sample_exec 5 ''blocked'' ''not_applicable'' []) (sample_group JNull 0 1)))) =
   (Inr NoOp, snd (dispatch_completion (sample_env 50) (\<lambda>_ _. sample_env 50) 0
       (flow_db (sample_exec 5 ''blocked'' ''not_applicable'' []) (sample_group JNull 0 1))))"
  by (rule dispatch_at_most_once [THEN conjunct1, OF flow_db_rows(3) _ prod.collapse [symmetric]]) simp_all

lemma advance_fails_before:
  assumes "pe_fault (env 0) = Fails_before e" "\<not> is_serialization_conflict (map_sqlx_error e)"
  shows "advance_edge_group_with_retry env part flow up down oc d = (Inl (map_sqlx_error e), d)"
  using assms
  by (simp add: advance_edge_group_with_retry_def advance_loop.simps ADVANCE_MAX_ATTEMPTS_def
      advance_edge_group_def run_tx_def)

text \<open>
  C37. A cascade that fails after the event was claimed is lost: when the transaction of the first
  hop fails for another reason than a conflict, the dispatcher reports the error with no group
  advanced, and yet the event counts as dispatched, so neither another call nor any tick of the
  reconciler takes it up again and the downstream executions never hear of the outcome.
\<close>

theorem failed_cascade_not_retried:
  assumes "db_wf d" "sql_fetch (undispatched ev) (t_completion d) = Some row"
    and "ce_flow_id row = Some flow" "outgoing (ce_partition_key row) flow (ce_execution_id row) d \<noteq> []"
    and "pe_fault E = No_fault" "pe_read_error E = None"
    and "pe_fault (env 0 0) = Fails_before e" "\<not> is_serialization_conflict (map_sqlx_error e)"
  shows "\<exists>d'. dispatch_completion E env ev d = (Inl (map_sqlx_error e), d') \<and>
    t_edge_group d' = t_edge_group d \<and> t_exec d' = t_exec d \<and>
    ev \<notin> set (stale_events cutoff f d') \<and>
    (\<forall>E' env'. pe_fault E' = No_fault \<longrightarrow> dispatch_completion E' env' ev d' = (Inr NoOp, d'))"
proof -
  let ?d' = "d\<lparr>t_completion := sql_update (undispatched ev)
    (\<lambda>c. c\<lparr>ce_dispatched_at_ms := Some (pe_now E)\<rparr>) (t_completion d)\<rparr>"
  obtain x xs where "outgoing (ce_partition_key row) flow (ce_execution_id row) d = x # xs"
    using assms(4) by (auto simp: neq_Nil_conv)
  moreover have "outgoing p w u ?d' = outgoing p w u d" for p w u by (simp add: outgoing_def)
  ultimately have run: "dispatch_completion E env ev d = (Inl (map_sqlx_error e), ?d')"
    using assms(2,3,5-8) advance_fails_before [of "env 0" e]
    by (simp add: dispatch_completion_def claim_event_def)
  have "\<And>e. pe_fault E \<noteq> Fails_before e" using assms(5) by simp
  from event_claimed_noop [OF dispatch_keeps_claim [OF assms(1) this run]] run show ?thesis
    by (auto simp: dispatch_completion_def)
qed

lemma sample_read_error: "pe_read_error (sample_env t) = None"
  by (simp add: sample_env_def)

theorem failed_cascade_not_retried_witness:
  "\<exists>d'. dispatch_completion (sample_env 50)
      (\<lambda>_ _. (sample_env 50)\<lparr>pe_fault := Fails_before (Sqlx_Other ''connection reset'')\<rparr>) 0
      (flow_db (sample_exec 5 ''blocked'' ''not_applicable'' []) (sample_group JNull 0 1)) =
      (Inl (Transport ''postgres'' (Sqlx_Other ''connection reset'')), d') \<and>
    t_edge_group d' = [sample_group JNull 0 1]"
proof -
  let ?d = "flow_db (sample_exec 5 ''blocked'' ''not_applicable'' []) (sample_group JNull 0 1)"
  have "sql_fetch (undispatched 0) (t_completion ?d) = Some sample_event" "ce_flow_id sample_event = Some 9"
    "outgoing (ce_partition_key sample_event) 9 (ce_execution_id sample_event) ?d \<noteq> []"
    "t_edge_group ?d = [sample_group JNull 0 1]"
    by (simp_all add: flow_db_def sample_event_def sql_fetch_def undispatched_def outgoing_def sql_select_def)
  then show ?thesis
    using failed_cascade_not_retried [OF flow_db_rows(3) [of "sample_exec 5 ''blocked'' ''not_applicable'' []"
          "sample_group JNull 0 1"], where ev = 0 and row = sample_event and flow = 9
        and E = "sample_env 50" and e = "Sqlx_Other ''connection reset''"
        and env = "\<lambda>_ _. (sample_env 50)\<lparr>pe_fault := Fails_before (Sqlx_Other ''connection reset'')\<rparr>"]
      sample_read_error [of 50]
    by (simp add: is_serialization_conflict_def) blast
qed

text \<open>
  A satisfied group does not stay satisfied once: every later outcome of a straggler marks the
  downstream execution eligible again, even when it was delayed meanwhile, so that it is claimable
  before its wake-up time.
\<close>

theorem straggler_wakes_delayed:
  assumes "db_wf d" "group_at d part flow down = Some g" "counters_ok g"
    and "decode_policy (eg_policy g) = AnyOf LetRun" "1 \<le> eg_success_count g"
    and "exec_at d part down = Some r" "ec_lifecycle_phase r = ''runnable''"
    and "ec_eligibility_state r = ''not_eligible_until_time''" "ec_deadline_at_ms r = Some t"
    and "pe_fault E = No_fault" "\<not> pe_locked E' part down"
  shows "\<exists>d' r'. advance_edge_group E part flow up down oc d = (Inr (), d') \<and>
    exec_at d' part down = Some r' \<and> ec_deadline_at_ms r' = Some t \<and>
    claimable E' part (ec_lane_id r) r'"
proof -
  have "eg_success_count (bump oc g) \<ge> 1" "eg_policy (bump oc g) = eg_policy g"
    using bump_counts(2) [OF assms(3)] assms(5) by (simp_all add: bump_def Let_def)
  then have "group_decision (bump oc g) = Satisfied False"
    using assms(4) by (simp add: group_decision_def evaluate_def)
  then show ?thesis
    using advance_run [OF assms(2,10), of up oc] assms(6-9,11) exec_at_key [OF assms(6)]
    by (auto simp: apply_decision_def db_lookup make_eligible_def not_ended_def claimable_def exec_is_def
        exec_key_def)
qed

theorem straggler_wakes_delayed_witness:
  "\<exists>d' r'. advance_edge_group (sample_env 50) 7 9 6 5 OK_Fail
      (flow_db ((sample_exec 5 ''runnable'' ''not_eligible_until_time'' [])\<lparr>ec_deadline_at_ms := Some 900\<rparr>)
        (sample_group (JObj [(''kind'', JStr ''any_of''), (''on_satisfied'', JStr ''let_run'')]) 1 1)) =
      (Inr (), d') \<and> exec_at d' 7 5 = Some r' \<and> claimable (sample_env 51) 7 ''default'' r'"
proof -
  let ?r = "(sample_exec 5 ''runnable'' ''not_eligible_until_time'' [])\<lparr>ec_deadline_at_ms := Some 900\<rparr>"
  let ?g = "sample_group (JObj [(''kind'', JStr ''any_of''), (''on_satisfied'', JStr ''let_run'')]) 1 1"
  have "exec_at (flow_db ?r ?g) 7 5 = Some ?r"
    by (simp add: flow_db_def sample_db_def exec_at_def row_at_def exec_key_def) (simp add: sample_exec_def)
  moreover have "decode_policy (eg_policy ?g) = AnyOf LetRun" "1 \<le> eg_success_count ?g" "counters_ok ?g"
    by (simp_all add: sample_group_def decode_policy_def parse_on_satisfied_def counters_ok_def)
  moreover have "ec_lifecycle_phase ?r = ''runnable''" "ec_deadline_at_ms ?r = Some 900"
    "ec_eligibility_state ?r = ''not_eligible_until_time''" "ec_lane_id ?r = ''default''"
    "\<not> pe_locked (sample_env 51) 7 5"
    by (simp_all add: sample_exec_def sample_env_def)
  ultimately show ?thesis
    using straggler_wakes_delayed [of "flow_db ?r ?g" 7 9 5 ?g ?r 900 "sample_env 50" "sample_env 51" 6 OK_Fail]
      flow_db_rows(2,3)
    by simp blast
qed

end
