(* ===== verification/Pg_Exec_Core.thy ===== *)
theory Pg_Exec_Core
  imports Pg_Dispatch State_Vector
begin

text \<open>
  Creating, cancelling, listing and reading executions in the Postgres backend
  (\<open>ff-backend-postgres/src/exec_core.rs\<close>). Execution ids are the validated strings of
  \<open>ff-core\<close>; taking one apart can only panic on an id that the parser did not accept. A read is a
  function of the database, an operation that writes also returns the new one.
\<close>

section \<open>Execution ids\<close>

text \<open>The cast \<open>as i16\<close> of a partition index.\<close>

definition as_i16 :: "u16 \<Rightarrow> int" where
  "as_i16 w = (if unat w < 2 ^ 15 then int (unat w) else int (unat w) - 2 ^ 16)"

definition eid_uuid :: "ext_lib \<Rightarrow> execution_id \<Rightarrow> panic + uuid" where
  "eid_uuid X eid =
     rbind (ok_or (find_sub ''}:'' eid) (Panic ''ExecutionId has `}:` separator (invariant)'')) (\<lambda>i.
     ok_or (uuid_parse_str X (drop (i + 2) eid)) (Panic ''ExecutionId suffix is a valid UUID (invariant)''))"

definition eid_target :: "ext_lib \<Rightarrow> execution_id \<Rightarrow> panic + (int \<times> uuid)" where
  "eid_target X eid =
     rbind (partition_of eid) (\<lambda>p. rbind (eid_uuid X eid) (\<lambda>u. Inr (as_i16 p, u)))"

definition eid_from_parts :: "ext_lib \<Rightarrow> u16 \<Rightarrow> uuid \<Rightarrow> pg_error + execution_id" where
  "eid_from_parts X p u =
     (let s = ''{fp:'' @ show_nat (unat p) @ ''}:'' @ uuid_to_string X u
      in map_err (\<lambda>e. Validation VK_Corruption
           (''exec_core: execution_id: could not reassemble '' @ CHR 39 # s @ CHR 39 # '': '' @ execution_id_error_text e))
           (execution_id_parse X s))"

section \<open>Creating\<close>

text \<open>
  The arguments of a creation. The serialised policy, or the text of its serialisation error, stands
  for the policy itself; \<open>tags\<close> lists a map, each key once.
\<close>

record create_args =
  ca_execution_id :: execution_id
  ca_namespace :: string
  ca_lane_id :: string
  ca_execution_kind :: string
  ca_input_payload :: "u8 list"
  ca_payload_encoding :: "string option"
  ca_priority :: int
  ca_creator_identity :: string
  ca_idempotency_key :: "string option"
  ca_tags :: "(string \<times> string) list"
  ca_policy :: "(string + json) option"
  ca_delay_until :: "int option"
  ca_execution_deadline_at :: "int option"
  ca_partition_id :: u16
  ca_now :: int

definition opt_field :: "string \<Rightarrow> string option \<Rightarrow> (string \<times> json) list" where
  "opt_field k v = (case v of None \<Rightarrow> [] | Some s \<Rightarrow> [(k, JStr s)])"

definition create_raw_fields :: "create_args \<Rightarrow> json" where
  "create_raw_fields a =
     JObj ([(''namespace'', JStr (ca_namespace a)), (''execution_kind'', JStr (ca_execution_kind a)),
            (''creator_identity'', JStr (ca_creator_identity a))] @
           opt_field ''idempotency_key'' (ca_idempotency_key a) @
           opt_field ''payload_encoding'' (ca_payload_encoding a) @
           [(''last_mutation_at'', JStr (show_int (ca_now a))), (''total_attempt_count'', JStr ''0''),
            (''tags'', JObj (map (\<lambda>(k, v). (k, JStr v)) (ca_tags a)))])"

definition create_row :: "create_args \<Rightarrow> int \<Rightarrow> uuid \<Rightarrow> json option \<Rightarrow> exec_core" where
  "create_row a part uid policy =
     \<lparr>ec_partition_key = part, ec_execution_id = uid, ec_flow_id = None, ec_lane_id = ca_lane_id a,
      ec_required_capabilities = [], ec_attempt_index = 0, ec_lifecycle_phase = ''submitted'',
      ec_ownership_state = ''unowned'', ec_eligibility_state = ''eligible_now'',
      ec_public_state = ''waiting'', ec_attempt_state = ''pending'', ec_blocking_reason = None,
      ec_cancellation_reason = None, ec_cancelled_by = None, ec_priority = ca_priority a,
      ec_created_at_ms = ca_now a, ec_started_at_ms = None, ec_terminal_at_ms = None,
      ec_deadline_at_ms = ca_execution_deadline_at a, ec_payload = Some (ca_input_payload a),
      ec_result = None, ec_policy = policy, ec_raw_fields = create_raw_fields a\<rparr>"

definition create_tx :: "create_args \<Rightarrow> int \<Rightarrow> uuid \<Rightarrow> json option \<Rightarrow> db \<Rightarrow> pg_error + (unit \<times> db)" where
  "create_tx a part uid policy d =
     Inr ((), d\<lparr>t_exec := sql_insert_or_nothing exec_key (create_row a part uid policy) (t_exec d),
                t_lane_registry := sql_insert_or_nothing ln_lane_id
                  \<lparr>ln_lane_id = ca_lane_id a, ln_registered_at_ms = ca_now a,
                   ln_registered_by = ''create_execution''\<rparr> (t_lane_registry d)\<rparr>)"

definition create_policy :: "create_args \<Rightarrow> pg_error + json option" where
  "create_policy a =
     (case ca_policy a of
        None \<Rightarrow> Inr None
      | Some (Inl e) \<Rightarrow>
          Inl (Validation VK_InvalidInput (''create_execution: policy: serialize failed: '' @ e))
      | Some (Inr j) \<Rightarrow> Inr (Some j))"

definition create_execution_impl ::
  "pg_env \<Rightarrow> create_args \<Rightarrow> db \<Rightarrow> panic + ((pg_error + execution_id) \<times> db)" where
  "create_execution_impl E a d =
     rbind (eid_target (pe_lib E) (ca_execution_id a)) (\<lambda>(part, uid).
     Inr (case create_policy a of
            Inl e \<Rightarrow> (Inl e, d)
          | Inr pol \<Rightarrow> map_prod (\<lambda>res. rbind res (\<lambda>_. Inr (ca_execution_id a))) id
              (run_tx (pe_fault E) (create_tx a part uid pol) d)))"

section \<open>Cancelling\<close>

text \<open>\<open>jsonb_set\<close> with a path of one key.\<close>

fun jsonb_set :: "string \<Rightarrow> json \<Rightarrow> json \<Rightarrow> sqlx_error + json" where
  "jsonb_set k v (JObj kvs) = Inr (JObj (filter (\<lambda>(k', _). k' \<noteq> k) kvs @ [(k, v)]))"
| "jsonb_set k v (JArr xs) = Inl (Sqlx_Database (Some ''22P02'') ''path element is not an integer'')"
| "jsonb_set k v _ = Inl (Sqlx_Database (Some ''22023'') ''cannot set path in scalar'')"

definition cancel_exec :: "int \<Rightarrow> string \<Rightarrow> exec_core \<Rightarrow> sqlx_error + exec_core" where
  "cancel_exec now reason r =
     rbind (jsonb_set ''last_mutation_at'' (JStr (show_int now)) (ec_raw_fields r)) (\<lambda>raw.
     Inr (r\<lparr>ec_lifecycle_phase := ''terminal'', ec_ownership_state := ''unowned'',
            ec_eligibility_state := ''not_applicable'', ec_public_state := ''cancelled'',
            ec_attempt_state := ''cancelled'', ec_terminal_at_ms := Some now,
            ec_cancellation_reason := Some reason, ec_cancelled_by := Some ''worker'',
            ec_raw_fields := raw\<rparr>))"

definition clear_outcome :: "attempt \<Rightarrow> attempt" where
  "clear_outcome a = a\<lparr>at_outcome := None\<rparr>"

definition cancel_tx ::
  "pg_env \<Rightarrow> execution_id \<Rightarrow> int \<Rightarrow> uuid \<Rightarrow> string \<Rightarrow> db \<Rightarrow> pg_error + (unit \<times> db)" where
  "cancel_tx E eid part uid reason d =
     (case sql_fetch (exec_is part uid) (t_exec d) of
        None \<Rightarrow> Inl (Validation VK_InvalidInput
          (''cancel: execution_id='' @ eid @ '': row not found on partition_key='' @ show_int part))
      | Some r \<Rightarrow>
          if ec_lifecycle_phase r = ''terminal''
          then if ec_public_state r = ''cancelled'' then Inr ((), d)
               else Inl (Validation VK_InvalidInput
                 (''cancel: execution_id='' @ eid @ '': already terminal in state '' @ CHR 39 # ec_public_state r @ [CHR 39]))
          else rbind (try_update_exec part uid (cancel_exec (pe_now E) reason) d) (\<lambda>d1.
               Inr ((), update_attempt part uid (ec_attempt_index r) clear_outcome d1)))"

definition cancel_impl :: "pg_env \<Rightarrow> execution_id \<Rightarrow> string \<Rightarrow> db \<Rightarrow> panic + ((pg_error + unit) \<times> db)" where
  "cancel_impl E eid reason d =
     rbind (eid_target (pe_lib E) eid) (\<lambda>(part, uid).
     Inr (run_tx (pe_fault E) (cancel_tx E eid part uid reason) d))"

section \<open>Listing\<close>

record list_page =
  lp_executions :: "execution_id list"
  lp_next_cursor :: "execution_id option"

fun eids_from_parts :: "ext_lib \<Rightarrow> u16 \<Rightarrow> uuid list \<Rightarrow> pg_error + execution_id list" where
  "eids_from_parts X p [] = Inr []"
| "eids_from_parts X p (u # us) =
     rbind (eid_from_parts X p u) (\<lambda>e. rbind (eids_from_parts X p us) (\<lambda>es. Inr (e # es)))"

definition list_rows :: "int \<Rightarrow> uuid option \<Rightarrow> nat \<Rightarrow> db \<Rightarrow> uuid list" where
  "list_rows part cursor fetch_limit d =
     map ec_execution_id
       (sql_order_limit ec_execution_id fetch_limit
         (\<lambda>r. ec_partition_key r = part \<and> (case cursor of None \<Rightarrow> True | Some c \<Rightarrow> c < ec_execution_id r))
         (t_exec d))"

fun partition_key_error_text :: "partition_key_parse_error \<Rightarrow> string" where
  "partition_key_error_text MissingBraces =
     ''partition key must be wrapped in '' @ CHR 39 # ''{...}'' @ [CHR 39]"
| "partition_key_error_text MalformedBody =
     ''partition key body must be '' @ CHR 39 # ''<prefix>:<index>'' @ [CHR 39]"
| "partition_key_error_text (UnknownFamilyPrefix p) =
     ''unknown partition family prefix '' @ CHR 39 # p @ CHR 39 # '' (expected '' @ CHR 39 # ''fp'' @ CHR 39 #
     '', '' @ CHR 39 # ''b'' @ CHR 39 # '', '' @ CHR 39 # ''q'' @ CHR 39 # '')''"
| "partition_key_error_text (InvalidIndex i) =
     ''partition index '' @ CHR 39 # i @ CHR 39 # '' is not a valid u16''"

definition list_executions_impl ::
  "pg_env \<Rightarrow> string \<Rightarrow> execution_id option \<Rightarrow> nat \<Rightarrow> db \<Rightarrow> panic + (pg_error + list_page)" where
  "list_executions_impl E part_key cursor limit d =
     (if limit = 0 then Inr (Inr \<lparr>lp_executions = [], lp_next_cursor = None\<rparr>)
      else case partition_key_parse part_key of
        Inl e \<Rightarrow> Inr (Inl (Validation VK_InvalidInput (''list_executions: partition: '' @
          CHR 39 # part_key @ CHR 39 # '': '' @ partition_key_error_text e)))
      | Inr parsed \<Rightarrow>
          rbind (case cursor of None \<Rightarrow> Inr None
                 | Some c \<Rightarrow> rbind (eid_uuid (pe_lib E) c) (\<lambda>u. Inr (Some u))) (\<lambda>cursor_uuid.
          Inr (case pe_read_error E of
                 Some e \<Rightarrow> Inl (map_sqlx_error e)
               | None \<Rightarrow>
                   let effective_limit = min limit 1000;
                       rows = list_rows (as_i16 (index parsed)) cursor_uuid (effective_limit + 1) d
                   in rbind (eids_from_parts (pe_lib E) (index parsed) rows) (\<lambda>ids.
                      let has_more = length ids > effective_limit;
                          ids = (if has_more then take effective_limit ids else ids)
                      in Inr \<lparr>lp_executions = ids,
                              lp_next_cursor = (if has_more then Some (last ids) else None)\<rparr>))))"

section \<open>Reading\<close>

text \<open>
  What the readers use of \<open>serde_json\<close>: the reading of a quoted JSON string, whose result is
  \<open>None\<close> when it is malformed, and the texts of its errors. It is documented to read a text without
  quotes, backslashes and control characters as itself.
\<close>

record serde_lib =
  sj_unquote :: "string \<Rightarrow> string option"
  sj_error :: "string \<Rightarrow> string"

definition serde_plain :: "serde_lib \<Rightarrow> bool" where
  "serde_plain J \<longleftrightarrow>
     (\<forall>s. (\<forall>c \<in> set s. c \<noteq> CHR 34 \<and> c \<noteq> CHR 92 \<and> 32 \<le> (of_char c :: nat)) \<longrightarrow> sj_unquote J s = Some s)"

text \<open>The serialised names of the state enums (\<open>rename_all = "snake_case"\<close>).\<close>

definition lifecycle_names :: "(string \<times> lifecycle_phase) list" where
  "lifecycle_names = [(''submitted'', LP_Submitted), (''runnable'', LP_Runnable), (''active'', LP_Active),
     (''suspended'', LP_Suspended), (''terminal'', LP_Terminal)]"

definition ownership_names :: "(string \<times> ownership_state) list" where
  "ownership_names = [(''unowned'', OS_Unowned), (''leased'', OS_Leased),
     (''lease_expired_reclaimable'', OS_LeaseExpiredReclaimable), (''lease_revoked'', OS_LeaseRevoked)]"

definition eligibility_names :: "(string \<times> eligibility_state) list" where
  "eligibility_names = [(''eligible_now'', ES_EligibleNow),
     (''not_eligible_until_time'', ES_NotEligibleUntilTime),
     (''blocked_by_dependencies'', ES_BlockedByDependencies), (''blocked_by_budget'', ES_BlockedByBudget),
     (''blocked_by_quota'', ES_BlockedByQuota), (''blocked_by_route'', ES_BlockedByRoute),
     (''blocked_by_lane_state'', ES_BlockedByLaneState), (''blocked_by_operator'', ES_BlockedByOperator),
     (''not_applicable'', ES_NotApplicable)]"

definition attempt_state_names :: "(string \<times> attempt_state) list" where
  "attempt_state_names = [(''none'', AS_None), (''pending_first_attempt'', AS_PendingFirstAttempt),
     (''running_attempt'', AS_RunningAttempt), (''attempt_interrupted'', AS_AttemptInterrupted),
     (''pending_retry_attempt'', AS_PendingRetryAttempt),
     (''pending_replay_attempt'', AS_PendingReplayAttempt), (''attempt_terminal'', AS_AttemptTerminal)]"

definition blocking_names :: "(string \<times> blocking_reason) list" where
  "blocking_names = [(''none'', BR_None), (''waiting_for_worker'', BR_WaitingForWorker),
     (''waiting_for_retry_backoff'', BR_WaitingForRetryBackoff),
     (''waiting_for_resume_delay'', BR_WaitingForResumeDelay), (''waiting_for_delay'', BR_WaitingForDelay),
     (''waiting_for_signal'', BR_WaitingForSignal), (''waiting_for_approval'', BR_WaitingForApproval),
     (''waiting_for_callback'', BR_WaitingForCallback),
     (''waiting_for_tool_result'', BR_WaitingForToolResult), (''waiting_for_children'', BR_WaitingForChildren),
     (''waiting_for_budget'', BR_WaitingForBudget), (''waiting_for_quota'', BR_WaitingForQuota),
     (''waiting_for_capable_worker'', BR_WaitingForCapableWorker),
     (''waiting_for_locality_match'', BR_WaitingForLocalityMatch), (''paused_by_operator'', BR_PausedByOperator),
     (''paused_by_policy'', BR_PausedByPolicy), (''paused_by_flow_cancel'', BR_PausedByFlowCancel)]"

definition public_names :: "(string \<times> public_state) list" where
  "public_names = map (\<lambda>s. (as_str s, s))
     [PS_Waiting, PS_Delayed, PS_RateLimited, PS_WaitingChildren, PS_Active, PS_Suspended, PS_Resumable,
      PS_Completed, PS_Failed, PS_Cancelled, PS_Expired, PS_Skipped]"

definition json_enum :: "serde_lib \<Rightarrow> string \<Rightarrow> (string \<times> 'a) list \<Rightarrow> string \<Rightarrow> pg_error + 'a" where
  "json_enum J field names raw =
     ok_or (Option.bind (sj_unquote J raw) (map_of names))
       (Validation VK_Corruption (''exec_core: '' @ field @ '': '' @ CHR 39 # raw @ CHR 39 #
          '' is not a known value: '' @ sj_error J raw))"

definition normalise_lifecycle_phase :: "string \<Rightarrow> string" where
  "normalise_lifecycle_phase raw =
     (if raw \<in> {''cancelled'', ''terminal''} then ''terminal''
      else if raw \<in> {''pending'', ''runnable'', ''eligible'', ''blocked''} then ''runnable''
      else raw)"

definition normalise_ownership_state :: "string \<Rightarrow> string" where
  "normalise_ownership_state raw = (if raw \<in> {''released'', ''unowned''} then ''unowned'' else raw)"

definition normalise_eligibility_state :: "string \<Rightarrow> string" where
  "normalise_eligibility_state raw =
     (if raw = ''cancelled'' then ''not_applicable''
      else if raw = ''pending_claim'' then ''eligible_now'' else raw)"

definition normalise_attempt_state :: "string \<Rightarrow> string" where
  "normalise_attempt_state raw =
     (if raw \<in> {''pending'', ''pending_claim''} then ''pending_first_attempt''
      else if raw = ''running'' then ''running_attempt''
      else if raw = ''cancelled'' then ''attempt_terminal'' else raw)"

definition normalise_public_state :: "string \<Rightarrow> string" where
  "normalise_public_state raw = (if raw = ''running'' then ''active'' else raw)"

definition derive_terminal_outcome :: "string \<Rightarrow> string \<Rightarrow> string option \<Rightarrow> terminal_outcome" where
  "derive_terminal_outcome phase_norm phase_raw outcome =
     (if phase_norm \<noteq> ''terminal'' then TO_None
      else if phase_raw = ''cancelled'' then TO_Cancelled
      else if outcome = Some ''success'' then TO_Success
      else if outcome = Some ''failed'' then TO_Failed
      else if outcome = Some ''cancelled'' then TO_Cancelled
      else if outcome = Some ''expired'' then TO_Expired
      else if outcome = Some ''skipped'' then TO_Skipped
      else TO_None)"

text \<open>A point read by execution id: the row, if there is one.\<close>

definition read_exec :: "pg_env \<Rightarrow> execution_id \<Rightarrow> db \<Rightarrow> panic + (pg_error + exec_core option)" where
  "read_exec E eid d =
     rbind (eid_target (pe_lib E) eid) (\<lambda>(part, uid).
     Inr (case pe_read_error E of
            Some e \<Rightarrow> Inl (map_sqlx_error e)
          | None \<Rightarrow> Inr (sql_fetch (exec_is part uid) (t_exec d))))"

definition not_found_detail :: "string \<Rightarrow> execution_id \<Rightarrow> pg_error" where
  "not_found_detail op eid = Validation VK_InvalidInput (op @ '': execution not found: '' @ eid)"

record execution_context =
  xc_input_payload :: "u8 list"
  xc_execution_kind :: string
  xc_tags :: "(string \<times> string) list"

text \<open>The string entries of the object under \<open>tags\<close>.\<close>

definition string_tags :: "json \<Rightarrow> (string \<times> string) list" where
  "string_tags raw =
     (case json_get ''tags'' raw of
        Some (JObj kvs) \<Rightarrow> List.map_filter (\<lambda>(k, v). map_option (Pair k) (json_as_str v)) kvs
      | _ \<Rightarrow> [])"

definition string_field :: "string \<Rightarrow> json \<Rightarrow> string" where
  "string_field k raw =
     (case Option.bind (json_get k raw) json_as_str of Some s \<Rightarrow> s | None \<Rightarrow> [])"

definition read_execution_context_impl ::
  "pg_env \<Rightarrow> execution_id \<Rightarrow> db \<Rightarrow> panic + (pg_error + execution_context)" where
  "read_execution_context_impl E eid d =
     rbind (read_exec E eid d) (\<lambda>res.
     Inr (rbind res (\<lambda>row.
       rbind (ok_or row (not_found_detail ''read_execution_context'' eid)) (\<lambda>r.
       Inr \<lparr>xc_input_payload = (case ec_payload r of None \<Rightarrow> [] | Some p \<Rightarrow> p),
            xc_execution_kind = string_field ''execution_kind'' (ec_raw_fields r),
            xc_tags = string_tags (ec_raw_fields r)\<rparr>))))"

text \<open>\<open>.max(0) as u32\<close> of an \<open>i32\<close> column.\<close>

definition clamp_u32 :: "int \<Rightarrow> u32" where
  "clamp_u32 i = of_int (max i 0)"

definition read_current_attempt_index_impl :: "pg_env \<Rightarrow> execution_id \<Rightarrow> db \<Rightarrow> panic + (pg_error + u32)" where
  "read_current_attempt_index_impl E eid d =
     rbind (read_exec E eid d) (\<lambda>res.
     Inr (rbind res (\<lambda>row.
       rbind (ok_or row (not_found_detail ''read_current_attempt_index'' eid)) (\<lambda>r.
       Inr (clamp_u32 (ec_attempt_index r))))))"

definition read_total_attempt_count_impl :: "pg_env \<Rightarrow> execution_id \<Rightarrow> db \<Rightarrow> panic + (pg_error + u32)" where
  "read_total_attempt_count_impl E eid d =
     rbind (read_exec E eid d) (\<lambda>res.
     Inr (rbind res (\<lambda>row.
       rbind (ok_or row (not_found_detail ''read_total_attempt_count'' eid)) (\<lambda>r.
       Inr (case Option.bind (json_get_text (pe_jsonb_text E) ''total_attempt_count'' (ec_raw_fields r))
                   (parse_uint (2 ^ 32 - 1)) of
              Some n \<Rightarrow> of_nat n | None \<Rightarrow> 0)))))"

definition resolve_execution_flow_id_impl ::
  "pg_env \<Rightarrow> execution_id \<Rightarrow> db \<Rightarrow> panic + (pg_error + uuid option)" where
  "resolve_execution_flow_id_impl E eid d =
     rbind (read_exec E eid d) (\<lambda>res.
     Inr (rbind res (\<lambda>row.
       case Option.bind row ec_flow_id of
         None \<Rightarrow> Inr None
       | Some fid \<Rightarrow>
           let s = uuid_to_string (pe_lib E) fid
           in rbind (ok_or (uuid_parse_str (pe_lib E) s) (Validation VK_Corruption
                (''resolve_execution_flow_id: exec_core.flow_id='' @ CHR 39 # s @ CHR 39 #
                 '' is not a valid FlowId: '' @ uuid_error_text (pe_lib E) s))) (\<lambda>f. Inr (Some f)))))"

definition read_execution_state_impl ::
  "serde_lib \<Rightarrow> pg_env \<Rightarrow> execution_id \<Rightarrow> db \<Rightarrow> panic + (pg_error + public_state option)" where
  "read_execution_state_impl J E eid d =
     rbind (read_exec E eid d) (\<lambda>res.
     Inr (rbind res (\<lambda>row.
       case row of
         None \<Rightarrow> Inr None
       | Some r \<Rightarrow> rbind (json_enum J ''public_state'' public_names
             (normalise_public_state (ec_public_state r))) (\<lambda>s. Inr (Some s)))))"

definition get_execution_result_impl ::
  "pg_env \<Rightarrow> execution_id \<Rightarrow> db \<Rightarrow> panic + (pg_error + u8 list option)" where
  "get_execution_result_impl E eid d =
     rbind (read_exec E eid d) (\<lambda>res. Inr (rbind res (\<lambda>row. Inr (Option.bind row ec_result))))"

record execution_info =
  xi_execution_id :: execution_id
  xi_namespace :: string
  xi_lane_id :: string
  xi_priority :: int
  xi_execution_kind :: string
  xi_state_vector :: state_vector
  xi_public_state :: public_state
  xi_created_at :: string
  xi_started_at :: "string option"
  xi_completed_at :: "string option"
  xi_current_attempt_index :: u32
  xi_flow_id :: "string option"
  xi_blocking_detail :: string

definition read_blocking_reason :: "serde_lib \<Rightarrow> string option \<Rightarrow> pg_error + blocking_reason" where
  "read_blocking_reason J br =
     (case br of
        None \<Rightarrow> Inr BR_None
      | Some raw \<Rightarrow> if raw = [] then Inr BR_None else json_enum J ''blocking_reason'' blocking_names raw)"

text \<open>The state vector of a row, with the outcome of its current attempt.\<close>

definition read_state_vector :: "serde_lib \<Rightarrow> exec_core \<Rightarrow> string option \<Rightarrow> pg_error + state_vector" where
  "read_state_vector J r outcome =
     rbind (json_enum J ''lifecycle_phase'' lifecycle_names (normalise_lifecycle_phase (ec_lifecycle_phase r))) (\<lambda>lp.
     rbind (json_enum J ''ownership_state'' ownership_names (normalise_ownership_state (ec_ownership_state r))) (\<lambda>os.
     rbind (json_enum J ''eligibility_state'' eligibility_names
       (normalise_eligibility_state (ec_eligibility_state r))) (\<lambda>es.
     rbind (json_enum J ''public_state'' public_names (normalise_public_state (ec_public_state r))) (\<lambda>ps.
     rbind (json_enum J ''attempt_state'' attempt_state_names (normalise_attempt_state (ec_attempt_state r))) (\<lambda>as.
     rbind (read_blocking_reason J (ec_blocking_reason r)) (\<lambda>br.
     Inr \<lparr>sv_lifecycle_phase = lp, sv_ownership_state = os, sv_eligibility_state = es,
          sv_blocking_reason = br,
          sv_terminal_outcome = derive_terminal_outcome (normalise_lifecycle_phase (ec_lifecycle_phase r))
            (ec_lifecycle_phase r) outcome,
          sv_attempt_state = as, sv_public_state = ps\<rparr>))))))"

definition read_execution_info_impl ::
  "serde_lib \<Rightarrow> pg_env \<Rightarrow> execution_id \<Rightarrow> db \<Rightarrow> panic + (pg_error + execution_info option)" where
  "read_execution_info_impl J E eid d =
     rbind (read_exec E eid d) (\<lambda>res.
     Inr (rbind res (\<lambda>row.
       case row of
         None \<Rightarrow> Inr None
       | Some r \<Rightarrow>
           let cur = sql_fetch (attempt_is (ec_partition_key r) (ec_execution_id r) (ec_attempt_index r)) (t_attempt d)
           in rbind (read_state_vector J r (Option.bind cur at_outcome)) (\<lambda>sv.
              Inr (Some \<lparr>xi_execution_id = eid,
                xi_namespace = string_field ''namespace'' (ec_raw_fields r),
                xi_lane_id = ec_lane_id r, xi_priority = ec_priority r,
                xi_execution_kind = string_field ''execution_kind'' (ec_raw_fields r),
                xi_state_vector = sv, xi_public_state = sv_public_state sv,
                xi_created_at = show_int (ec_created_at_ms r),
                xi_started_at = map_option show_int (ec_started_at_ms r),
                xi_completed_at = map_option show_int (ec_terminal_at_ms r),
                xi_current_attempt_index = clamp_u32 (ec_attempt_index r),
                xi_flow_id = map_option (uuid_to_string (pe_lib E)) (ec_flow_id r),
                xi_blocking_detail = string_field ''blocking_detail'' (ec_raw_fields r)\<rparr>)))))"

section \<open>Tags\<close>

text \<open>
  \<open>jsonb_set\<close> with a path of two keys: a missing or scalar value at the first key leaves the
  target as it is.
\<close>

definition jsonb_set2 :: "string \<Rightarrow> string \<Rightarrow> json \<Rightarrow> json \<Rightarrow> sqlx_error + json" where
  "jsonb_set2 k1 k2 v j =
     (case j of
        JObj kvs \<Rightarrow>
          (case map_of kvs k1 of
             Some (JObj sub) \<Rightarrow> rbind (jsonb_set k2 v (JObj sub)) (\<lambda>sub'. jsonb_set k1 sub' j)
           | Some (JArr xs) \<Rightarrow> jsonb_set k2 v (JArr xs)
           | _ \<Rightarrow> Inr j)
      | _ \<Rightarrow> jsonb_set k1 v j)"

definition set_tag_tx :: "int \<Rightarrow> uuid \<Rightarrow> string \<Rightarrow> string \<Rightarrow> db \<Rightarrow> pg_error + (nat \<times> db)" where
  "set_tag_tx part uid key v d =
     rbind (try_update_exec part uid (\<lambda>r.
       rbind (jsonb_set2 ''tags'' key (JStr v) (ec_raw_fields r)) (\<lambda>raw. Inr (r\<lparr>ec_raw_fields := raw\<rparr>))) d) (\<lambda>d'.
     Inr (sql_count (exec_is part uid) (t_exec d), d'))"

definition set_execution_tag_impl ::
  "pg_env \<Rightarrow> execution_id \<Rightarrow> string \<Rightarrow> string \<Rightarrow> db \<Rightarrow> panic + ((pg_error + unit) \<times> db)" where
  "set_execution_tag_impl E eid key v d =
     rbind (eid_target (pe_lib E) eid) (\<lambda>(part, uid).
     Inr (map_prod (\<lambda>res. rbind res (\<lambda>n. if n = 0 then Inl (NotFound ''execution'') else Inr ())) id
            (run_tx (pe_fault E) (set_tag_tx part uid key v) d)))"

definition get_execution_tag_impl ::
  "pg_env \<Rightarrow> execution_id \<Rightarrow> string \<Rightarrow> db \<Rightarrow> panic + (pg_error + string option)" where
  "get_execution_tag_impl E eid key d =
     rbind (read_exec E eid d) (\<lambda>res.
     Inr (rbind res (\<lambda>row. Inr (Option.bind row (\<lambda>r.
       Option.bind (json_get ''tags'' (ec_raw_fields r)) (json_get_text (pe_jsonb_text E) key))))))"

definition get_execution_namespace_impl ::
  "pg_env \<Rightarrow> execution_id \<Rightarrow> db \<Rightarrow> panic + (pg_error + string option)" where
  "get_execution_namespace_impl E eid d =
     rbind (read_exec E eid d) (\<lambda>res. Inr (rbind res (\<lambda>row. Inr (Option.bind row (raw_namespace E)))))"

section \<open>Lemmas\<close>

lemma as_i16_small [simp]: "unat w < 2 ^ 15 \<Longrightarrow> as_i16 w = int (unat w)"
  by (simp add: as_i16_def)

lemma eid_uuid_minted [simp]:
  assumes "uuid_parse_str X (uuid_to_string X u) = Some u"
  shows "eid_uuid X (with_partition_and_uuid X p u) = Inr u"
proof -
  have "CHR ''}'' \<notin> set (''{fp:'' @ show_nat (unat p))"
    using show_nat_no_char [of "CHR ''}''" "unat p"] by simp
  from find_sub_absent_head [OF this, of "'':''" "uuid_to_string X u"]
  have "find_sub ''}:'' (with_partition_and_uuid X p u) = Some (length (''{fp:'' @ show_nat (unat p)))"
    by (simp add: with_partition_and_uuid_def)
  then show ?thesis using assms by (simp add: eid_uuid_def with_partition_and_uuid_def)
qed

lemma eid_target_minted [simp]:
  "uuid_parse_str X (uuid_to_string X u) = Some u \<Longrightarrow>
   eid_target X (with_partition_and_uuid X p u) = Inr (as_i16 p, u)"
  by (simp add: eid_target_def)

lemma eid_from_parts_minted [simp]:
  "uuid_parse_str X (uuid_to_string X u) = Some u \<Longrightarrow>
   eid_from_parts X p u = Inr (with_partition_and_uuid X p u)"
  using execution_id_parse_minted [of X u p]
  by (simp add: eid_from_parts_def with_partition_and_uuid_def Let_def)

lemma eids_from_parts_minted:
  "(\<And>u. uuid_parse_str X (uuid_to_string X u) = Some u) \<Longrightarrow>
   eids_from_parts X p us = Inr (map (with_partition_and_uuid X p) us)"
  by (induction us) simp_all

text \<open>The executions of a partition after a cursor, in order.\<close>

definition ids_after :: "int \<Rightarrow> uuid option \<Rightarrow> db \<Rightarrow> uuid list" where
  "ids_after part cursor d =
     sort (map ec_execution_id (filter (\<lambda>r. ec_partition_key r = part \<and>
       (case cursor of None \<Rightarrow> True | Some c \<Rightarrow> c < ec_execution_id r)) (t_exec d)))"

lemma map_sort_key: "map f (sort_key f xs) = sort (map f xs)"
proof (induction xs)
  case (Cons x xs)
  have "map f (insort_key f x ys) = insort (f x) (map f ys)" for ys by (induction ys) simp_all
  with Cons show ?case by simp
qed simp

lemma list_rows_eq: "list_rows part cursor n d = take n (ids_after part cursor d)"
  by (simp add: list_rows_def sql_order_limit_def ids_after_def map_sort_key flip: take_map)

lemma ids_after_distinct: "db_wf d \<Longrightarrow> distinct (ids_after part cursor d)"
proof -
  assume "db_wf d"
  then have d: "distinct (map exec_key (t_exec d))" by (simp add: db_wf_def)
  have "inj_on ec_execution_id {r \<in> set (t_exec d). ec_partition_key r = part}"
    using d unfolding distinct_map by (auto simp: inj_on_def exec_key_def)
  then show ?thesis
    using d by (auto simp: ids_after_def distinct_map intro: inj_on_subset)
qed

lemma filter_gt_nth:
  assumes "sorted xs" "distinct xs" "i < length xs"
  shows "filter (\<lambda>x. xs ! i < x) xs = drop (Suc i) (xs :: 'a::linorder list)"
proof -
  have low: "xs ! j \<le> xs ! i" if "j < Suc i" for j
    using sorted_nth_mono [OF assms(1)] that assms(3) by simp
  have high: "xs ! i < xs ! (Suc i + j)" if "Suc i + j < length xs" for j
    using sorted_nth_mono [OF assms(1), of i "Suc i + j"] that assms(2)
    by (simp add: distinct_conv_nth order.strict_iff_order)
  have "filter (\<lambda>x. xs ! i < x) (take (Suc i) xs) = []"
    unfolding filter_empty_conv using low by (auto simp: in_set_conv_nth not_less)
  moreover have "filter (\<lambda>x. xs ! i < x) (drop (Suc i) xs) = drop (Suc i) xs"
    unfolding filter_id_conv using high by (auto simp: in_set_conv_nth)
  ultimately show ?thesis
    by (metis append_take_drop_id append_Nil filter_append)
qed

lemma ids_after_filter:
  assumes "case cursor of None \<Rightarrow> True | Some c \<Rightarrow> c < u"
  shows "ids_after part (Some u) d = filter (\<lambda>x. u < x) (ids_after part cursor d)"
  unfolding ids_after_def filter_sort filter_map filter_filter
  using assms by (auto intro!: arg_cong [where f = sort] arg_cong [where f = "map ec_execution_id"] filter_cong
      split: option.splits)

lemma ids_after_next:
  assumes "db_wf d" "i < length (ids_after part cursor d)"
  shows "ids_after part (Some (ids_after part cursor d ! i)) d = drop (Suc i) (ids_after part cursor d)"
proof -
  let ?xs = "ids_after part cursor d"
  have "x \<in> set ?xs \<Longrightarrow> case cursor of None \<Rightarrow> True | Some c \<Rightarrow> c < x" for x
    by (auto simp: ids_after_def)
  from ids_after_filter [OF this [OF nth_mem [OF assms(2)]], of part d]
  show ?thesis
    using filter_gt_nth [OF _ ids_after_distinct [OF assms(1)] assms(2)] by (simp add: ids_after_def)
qed

section \<open>Listing is complete\<close>

lemma list_page_eq:
  assumes "\<And>u. uuid_parse_str (pe_lib E) (uuid_to_string (pe_lib E) u) = Some u"
    and "partition_key_parse key = Inr p" "0 < limit" "pe_read_error E = None"
    and "n = min limit 1000"
    and "rest = ids_after (as_i16 (index p)) cursor d"
  shows "list_executions_impl E key (map_option (with_partition_and_uuid (pe_lib E) (index p)) cursor) limit d =
    Inr (Inr \<lparr>lp_executions = map (with_partition_and_uuid (pe_lib E) (index p)) (take n rest),
      lp_next_cursor = (if n < length rest
        then Some (with_partition_and_uuid (pe_lib E) (index p) (rest ! (n - 1))) else None)\<rparr>)"
proof -
  have "min limit 1000 > 0" using assms(3) by simp
  moreover have "last (map f (take m xs)) = f (xs ! (m - 1))" if "0 < m" "m < length xs"
    for f :: "uuid \<Rightarrow> execution_id" and xs m
  proof -
    have "take m xs \<noteq> []" using that by auto
    with that show ?thesis by (simp add: last_map last_conv_nth)
  qed
  ultimately show ?thesis
    using assms(1-4)
    by (cases cursor)
      (auto simp: list_executions_impl_def list_rows_eq eids_from_parts_minted Let_def take_map
        assms(5,6) min_def)
qed

text \<open>A client that follows the cursors until there is none, at most \<open>fuel\<close> pages.\<close>

fun drain :: "nat \<Rightarrow> pg_env \<Rightarrow> string \<Rightarrow> nat \<Rightarrow> execution_id option \<Rightarrow> db \<Rightarrow> execution_id list option" where
  "drain 0 E key limit cursor d = None"
| "drain (Suc fuel) E key limit cursor d =
     (case list_executions_impl E key cursor limit d of
        Inr (Inr page) \<Rightarrow>
          (case lp_next_cursor page of
             None \<Rightarrow> Some (lp_executions page)
           | Some c \<Rightarrow> map_option ((@) (lp_executions page)) (drain fuel E key limit (Some c) d))
      | _ \<Rightarrow> None)"

lemma drain_rest:
  assumes "\<And>u. uuid_parse_str (pe_lib E) (uuid_to_string (pe_lib E) u) = Some u"
    and "partition_key_parse key = Inr p" "0 < limit" "pe_read_error E = None" "db_wf d"
    and "length (ids_after (as_i16 (index p)) cursor d) < fuel"
  shows "drain fuel E key limit (map_option (with_partition_and_uuid (pe_lib E) (index p)) cursor) d =
    Some (map (with_partition_and_uuid (pe_lib E) (index p)) (ids_after (as_i16 (index p)) cursor d))"
  using assms(6)
proof (induction fuel arbitrary: cursor)
  case (Suc fuel)
  let ?n = "min limit 1000" and ?rest = "ids_after (as_i16 (index p)) cursor d"
  note page = list_page_eq [OF assms(1-4) refl refl, of cursor d]
  show ?case
  proof (cases "?n < length ?rest")
    case True
    let ?c = "?rest ! (?n - 1)"
    have n: "0 < ?n" "?n - 1 < length ?rest" using assms(3) True by auto
    then have "ids_after (as_i16 (index p)) (Some ?c) d = drop ?n ?rest"
      using ids_after_next [OF assms(5) n(2)] by simp
    moreover have "length (drop ?n ?rest) < fuel" using Suc.prems n by simp
    ultimately show ?thesis
      using Suc.IH [of "Some ?c"] page True by (simp flip: map_append)
  next
    case False
    then have "take ?n ?rest = ?rest" by (intro take_all) linarith
    with page False show ?thesis by simp
  qed
qed simp

text \<open>
  C23. Listing visits every execution of a partition exactly once: a client that follows the cursors
  with any positive page size reaches the end after finitely many pages, and the pages together
  are the executions of the partition in order, without repetition.
\<close>

theorem list_pages_complete:
  assumes "\<And>u. uuid_parse_str (pe_lib E) (uuid_to_string (pe_lib E) u) = Some u"
    and "partition_key_parse key = Inr p" "0 < limit" "pe_read_error E = None" "db_wf d"
  shows "drain (Suc (length (t_exec d))) E key limit None d =
      Some (map (with_partition_and_uuid (pe_lib E) (index p)) (ids_after (as_i16 (index p)) None d)) \<and>
    set (ids_after (as_i16 (index p)) None d) =
      {u. exec_at d (as_i16 (index p)) u \<noteq> None} \<and>
    distinct (ids_after (as_i16 (index p)) None d)"
proof -
  have "length (ids_after (as_i16 (index p)) None d) < Suc (length (t_exec d))"
    by (simp add: ids_after_def less_Suc_eq_le)
  with drain_rest [OF assms, of None "Suc (length (t_exec d))"]
  have "drain (Suc (length (t_exec d))) E key limit None d =
      Some (map (with_partition_and_uuid (pe_lib E) (index p)) (ids_after (as_i16 (index p)) None d))"
    by (simp del: drain.simps)
  moreover have "set (ids_after q None d) = {u. exec_at d q u \<noteq> None}" for q
    by (force simp: ids_after_def exec_at_def row_at_None exec_key_def)
  ultimately show ?thesis using ids_after_distinct [OF assms(5)] by blast
qed

lemma sample_key: "partition_key_parse ''{fp:7}'' = Inr \<lparr>family = Flow, index = 7\<rparr>"
  by (simp add: partition_key_parse_def strip_prefix_def strip_suffix_def parse_family_def parse_u16_def
      parse_uint_def char_digit_def)

theorem list_pages_complete_witness:
  "drain 3 (sample_env 50) ''{fp:7}'' 1 None
     (sample_db [sample_exec 6 ''runnable'' ''eligible_now'' [], sample_exec 5 ''runnable'' ''eligible_now'' []] []) =
   Some [with_partition_and_uuid sample_ext_lib 7 5, with_partition_and_uuid sample_ext_lib 7 6]"
proof -
  let ?d = "sample_db [sample_exec 6 ''runnable'' ''eligible_now'' [], sample_exec 5 ''runnable'' ''eligible_now'' []] []"
  have "db_wf ?d" "length (t_exec ?d) = 2"
    by (simp_all add: db_wf_def sample_db_def exec_key_def) (simp add: sample_exec_def)
  moreover have "ids_after 7 None ?d = [5, 6]"
    by (simp add: ids_after_def sample_db_def) (simp add: sample_exec_def)
  ultimately show ?thesis
    using list_pages_complete [of "sample_env 50" "''{fp:7}''" "\<lparr>family = Flow, index = 7\<rparr>" 1 ?d]
      sample_read_error [of 50]
    by (simp add: sample_key numeral_3_eq_3 del: drain.simps)
qed

section \<open>Creating and cancelling\<close>

lemma evolves_exec_insert:
  "exec_typed r \<Longrightarrow>
   db_evolves d (d\<lparr>t_exec := sql_insert_or_nothing exec_key r (t_exec d), t_lane_registry := l\<rparr>)"
  by (auto simp: db_evolves_def db_wf_def db_typed_def sql_insert_or_nothing_def rows_le_refl rows_le_append)

lemma create_row_typed: "exec_typed (create_row a part uid policy)"
  by (simp add: create_row_def exec_typed_def i32_max_def)

lemma create_evolves:
  assumes "create_execution_impl E a d = Inr x"
  shows "db_evolves d (snd x)"
proof -
  have tx: "db_evolves d (snd (run_tx flt (create_tx a p u j) d))" for flt p u j
    by (rule evolves_run_tx) (auto simp: create_tx_def evolves_exec_insert create_row_typed)
  then show ?thesis
    using assms by (cases "create_policy a") (auto simp: create_execution_impl_def rbind_Inr_iff)
qed


definition sample_create :: create_args where
  "sample_create =
     \<lparr>ca_execution_id = with_partition_and_uuid sample_ext_lib 7 5, ca_namespace = ''ns'',
      ca_lane_id = ''default'', ca_execution_kind = ''job'', ca_input_payload = [1, 2],
      ca_payload_encoding = None, ca_priority = 0, ca_creator_identity = ''me'',
      ca_idempotency_key = None, ca_tags = [(''team'', ''a'')], ca_policy = None, ca_delay_until = Some 900,
      ca_execution_deadline_at = None, ca_partition_id = 7, ca_now = 10\<rparr>"


lemma cancel_exec_keeps: "cancel_exec now reason r = Inr r' \<Longrightarrow> exec_le r r' \<and> exec_key r' = exec_key r"
  by (auto simp: cancel_exec_def rbind_Inr_iff exec_le_def exec_typed_def exec_key_def)

lemma clear_outcome_keeps [simp]:
  "attempt_le a (clear_outcome a)" "attempt_key (clear_outcome a) = attempt_key a"
  "at_lease_epoch (clear_outcome a) = at_lease_epoch a"
  by (simp_all add: clear_outcome_def attempt_le_def attempt_typed_def attempt_key_def)

lemma cancel_tx_steps:
  assumes "cancel_tx E eid part uid reason d = Inr (u, d')"
  shows "db_evolves d d' \<and> touches_only part uid d d' \<and> same_epochs part uid d d'"
proof (cases "d' = d")
  case False
  with assms obtain d1 idx where d1: "try_update_exec part uid (cancel_exec (pe_now E) reason) d = Inr d1"
    "d' = update_attempt part uid idx clear_outcome d1"
    by (auto simp: cancel_tx_def rbind_Inr_iff split: option.splits if_splits)
  have "db_evolves d d1" by (rule evolves_try(1) [OF _ d1(1)]) (auto dest: cancel_exec_keeps)
  moreover have "touches_only part uid d d1"
    by (rule touches_try_exec [OF _ d1(1)]) (auto dest: cancel_exec_keeps)
  moreover have "same_epochs part uid d d1" by (rule epochs_try [OF _ d1(1)]) simp
  ultimately show ?thesis unfolding d1(2) by (auto intro!: statement_rules)
qed simp

lemma cancel_effect:
  assumes "db_wf d" "exec_at d part uid = Some r" "ec_lifecycle_phase r \<noteq> ''terminal''"
    and "cancel_exec (pe_now E) reason r = Inr r'"
  shows "\<exists>d'. cancel_tx E eid part uid reason d = Inr ((), d') \<and> exec_at d' part uid = Some r' \<and>
    t_completion d' = t_completion d \<and> attempt_at d' part uid i =
      map_option (if i = ec_attempt_index r then clear_outcome else id) (attempt_at d part uid i)"
proof -
  obtain d1 where d1: "try_update_exec part uid (cancel_exec (pe_now E) reason) d = Inr d1"
    using try_update_exec_ok [where f = "cancel_exec (pe_now E) reason", OF assms(1,2,4)] by blast
  moreover have "exec_at d1 part uid = Some r'"
    using try_update_exec_at [OF d1, of part uid] assms(2,4) by (auto dest: cancel_exec_keeps)
  moreover have "attempt_at d1 q v j = attempt_at d q v j" for q v j
    using try_update_exec_tables(1) [OF d1] by (simp add: attempt_at_def)
  ultimately show ?thesis
    using assms(2,3) try_update_exec_tables(5) [OF d1]
    by (auto simp: cancel_tx_def fetch_exec db_lookup option.map_id)
qed



text \<open>
  C38. A worker that holds the lease of a cancelled execution can still complete it: cancelling
  leaves the lease epoch alone, so the fence accepts the handle, and the completion event of a
  success is emitted for an execution that is reported as cancelled.
\<close>

theorem cancelled_still_completes:
  assumes "db_wf d" "handle_target (pe_lib E) h = Inr (pl, as_i16 p, u)"
    and "fence_check (as_i16 p) u (i32_of_u32_or_0 (hp_attempt_index pl)) (hp_lease_epoch pl) d = Inr ()"
    and "uuid_parse_str (pe_lib E) (uuid_to_string (pe_lib E) u) = Some u"
    and "exec_at d (as_i16 p) u = Some r" "ec_lifecycle_phase r \<noteq> ''terminal''" "ec_raw_fields r = JObj kvs"
    and "pe_fault E = No_fault"
  shows "\<exists>d' d'' r' c. cancel_impl E (with_partition_and_uuid (pe_lib E) p u) reason d = Inr (Inr (), d') \<and>
    complete b E h d' = (Inr (), d'') \<and> exec_at d'' (as_i16 p) u = Some r' \<and>
    ec_public_state r' = ''cancelled'' \<and> ec_result r' = b \<and>
    t_completion d'' = t_completion d @ [c] \<and> ce_outcome c = ''success''"
proof -
  let ?i = "i32_of_u32_or_0 (hp_attempt_index pl)"
  obtain r1 where r1: "cancel_exec (pe_now E) reason r = Inr r1" "ec_public_state r1 = ''cancelled''"
    using assms(7) by (auto simp: cancel_exec_def)
  obtain d' where d': "cancel_tx E (with_partition_and_uuid (pe_lib E) p u) (as_i16 p) u reason d = Inr ((), d')"
    "exec_at d' (as_i16 p) u = Some r1" "t_completion d' = t_completion d"
    using cancel_effect [OF assms(1,5,6) r1(1), of _ 0] by blast
  note st = cancel_tx_steps [OF d'(1)]
  have f: "fence_check (as_i16 p) u ?i (hp_lease_epoch pl) d' = Inr ()"
    using st by (intro fence_kept [OF _ assms(3)]) blast
  obtain d'' where c: "complete_body b E pl (as_i16 p) u ?i d' = Inr ((), d'')"
    using complete_body_Inr by blast
  have wf: "db_wf d'" using st evolves_wf [OF _ assms(1)] by blast
  have "complete b E h d' = (Inr (), d'')"
    using fenced_tx_pass [where body = "complete_body b", OF assms(2) f c] assms(8) by (simp add: complete_def)
  with complete_body_effect [OF wf d'(2) c] d' r1(2) assms(4,8) show ?thesis
    by (auto simp: cancel_impl_def terminal_exec_def completion_row_def)
qed

theorem cancelled_still_completes_witness:
  "\<exists>d' d'' r' c. cancel_impl (sample_env 50) (with_partition_and_uuid sample_ext_lib 7 5) ''stop'' leased_db =
      Inr (Inr (), d') \<and> complete (Some [1]) (sample_env 50) sample_handle d' = (Inr (), d'') \<and>
    exec_at d'' 7 5 = Some r' \<and> ec_public_state r' = ''cancelled'' \<and> t_completion d'' = [c] \<and>
    ce_outcome c = ''success''"
proof -
  let ?r = "sample_exec 5 ''active'' ''not_applicable'' []"
  have "ec_raw_fields ?r = JObj []" "ec_lifecycle_phase ?r = ''active''" by (simp_all add: sample_exec_def)
  then show ?thesis
    using cancelled_still_completes [of leased_db "sample_env 50" sample_handle sample_payload 7 5 ?r "[]" "''stop''"
        "Some [1]"]
    by simp blast
qed

lemma public_names_read:
  assumes "serde_plain J"
  shows "json_enum J f public_names (as_str s) = Inr s"
proof -
  have "sj_unquote J (as_str s) = Some (as_str s)"
    using assms by (cases s) (auto simp: serde_plain_def)
  then show ?thesis by (cases s) (simp_all add: json_enum_def public_names_def)
qed

text \<open>
  A completed execution is still reported as active: completing writes the lifecycle phase but
  not the public state that a claim set to \<open>running\<close>, and the readers translate that to the public
  state \<open>active\<close>.
\<close>

theorem completed_reads_active:
  assumes "db_wf d" "serde_plain J" "handle_target (pe_lib E) h = Inr (pl, as_i16 p, u)"
    and "uuid_parse_str (pe_lib E) (uuid_to_string (pe_lib E) u) = Some u"
    and "exec_at d (as_i16 p) u = Some r" "ec_public_state r = ''running''"
    and "complete b E h d = (Inr (), d')" "pe_lib E' = pe_lib E" "pe_read_error E' = None"
  shows "read_execution_state_impl J E' (with_partition_and_uuid (pe_lib E) p u) d' = Inr (Inr (Some PS_Active)) \<and>
    get_execution_result_impl E' (with_partition_and_uuid (pe_lib E) p u) d' = Inr (Inr b) \<and>
    map_option ec_lifecycle_phase (exec_at d' (as_i16 p) u) = Some ''terminal''"
proof -
  have "exec_at d' (as_i16 p) u = Some ((terminal_exec (pe_now E) r)\<lparr>ec_result := b\<rparr>)"
    using fenced_tx_Inr [OF assms(7) [unfolded complete_def] assms(3)] complete_body_effect [OF assms(1,5)] by blast
  then show ?thesis
    using assms(4,6,8,9) public_names_read [OF assms(2), of _ PS_Active]
    by (simp add: read_execution_state_impl_def get_execution_result_impl_def read_exec_def fetch_exec
        terminal_exec_def normalise_public_state_def)
qed

definition sample_serde :: serde_lib where
  "sample_serde = \<lparr>sj_unquote = Some, sj_error = (\<lambda>_. ''unknown variant'')\<rparr>"

definition running_db :: db where
  "running_db = sample_db [(sample_exec 5 ''active'' ''not_applicable'' [])\<lparr>ec_public_state := ''running''\<rparr>]
     [sample_attempt 4]"

theorem completed_reads_active_witness:
  "\<exists>d'. complete None (sample_env 50) sample_handle running_db = (Inr (), d') \<and>
     read_execution_state_impl sample_serde (sample_env 60) (with_partition_and_uuid sample_ext_lib 7 5) d' =
       Inr (Inr (Some PS_Active))"
proof -
  let ?r = "(sample_exec 5 ''active'' ''not_applicable'' [])\<lparr>ec_public_state := ''running''\<rparr>"
  have r: "exec_at running_db 7 5 = Some ?r" "attempt_at running_db 7 5 3 = Some (sample_attempt 4)"
    by (simp_all add: running_db_def sample_db_def exec_at_def attempt_at_def row_at_def exec_key_def
        attempt_key_def) (simp_all add: sample_exec_def sample_attempt_def)
  have wf: "db_wf running_db" by (simp add: db_wf_def running_db_def sample_db_def)
  have "fence_check 7 5 3 (hp_lease_epoch sample_payload) running_db = Inr ()"
    using r(2) by (simp add: fence_check_eq u64_of_i64_or_def sample_attempt_def)
  then obtain d' where c: "complete None (sample_env 50) sample_handle running_db = (Inr (), d')"
    using fenced_tx_pass [of "sample_env 50" sample_handle sample_payload 7 5 running_db "complete_body None"]
      complete_body_Inr [of None "sample_env 50" sample_payload 7 5 3 running_db]
    by (auto simp: complete_def)
  moreover have "serde_plain sample_serde" by (simp add: serde_plain_def sample_serde_def)
  ultimately show ?thesis
    using completed_reads_active [of running_db sample_serde "sample_env 50" sample_handle sample_payload 7 5 ?r
        None d' "sample_env 60"] wf r(1) sample_read_error [of 60] by simp
qed

section \<open>Typed rows can be read\<close>

definition plain :: "string \<Rightarrow> bool" where
  "plain s \<longleftrightarrow> (\<forall>c \<in> set s. c \<noteq> CHR 34 \<and> c \<noteq> CHR 92 \<and> 32 \<le> (of_char c :: nat))"

lemma enum_read: "serde_plain J \<Longrightarrow> plain s \<Longrightarrow> map_of names s = Some v \<Longrightarrow> json_enum J f names s = Inr v"
  by (simp add: json_enum_def serde_plain_def plain_def)

lemma columns_read:
  assumes "serde_plain J"
  shows "s \<in> PHASES \<Longrightarrow> \<exists>v. json_enum J f lifecycle_names (normalise_lifecycle_phase s) = Inr v"
    "s \<in> OWNERSHIPS \<Longrightarrow> \<exists>v. json_enum J f ownership_names (normalise_ownership_state s) = Inr v"
    "s \<in> ELIGIBILITIES \<Longrightarrow> \<exists>v. json_enum J f eligibility_names (normalise_eligibility_state s) = Inr v"
    "s \<in> ATTEMPT_STATES \<Longrightarrow> \<exists>v. json_enum J f attempt_state_names (normalise_attempt_state s) = Inr v"
    "s \<in> PUBLIC_STATES \<Longrightarrow> \<exists>v. json_enum J f public_names (normalise_public_state s) = Inr v"
    "s \<in> BLOCKINGS \<Longrightarrow> \<exists>v. read_blocking_reason J (Some s) = Inr v"
proof -
  note read = enum_read [OF assms, unfolded plain_def]
  show "s \<in> PHASES \<Longrightarrow> \<exists>v. json_enum J f lifecycle_names (normalise_lifecycle_phase s) = Inr v"
    unfolding PHASES_def by (elim insertE) (auto simp: normalise_lifecycle_phase_def lifecycle_names_def read)
  show "s \<in> OWNERSHIPS \<Longrightarrow> \<exists>v. json_enum J f ownership_names (normalise_ownership_state s) = Inr v"
    unfolding OWNERSHIPS_def by (elim insertE) (auto simp: normalise_ownership_state_def ownership_names_def read)
  show "s \<in> ELIGIBILITIES \<Longrightarrow> \<exists>v. json_enum J f eligibility_names (normalise_eligibility_state s) = Inr v"
    unfolding ELIGIBILITIES_def by (elim insertE) (auto simp: normalise_eligibility_state_def eligibility_names_def read)
  show "s \<in> ATTEMPT_STATES \<Longrightarrow> \<exists>v. json_enum J f attempt_state_names (normalise_attempt_state s) = Inr v"
    unfolding ATTEMPT_STATES_def by (elim insertE) (auto simp: normalise_attempt_state_def attempt_state_names_def read)
  show "s \<in> PUBLIC_STATES \<Longrightarrow> \<exists>v. json_enum J f public_names (normalise_public_state s) = Inr v"
    unfolding PUBLIC_STATES_def by (elim insertE) (auto simp: normalise_public_state_def public_names_def read)
  show "s \<in> BLOCKINGS \<Longrightarrow> \<exists>v. read_blocking_reason J (Some s) = Inr v"
    unfolding BLOCKINGS_def by (elim insertE) (auto simp: read_blocking_reason_def blocking_names_def read)
qed

lemma typed_state_vector:
  assumes "serde_plain J" "exec_typed r"
  shows "\<exists>sv. read_state_vector J r outcome = Inr sv"
proof -
  have "\<exists>b. read_blocking_reason J (ec_blocking_reason r) = Inr b"
    using assms(2) columns_read(6) [OF assms(1)]
    by (cases "ec_blocking_reason r") (auto simp: exec_typed_def read_blocking_reason_def)
  moreover note columns_read(1) [OF assms(1), of "ec_lifecycle_phase r" "''lifecycle_phase''"]
    columns_read(2) [OF assms(1), of "ec_ownership_state r" "''ownership_state''"]
    columns_read(3) [OF assms(1), of "ec_eligibility_state r" "''eligibility_state''"]
    columns_read(4) [OF assms(1), of "ec_attempt_state r" "''attempt_state''"]
    columns_read(5) [OF assms(1), of "ec_public_state r" "''public_state''"]
  ultimately show ?thesis using assms(2) by (auto simp: exec_typed_def read_state_vector_def)
qed

end
