(* ===== verification/Pg_Edge_Cancel.thy ===== *)
theory Pg_Edge_Cancel
  imports Pg_Exec_Core
begin

text \<open>
  Sibling cancellation of the Postgres backend: the dispatcher that cancels the siblings recorded on
  an edge group (\<open>reconcilers/edge_cancel_dispatcher.rs\<close>) and the reconciler that cleans up after a
  crash (\<open>reconcilers/edge_cancel_reconciler.rs\<close>). Both walk the queue of pending groups in the order
  of their enqueueing. \<open>locked\<close> tells which group rows other transactions hold locked.
\<close>

type_synonym group_id = "int \<times> uuid \<times> uuid"
type_synonym group_locks = "int \<Rightarrow> uuid \<Rightarrow> uuid \<Rightarrow> bool"

definition EDGE_BATCH_SIZE :: nat where "EDGE_BATCH_SIZE = 50"

definition pending_groups :: "db \<Rightarrow> group_id list" where
  "pending_groups d =
     map pending_cancel_key (sql_order_limit pc_enqueued_at_ms EDGE_BATCH_SIZE (\<lambda>_. True) (t_pending_cancel d))"

definition pending_is :: "int \<Rightarrow> uuid \<Rightarrow> uuid \<Rightarrow> pending_cancel \<Rightarrow> bool" where
  "pending_is part flow down r \<longleftrightarrow>
     pc_partition_key r = part \<and> pc_flow_id r = flow \<and> pc_downstream_eid r = down"

definition delete_pending :: "int \<Rightarrow> uuid \<Rightarrow> uuid \<Rightarrow> db \<Rightarrow> db" where
  "delete_pending part flow down d =
     d\<lparr>t_pending_cancel := sql_delete (pending_is part flow down) (t_pending_cancel d)\<rparr>"

definition clear_flag :: "edge_group \<Rightarrow> edge_group" where
  "clear_flag g = g\<lparr>eg_cancel_siblings_pending_flag := False, eg_cancel_siblings_pending_members := []\<rparr>"

text \<open>\<open>SELECT .. FOR UPDATE SKIP LOCKED\<close> of the group.\<close>

definition lock_group :: "group_locks \<Rightarrow> int \<Rightarrow> uuid \<Rightarrow> uuid \<Rightarrow> db \<Rightarrow> edge_group option" where
  "lock_group locked part flow down d =
     (if locked part flow down then None else sql_fetch (group_is part flow down) (t_edge_group d))"

definition parsed_members :: "ext_lib \<Rightarrow> edge_group \<Rightarrow> uuid list" where
  "parsed_members X g = List.map_filter (uuid_parse_str X) (eg_cancel_siblings_pending_members g)"

section \<open>Dispatcher\<close>

datatype group_outcome = GO_Dispatched | GO_Orphaned | GO_SkippedForReconciler | GO_SkippedLocked

definition cancel_sibling :: "int \<Rightarrow> exec_core \<Rightarrow> sqlx_error + exec_core" where
  "cancel_sibling now r =
     (if not_ended r
      then rbind (jsonb_set ''last_mutation_at'' (JStr (show_int now)) (ec_raw_fields r)) (\<lambda>raw.
           Inr (r\<lparr>ec_lifecycle_phase := ''terminal'', ec_ownership_state := ''unowned'',
                  ec_eligibility_state := ''not_applicable'', ec_public_state := ''cancelled'',
                  ec_attempt_state := ''cancelled'',
                  ec_terminal_at_ms := (case ec_terminal_at_ms r of None \<Rightarrow> Some now | t \<Rightarrow> t),
                  ec_cancellation_reason := (case ec_cancellation_reason r of
                    None \<Rightarrow> Some ''sibling_quorum_satisfied'' | c \<Rightarrow> c),
                  ec_cancelled_by := (case ec_cancelled_by r of None \<Rightarrow> Some ''engine'' | c \<Rightarrow> c),
                  ec_raw_fields := raw\<rparr>))
      else Inr r)"

fun cancel_siblings :: "int \<Rightarrow> int \<Rightarrow> uuid list \<Rightarrow> db \<Rightarrow> pg_error + db" where
  "cancel_siblings part now [] d = Inr d"
| "cancel_siblings part now (sib # sibs) d =
     rbind (try_update_exec part sib (cancel_sibling now) d) (cancel_siblings part now sibs)"

definition dispatch_group_tx ::
  "pg_env \<Rightarrow> group_locks \<Rightarrow> int \<Rightarrow> uuid \<Rightarrow> uuid \<Rightarrow> db \<Rightarrow> pg_error + (group_outcome \<times> db)" where
  "dispatch_group_tx E locked part flow down d =
     (case lock_group locked part flow down d of
        None \<Rightarrow>
          if sql_fetch (group_is part flow down) (t_edge_group d) \<noteq> None then Inr (GO_SkippedLocked, d)
          else Inr (GO_Orphaned, delete_pending part flow down d)
      | Some g \<Rightarrow>
          if \<not> eg_cancel_siblings_pending_flag g then Inr (GO_SkippedForReconciler, d)
          else rbind (cancel_siblings part (pe_now E) (parsed_members (pe_lib E) g) d) (\<lambda>d1.
               Inr (GO_Dispatched,
                 delete_pending part flow down (update_group part flow down clear_flag d1))))"

definition dispatch_one_group ::
  "pg_env \<Rightarrow> group_locks \<Rightarrow> int \<Rightarrow> uuid \<Rightarrow> uuid \<Rightarrow> db \<Rightarrow> (pg_error + group_outcome) \<times> db" where
  "dispatch_one_group E locked part flow down d =
     run_tx (pe_fault E) (dispatch_group_tx E locked part flow down) d"

record dispatch_report =
  dr_dispatched :: nat
  dr_orphaned :: nat
  dr_skipped_for_reconciler :: nat
  dr_skipped_locked :: nat
  dr_errors :: nat

fun count_dispatch :: "pg_error + group_outcome \<Rightarrow> dispatch_report \<Rightarrow> dispatch_report" where
  "count_dispatch (Inr GO_Dispatched) r = r\<lparr>dr_dispatched := dr_dispatched r + 1\<rparr>"
| "count_dispatch (Inr GO_Orphaned) r = r\<lparr>dr_orphaned := dr_orphaned r + 1\<rparr>"
| "count_dispatch (Inr GO_SkippedForReconciler) r =
     r\<lparr>dr_skipped_for_reconciler := dr_skipped_for_reconciler r + 1\<rparr>"
| "count_dispatch (Inr GO_SkippedLocked) r = r\<lparr>dr_skipped_locked := dr_skipped_locked r + 1\<rparr>"
| "count_dispatch (Inl _) r = r\<lparr>dr_errors := dr_errors r + 1\<rparr>"

fun dispatch_groups ::
  "(nat \<Rightarrow> pg_env \<times> group_locks) \<Rightarrow> nat \<Rightarrow> group_id list \<Rightarrow> dispatch_report \<Rightarrow> db \<Rightarrow> dispatch_report \<times> db" where
  "dispatch_groups envs i [] rep d = (rep, d)"
| "dispatch_groups envs i ((part, flow, down) # gs) rep d =
     (case dispatch_one_group (fst (envs i)) (snd (envs i)) part flow down d of
        (res, d') \<Rightarrow> dispatch_groups envs (Suc i) gs (count_dispatch res rep) d')"

definition dispatcher_tick ::
  "pg_env \<Rightarrow> (nat \<Rightarrow> pg_env \<times> group_locks) \<Rightarrow> scanner_filter \<Rightarrow> db \<Rightarrow> (pg_error + dispatch_report) \<times> db" where
  "dispatcher_tick E envs flt d =
     (case pe_read_error E of
        Some e \<Rightarrow> (Inl (map_sqlx_error e), d)
      | None \<Rightarrow>
          map_prod Inr id (dispatch_groups envs 0 (pending_groups d)
            \<lparr>dr_dispatched = 0, dr_orphaned = 0, dr_skipped_for_reconciler = 0, dr_skipped_locked = 0,
             dr_errors = 0\<rparr> d))"

section \<open>Reconciler\<close>

datatype reconcile_action = SremmedStale | CompletedDrain | RA_NoOp

definition reconcile_group_tx ::
  "pg_env \<Rightarrow> group_locks \<Rightarrow> int \<Rightarrow> uuid \<Rightarrow> uuid \<Rightarrow> db \<Rightarrow> pg_error + (reconcile_action \<times> db)" where
  "reconcile_group_tx E locked part flow down d =
     (case lock_group locked part flow down d of
        None \<Rightarrow>
          if sql_fetch (group_is part flow down) (t_edge_group d) \<noteq> None then Inr (RA_NoOp, d)
          else Inr (SremmedStale, delete_pending part flow down d)
      | Some g \<Rightarrow>
          if \<not> eg_cancel_siblings_pending_flag g then Inr (SremmedStale, delete_pending part flow down d)
          else
            let members = parsed_members (pe_lib E) g;
                non_terminal = sql_count (\<lambda>c. ec_partition_key c = part \<and> ec_execution_id c \<in> set members \<and>
                  not_ended c) (t_exec d)
            in if members \<noteq> [] \<and> non_terminal > 0 then Inr (RA_NoOp, d)
               else Inr (CompletedDrain,
                 delete_pending part flow down (update_group part flow down clear_flag d)))"

definition reconcile_one_group ::
  "pg_env \<Rightarrow> group_locks \<Rightarrow> int \<Rightarrow> uuid \<Rightarrow> uuid \<Rightarrow> db \<Rightarrow> (pg_error + reconcile_action) \<times> db" where
  "reconcile_one_group E locked part flow down d =
     run_tx (pe_fault E) (reconcile_group_tx E locked part flow down) d"

record edge_reconcile_report =
  er_sremmed_stale :: nat
  er_completed_drain :: nat
  er_no_op :: nat
  er_errors :: nat

fun count_reconcile :: "pg_error + reconcile_action \<Rightarrow> edge_reconcile_report \<Rightarrow> edge_reconcile_report" where
  "count_reconcile (Inr SremmedStale) r = r\<lparr>er_sremmed_stale := er_sremmed_stale r + 1\<rparr>"
| "count_reconcile (Inr CompletedDrain) r = r\<lparr>er_completed_drain := er_completed_drain r + 1\<rparr>"
| "count_reconcile (Inr RA_NoOp) r = r\<lparr>er_no_op := er_no_op r + 1\<rparr>"
| "count_reconcile (Inl _) r = r\<lparr>er_errors := er_errors r + 1\<rparr>"

fun reconcile_groups ::
  "(nat \<Rightarrow> pg_env \<times> group_locks) \<Rightarrow> nat \<Rightarrow> group_id list \<Rightarrow> edge_reconcile_report \<Rightarrow> db \<Rightarrow>
   edge_reconcile_report \<times> db" where
  "reconcile_groups envs i [] rep d = (rep, d)"
| "reconcile_groups envs i ((part, flow, down) # gs) rep d =
     (case reconcile_one_group (fst (envs i)) (snd (envs i)) part flow down d of
        (res, d') \<Rightarrow> reconcile_groups envs (Suc i) gs (count_reconcile res rep) d')"

definition reconciler_tick ::
  "pg_env \<Rightarrow> (nat \<Rightarrow> pg_env \<times> group_locks) \<Rightarrow> scanner_filter \<Rightarrow> db \<Rightarrow>
   (pg_error + edge_reconcile_report) \<times> db" where
  "reconciler_tick E envs flt d =
     (case pe_read_error E of
        Some e \<Rightarrow> (Inl (map_sqlx_error e), d)
      | None \<Rightarrow>
          map_prod Inr id (reconcile_groups envs 0 (pending_groups d)
            \<lparr>er_sremmed_stale = 0, er_completed_drain = 0, er_no_op = 0, er_errors = 0\<rparr> d))"

section \<open>What the two scanners do\<close>

definition quorum_cancelled :: "int \<Rightarrow> exec_core \<Rightarrow> exec_core" where
  "quorum_cancelled now r =
     (if not_ended r
      then r\<lparr>ec_lifecycle_phase := ''terminal'', ec_ownership_state := ''unowned'',
             ec_eligibility_state := ''not_applicable'', ec_public_state := ''cancelled'',
             ec_attempt_state := ''cancelled'',
             ec_terminal_at_ms := Some (case ec_terminal_at_ms r of None \<Rightarrow> now | Some t \<Rightarrow> t),
             ec_cancellation_reason :=
               Some (case ec_cancellation_reason r of None \<Rightarrow> ''sibling_quorum_satisfied'' | Some c \<Rightarrow> c),
             ec_cancelled_by := Some (case ec_cancelled_by r of None \<Rightarrow> ''engine'' | Some c \<Rightarrow> c),
             ec_raw_fields := json_concat (ec_raw_fields r) (JObj [(''last_mutation_at'', JStr (show_int now))])\<rparr>
      else r)"

lemma cancel_sibling_obj:
  assumes "ec_raw_fields r = JObj kvs"
  shows "cancel_sibling now r = Inr (quorum_cancelled now r)"
    "\<exists>kvs'. ec_raw_fields (quorum_cancelled now r) = JObj kvs'"
    "\<not> not_ended (quorum_cancelled now r)"
  using assms by (auto simp: quorum_cancelled_def cancel_sibling_def not_ended_def split: option.splits)

lemma cancel_sibling_keeps:
  assumes "cancel_sibling now r = Inr r'"
  shows "exec_le r r'" "exec_key r' = exec_key r"
  using assms by (auto simp: cancel_sibling_def rbind_Inr_iff exec_le_def exec_typed_def exec_key_def split: if_splits)

lemma quorum_cancelled_ended: "\<not> not_ended r \<Longrightarrow> quorum_cancelled now r = r"
  by (simp add: quorum_cancelled_def cancel_sibling_def)

lemma try_update_none: "(\<And>r. r \<in> set t \<Longrightarrow> \<not> P r) \<Longrightarrow> sql_try_update P f t = Inr t"
  by (induction t) auto

lemma try_update_exec_absent:
  assumes "exec_at d part uid = None"
  shows "try_update_exec part uid f d = Inr d"
proof -
  have "\<not> exec_is part uid r" if "r \<in> set (t_exec d)" for r
    using assms that by (force simp: exec_at_def row_at_None exec_is_def exec_key_def)
  then show ?thesis using try_update_none [of "t_exec d" "exec_is part uid" f] by (simp add: try_update_exec_def)
qed

definition objects_at :: "int \<Rightarrow> uuid list \<Rightarrow> db \<Rightarrow> bool" where
  "objects_at part uids d \<longleftrightarrow>
     (\<forall>u r. u \<in> set uids \<longrightarrow> exec_at d part u = Some r \<longrightarrow> (\<exists>kvs. ec_raw_fields r = JObj kvs))"

definition all_objects :: "db \<Rightarrow> bool" where
  "all_objects d \<longleftrightarrow> (\<forall>p u r. exec_at d p u = Some r \<longrightarrow> (\<exists>kvs. ec_raw_fields r = JObj kvs))"

lemma cancel_sibling_step:
  assumes "db_wf d" "objects_at part [sib] d"
  shows "\<exists>d1. try_update_exec part sib (cancel_sibling now) d = Inr d1 \<and> db_evolves d d1 \<and>
    (\<forall>p u. exec_at d1 p u =
      (if p = part \<and> u = sib then map_option (quorum_cancelled now) (exec_at d p u) else exec_at d p u))"
proof (cases "exec_at d part sib")
  case None
  then show ?thesis using try_update_exec_absent [OF None] by auto
next
  case (Some r)
  then obtain kvs where "ec_raw_fields r = JObj kvs" using assms(2) by (auto simp: objects_at_def)
  then have c: "cancel_sibling now r = Inr (quorum_cancelled now r)" by (rule cancel_sibling_obj(1))
  obtain d1 where d1: "try_update_exec part sib (cancel_sibling now) d = Inr d1"
    using try_update_exec_ok [where f = "cancel_sibling now", OF assms(1) Some c] by blast
  moreover have "db_evolves d d1"
    by (rule evolves_try_update_exec [OF d1]) (rule cancel_sibling_keeps)
  moreover have "exec_at d1 p u =
      (if p = part \<and> u = sib then map_option (quorum_cancelled now) (exec_at d p u) else exec_at d p u)" for p u
    using try_update_exec_at [OF d1 cancel_sibling_keeps(2), where p = p and u = u] Some c
    by (auto split: if_splits)
  ultimately show ?thesis by blast
qed

lemma cancel_siblings_effect:
  assumes "db_wf d" "objects_at part sibs d"
  shows "\<exists>d1. cancel_siblings part now sibs d = Inr d1 \<and> db_evolves d d1 \<and>
    (\<forall>p u. exec_at d1 p u =
      (if p = part \<and> u \<in> set sibs then map_option (quorum_cancelled now) (exec_at d p u)
       else exec_at d p u))"
  using assms
proof (induction sibs arbitrary: d)
  case (Cons sib sibs)
  have "objects_at part [sib] d" using Cons.prems(2) by (simp add: objects_at_def)
  then obtain d1 where d1: "try_update_exec part sib (cancel_sibling now) d = Inr d1" "db_evolves d d1"
    "\<And>p u. exec_at d1 p u =
      (if p = part \<and> u = sib then map_option (quorum_cancelled now) (exec_at d p u) else exec_at d p u)"
    using cancel_sibling_step [OF Cons.prems(1), of part sib now] by blast
  have obj: "objects_at part sibs d1"
    using Cons.prems(2) cancel_sibling_obj(2) by (fastforce simp: objects_at_def d1(3))
  obtain d2 where d2: "cancel_siblings part now sibs d1 = Inr d2" "db_evolves d1 d2"
    "\<And>p u. exec_at d2 p u =
      (if p = part \<and> u \<in> set sibs then map_option (quorum_cancelled now) (exec_at d1 p u) else exec_at d1 p u)"
    using Cons.IH [OF evolves_wf [OF d1(2) Cons.prems(1)] obj] by blast
  have twice: "quorum_cancelled now (quorum_cancelled now r) = quorum_cancelled now r"
    if "exec_at d part sib = Some r" for r
    using Cons.prems(2) that cancel_sibling_obj(3) quorum_cancelled_ended
    by (fastforce simp: objects_at_def)
  have "exec_at d2 p u =
      (if p = part \<and> u \<in> set (sib # sibs) then map_option (quorum_cancelled now) (exec_at d p u)
       else exec_at d p u)" for p u
    using twice by (cases "exec_at d part sib") (auto simp: d2(3) d1(3))
  then show ?case using d1(1,2) d2(1,2) db_evolves_trans by auto
qed simp

lemma cancel_siblings_tables:
  "cancel_siblings part now sibs d = Inr d' \<Longrightarrow>
   t_attempt d' = t_attempt d \<and> t_edge d' = t_edge d \<and> t_edge_group d' = t_edge_group d \<and>
   t_pending_cancel d' = t_pending_cancel d \<and> t_completion d' = t_completion d"
proof (induction sibs arbitrary: d)
  case (Cons sib sibs)
  then obtain d1 where d1: "try_update_exec part sib (cancel_sibling now) d = Inr d1"
    "cancel_siblings part now sibs d1 = Inr d'"
    by (cases "try_update_exec part sib (cancel_sibling now) d") auto
  show ?case using Cons.IH [OF d1(2)] try_update_exec_tables [OF d1(1)] by simp
qed simp

lemma delete_pending_tables [db_lookup]:
  "exec_at (delete_pending part flow down d) p u = exec_at d p u"
  "attempt_at (delete_pending part flow down d) p u i = attempt_at d p u i"
  "group_at (delete_pending part flow down d) p w u = group_at d p w u"
  "t_completion (delete_pending part flow down d) = t_completion d"
  by (simp_all add: delete_pending_def exec_at_def attempt_at_def group_at_def)

lemma delete_pending_idem:
  "delete_pending part flow down (delete_pending part flow down d) = delete_pending part flow down d"
  by (simp add: delete_pending_def sql_delete_def)

lemma delete_pending_unqueued:
  "(part, flow, down) \<notin> pending_cancel_key ` set (t_pending_cancel (delete_pending part flow down d))"
  by (auto simp: delete_pending_def sql_delete_def pending_is_def pending_cancel_key_def)

lemma evolves_delete_pending: "db_evolves d (delete_pending part flow down d)"
  by (simp add: db_evolves_def delete_pending_def sql_delete_def db_wf_def db_typed_def rows_le_refl distinct_map_filter)

lemma clear_flag_simps [simp]:
  "edge_group_key (clear_flag g) = edge_group_key g" "\<not> eg_cancel_siblings_pending_flag (clear_flag g)"
  by (simp_all add: clear_flag_def edge_group_key_def)

text \<open>The end of a drain, which both scanners share.\<close>

definition drained :: "int \<Rightarrow> uuid \<Rightarrow> uuid \<Rightarrow> db \<Rightarrow> db" where
  "drained part flow down d = delete_pending part flow down (update_group part flow down clear_flag d)"

lemma drained_tables [db_lookup]:
  "exec_at (drained part flow down d) p u = exec_at d p u"
  "attempt_at (drained part flow down d) p u i = attempt_at d p u i"
  "t_completion (drained part flow down d) = t_completion d"
  "group_at (drained part flow down d) p w u =
    (if p = part \<and> w = flow \<and> u = down then map_option clear_flag (group_at d p w u) else group_at d p w u)"
  by (simp_all add: drained_def db_lookup)

lemma drained_evolves: "db_evolves d (drained part flow down d)"
  unfolding drained_def by (rule db_evolves_trans [OF evolves_update_group evolves_delete_pending]) simp

lemma pending_gone: "(part, flow, down) \<notin> set (pending_groups (drained part flow down d))"
  using delete_pending_unqueued [of part flow down "update_group part flow down clear_flag d"]
  by (auto simp: drained_def pending_groups_def dest!: order_limit_set)

lemma dispatch_flagged:
  assumes "db_wf d" "group_at d part flow down = Some g" "eg_cancel_siblings_pending_flag g"
    and "\<not> locked part flow down" "pe_fault E = No_fault" "objects_at part (parsed_members (pe_lib E) g) d"
  shows "\<exists>d1. dispatch_one_group E locked part flow down d = (Inr GO_Dispatched, drained part flow down d1) \<and>
    db_evolves d d1 \<and> cancel_siblings part (pe_now E) (parsed_members (pe_lib E) g) d = Inr d1 \<and>
    (\<forall>p u. exec_at d1 p u =
      (if p = part \<and> u \<in> set (parsed_members (pe_lib E) g)
       then map_option (quorum_cancelled (pe_now E)) (exec_at d p u) else exec_at d p u))"
  using cancel_siblings_effect [OF assms(1,6), of "pe_now E"] assms(2-5)
  by (auto simp: dispatch_one_group_def dispatch_group_tx_def lock_group_def fetch_group drained_def)

text \<open>Group 5 of flow 9 waits for execution 6 to be cancelled and is queued for it.\<close>

definition quorum_group :: edge_group where
  "quorum_group = (sample_group JNull 1 1)\<lparr>eg_cancel_siblings_pending_flag := True,
     eg_cancel_siblings_pending_members := [uuid_to_string sample_ext_lib 6]\<rparr>"

definition quorum_db :: db where
  "quorum_db = (sample_db [sample_exec 5 ''runnable'' ''eligible_now'' [], sample_exec 6 ''active'' ''not_applicable'' []] [])
     \<lparr>t_edge_group := [quorum_group],
      t_pending_cancel := [\<lparr>pc_partition_key = 7, pc_flow_id = 9, pc_downstream_eid = 5, pc_enqueued_at_ms = 40\<rparr>]\<rparr>"

lemma quorum_db_rows:
  "db_wf quorum_db" "group_at quorum_db 7 9 5 = Some quorum_group"
  "exec_at quorum_db 7 6 = Some (sample_exec 6 ''active'' ''not_applicable'' [])"
  "parsed_members sample_ext_lib quorum_group = [6]"
  by (simp_all add: db_wf_def quorum_db_def sample_db_def sample_exec_def group_at_def row_at_def
      edge_group_key_def quorum_group_def sample_group_def exec_at_def exec_key_def parsed_members_def
      List.map_filter_def)

lemma quorum_flag: "eg_cancel_siblings_pending_flag quorum_group"
  by (simp add: quorum_group_def)

lemma quorum_objects: "all_objects quorum_db" "objects_at 7 [6] quorum_db"
proof -
  show "all_objects quorum_db"
    unfolding all_objects_def
    by (auto dest!: exec_at_key simp: quorum_db_def sample_db_def sample_exec_def)
  then show "objects_at 7 [6] quorum_db" by (simp add: all_objects_def objects_at_def)
qed

lemma quorum_open: "not_ended (sample_exec 6 ''active'' ''not_applicable'' [])"
  by (simp add: not_ended_def sample_exec_def)

text \<open>
  C21. A group whose siblings are to be cancelled is drained by one call of the dispatcher: every
  recorded sibling that has not ended is cancelled, no other execution changes, the flag and the
  pending row are gone, and a second call changes nothing. No completion event is emitted and no
  lease is taken away, so the other dependents of a sibling never hear of its cancellation.
\<close>

theorem sibling_cancel_drains:
  assumes "db_wf d" "group_at d part flow down = Some g" "eg_cancel_siblings_pending_flag g"
    and "\<not> locked part flow down" "pe_fault E = No_fault" "objects_at part (parsed_members (pe_lib E) g) d"
    and "pe_fault E' = No_fault"
  shows "\<exists>d'. dispatch_one_group E locked part flow down d = (Inr GO_Dispatched, d') \<and>
    (\<forall>p u. exec_at d' p u =
      (if p = part \<and> u \<in> set (parsed_members (pe_lib E) g)
       then map_option (quorum_cancelled (pe_now E)) (exec_at d p u) else exec_at d p u)) \<and>
    (\<forall>u r. u \<in> set (parsed_members (pe_lib E) g) \<longrightarrow> exec_at d' part u = Some r \<longrightarrow> \<not> not_ended r) \<and>
    group_at d' part flow down = Some (clear_flag g) \<and>
    (part, flow, down) \<notin> set (pending_groups d') \<and>
    t_completion d' = t_completion d \<and> (\<forall>p u i. attempt_at d' p u i = attempt_at d p u i) \<and>
    snd (dispatch_one_group E' locked' part flow down d') = d'"
proof -
  obtain d1 where d1: "dispatch_one_group E locked part flow down d = (Inr GO_Dispatched, drained part flow down d1)"
    "cancel_siblings part (pe_now E) (parsed_members (pe_lib E) g) d = Inr d1"
    "\<And>p u. exec_at d1 p u =
      (if p = part \<and> u \<in> set (parsed_members (pe_lib E) g)
       then map_option (quorum_cancelled (pe_now E)) (exec_at d p u) else exec_at d p u)"
    using dispatch_flagged [where locked = locked, OF assms(1-6)] by blast
  have grp: "group_at (drained part flow down d1) part flow down = Some (clear_flag g)"
    using assms(2) cancel_siblings_tables [OF d1(2)] by (simp add: drained_tables) (simp add: group_at_def)
  have ended: "\<not> not_ended r" if "u \<in> set (parsed_members (pe_lib E) g)"
    "exec_at (drained part flow down d1) part u = Some r" for u r
    using that assms(6) cancel_sibling_obj(3) by (fastforce simp: db_lookup d1(3) objects_at_def)
  have "snd (dispatch_one_group E' locked' part flow down (drained part flow down d1)) = drained part flow down d1"
    using assms(7) grp
    by (simp add: dispatch_one_group_def dispatch_group_tx_def lock_group_def fetch_group)
  moreover have "attempt_at d1 p u i = attempt_at d p u i" for p u i
    using cancel_siblings_tables [OF d1(2)] by (simp add: attempt_at_def)
  ultimately show ?thesis
    using d1 pending_gone grp ended cancel_siblings_tables [OF d1(2)]
    by (intro exI [of _ "drained part flow down d1"]) (simp add: db_lookup)
qed

theorem sibling_cancel_drains_witness:
  "\<exists>d' r'. dispatch_one_group (sample_env 50) (\<lambda>_ _ _. False) 7 9 5 quorum_db = (Inr GO_Dispatched, d') \<and>
    exec_at d' 7 6 = Some r' \<and> \<not> not_ended r' \<and> (7, 9, 5) \<notin> set (pending_groups d') \<and>
    snd (dispatch_one_group (sample_env 60) (\<lambda>_ _ _. False) 7 9 5 d') = d'"
  using sibling_cancel_drains [where locked = "\<lambda>_ _ _. False" and E = "sample_env 50" and
      E' = "sample_env 60" and locked' = "\<lambda>_ _ _. False", OF quorum_db_rows(1,2) quorum_flag] quorum_objects
  by (auto simp: quorum_db_rows)

lemma reconcile_flagged:
  assumes "group_at d part flow down = Some g" "eg_cancel_siblings_pending_flag g"
    and "\<not> locked part flow down" "pe_fault E = No_fault"
  shows "reconcile_one_group E locked part flow down d =
    (if \<exists>c \<in> set (t_exec d). ec_partition_key c = part \<and>
          ec_execution_id c \<in> set (parsed_members (pe_lib E) g) \<and> not_ended c
     then (Inr RA_NoOp, d) else (Inr CompletedDrain, drained part flow down d))"
  using assms
  by (auto simp: reconcile_one_group_def reconcile_group_tx_def lock_group_def fetch_group Let_def
      sql_count_def drained_def filter_empty_conv)

text \<open>
  The reconciler leaves the dispatcher its work: it never changes an execution, an attempt or the
  outbox; while a recorded sibling of a flagged group has not ended it changes nothing at all, and
  once all of them have it finishes the drain as the dispatcher would.
\<close>

theorem reconciler_leaves_open_groups:
  assumes "db_wf d" "group_at d part flow down = Some g" "eg_cancel_siblings_pending_flag g"
    and "\<not> locked part flow down" "pe_fault E = No_fault"
  shows "\<exists>res d'. reconcile_one_group E locked part flow down d = (res, d') \<and>
    (if \<exists>u \<in> set (parsed_members (pe_lib E) g). \<exists>r. exec_at d part u = Some r \<and> not_ended r
     then res = Inr RA_NoOp \<and> d' = d
     else res = Inr CompletedDrain \<and> (part, flow, down) \<notin> set (pending_groups d') \<and>
       group_at d' part flow down = Some (clear_flag g) \<and>
       (\<forall>p u. exec_at d' p u = exec_at d p u) \<and> (\<forall>p u i. attempt_at d' p u i = attempt_at d p u i) \<and>
       t_completion d' = t_completion d)"
proof -
  have "(\<exists>c \<in> set (t_exec d). ec_partition_key c = part \<and>
          ec_execution_id c \<in> set (parsed_members (pe_lib E) g) \<and> not_ended c) \<longleftrightarrow>
    (\<exists>u \<in> set (parsed_members (pe_lib E) g). \<exists>r. exec_at d part u = Some r \<and> not_ended r)"
    (is "?L \<longleftrightarrow> ?R")
  proof
    assume ?L
    then obtain c where "c \<in> set (t_exec d)" "ec_partition_key c = part" "not_ended c"
      "ec_execution_id c \<in> set (parsed_members (pe_lib E) g)" by blast
    with exec_at_distinct [OF assms(1) this(1)] show ?R by auto
  next
    assume ?R
    with exec_at_key [of d part] show ?L by (fastforce simp: exec_is_def)
  qed
  then show ?thesis
    using reconcile_flagged [where locked = locked, OF assms(2-5)] assms(2)
    by (simp add: db_lookup pending_gone)
qed

theorem reconciler_leaves_open_groups_witness:
  "reconcile_one_group (sample_env 50) (\<lambda>_ _ _. False) 7 9 5 quorum_db = (Inr RA_NoOp, quorum_db)"
  using reconciler_leaves_open_groups [where locked = "\<lambda>_ _ _. False" and E = "sample_env 50",
      OF quorum_db_rows(1,2) quorum_flag] quorum_open
  by (simp add: quorum_db_rows)

section \<open>The queue of pending groups empties\<close>

definition queued :: "db \<Rightarrow> group_id \<Rightarrow> bool" where
  "queued d k \<longleftrightarrow> k \<in> pending_cancel_key ` set (t_pending_cancel d)"

definition settled :: "db \<Rightarrow> group_id \<Rightarrow> bool" where
  "settled d k \<longleftrightarrow> queued d k \<longrightarrow>
     (case k of (part, flow, down) \<Rightarrow>
        \<exists>g. group_at d part flow down = Some g \<and> \<not> eg_cancel_siblings_pending_flag g)"

text \<open>What a drain does to the queue: it only shrinks, and groups only lose their flag.\<close>

definition shrinks :: "db \<Rightarrow> db \<Rightarrow> bool" where
  "shrinks d d' \<longleftrightarrow>
     (\<exists>P. t_pending_cancel d' = filter P (t_pending_cancel d)) \<and>
     (\<forall>p w u. group_at d' p w u = group_at d p w u \<or> group_at d' p w u = map_option clear_flag (group_at d p w u))"

lemma shrinks_unqueued: "shrinks d d' \<Longrightarrow> \<not> queued d k \<Longrightarrow> \<not> queued d' k"
  by (auto simp: shrinks_def queued_def)

lemma shrinks_settled:
  assumes "shrinks d d'" "settled d k"
  shows "settled d' k"
proof -
  obtain part flow down where k: "k = (part, flow, down)" by (cases k)
  have "group_at d' part flow down = group_at d part flow down \<or>
      group_at d' part flow down = map_option clear_flag (group_at d part flow down)"
    using assms(1) unfolding shrinks_def by blast
  then show ?thesis
    using assms(2) shrinks_unqueued [OF assms(1), of k] by (auto simp: settled_def k)
qed

lemma shrinks_length: "shrinks d d' \<Longrightarrow> length (t_pending_cancel d') \<le> length (t_pending_cancel d)"
  by (auto simp: shrinks_def)

lemma shrinks_refl: "shrinks d d"
  by (auto simp: shrinks_def intro!: exI [of _ "\<lambda>_. True"])

lemma clear_flag_idem: "clear_flag (clear_flag g) = clear_flag g"
  by (simp add: clear_flag_def)

lemma shrinks_trans:
  assumes "shrinks d e" "shrinks e f"
  shows "shrinks d f"
proof -
  from assms obtain P Q where "t_pending_cancel e = filter P (t_pending_cancel d)"
    "t_pending_cancel f = filter Q (t_pending_cancel e)" by (auto simp: shrinks_def)
  then have "t_pending_cancel f = filter (\<lambda>x. P x \<and> Q x) (t_pending_cancel d)" by simp
  moreover have "group_at f p w u = group_at d p w u \<or> group_at f p w u = map_option clear_flag (group_at d p w u)"
    for p w u
    using assms unfolding shrinks_def by (cases "group_at d p w u") (metis clear_flag_idem option.map)+
  ultimately show ?thesis by (auto simp: shrinks_def)
qed

lemma delete_pending_queue:
  "\<not> queued (delete_pending part flow down d) (part, flow, down)" "shrinks d (delete_pending part flow down d)"
  "\<not> queued (drained part flow down d) (part, flow, down)" "shrinks d (drained part flow down d)"
  using delete_pending_unqueued
  by (auto simp: queued_def drained_def shrinks_def db_lookup)
    (auto simp: delete_pending_def sql_delete_def update_group_def)

lemma dispatch_step:
  assumes "db_wf d" "all_objects d" "\<not> locked part flow down" "pe_fault E = No_fault"
    and "dispatch_one_group E locked part flow down d = (res, d')"
  shows "db_wf d' \<and> all_objects d' \<and> shrinks d d' \<and> settled d' (part, flow, down)"
proof (cases "group_at d part flow down")
  case None
  then have "d' = delete_pending part flow down d"
    using assms(3-5) by (simp add: dispatch_one_group_def dispatch_group_tx_def lock_group_def fetch_group)
  then show ?thesis
    using assms(1,2) evolves_wf [OF evolves_delete_pending] delete_pending_queue
    by (simp add: all_objects_def settled_def db_lookup)
next
  case (Some g)
  show ?thesis
  proof (cases "eg_cancel_siblings_pending_flag g")
    case False
    then have "d' = d"
      using Some assms(3-5) by (simp add: dispatch_one_group_def dispatch_group_tx_def lock_group_def fetch_group)
    with False Some assms(1,2) shrinks_refl show ?thesis by (simp add: settled_def)
  next
    case True
    have "objects_at part (parsed_members (pe_lib E) g) d"
      using assms(2) by (simp add: objects_at_def all_objects_def)
    from dispatch_flagged [where locked = locked, OF assms(1) Some True assms(3,4) this] assms(5)
    obtain d1 where d1: "d' = drained part flow down d1" "db_evolves d d1"
      "cancel_siblings part (pe_now E) (parsed_members (pe_lib E) g) d = Inr d1"
      "\<And>p u. exec_at d1 p u =
        (if p = part \<and> u \<in> set (parsed_members (pe_lib E) g)
         then map_option (quorum_cancelled (pe_now E)) (exec_at d p u) else exec_at d p u)" by auto
    have "shrinks d d1"
      using cancel_siblings_tables [OF d1(3)]
      by (auto simp: shrinks_def group_at_def intro!: exI [of _ "\<lambda>_. True"])
    moreover have "all_objects d'"
      unfolding all_objects_def
    proof (intro allI impI)
      fix p u r
      assume "exec_at d' p u = Some r"
      then obtain r0 where "exec_at d p u = Some r0" "r = r0 \<or> r = quorum_cancelled (pe_now E) r0"
        by (auto simp: d1(1) drained_tables d1(4) split: if_splits)
      with assms(2) cancel_sibling_obj(2) show "\<exists>kvs. ec_raw_fields r = JObj kvs"
        unfolding all_objects_def by blast
    qed
    ultimately show ?thesis
      using evolves_wf [OF db_evolves_trans [OF d1(2) drained_evolves] assms(1)]
        delete_pending_queue(3) [of part flow down d1]
        shrinks_trans [OF _ delete_pending_queue(4), of d d1 part flow down]
      unfolding d1(1) by (simp add: settled_def)
  qed
qed

lemma dispatch_groups_settle:
  assumes quiet: "\<And>i. pe_fault (fst (envs i)) = No_fault" "\<And>i p w u. \<not> snd (envs i) p w u"
    and "db_wf d" "all_objects d"
  shows "shrinks d (snd (dispatch_groups envs i gs rep d)) \<and>
    (\<forall>k \<in> set gs. settled (snd (dispatch_groups envs i gs rep d)) k)"
  using assms(3,4)
proof (induction gs arbitrary: i rep d)
  case (Cons g gs)
  obtain part flow down where g: "g = (part, flow, down)" by (cases g)
  obtain res d' where step: "dispatch_one_group (fst (envs i)) (snd (envs i)) part flow down d = (res, d')"
    by fastforce
  have s: "db_wf d'" "all_objects d'" "shrinks d d'" "settled d' g"
    using dispatch_step [OF Cons.prems quiet(2) quiet(1) step] unfolding g by blast+
  note rest = Cons.IH [OF s(1,2), of "Suc i" "count_dispatch res rep"]
  then show ?case
    using shrinks_trans [OF s(3)] shrinks_settled [OF _ s(4)] by (simp add: g step)
qed (simp add: shrinks_refl)

lemma reconcile_step:
  assumes "\<not> locked part flow down" "pe_fault E = No_fault" "settled d (part, flow, down)"
    and "reconcile_one_group E locked part flow down d = (res, d')"
  shows "shrinks d d' \<and> \<not> queued d' (part, flow, down)"
proof (cases "\<exists>g. group_at d part flow down = Some g \<and> eg_cancel_siblings_pending_flag g")
  case True
  then obtain g where g: "group_at d part flow down = Some g" "eg_cancel_siblings_pending_flag g" by blast
  then have "\<not> queued d (part, flow, down)" using assms(3) by (auto simp: settled_def)
  then show ?thesis
    using reconcile_flagged [where locked = locked, OF g assms(1,2)] assms(4) delete_pending_queue
    by (auto simp: shrinks_refl split: if_splits)
next
  case False
  then have "d' = delete_pending part flow down d"
    using assms(1,2,4)
    by (cases "group_at d part flow down")
      (auto simp: reconcile_one_group_def reconcile_group_tx_def lock_group_def fetch_group)
  then show ?thesis using delete_pending_queue by simp
qed

lemma reconcile_groups_unqueue:
  assumes quiet: "\<And>i. pe_fault (fst (envs i)) = No_fault" "\<And>i p w u. \<not> snd (envs i) p w u"
    and "\<forall>k \<in> set gs. settled d k"
  shows "shrinks d (snd (reconcile_groups envs i gs rep d)) \<and>
    (\<forall>k \<in> set gs. \<not> queued (snd (reconcile_groups envs i gs rep d)) k)"
  using assms(3)
proof (induction gs arbitrary: i rep d)
  case (Cons g gs)
  obtain part flow down where g: "g = (part, flow, down)" by (cases g)
  obtain res d' where step: "reconcile_one_group (fst (envs i)) (snd (envs i)) part flow down d = (res, d')"
    by fastforce
  have s: "shrinks d d'" "\<not> queued d' g"
    using reconcile_step [OF quiet(2) quiet(1) _ step] Cons.prems unfolding g by auto
  then have "\<forall>k \<in> set gs. settled d' k" using Cons.prems shrinks_settled by auto
  note rest = Cons.IH [OF this, of "Suc i" "count_reconcile res rep"]
  then show ?case
    using shrinks_trans [OF s(1)] shrinks_unqueued [OF _ s(2)] by (simp add: g step)
qed (simp add: shrinks_refl)

lemma pending_groups_all:
  "length (t_pending_cancel d) \<le> EDGE_BATCH_SIZE \<Longrightarrow>
   set (pending_groups d) = pending_cancel_key ` set (t_pending_cancel d)"
  by (simp add: pending_groups_def sql_order_limit_def)

text \<open>
  C22. The queue of pending groups empties: with at most one batch queued and no failure or held lock
  in the way, a tick of the dispatcher followed by a tick of the reconciler leaves it empty, whether
  a queued group is flagged, was cleared before, or is gone.
\<close>

theorem sibling_cancel_queue_empties:
  assumes "db_wf d" "all_objects d" "length (t_pending_cancel d) \<le> EDGE_BATCH_SIZE"
    and "pe_read_error E = None" "pe_read_error E' = None"
    and "\<And>i. pe_fault (fst (envs i)) = No_fault" "\<And>i p w u. \<not> snd (envs i) p w u"
    and "\<And>i. pe_fault (fst (envs' i)) = No_fault" "\<And>i p w u. \<not> snd (envs' i) p w u"
  shows "t_pending_cancel (snd (reconciler_tick E' envs' f' (snd (dispatcher_tick E envs f d)))) = []"
proof -
  define d1 where "d1 = snd (dispatcher_tick E envs f d)"
  have d1: "shrinks d d1" "\<forall>k \<in> set (pending_groups d). settled d1 k"
    using dispatch_groups_settle [OF assms(6,7,1,2)] assms(4) by (simp_all add: d1_def dispatcher_tick_def)
  have "set (pending_groups d1) \<subseteq> set (pending_groups d)"
    using d1(1) shrinks_length [OF d1(1)] assms(3) pending_groups_all [of d] pending_groups_all [of d1]
    by (auto simp: shrinks_def)
  with d1(2) have "\<forall>k \<in> set (pending_groups d1). settled d1 k" by blast
  note r = reconcile_groups_unqueue [OF assms(8,9) this]
  let ?d2 = "snd (reconciler_tick E' envs' f' d1)"
  have d2: "shrinks d1 ?d2" "\<forall>k \<in> set (pending_groups d1). \<not> queued ?d2 k"
    using r assms(5) by (simp_all add: reconciler_tick_def)
  have "k \<in> set (pending_groups d1) \<longleftrightarrow> queued d1 k" for k
    using shrinks_length [OF d1(1)] assms(3) pending_groups_all [of d1] by (simp add: queued_def)
  then have "\<not> queued ?d2 k" for k using d2(2) shrinks_unqueued [OF d2(1), of k] by blast
  then show ?thesis unfolding d1_def [symmetric] queued_def by (metis image_eqI last_in_set)
qed

theorem sibling_cancel_queue_empties_witness:
  "t_pending_cancel quorum_db \<noteq> [] \<and>
   t_pending_cancel (snd (reconciler_tick (sample_env 60) (\<lambda>_. (sample_env 60, \<lambda>_ _ _. False))
     \<lparr>sf_namespace = None, sf_instance_tag = None\<rparr>
     (snd (dispatcher_tick (sample_env 50) (\<lambda>_. (sample_env 50, \<lambda>_ _ _. False))
       \<lparr>sf_namespace = None, sf_instance_tag = None\<rparr> quorum_db)))) = []"
  by (intro conjI sibling_cancel_queue_empties quorum_db_rows quorum_objects)
    (simp_all add: quorum_db_def EDGE_BATCH_SIZE_def sample_read_error)

section \<open>Evolution\<close>

lemma cancel_siblings_evolves: "cancel_siblings part now sibs d = Inr d' \<Longrightarrow> db_evolves d d'"
proof (induction sibs arbitrary: d)
  case (Cons sib sibs)
  then obtain d1 where d1: "try_update_exec part sib (cancel_sibling now) d = Inr d1"
    "cancel_siblings part now sibs d1 = Inr d'"
    by (cases "try_update_exec part sib (cancel_sibling now) d") auto
  have "db_evolves d d1" by (rule evolves_try_update_exec [OF d1(1)]) (rule cancel_sibling_keeps)
  then show ?case using Cons.IH [OF d1(2)] by (rule db_evolves_trans)
qed simp

lemma dispatch_group_tx_evolves:
  "dispatch_group_tx E locked part flow down d = Inr (res, d') \<Longrightarrow> db_evolves d d'"
  by (auto simp: dispatch_group_tx_def rbind_Inr_iff evolves_delete_pending split: option.splits if_splits)
    (auto intro: db_evolves_trans [OF cancel_siblings_evolves drained_evolves [unfolded drained_def]])

lemma reconcile_group_tx_evolves:
  "reconcile_group_tx E locked part flow down d = Inr (res, d') \<Longrightarrow> db_evolves d d'"
  by (auto simp: reconcile_group_tx_def Let_def evolves_delete_pending drained_evolves [unfolded drained_def]
      split: option.splits if_splits)

lemma edge_tx_attempts:
  "dispatch_group_tx E locked part flow down d = Inr (res, d') \<Longrightarrow> t_attempt d' = t_attempt d"
  "reconcile_group_tx E locked part flow down d = Inr (res', d') \<Longrightarrow> t_attempt d' = t_attempt d"
  by (auto simp: dispatch_group_tx_def reconcile_group_tx_def Let_def rbind_Inr_iff delete_pending_def
      update_group_def dest: cancel_siblings_tables split: option.splits if_splits)

end
