(* ===== verification/Pg_Flow.thy ===== *)
theory Pg_Flow
  imports Pg_Edge_Cancel
begin

text \<open>
  Flows in the Postgres backend (\<open>ff-backend-postgres/src/flow.rs\<close>): reading a flow, its edges and
  edge groups, cancelling a flow with its members, fixing the policy of an edge group, tags, and the
  summary projection. A flow is addressed by its partition, which is computed from its id; that
  computation panics when the configuration has no partitions. A read outside a transaction that
  issues two statements sees one database.
\<close>

section \<open>Addressing\<close>

definition flow_partition_byte :: "ext_lib \<Rightarrow> uuid \<Rightarrow> partition_config \<Rightarrow> panic + int" where
  "flow_partition_byte X fid pc = rbind (flow_partition X fid pc) (\<lambda>p. Inr (as_i16 (index p)))"

definition partition_index_from_key :: "string \<Rightarrow> pg_error + int" where
  "partition_index_from_key key =
     rbind (map_err (\<lambda>e. Validation VK_InvalidInput (''partition_key: '' @ partition_key_error_text e))
       (partition_key_parse key)) (\<lambda>p. Inr (as_i16 (index p)))"

definition parse_exec_uuid :: "ext_lib \<Rightarrow> execution_id \<Rightarrow> pg_error + uuid" where
  "parse_exec_uuid X s =
     (case rfind_sub ''}:'' s of
        None \<Rightarrow> Inl (Validation VK_InvalidInput
          (''execution_id missing '' @ CHR 39 # ''}:'' @ CHR 39 # '' delimiter: '' @ s))
      | Some colon \<Rightarrow>
          ok_or (uuid_parse_str X (drop (colon + 2) s))
            (Validation VK_InvalidInput
              (''execution_id uuid suffix parse: '' @ uuid_error_text X (drop (colon + 2) s))))"

definition flow_is :: "int \<Rightarrow> uuid \<Rightarrow> flow_core \<Rightarrow> bool" where
  "flow_is part flow r \<longleftrightarrow> fl_partition_key r = part \<and> fl_flow_id r = flow"

definition edge_is :: "int \<Rightarrow> uuid \<Rightarrow> uuid \<Rightarrow> edge \<Rightarrow> bool" where
  "edge_is part flow eid r \<longleftrightarrow> ed_partition_key r = part \<and> ed_flow_id r = flow \<and> ed_edge_id r = eid"

section \<open>Fields of JSON columns\<close>

definition raw_str :: "json \<Rightarrow> string \<Rightarrow> string option" where
  "raw_str raw key = Option.bind (json_get key raw) json_as_str"

definition raw_u64 :: "json \<Rightarrow> string \<Rightarrow> nat option" where
  "raw_u64 raw key =
     Option.bind (json_get key raw) (\<lambda>v.
       case json_as_u64 v of
         Some n \<Rightarrow> Some n
       | None \<Rightarrow> Option.bind (json_as_str v) (parse_uint (2 ^ 64 - 1)))"

definition raw_u32 :: "json \<Rightarrow> string \<Rightarrow> u32 option" where
  "raw_u32 raw key =
     Option.bind (raw_u64 raw key) (\<lambda>n. if n < 2 ^ 32 then Some (of_nat n) else None)"

text \<open>The cast \<open>as i64\<close> of a \<open>u64\<close>.\<close>

definition as_i64 :: "nat \<Rightarrow> int" where
  "as_i64 n = (if n < 2 ^ 63 then int n else int n - 2 ^ 64)"

definition is_lower :: "char \<Rightarrow> bool" where
  "is_lower c \<longleftrightarrow> of_char c \<in> {97 .. (122::nat)}"

definition is_digit :: "char \<Rightarrow> bool" where
  "is_digit c \<longleftrightarrow> of_char c \<in> {48 .. (57::nat)}"

fun rest_has_dot :: "string \<Rightarrow> bool" where
  "rest_has_dot [] = False"
| "rest_has_dot (c # cs) =
     (if c = CHR ''.'' then True
      else if \<not> (is_lower c \<or> is_digit c \<or> c = CHR ''_'') then False
      else rest_has_dot cs)"

fun is_namespaced_tag_key :: "string \<Rightarrow> bool" where
  "is_namespaced_tag_key [] = False"
| "is_namespaced_tag_key (c # cs) = (is_lower c \<and> rest_has_dot cs)"

text \<open>The tags as a map; only string values count.\<close>

definition extract_tags :: "json \<Rightarrow> string \<Rightarrow> string option" where
  "extract_tags raw k = (if is_namespaced_tag_key k then raw_str raw k else None)"

section \<open>Edge group policies\<close>

fun on_satisfied_str :: "on_satisfied \<Rightarrow> string" where
  "on_satisfied_str CancelRemaining = ''cancel_remaining''"
| "on_satisfied_str LetRun = ''let_run''"

definition flow_parse_on_satisfied :: "string \<Rightarrow> on_satisfied" where
  "flow_parse_on_satisfied s = (if s = ''let_run'' then LetRun else CancelRemaining)"

definition decode_on :: "json \<Rightarrow> on_satisfied" where
  "decode_on v =
     (case Option.bind (json_get ''on_satisfied'' v) json_as_str of
        Some s \<Rightarrow> flow_parse_on_satisfied s | None \<Rightarrow> CancelRemaining)"

definition decode_edge_policy :: "json \<Rightarrow> edge_dependency_policy" where
  "decode_edge_policy v =
     (let kind = (case Option.bind (json_get ''kind'' v) json_as_str of Some k \<Rightarrow> k | None \<Rightarrow> ''all_of'')
      in if kind = ''any_of'' then AnyOf (decode_on v)
         else if kind = ''quorum'' then
           let k = (case Option.bind (Option.bind (json_get ''k'' v) json_as_u64)
                           (\<lambda>n. if n < 2 ^ 32 then Some (of_nat n) else None) of
                      Some k \<Rightarrow> k | None \<Rightarrow> 1)
           in Quorum k (decode_on v)
         else AllOf)"

fun encode_edge_policy :: "edge_dependency_policy \<Rightarrow> json" where
  "encode_edge_policy AllOf = JObj [(''kind'', JStr ''all_of'')]"
| "encode_edge_policy (AnyOf on_sat) =
     JObj [(''kind'', JStr ''any_of''), (''on_satisfied'', JStr (on_satisfied_str on_sat))]"
| "encode_edge_policy (Quorum k on_sat) =
     JObj [(''kind'', JStr ''quorum''), (''k'', JNum (int (unat k))),
           (''on_satisfied'', JStr (on_satisfied_str on_sat))]"

section \<open>Snapshots\<close>

datatype edge_group_state = EGS_Pending | EGS_Satisfied | EGS_Impossible | EGS_Cancelled

record edge_group_snapshot =
  gs_downstream_execution_id :: execution_id
  gs_policy :: edge_dependency_policy
  gs_total_deps :: u32
  gs_satisfied_count :: u32
  gs_failed_count :: u32
  gs_skipped_count :: u32
  gs_running_count :: u32
  gs_group_state :: edge_group_state

definition exec_id_of_row :: "ext_lib \<Rightarrow> string \<Rightarrow> int \<Rightarrow> uuid \<Rightarrow> pg_error + execution_id" where
  "exec_id_of_row X column part u =
     map_err (\<lambda>e. Validation VK_Corruption (column @ '': '' @ execution_id_error_text e))
       (execution_id_parse X (''{fp:'' @ show_int part @ ''}:'' @ uuid_to_string X u))"

definition count_u32 :: "int \<Rightarrow> u32" where
  "count_u32 n = of_int (max n 0)"

definition decode_edge_group_row :: "ext_lib \<Rightarrow> edge_group \<Rightarrow> pg_error + edge_group_snapshot" where
  "decode_edge_group_row X g =
     rbind (exec_id_of_row X ''ff_edge_group.downstream_eid'' (eg_partition_key g) (eg_downstream_eid g))
       (\<lambda>down. Inr
       \<lparr>gs_downstream_execution_id = down, gs_policy = decode_edge_policy (eg_policy g),
        gs_total_deps = count_u32 (eg_success_count g) + count_u32 (eg_fail_count g) +
          count_u32 (eg_skip_count g) + count_u32 (eg_running_count g),
        gs_satisfied_count = count_u32 (eg_success_count g), gs_failed_count = count_u32 (eg_fail_count g),
        gs_skipped_count = count_u32 (eg_skip_count g), gs_running_count = count_u32 (eg_running_count g),
        gs_group_state = (if eg_k_target g > 0 \<and> eg_success_count g \<ge> eg_k_target g then EGS_Satisfied
                          else EGS_Pending)\<rparr>)"

fun decode_edge_group_rows :: "ext_lib \<Rightarrow> edge_group list \<Rightarrow> pg_error + edge_group_snapshot list" where
  "decode_edge_group_rows X [] = Inr []"
| "decode_edge_group_rows X (g # gs) =
     rbind (decode_edge_group_row X g) (\<lambda>s. rbind (decode_edge_group_rows X gs) (\<lambda>ss. Inr (s # ss)))"

record flow_snapshot =
  sn_flow_id :: uuid
  sn_flow_kind :: string
  sn_namespace :: string
  sn_public_flow_state :: string
  sn_graph_revision :: nat
  sn_node_count :: u32
  sn_edge_count :: u32
  sn_created_at :: int
  sn_last_mutation_at :: int
  sn_cancelled_at :: "int option"
  sn_cancel_reason :: "string option"
  sn_cancellation_policy :: "string option"
  sn_tags :: "string \<Rightarrow> string option"
  sn_edge_groups :: "edge_group_snapshot list"

definition decode_flow_row :: "uuid \<Rightarrow> flow_core \<Rightarrow> edge_group_snapshot list \<Rightarrow> flow_snapshot" where
  "decode_flow_row fid r groups =
     (let raw = fl_raw_fields r in
      \<lparr>sn_flow_id = fid,
       sn_flow_kind = (case raw_str raw ''flow_kind'' of Some s \<Rightarrow> s | None \<Rightarrow> []),
       sn_namespace = (case raw_str raw ''namespace'' of Some s \<Rightarrow> s | None \<Rightarrow> ''default''),
       sn_public_flow_state = fl_public_flow_state r,
       sn_graph_revision = u64_of_i64_or 0 (fl_graph_revision r),
       sn_node_count = (case raw_u32 raw ''node_count'' of Some n \<Rightarrow> n | None \<Rightarrow> 0),
       sn_edge_count = (case raw_u32 raw ''edge_count'' of Some n \<Rightarrow> n | None \<Rightarrow> 0),
       sn_created_at = fl_created_at_ms r,
       sn_last_mutation_at = (case raw_u64 raw ''last_mutation_at_ms'' of
          Some n \<Rightarrow> as_i64 n | None \<Rightarrow> fl_created_at_ms r),
       sn_cancelled_at = fl_terminal_at_ms r,
       sn_cancel_reason = raw_str raw ''cancel_reason'',
       sn_cancellation_policy = raw_str raw ''cancellation_policy'',
       sn_tags = extract_tags raw, sn_edge_groups = groups\<rparr>)"

definition decode_edge_row :: "ext_lib \<Rightarrow> uuid \<Rightarrow> edge \<Rightarrow> pg_error + edge_snapshot" where
  "decode_edge_row X fid r =
     rbind (exec_id_of_row X ''ff_edge.upstream_eid'' (ed_partition_key r) (ed_upstream_eid r)) (\<lambda>up.
     rbind (exec_id_of_row X ''ff_edge.downstream_eid'' (ed_partition_key r) (ed_downstream_eid r)) (\<lambda>down.
     let text = (\<lambda>key dflt. case raw_str (ed_policy r) key of Some s \<Rightarrow> s | None \<Rightarrow> dflt) in
     Inr \<lparr>es_edge_id = ed_edge_id r, es_flow_id = fid, es_upstream_execution_id = up,
          es_downstream_execution_id = down, es_dependency_kind = text ''dependency_kind'' ''success_only'',
          es_satisfaction_condition = text ''satisfaction_condition'' ''all_required'',
          es_data_passing_ref = (case raw_str (ed_policy r) ''data_passing_ref'' of
             Some s \<Rightarrow> if s = [] then None else Some s | None \<Rightarrow> None),
          es_edge_state = text ''edge_state'' ''pending'',
          es_created_at = (case raw_u64 (ed_policy r) ''created_at_ms'' of Some n \<Rightarrow> as_i64 n | None \<Rightarrow> 0),
          es_created_by = text ''created_by'' ''engine''\<rparr>))"

fun decode_edge_rows :: "ext_lib \<Rightarrow> uuid \<Rightarrow> edge list \<Rightarrow> pg_error + edge_snapshot list" where
  "decode_edge_rows X fid [] = Inr []"
| "decode_edge_rows X fid (r # rs) =
     rbind (decode_edge_row X fid r) (\<lambda>s. rbind (decode_edge_rows X fid rs) (\<lambda>ss. Inr (s # ss)))"

section \<open>Reading flows and edges\<close>

definition describe_flow ::
  "pg_env \<Rightarrow> partition_config \<Rightarrow> uuid \<Rightarrow> db \<Rightarrow> panic + (pg_error + flow_snapshot option)" where
  "describe_flow E pc fid d =
     rbind (flow_partition_byte (pe_lib E) fid pc) (\<lambda>part. Inr
       (case pe_read_error E of
          Some e \<Rightarrow> Inl (map_sqlx_error e)
        | None \<Rightarrow>
            (case sql_fetch (flow_is part fid) (t_flow d) of
               None \<Rightarrow> Inr None
             | Some r \<Rightarrow>
                 rbind (decode_edge_group_rows (pe_lib E)
                   (sort_key eg_downstream_eid
                     (sql_select (\<lambda>g. eg_partition_key g = part \<and> eg_flow_id g = fid) (t_edge_group d))))
                   (\<lambda>groups. Inr (Some (decode_flow_row fid r groups))))))"

datatype flow_status = FS_Active | FS_Completed | FS_Failed | FS_Cancelled | FS_Unknown

definition from_public_flow_state :: "string \<Rightarrow> flow_status" where
  "from_public_flow_state raw =
     (if raw \<in> {''open'', ''running'', ''blocked''} then FS_Active
      else if raw = ''completed'' then FS_Completed
      else if raw = ''failed'' then FS_Failed
      else if raw = ''cancelled'' then FS_Cancelled
      else FS_Unknown)"

record flow_summary =
  sm_flow_id :: uuid
  sm_created_at :: int
  sm_status :: flow_status

record list_flows_page =
  fp_flows :: "flow_summary list"
  fp_next_cursor :: "uuid option"

definition flow_rows :: "int \<Rightarrow> uuid option \<Rightarrow> nat \<Rightarrow> db \<Rightarrow> flow_core list" where
  "flow_rows part cursor n d =
     sql_order_limit fl_flow_id n
       (\<lambda>r. fl_partition_key r = part \<and> (case cursor of None \<Rightarrow> True | Some c \<Rightarrow> c < fl_flow_id r)) (t_flow d)"

text \<open>
  The page size is a \<open>usize\<close>; one more row is asked for, and the sum is cast to \<open>i64\<close>, where Postgres
  refuses a negative limit.
\<close>

definition list_flows ::
  "pg_env \<Rightarrow> string \<Rightarrow> uuid option \<Rightarrow> u64 \<Rightarrow> db \<Rightarrow> pg_error + list_flows_page" where
  "list_flows E key cursor limit d =
     (if limit = 0 then Inr \<lparr>fp_flows = [], fp_next_cursor = None\<rparr>
      else rbind (partition_index_from_key key) (\<lambda>part.
        case pe_read_error E of
          Some e \<Rightarrow> Inl (map_sqlx_error e)
        | None \<Rightarrow>
            if sint (limit + 1) < 0
            then Inl (map_sqlx_error (Sqlx_Database (Some ''2201W'') ''LIMIT must not be negative''))
            else
              let rows = flow_rows part cursor (unat (limit + 1)) d;
                  flows = map (\<lambda>r. \<lparr>sm_flow_id = fl_flow_id r, sm_created_at = fl_created_at_ms r,
                                     sm_status = from_public_flow_state (fl_public_flow_state r)\<rparr>)
                            (take (unat limit) rows)
              in Inr \<lparr>fp_flows = flows,
                      fp_next_cursor = (if length rows > unat limit \<and> flows \<noteq> []
                                        then Some (sm_flow_id (last flows)) else None)\<rparr>))"

datatype edge_direction = Outgoing execution_id | Incoming execution_id

definition list_edges ::
  "pg_env \<Rightarrow> partition_config \<Rightarrow> uuid \<Rightarrow> edge_direction \<Rightarrow> db \<Rightarrow> panic + (pg_error + edge_snapshot list)" where
  "list_edges E pc fid direction d =
     rbind (flow_partition_byte (pe_lib E) fid pc) (\<lambda>part.
       let (column, subject) = (case direction of
             Outgoing from_node \<Rightarrow> (ed_upstream_eid, from_node)
           | Incoming to_node \<Rightarrow> (ed_downstream_eid, to_node))
       in Inr (rbind (parse_exec_uuid (pe_lib E) subject) (\<lambda>u.
         case pe_read_error E of
           Some e \<Rightarrow> Inl (map_sqlx_error e)
         | None \<Rightarrow> decode_edge_rows (pe_lib E) fid
             (sort_key ed_edge_id
               (sql_select (\<lambda>r. ed_partition_key r = part \<and> ed_flow_id r = fid \<and> column r = u) (t_edge d))))))"

definition describe_edge ::
  "pg_env \<Rightarrow> partition_config \<Rightarrow> uuid \<Rightarrow> uuid \<Rightarrow> db \<Rightarrow> panic + (pg_error + edge_snapshot option)" where
  "describe_edge E pc fid eid d =
     rbind (flow_partition_byte (pe_lib E) fid pc) (\<lambda>part. Inr
       (case pe_read_error E of
          Some e \<Rightarrow> Inl (map_sqlx_error e)
        | None \<Rightarrow>
            (case sql_fetch (edge_is part fid eid) (t_edge d) of
               None \<Rightarrow> Inr None
             | Some r \<Rightarrow> rbind (decode_edge_row (pe_lib E) fid r) (\<lambda>s. Inr (Some s)))))"

section \<open>Cancelling a flow\<close>

datatype cancel_flow_policy = FlowOnly | CancelAll | CancelPending

fun cancel_policy_to_str :: "cancel_flow_policy \<Rightarrow> string" where
  "cancel_policy_to_str FlowOnly = ''cancel_flow_only''"
| "cancel_policy_to_str CancelAll = ''cancel_all''"
| "cancel_policy_to_str CancelPending = ''cancel_pending''"

text \<open>The result \<open>CancelFlowResult::Cancelled\<close>; this backend returns no other.\<close>

record cancel_flow_result =
  cf_cancellation_policy :: string
  cf_member_execution_ids :: "string list"

definition close_flow :: "int \<Rightarrow> string \<Rightarrow> flow_core \<Rightarrow> flow_core" where
  "close_flow now policy_str r =
     r\<lparr>fl_public_flow_state := ''cancelled'',
       fl_terminal_at_ms := (case fl_terminal_at_ms r of None \<Rightarrow> Some now | t \<Rightarrow> t),
       fl_raw_fields := json_concat (fl_raw_fields r) (JObj [(''cancellation_policy'', JStr policy_str)])\<rparr>"

fun member_filter :: "cancel_flow_policy \<Rightarrow> exec_core \<Rightarrow> bool" where
  "member_filter FlowOnly r = False"
| "member_filter CancelAll r =
     (ec_lifecycle_phase r \<notin> {''completed'', ''failed'', ''cancelled'', ''expired''})"
| "member_filter CancelPending r = (ec_lifecycle_phase r \<in> {''pending'', ''blocked'', ''eligible''})"

definition flow_cancelled :: "int \<Rightarrow> exec_core \<Rightarrow> exec_core" where
  "flow_cancelled now r =
     r\<lparr>ec_lifecycle_phase := ''cancelled'', ec_eligibility_state := ''cancelled'',
       ec_public_state := ''cancelled'',
       ec_terminal_at_ms := (case ec_terminal_at_ms r of None \<Rightarrow> Some now | t \<Rightarrow> t),
       ec_cancellation_reason := (case ec_cancellation_reason r of None \<Rightarrow> Some ''flow_cancelled'' | c \<Rightarrow> c),
       ec_cancelled_by := (case ec_cancelled_by r of None \<Rightarrow> Some ''cancel_flow'' | c \<Rightarrow> c)\<rparr>"

text \<open>The lease event of a cancelled member carries no tags.\<close>

definition insert_revoked :: "pg_env \<Rightarrow> int \<Rightarrow> uuid \<Rightarrow> db \<Rightarrow> db" where
  "insert_revoked E part uid d =
     d\<lparr>t_lease_event := t_lease_event d @
         [\<lparr>le_event_id = next_lease_event_id d, le_execution_id = uuid_to_string (pe_lib E) uid,
           le_lease_id = None, le_event_type = ''revoked'', le_occurred_at_ms = pe_now E,
           le_partition_key = part, le_namespace = None, le_instance_tag = None\<rparr>],
       next_lease_event_id := next_lease_event_id d + 1\<rparr>"

text \<open>
  The four statements per member. The attempt index of the sub-select is that of the row with the
  primary key; without a row no attempt matches.
\<close>

definition cancel_member :: "pg_env \<Rightarrow> int \<Rightarrow> uuid \<Rightarrow> uuid \<Rightarrow> db \<Rightarrow> db" where
  "cancel_member E part flow uid d =
     (let d1 = update_exec part uid (flow_cancelled (pe_now E)) d;
          d2 = (case sql_fetch (exec_is part uid) (t_exec d1) of
                  None \<Rightarrow> d1
                | Some r \<Rightarrow> update_attempt part uid (ec_attempt_index r) clear_outcome d1);
          d3 = insert_completion_values part uid (Some flow) ''cancelled'' (pe_now E) d2
      in insert_revoked E part uid d3)"

definition enqueue_groups :: "pg_env \<Rightarrow> int \<Rightarrow> uuid \<Rightarrow> db \<Rightarrow> db" where
  "enqueue_groups E part flow d =
     d\<lparr>t_pending_cancel :=
         fold (\<lambda>g. sql_insert_or_nothing pending_cancel_key
                 \<lparr>pc_partition_key = eg_partition_key g, pc_flow_id = eg_flow_id g,
                  pc_downstream_eid = eg_downstream_eid g, pc_enqueued_at_ms = pe_now E\<rparr>)
           (sql_select (\<lambda>g. eg_partition_key g = part \<and> eg_flow_id g = flow \<and> eg_running_count g > 0)
             (t_edge_group d))
           (t_pending_cancel d)\<rparr>"

definition cancel_flow_tx ::
  "pg_env \<Rightarrow> int \<Rightarrow> uuid \<Rightarrow> cancel_flow_policy \<Rightarrow> db \<Rightarrow> pg_error + (cancel_flow_result \<times> db)" where
  "cancel_flow_tx E part flow policy d =
     (let policy_str = cancel_policy_to_str policy in
      case sql_fetch (flow_is part flow) (t_flow d) of
        None \<Rightarrow> Inr (\<lparr>cf_cancellation_policy = policy_str, cf_member_execution_ids = []\<rparr>, d)
      | Some _ \<Rightarrow>
          let d1 = d\<lparr>t_flow := sql_update (flow_is part flow) (close_flow (pe_now E) policy_str) (t_flow d)\<rparr>;
              members = map ec_execution_id (sql_select (\<lambda>r. ec_partition_key r = part \<and>
                ec_flow_id r = Some flow \<and> member_filter policy r) (t_exec d1));
              d2 = fold (cancel_member E part flow) members d1;
              d3 = (if policy = CancelPending then enqueue_groups E part flow d2 else d2)
          in Inr (\<lparr>cf_cancellation_policy = policy_str,
                   cf_member_execution_ids =
                     map (\<lambda>u. ''{fp:'' @ show_int part @ ''}:'' @ uuid_to_string (pe_lib E) u) members\<rparr>, d3))"

definition cancel_flow_once ::
  "pg_env \<Rightarrow> int \<Rightarrow> uuid \<Rightarrow> cancel_flow_policy \<Rightarrow> db \<Rightarrow> (pg_error + cancel_flow_result) \<times> db" where
  "cancel_flow_once E part flow policy d = run_tx (pe_fault E) (cancel_flow_tx E part flow policy) d"

definition CANCEL_FLOW_MAX_ATTEMPTS :: nat where "CANCEL_FLOW_MAX_ATTEMPTS = 3"

definition flow_serialization_conflict :: "pg_error \<Rightarrow> bool" where
  "flow_serialization_conflict err \<longleftrightarrow> err = Contention CK_LeaseConflict"

text \<open>The loop with the given number of attempts left; \<open>env\<close> gives each attempt its environment.\<close>

fun cancel_flow_loop ::
  "(nat \<Rightarrow> pg_env) \<Rightarrow> int \<Rightarrow> uuid \<Rightarrow> cancel_flow_policy \<Rightarrow> nat \<Rightarrow> db \<Rightarrow>
   (pg_error + cancel_flow_result) \<times> db" where
  "cancel_flow_loop env part flow policy 0 d = (Inl (Contention CK_RetryExhausted), d)"
| "cancel_flow_loop env part flow policy (Suc left) d =
     (case cancel_flow_once (env (CANCEL_FLOW_MAX_ATTEMPTS - Suc left)) part flow policy d of
        (Inr result, d') \<Rightarrow> (Inr result, d')
      | (Inl err, d') \<Rightarrow>
          if flow_serialization_conflict err then cancel_flow_loop env part flow policy left d'
          else (Inl err, d'))"

definition cancel_flow ::
  "(nat \<Rightarrow> pg_env) \<Rightarrow> partition_config \<Rightarrow> uuid \<Rightarrow> cancel_flow_policy \<Rightarrow> db \<Rightarrow>
   panic + ((pg_error + cancel_flow_result) \<times> db)" where
  "cancel_flow env pc fid policy d =
     rbind (flow_partition_byte (pe_lib (env 0)) fid pc) (\<lambda>part.
     Inr (cancel_flow_loop env part fid policy CANCEL_FLOW_MAX_ATTEMPTS d))"

section \<open>Edge group policies and tags\<close>

text \<open>
  Equality of JSON values does not depend on the order of the keys; the values of an encoded policy
  are scalars.
\<close>

definition json_same :: "json \<Rightarrow> json \<Rightarrow> bool" where
  "json_same a b \<longleftrightarrow>
     (case (a, b) of
        (JObj x, JObj y) \<Rightarrow> list_all (\<lambda>k. map_of x k = map_of y k) (map fst x @ map fst y)
      | _ \<Rightarrow> a = b)"

datatype set_edge_group_policy_result = SEG_Set | SEG_AlreadySet

definition new_group :: "int \<Rightarrow> uuid \<Rightarrow> uuid \<Rightarrow> json \<Rightarrow> int \<Rightarrow> edge_group" where
  "new_group part flow down pol running =
     \<lparr>eg_partition_key = part, eg_flow_id = flow, eg_downstream_eid = down, eg_policy = pol,
      eg_k_target = 0, eg_success_count = 0, eg_fail_count = 0, eg_skip_count = 0,
      eg_running_count = running, eg_cancel_siblings_pending_flag = False,
      eg_cancel_siblings_pending_members = []\<rparr>"

definition set_policy_tx ::
  "int \<Rightarrow> uuid \<Rightarrow> uuid \<Rightarrow> edge_dependency_policy \<Rightarrow> db \<Rightarrow> pg_error + (set_edge_group_policy_result \<times> db)" where
  "set_policy_tx part flow down policy d =
     (if sql_count (\<lambda>r. ed_partition_key r = part \<and> ed_flow_id r = flow \<and> ed_downstream_eid r = down)
           (t_edge d) > 0
      then Inl (Validation VK_InvalidInput ''edge_group_policy_already_fixed: dependencies already staged'')
      else
        let encoded = encode_edge_policy policy;
            existing = map_option eg_policy (sql_fetch (group_is part flow down) (t_edge_group d))
        in if (case existing of None \<Rightarrow> False | Some p \<Rightarrow> json_same p encoded) then Inr (SEG_AlreadySet, d)
           else rbind (map_err map_sqlx_error
                  (sql_upsert edge_group_key (new_group part flow down encoded 0)
                    (\<lambda>g. Inr (g\<lparr>eg_policy := encoded\<rparr>)) (t_edge_group d)))
                  (\<lambda>t. Inr (SEG_Set, d\<lparr>t_edge_group := t\<rparr>)))"

definition set_edge_group_policy ::
  "pg_env \<Rightarrow> partition_config \<Rightarrow> uuid \<Rightarrow> execution_id \<Rightarrow> edge_dependency_policy \<Rightarrow> db \<Rightarrow>
   panic + ((pg_error + set_edge_group_policy_result) \<times> db)" where
  "set_edge_group_policy E pc fid down_eid policy d =
     (if (case policy of Quorum k _ \<Rightarrow> k = 0 | _ \<Rightarrow> False)
      then Inr (Inl (Validation VK_InvalidInput ''quorum k must be >= 1''), d)
      else
        rbind (flow_partition_byte (pe_lib E) fid pc) (\<lambda>part. Inr
          (case parse_exec_uuid (pe_lib E) down_eid of
             Inl e \<Rightarrow> (Inl e, d)
           | Inr down \<Rightarrow> run_tx (pe_fault E) (set_policy_tx part fid down policy) d)))"

text \<open>
  The check of a tag key that the public methods make first; \<open>debug\<close> is the text that Rust's debug
  format gives the key.
\<close>

definition tag_char :: "char \<Rightarrow> bool" where
  "tag_char c \<longleftrightarrow> is_lower c \<or> is_digit c \<or> c = CHR ''_''"

fun after_dot :: "string \<Rightarrow> string option" where
  "after_dot [] = None"
| "after_dot (c # cs) = (if c = CHR ''.'' then Some cs else if \<not> tag_char c then None else after_dot cs)"

definition tag_key_ok :: "string \<Rightarrow> bool" where
  "tag_key_ok key =
     (case key of
        [] \<Rightarrow> False
      | c # cs \<Rightarrow> is_lower c \<and>
          (case after_dot cs of
             None \<Rightarrow> False
           | Some [] \<Rightarrow> False
           | Some (s # rest) \<Rightarrow> tag_char s \<and> list_all (\<lambda>c. tag_char c \<or> c = CHR ''.'') rest))"

definition validate_tag_key :: "(string \<Rightarrow> string) \<Rightarrow> string \<Rightarrow> pg_error + unit" where
  "validate_tag_key debug key =
     (if tag_key_ok key then Inr ()
      else Inl (Validation VK_InvalidInput (''invalid tag key: '' @ debug key @
        '' (must match ^[a-z][a-z0-9_]*'' @ CHR 92 # ''.[a-z0-9_][a-z0-9_.]*$)'')))"

definition set_flow_tag_tx :: "int \<Rightarrow> uuid \<Rightarrow> string \<Rightarrow> string \<Rightarrow> db \<Rightarrow> pg_error + (nat \<times> db)" where
  "set_flow_tag_tx part flow key v d =
     rbind (map_err map_sqlx_error (sql_try_update (flow_is part flow)
       (\<lambda>r. rbind (jsonb_set key (JStr v) (fl_raw_fields r)) (\<lambda>raw. Inr (r\<lparr>fl_raw_fields := raw\<rparr>))) (t_flow d)))
       (\<lambda>t. Inr (sql_count (flow_is part flow) (t_flow d), d\<lparr>t_flow := t\<rparr>))"

definition set_flow_tag_impl ::
  "pg_env \<Rightarrow> partition_config \<Rightarrow> uuid \<Rightarrow> string \<Rightarrow> string \<Rightarrow> db \<Rightarrow> panic + ((pg_error + unit) \<times> db)" where
  "set_flow_tag_impl E pc fid key v d =
     rbind (flow_partition_byte (pe_lib E) fid pc) (\<lambda>part. Inr
       (case run_tx (pe_fault E) (set_flow_tag_tx part fid key v) d of
          (Inl e, d') \<Rightarrow> (Inl e, d')
        | (Inr n, d') \<Rightarrow> (if n = 0 then Inl (NotFound ''flow'') else Inr (), d')))"

definition set_flow_tag ::
  "(string \<Rightarrow> string) \<Rightarrow> pg_env \<Rightarrow> partition_config \<Rightarrow> uuid \<Rightarrow> string \<Rightarrow> string \<Rightarrow> db \<Rightarrow>
   panic + ((pg_error + unit) \<times> db)" where
  "set_flow_tag debug E pc fid key v d =
     (case validate_tag_key debug key of
        Inl e \<Rightarrow> Inr (Inl e, d)
      | Inr _ \<Rightarrow> set_flow_tag_impl E pc fid key v d)"

definition get_flow_tag_impl ::
  "pg_env \<Rightarrow> partition_config \<Rightarrow> uuid \<Rightarrow> string \<Rightarrow> db \<Rightarrow> panic + (pg_error + string option)" where
  "get_flow_tag_impl E pc fid key d =
     rbind (flow_partition_byte (pe_lib E) fid pc) (\<lambda>part. Inr
       (case pe_read_error E of
          Some e \<Rightarrow> Inl (map_sqlx_error e)
        | None \<Rightarrow> Inr (Option.bind (sql_fetch (flow_is part fid) (t_flow d))
            (\<lambda>r. json_get_text (pe_jsonb_text E) key (fl_raw_fields r)))))"

section \<open>Summary projection\<close>

definition members_in :: "int \<Rightarrow> uuid \<Rightarrow> string \<Rightarrow> db \<Rightarrow> int" where
  "members_in part flow st d =
     int (sql_count (\<lambda>r. ec_partition_key r = part \<and> ec_flow_id r = Some flow \<and> ec_public_state r = st)
       (t_exec d))"

definition members_total :: "int \<Rightarrow> uuid \<Rightarrow> db \<Rightarrow> int" where
  "members_total part flow d =
     int (sql_count (\<lambda>r. ec_partition_key r = part \<and> ec_flow_id r = Some flow) (t_exec d))"

definition summary_state :: "int \<Rightarrow> uuid \<Rightarrow> db \<Rightarrow> string" where
  "summary_state part flow d =
     (let n = (\<lambda>st. members_in part flow st d) in
      if n ''completed'' + n ''failed'' + n ''cancelled'' + n ''expired'' + n ''skipped'' = members_total part flow d
      then (if n ''failed'' > 0 \<or> n ''cancelled'' > 0 \<or> n ''expired'' > 0 then ''failed'' else ''completed'')
      else if n ''active'' > 0 then ''running''
      else if n ''suspended'' > 0 \<or> n ''delayed'' > 0 \<or> n ''rate_limited'' > 0 \<or> n ''waiting_children'' > 0
      then ''blocked''
      else ''open'')"

text \<open>\<open>i32::try_from(n).unwrap_or(i32::MAX)\<close> of a count.\<close>

definition clamp_i32 :: "int \<Rightarrow> int" where
  "clamp_i32 n = (if n \<le> i32_max then n else i32_max)"

definition summary_row :: "int \<Rightarrow> uuid \<Rightarrow> int \<Rightarrow> db \<Rightarrow> flow_summary_row" where
  "summary_row part flow now d =
     (let n = (\<lambda>st. clamp_i32 (members_in part flow st d)) in
      \<lparr>fs_partition_key = part, fs_flow_id = flow, fs_total_members = members_total part flow d,
       fs_sampled_members = clamp_i32 (members_total part flow d),
       fs_completed = n ''completed'', fs_failed = n ''failed'', fs_cancelled = n ''cancelled'',
       fs_expired = n ''expired'', fs_skipped = n ''skipped'', fs_active = n ''active'',
       fs_suspended = n ''suspended'', fs_waiting = n ''waiting'', fs_delayed = n ''delayed'',
       fs_rate_limited = n ''rate_limited'', fs_waiting_children = n ''waiting_children'',
       fs_public_flow_state = summary_state part flow d, fs_last_summary_update_at = now\<rparr>)"

definition upsert_summary :: "flow_summary_row \<Rightarrow> db \<Rightarrow> pg_error + (bool \<times> db)" where
  "upsert_summary row d =
     rbind (map_err map_sqlx_error (sql_upsert flow_summary_key row (\<lambda>_. Inr row) (t_flow_summary d)))
       (\<lambda>t. Inr (True, d\<lparr>t_flow_summary := t\<rparr>))"

text \<open>
  The aggregate and the write are separate statements: the aggregate sees \<open>seen\<close>, the write happens
  on the database that follows.
\<close>

definition project_flow_summary_impl ::
  "pg_env \<Rightarrow> int \<Rightarrow> uuid \<Rightarrow> int \<Rightarrow> db \<Rightarrow> db \<Rightarrow> (pg_error + bool) \<times> db" where
  "project_flow_summary_impl E part flow now seen d =
     (case pe_read_error E of
        Some e \<Rightarrow> (Inl (map_sqlx_error e), d)
      | None \<Rightarrow>
          if members_total part flow seen = 0 then (Inr False, d)
          else run_tx (pe_fault E) (upsert_summary (summary_row part flow now seen)) d)"

section \<open>Evolution\<close>

lemma insert_or_nothing_distinct:
  "distinct (map key t) \<Longrightarrow> distinct (map key (sql_insert_or_nothing key r t))"
  by (auto simp: sql_insert_or_nothing_def)

lemma upsert_distinct:
  assumes "sql_upsert key r upd t = Inr t'" "distinct (map key t)"
    and "\<And>x x'. upd x = Inr x' \<Longrightarrow> key x = key r \<Longrightarrow> key x' = key r"
  shows "distinct (map key t')"
proof (cases "key r \<in> key ` set t")
  case True
  then have u: "sql_try_update (\<lambda>x. key x = key r) upd t = Inr t'" using assms(1) by (simp add: sql_upsert_def)
  from try_update_Inr [OF u] have "map key t' = map key t"
    by (induction rule: list_all2_induct) (auto split: if_splits dest: assms(3))
  with assms(2) show ?thesis by simp
next
  case False
  with assms show ?thesis by (auto simp: sql_upsert_def)
qed

lemma evolves_flow_rows:
  assumes "distinct (map flow_key (t_flow d)) \<Longrightarrow> distinct (map flow_key t)"
    and "rows_le flow_key flow_le (t_flow d) t"
  shows "db_evolves d (d\<lparr>t_flow := t\<rparr>)"
  using assms by (simp add: db_evolves_def db_wf_def db_typed_def rows_le_refl)

lemma evolves_group_rows:
  "(distinct (map edge_group_key (t_edge_group d)) \<Longrightarrow> distinct (map edge_group_key t)) \<Longrightarrow>
   db_evolves d (d\<lparr>t_edge_group := t\<rparr>)"
  by (simp add: db_evolves_def db_wf_def db_typed_def rows_le_refl)

lemma evolves_pending_rows:
  "(distinct (map pending_cancel_key (t_pending_cancel d)) \<Longrightarrow> distinct (map pending_cancel_key t)) \<Longrightarrow>
   db_evolves d (d\<lparr>t_pending_cancel := t\<rparr>)"
  by (simp add: db_evolves_def db_wf_def db_typed_def rows_le_refl)

lemma evolves_summary_rows:
  "(distinct (map flow_summary_key (t_flow_summary d)) \<Longrightarrow> distinct (map flow_summary_key t)) \<Longrightarrow>
   db_evolves d (d\<lparr>t_flow_summary := t\<rparr>)"
  by (simp add: db_evolves_def db_wf_def db_typed_def rows_le_refl)

lemma flow_cancelled_le: "exec_le r (flow_cancelled now r)" "exec_key (flow_cancelled now r) = exec_key r"
  by (simp_all add: flow_cancelled_def exec_le_def exec_typed_def exec_key_def)

lemma clear_outcome_le: "attempt_le a (clear_outcome a)"
  by (simp add: clear_outcome_def attempt_le_def attempt_typed_def attempt_key_def)

lemma insert_revoked_evolves: "db_evolves d (insert_revoked E part uid d)"
  using evolves_lease_events [of "[_]" d] by (simp add: insert_revoked_def)

lemma insert_revoked_tables [db_lookup]:
  "t_exec (insert_revoked E part uid d) = t_exec d" "t_attempt (insert_revoked E part uid d) = t_attempt d"
  "t_completion (insert_revoked E part uid d) = t_completion d" "t_edge (insert_revoked E part uid d) = t_edge d"
  "t_edge_group (insert_revoked E part uid d) = t_edge_group d"
  "t_flow (insert_revoked E part uid d) = t_flow d"
  "exec_at (insert_revoked E part uid d) p u = exec_at d p u"
  "attempt_at (insert_revoked E part uid d) p u i = attempt_at d p u i"
  by (simp_all add: insert_revoked_def exec_at_def attempt_at_def)

lemma cancel_member_evolves: "db_evolves d (cancel_member E part flow uid d)"
  unfolding cancel_member_def Let_def
  by (rule db_evolves_trans [OF _ insert_revoked_evolves] db_evolves_trans [OF _ evolves_insert_values])+
    (auto split: option.splits
      intro!: evolves_update_exec flow_cancelled_le db_evolves_trans [OF _ evolves_update_attempt] clear_outcome_le)

lemma cancel_members_evolves: "db_evolves d (fold (cancel_member E part flow) us d)"
  by (induction us arbitrary: d) (auto intro: db_evolves_trans [OF cancel_member_evolves])

lemma enqueue_groups_evolves: "db_evolves d (enqueue_groups E part flow d)"
proof -
  have "distinct (map pending_cancel_key t) \<Longrightarrow>
    distinct (map pending_cancel_key (fold (\<lambda>g. sql_insert_or_nothing pending_cancel_key (f g)) gs t))" for f t and gs :: "edge_group list"
    by (induction gs arbitrary: t) (auto intro: insert_or_nothing_distinct)
  then show ?thesis unfolding enqueue_groups_def by (rule evolves_pending_rows)
qed

lemma close_flow_le: "flow_le r (close_flow now s r)" "flow_key (close_flow now s r) = flow_key r"
  by (simp_all add: flow_le_def close_flow_def flow_key_def)

lemma close_flow_evolves:
  "db_evolves d (d\<lparr>t_flow := sql_update (flow_is part flow) (close_flow now s) (t_flow d)\<rparr>)"
  by (intro evolves_flow_rows rows_le_update) (auto simp: close_flow_le map_key_update)

lemma cancel_flow_tx_evolves: "cancel_flow_tx E part flow policy d = Inr (c, d') \<Longrightarrow> db_evolves d d'"
  by (auto simp: cancel_flow_tx_def Let_def split: option.splits if_splits
      intro!: db_evolves_trans [OF _ enqueue_groups_evolves] db_evolves_trans [OF _ cancel_members_evolves]
        close_flow_evolves)

lemma set_policy_tx_cases:
  assumes "set_policy_tx part flow down policy d = Inr (s, d')"
  obtains "s = SEG_AlreadySet" "d' = d"
  | t where "s = SEG_Set" "d' = d\<lparr>t_edge_group := t\<rparr>"
    "sql_upsert edge_group_key (new_group part flow down (encode_edge_policy policy) 0)
       (\<lambda>g. Inr (g\<lparr>eg_policy := encode_edge_policy policy\<rparr>)) (t_edge_group d) = Inr t"
  using assms by (auto simp: set_policy_tx_def Let_def rbind_Inr_iff split: if_splits)

lemma set_policy_tx_evolves: "set_policy_tx part flow down policy d = Inr (s, d') \<Longrightarrow> db_evolves d d'"
proof (erule set_policy_tx_cases)
  fix t
  assume "d' = d\<lparr>t_edge_group := t\<rparr>"
    and u: "sql_upsert edge_group_key (new_group part flow down (encode_edge_policy policy) 0)
       (\<lambda>g. Inr (g\<lparr>eg_policy := encode_edge_policy policy\<rparr>)) (t_edge_group d) = Inr t"
  moreover have "distinct (map edge_group_key t)" if "distinct (map edge_group_key (t_edge_group d))"
    by (rule upsert_distinct [OF u that]) (auto simp: edge_group_key_def)
  ultimately show ?thesis by (simp add: evolves_group_rows)
qed simp

lemma set_flow_tag_tx_evolves:
  assumes "set_flow_tag_tx part flow key v d = Inr (n, d')"
  shows "db_evolves d d'"
proof -
  let ?f = "\<lambda>r. rbind (jsonb_set key (JStr v) (fl_raw_fields r)) (\<lambda>raw. Inr (r\<lparr>fl_raw_fields := raw\<rparr>))"
  obtain t where t: "sql_try_update (flow_is part flow) ?f (t_flow d) = Inr t" "d' = d\<lparr>t_flow := t\<rparr>"
    using assms by (auto simp: set_flow_tag_tx_def rbind_Inr_iff)
  have f: "flow_le r r'" "flow_key r' = flow_key r" if "?f r = Inr r'" for r r'
    using that by (auto simp: rbind_Inr_iff flow_le_def flow_key_def)
  have "map flow_key t = map flow_key (t_flow d)" by (rule try_update_keys [OF t(1)]) (rule f(2))
  then show ?thesis
    unfolding t(2)
    by (intro evolves_flow_rows rows_le_try_update [OF t(1)]) (simp_all add: f)
qed

lemma upsert_summary_evolves:
  assumes "upsert_summary row d = Inr (b, d')"
  shows "db_evolves d d'"
proof -
  obtain t where t: "sql_upsert flow_summary_key row (\<lambda>_. Inr row) (t_flow_summary d) = Inr t"
    "d' = d\<lparr>t_flow_summary := t\<rparr>"
    using assms by (auto simp: upsert_summary_def rbind_Inr_iff)
  then show ?thesis using upsert_distinct [OF t(1)] by (simp add: evolves_summary_rows)
qed

end
