(* ===== verification/Pg_Flow_Staging.thy ===== *)
theory Pg_Flow_Staging
  imports Pg_Flow
begin

text \<open>
  Building a flow in the Postgres backend (\<open>ff-backend-postgres/src/flow_staging.rs\<close>): creating it,
  adding executions, staging dependency edges under a compare-and-set of the graph revision, and
  applying an edge to its child.
\<close>

section \<open>Creating a flow\<close>

definition staging_exec_uuid :: "ext_lib \<Rightarrow> execution_id \<Rightarrow> pg_error + uuid" where
  "staging_exec_uuid X s =
     (case rfind_sub ''}:'' s of
        None \<Rightarrow> Inl (Validation VK_InvalidInput
          (''execution_id missing '' @ CHR 39 # ''}:'' @ CHR 39 # '' delimiter: '' @ s))
      | Some colon \<Rightarrow>
          ok_or (uuid_parse_str X (drop (colon + 2) s))
            (Validation VK_InvalidInput
              (''execution_id uuid suffix: '' @ uuid_error_text X (drop (colon + 2) s))))"

record create_flow_args =
  cfa_flow_id :: uuid
  cfa_flow_kind :: string
  cfa_namespace :: string
  cfa_now :: int

datatype create_flow_result = CF_Created uuid | CF_AlreadySatisfied uuid

definition new_flow :: "create_flow_args \<Rightarrow> int \<Rightarrow> flow_core" where
  "new_flow a part =
     \<lparr>fl_partition_key = part, fl_flow_id = cfa_flow_id a, fl_graph_revision = 0,
      fl_public_flow_state = ''open'', fl_created_at_ms = cfa_now a, fl_terminal_at_ms = None,
      fl_raw_fields = JObj [(''flow_kind'', JStr (cfa_flow_kind a)), (''namespace'', JStr (cfa_namespace a)),
        (''node_count'', JNum 0), (''edge_count'', JNum 0), (''last_mutation_at_ms'', JNum (cfa_now a))]\<rparr>"

definition create_flow_tx :: "create_flow_args \<Rightarrow> int \<Rightarrow> db \<Rightarrow> pg_error + (create_flow_result \<times> db)" where
  "create_flow_tx a part d =
     (let row = new_flow a part in
      Inr (if flow_key row \<in> flow_key ` set (t_flow d) then CF_AlreadySatisfied (cfa_flow_id a)
           else CF_Created (cfa_flow_id a),
           d\<lparr>t_flow := sql_insert_or_nothing flow_key row (t_flow d)\<rparr>))"

definition create_flow ::
  "pg_env \<Rightarrow> partition_config \<Rightarrow> create_flow_args \<Rightarrow> db \<Rightarrow> panic + ((pg_error + create_flow_result) \<times> db)" where
  "create_flow E pc a d =
     rbind (flow_partition_byte (pe_lib E) (cfa_flow_id a) pc) (\<lambda>part.
     Inr (run_tx (pe_fault E) (create_flow_tx a part) d))"

section \<open>Counters of a flow\<close>

text \<open>\<open>(raw_fields->>key)::int\<close>, null for a missing field.\<close>

definition raw_int4 :: "pg_env \<Rightarrow> string \<Rightarrow> json \<Rightarrow> sqlx_error + int option" where
  "raw_int4 E key raw =
     (case json_get_text (pe_jsonb_text E) key raw of
        None \<Rightarrow> Inr None
      | Some s \<Rightarrow> rbind (pe_int4_in E s) (\<lambda>n. Inr (Some n)))"

text \<open>The \<open>SET\<close> clause of the two statements that count a node or an edge.\<close>

definition bump_flow :: "pg_env \<Rightarrow> string \<Rightarrow> int \<Rightarrow> flow_core \<Rightarrow> sqlx_error + flow_core" where
  "bump_flow E key now r =
     rbind (int8_add (fl_graph_revision r) 1) (\<lambda>rev.
     rbind (raw_int4 E key (fl_raw_fields r)) (\<lambda>n.
     rbind (int4_add (case n of None \<Rightarrow> 0 | Some i \<Rightarrow> i) 1) (\<lambda>m.
     Inr (r\<lparr>fl_graph_revision := rev,
            fl_raw_fields := json_concat (fl_raw_fields r)
              (JObj [(key, JNum m), (''last_mutation_at_ms'', JNum now)])\<rparr>))))"

definition flow_terminal :: "string \<Rightarrow> bool" where
  "flow_terminal st \<longleftrightarrow> st \<in> {''cancelled'', ''completed'', ''failed''}"

section \<open>Adding an execution\<close>

record add_args =
  ad_flow_id :: uuid
  ad_execution_id :: execution_id
  ad_now :: int

datatype add_result = Added execution_id u32 | AlreadyMember execution_id u32

text \<open>
  The statements of the transaction. The node count read back is not nullable, so a null there
  panics before the commit; the transaction is then rolled back.
\<close>

definition add_tx ::
  "pg_env \<Rightarrow> add_args \<Rightarrow> int \<Rightarrow> uuid \<Rightarrow> db \<Rightarrow> pg_error + ((panic + add_result) \<times> db)" where
  "add_tx E a part uid d =
     (let flow = ad_flow_id a in
      rbind (ok_or (sql_fetch (flow_is part flow) (t_flow d)) (Validation VK_InvalidInput ''flow_not_found'')) (\<lambda>f.
      if flow_terminal (fl_public_flow_state f)
      then Inl (Validation VK_InvalidInput ''flow_already_terminal'')
      else
      rbind (ok_or (sql_fetch (exec_is part uid) (t_exec d))
        (Validation VK_InvalidInput ''execution_not_found'')) (\<lambda>r.
      if ec_flow_id r = Some flow
      then Inr (Inr (AlreadyMember (ad_execution_id a)
             (case Option.bind (json_get ''node_count'' (fl_raw_fields f)) json_as_u64 of
                Some n \<Rightarrow> if n < 2 ^ 32 then of_nat n else 0 | None \<Rightarrow> 0)), d)
      else case ec_flow_id r of
        Some other \<Rightarrow> Inl (Validation VK_InvalidInput
          (''already_member_of_different_flow:'' @ uuid_to_string (pe_lib E) other))
      | None \<Rightarrow>
          let d1 = update_exec part uid (\<lambda>r. r\<lparr>ec_flow_id := Some flow\<rparr>) d in
          rbind (map_err map_sqlx_error (sql_try_update (flow_is part flow)
            (bump_flow E ''node_count'' (ad_now a)) (t_flow d1))) (\<lambda>t.
          rbind (case sql_fetch (flow_is part flow) t of
                   None \<Rightarrow> Inl (map_sqlx_error (Sqlx_Other ''no rows returned by a query that expected to return at least one row''))
                 | Some f' \<Rightarrow> map_err map_sqlx_error (raw_int4 E ''node_count'' (fl_raw_fields f'))) (\<lambda>n.
          case n of
            None \<Rightarrow> Inr (Inl (Panic ''node_count is null''), d)
          | Some n \<Rightarrow> Inr (Inr (Added (ad_execution_id a) (of_int (max n 0))), d1\<lparr>t_flow := t\<rparr>))))))"

definition add_execution_to_flow ::
  "pg_env \<Rightarrow> partition_config \<Rightarrow> add_args \<Rightarrow> db \<Rightarrow> panic + ((pg_error + add_result) \<times> db)" where
  "add_execution_to_flow E pc a d =
     rbind (flow_partition_byte (pe_lib E) (ad_flow_id a) pc) (\<lambda>part.
     case staging_exec_uuid (pe_lib E) (ad_execution_id a) of
       Inl e \<Rightarrow> Inr (Inl e, d)
     | Inr uid \<Rightarrow>
         (case run_tx (pe_fault E) (add_tx E a part uid) d of
            (Inl e, d') \<Rightarrow> Inr (Inl e, d')
          | (Inr (Inl p), d') \<Rightarrow> Inl p
          | (Inr (Inr res), d') \<Rightarrow> Inr (Inr res, d')))"

section \<open>Staging an edge\<close>

record stage_args =
  sg_flow_id :: uuid
  sg_edge_id :: uuid
  sg_upstream_execution_id :: execution_id
  sg_downstream_execution_id :: execution_id
  sg_dependency_kind :: string
  sg_data_passing_ref :: "string option"
  sg_expected_graph_revision :: u64
  sg_now :: int

datatype stage_result = Staged uuid nat

text \<open>\<open>i64::try_from(n).unwrap_or(i64::MAX)\<close>.\<close>

definition i64_of_u64_or_max :: "u64 \<Rightarrow> int" where
  "i64_of_u64_or_max w = (if int (unat w) \<le> i64_max then int (unat w) else i64_max)"

definition new_edge :: "stage_args \<Rightarrow> int \<Rightarrow> uuid \<Rightarrow> uuid \<Rightarrow> edge" where
  "new_edge a part up down =
     \<lparr>ed_partition_key = part, ed_flow_id = sg_flow_id a, ed_edge_id = sg_edge_id a, ed_upstream_eid = up,
      ed_downstream_eid = down,
      ed_policy = JObj [(''dependency_kind'', JStr (sg_dependency_kind a)),
        (''satisfaction_condition'', JStr ''all_required''),
        (''data_passing_ref'', JStr (case sg_data_passing_ref a of Some s \<Rightarrow> s | None \<Rightarrow> [])),
        (''edge_state'', JStr ''pending''), (''created_at_ms'', JNum (sg_now a)),
        (''created_by'', JStr ''engine''), (''staged_at_ms'', JNum (sg_now a)), (''applied_at_ms'', JNull)],
      ed_policy_version = 0\<rparr>"

text \<open>
  The error for an edge id that is taken is read back after the rollback; the edge is the one the
  insertion met, since edges are never deleted.
\<close>

definition duplicate_edge :: "pg_env \<Rightarrow> int \<Rightarrow> stage_args \<Rightarrow> db \<Rightarrow> pg_error" where
  "duplicate_edge E part a d =
     (case pe_read_error E of
        Some e \<Rightarrow> map_sqlx_error e
      | None \<Rightarrow>
          (case sql_fetch (edge_is part (sg_flow_id a) (sg_edge_id a)) (t_edge d) of
             None \<Rightarrow> Validation VK_Corruption ''edge vanished between insert and describe''
           | Some r \<Rightarrow>
               (case decode_edge_row (pe_lib E) (sg_flow_id a) r of
                  Inl e \<Rightarrow> e
                | Inr existing \<Rightarrow> Conflict (XK_DependencyAlreadyExists existing))))"

definition stage_tx ::
  "pg_env \<Rightarrow> stage_args \<Rightarrow> int \<Rightarrow> uuid \<Rightarrow> uuid \<Rightarrow> db \<Rightarrow> pg_error + (stage_result \<times> db)" where
  "stage_tx E a part up down d =
     (let flow = sg_flow_id a;
          pinned = (\<lambda>r. flow_is part flow r \<and>
            fl_graph_revision r = i64_of_u64_or_max (sg_expected_graph_revision a) \<and>
            fl_public_flow_state r = ''open'')
      in
      rbind (map_err map_sqlx_error (sql_try_update pinned (bump_flow E ''edge_count'' (sg_now a)) (t_flow d)))
        (\<lambda>t.
      case sql_fetch pinned (t_flow d) of
        None \<Rightarrow>
          (case sql_fetch (flow_is part flow) (t_flow d) of
             None \<Rightarrow> Inl (Validation VK_InvalidInput ''flow_not_found'')
           | Some f \<Rightarrow>
               if flow_terminal (fl_public_flow_state f)
               then Inl (Validation VK_InvalidInput ''flow_already_terminal'')
               else Inl (Contention CK_StaleGraphRevision))
      | Some f \<Rightarrow>
          let members = map ec_execution_id (sql_select (\<lambda>r. ec_partition_key r = part \<and>
                ec_flow_id r = Some flow \<and> ec_execution_id r \<in> {up, down}) (t_exec d))
          in if up \<notin> set members \<or> down \<notin> set members
             then Inl (Validation VK_InvalidInput ''execution_not_in_flow'')
             else if edge_key (new_edge a part up down) \<in> edge_key ` set (t_edge d)
             then Inl (duplicate_edge E part a d)
             else Inr (Staged (sg_edge_id a) (u64_of_i64_or 0 (fl_graph_revision f + 1)),
                       d\<lparr>t_flow := t, t_edge := t_edge d @ [new_edge a part up down]\<rparr>)))"

definition stage_dependency_edge ::
  "pg_env \<Rightarrow> partition_config \<Rightarrow> stage_args \<Rightarrow> db \<Rightarrow> panic + ((pg_error + stage_result) \<times> db)" where
  "stage_dependency_edge E pc a d =
     (if sg_upstream_execution_id a = sg_downstream_execution_id a
      then Inr (Inl (Validation VK_InvalidInput ''self_referencing_edge''), d)
      else
        rbind (flow_partition_byte (pe_lib E) (sg_flow_id a) pc) (\<lambda>part. Inr
          (case rbind (staging_exec_uuid (pe_lib E) (sg_upstream_execution_id a)) (\<lambda>up.
                rbind (staging_exec_uuid (pe_lib E) (sg_downstream_execution_id a)) (\<lambda>down.
                Inr (up, down))) of
             Inl e \<Rightarrow> (Inl e, d)
           | Inr (up, down) \<Rightarrow> run_tx (pe_fault E) (stage_tx E a part up down) d)))"

section \<open>Applying an edge\<close>

record apply_args =
  ap_flow_id :: uuid
  ap_edge_id :: uuid
  ap_downstream_execution_id :: execution_id
  ap_upstream_execution_id :: execution_id
  ap_graph_revision :: u64
  ap_dependency_kind :: string
  ap_data_passing_ref :: "string option"
  ap_now :: int

datatype apply_result = Applied u32 | AlreadyApplied

text \<open>\<open>Map::insert\<close> on the object of a policy; any other value is left alone.\<close>

fun json_insert :: "string \<Rightarrow> json \<Rightarrow> json \<Rightarrow> json" where
  "json_insert k v (JObj kvs) = JObj (filter (\<lambda>(k', _). k' \<noteq> k) kvs @ [(k, v)])"
| "json_insert k v j = j"

definition mark_applied :: "int \<Rightarrow> edge \<Rightarrow> edge" where
  "mark_applied now r =
     r\<lparr>ed_policy := json_insert ''edge_state'' (JStr ''applied'')
         (json_insert ''applied_at_ms'' (JNum now) (ed_policy r))\<rparr>"

definition apply_tx ::
  "apply_args \<Rightarrow> int \<Rightarrow> uuid \<Rightarrow> db \<Rightarrow> pg_error + (apply_result \<times> db)" where
  "apply_tx a part down d =
     (let flow = ap_flow_id a in
      rbind (ok_or (sql_fetch (edge_is part flow (ap_edge_id a)) (t_edge d))
        (Validation VK_InvalidInput ''edge_not_found'')) (\<lambda>r.
      if edge_applied r then Inr (AlreadyApplied, d)
      else
        rbind (map_err map_sqlx_error
          (sql_upsert edge_group_key (new_group part flow down (JObj [(''kind'', JStr ''all_of'')]) 1)
            (\<lambda>g. rbind (int4_add (eg_running_count g) 1) (\<lambda>n. Inr (g\<lparr>eg_running_count := n\<rparr>)))
            (t_edge_group d))) (\<lambda>t.
        rbind (ok_or (sql_fetch (group_is part flow down) t) (map_sqlx_error (Sqlx_Other ''no rows returned by a query that expected to return at least one row''))) (\<lambda>g.
        Inr (Applied (of_int (max (eg_running_count g) 0)),
             d\<lparr>t_edge := sql_update (edge_is part flow (ap_edge_id a)) (mark_applied (ap_now a)) (t_edge d),
               t_edge_group := t\<rparr>)))))"

definition apply_dependency_to_child ::
  "pg_env \<Rightarrow> partition_config \<Rightarrow> apply_args \<Rightarrow> db \<Rightarrow> panic + ((pg_error + apply_result) \<times> db)" where
  "apply_dependency_to_child E pc a d =
     rbind (flow_partition_byte (pe_lib E) (ap_flow_id a) pc) (\<lambda>part. Inr
       (case staging_exec_uuid (pe_lib E) (ap_downstream_execution_id a) of
          Inl e \<Rightarrow> (Inl e, d)
        | Inr down \<Rightarrow> run_tx (pe_fault E) (apply_tx a part down) d))"

section \<open>Lookups\<close>

definition flow_at :: "db \<Rightarrow> int \<Rightarrow> uuid \<Rightarrow> flow_core option" where
  "flow_at d part flow = row_at flow_key (part, flow) (t_flow d)"

definition edge_at :: "db \<Rightarrow> int \<Rightarrow> uuid \<Rightarrow> uuid \<Rightarrow> edge option" where
  "edge_at d part flow eid = row_at edge_key (part, flow, eid) (t_edge d)"

lemma fetch_flow: "sql_fetch (flow_is part flow) (t_flow d) = flow_at d part flow"
  unfolding sql_fetch_def flow_at_def row_at_def
  by (rule arg_cong [where f = "\<lambda>P. List.find P (t_flow d)"]) (auto simp: flow_is_def flow_key_def)

lemma fetch_edge: "sql_fetch (edge_is part flow eid) (t_edge d) = edge_at d part flow eid"
  unfolding sql_fetch_def edge_at_def row_at_def
  by (rule arg_cong [where f = "\<lambda>P. List.find P (t_edge d)"]) (auto simp: edge_is_def edge_key_def)

lemma flow_at_key: "flow_at d part flow = Some r \<Longrightarrow> r \<in> set (t_flow d) \<and> flow_is part flow r"
  using row_at_Some unfolding flow_at_def flow_is_def flow_key_def by fastforce

lemma edge_at_key: "edge_at d part flow eid = Some r \<Longrightarrow> r \<in> set (t_edge d) \<and> edge_is part flow eid r"
  using row_at_Some unfolding edge_at_def edge_is_def edge_key_def by fastforce

lemma flow_at_distinct:
  "db_wf d \<Longrightarrow> r \<in> set (t_flow d) \<Longrightarrow> flow_is part flow r \<Longrightarrow> flow_at d part flow = Some r"
  using row_at_distinct [of flow_key "t_flow d" r] by (simp add: db_wf_def flow_at_def flow_key_def flow_is_def)

lemma edge_at_distinct:
  "db_wf d \<Longrightarrow> r \<in> set (t_edge d) \<Longrightarrow> edge_is part flow eid r \<Longrightarrow> edge_at d part flow eid = Some r"
  using row_at_distinct [of edge_key "t_edge d" r] by (simp add: db_wf_def edge_at_def edge_key_def edge_is_def)

lemma flow_kept:
  "db_evolves d d' \<Longrightarrow> flow_at d part flow = Some r \<Longrightarrow> \<exists>r'. flow_at d' part flow = Some r' \<and> flow_le r r'"
  by (auto simp: db_evolves_def rows_le_def flow_at_def)

lemma edge_kept:
  "db_evolves d d' \<Longrightarrow> edge_at d part flow eid = Some r \<Longrightarrow> \<exists>r'. edge_at d' part flow eid = Some r' \<and> edge_le r r'"
  by (auto simp: db_evolves_def rows_le_def edge_at_def)

lemma exec_kept:
  "db_evolves d d' \<Longrightarrow> exec_at d part uid = Some r \<Longrightarrow> \<exists>r'. exec_at d' part uid = Some r' \<and> exec_le r r'"
  by (auto simp: db_evolves_def rows_le_def exec_at_def)

section \<open>Evolution\<close>

lemma rows_le_update_row:
  assumes "\<And>r. key (f r) = key r" "\<And>r. le r r" "\<And>r. row_at key (key r) t = Some r \<Longrightarrow> P r \<Longrightarrow> le r (f r)"
  shows "rows_le key le t (sql_update P f t)"
  unfolding rows_le_def
proof (intro allI impI)
  fix k r
  assume r: "row_at key k t = Some r"
  then have "row_at key (key r) t = Some r" using row_at_Some by metis
  with r assms show "\<exists>r'. row_at key k (sql_update P f t) = Some r' \<and> le r r'"
    by (simp add: row_at_update)
qed

lemma evolves_update_exec_row:
  assumes "\<And>r. exec_key (f r) = exec_key r" "\<And>r. exec_typed r \<Longrightarrow> exec_typed (f r)"
    and "\<And>r. exec_at d part uid = Some r \<Longrightarrow> exec_le r (f r)"
  shows "db_evolves d (update_exec part uid f d)"
  unfolding update_exec_def
proof (intro evolves_exec_rows map_key_update rows_le_update_row all_sql_update)
  fix r
  assume "row_at exec_key (exec_key r) (t_exec d) = Some r" "exec_is part uid r"
  then have "exec_at d part uid = Some r" by (simp add: exec_at_def exec_key_def exec_is_def)
  then show "exec_le r (f r)" by (rule assms(3))
qed (simp_all add: assms)

lemma bump_flow_le:
  assumes "bump_flow E key now r = Inr r'"
  shows "flow_le r r'" "flow_key r' = flow_key r" "fl_graph_revision r' = fl_graph_revision r + 1"
    "fl_public_flow_state r' = fl_public_flow_state r"
  using assms by (auto simp: bump_flow_def rbind_Inr_iff flow_le_def flow_key_def int8_add_def split: if_splits)

lemma evolves_bump_flow:
  assumes "sql_try_update P (bump_flow E key now) (t_flow d) = Inr t"
  shows "db_evolves d (d\<lparr>t_flow := t\<rparr>)"
  using try_update_keys [OF assms bump_flow_le(2)]
  by (intro evolves_flow_rows rows_le_try_update [OF assms]) (auto dest: bump_flow_le)

lemma create_flow_tx_evolves: "create_flow_tx a part d = Inr (c, d') \<Longrightarrow> db_evolves d d'"
  by (auto simp: create_flow_tx_def Let_def sql_insert_or_nothing_def
      intro!: evolves_flow_rows rows_le_append split: if_splits)

lemma add_tx_member:
  assumes "flow_at d part (ad_flow_id a) = Some f" "exec_at d part uid = Some r"
  shows "add_tx E a part uid d =
    (if flow_terminal (fl_public_flow_state f) then Inl (Validation VK_InvalidInput ''flow_already_terminal'')
     else if ec_flow_id r = Some (ad_flow_id a)
     then Inr (Inr (AlreadyMember (ad_execution_id a)
             (case Option.bind (json_get ''node_count'' (fl_raw_fields f)) json_as_u64 of
                Some n \<Rightarrow> if n < 2 ^ 32 then of_nat n else 0 | None \<Rightarrow> 0)), d)
     else case ec_flow_id r of
        Some other \<Rightarrow> Inl (Validation VK_InvalidInput
          (''already_member_of_different_flow:'' @ uuid_to_string (pe_lib E) other))
      | None \<Rightarrow>
          rbind (map_err map_sqlx_error (sql_try_update (flow_is part (ad_flow_id a))
            (bump_flow E ''node_count'' (ad_now a)) (t_flow d))) (\<lambda>t.
          rbind (case sql_fetch (flow_is part (ad_flow_id a)) t of
                   None \<Rightarrow> Inl (map_sqlx_error (Sqlx_Other ''no rows returned by a query that expected to return at least one row''))
                 | Some f' \<Rightarrow> map_err map_sqlx_error (raw_int4 E ''node_count'' (fl_raw_fields f'))) (\<lambda>n.
          case n of
            None \<Rightarrow> Inr (Inl (Panic ''node_count is null''), d)
          | Some n \<Rightarrow> Inr (Inr (Added (ad_execution_id a) (of_int (max n 0))),
              (update_exec part uid (\<lambda>r. r\<lparr>ec_flow_id := Some (ad_flow_id a)\<rparr>) d)\<lparr>t_flow := t\<rparr>))))"
  using assms by (simp add: add_tx_def fetch_flow fetch_exec Let_def update_exec_def cong: if_cong option.case_cong)

lemma add_tx_cases:
  assumes "add_tx E a part uid d = Inr (res, d')"
  obtains "d' = d" "\<And>e n. res \<noteq> Inr (Added e n)"
  | f r t n f' where "flow_at d part (ad_flow_id a) = Some f" "\<not> flow_terminal (fl_public_flow_state f)"
      "exec_at d part uid = Some r" "ec_flow_id r = None"
      "sql_try_update (flow_is part (ad_flow_id a)) (bump_flow E ''node_count'' (ad_now a)) (t_flow d) = Inr t"
      "sql_fetch (flow_is part (ad_flow_id a)) t = Some f'"
      "raw_int4 E ''node_count'' (fl_raw_fields f') = Inr (Some n)"
      "res = Inr (Added (ad_execution_id a) (of_int (max n 0)))"
      "d' = (update_exec part uid (\<lambda>r. r\<lparr>ec_flow_id := Some (ad_flow_id a)\<rparr>) d)\<lparr>t_flow := t\<rparr>"
proof -
  obtain f where f: "flow_at d part (ad_flow_id a) = Some f" "\<not> flow_terminal (fl_public_flow_state f)"
    using assms by (cases "flow_at d part (ad_flow_id a)") (simp_all add: add_tx_def fetch_flow Let_def split: if_splits)
  obtain r where r: "exec_at d part uid = Some r"
    using assms f by (cases "exec_at d part uid") (simp_all add: add_tx_def fetch_flow fetch_exec Let_def)
  note eq = assms [unfolded add_tx_member [OF f(1) r]]
  show thesis
  proof (cases "ec_flow_id r")
    case None
    with eq f(2) obtain t where t: "sql_try_update (flow_is part (ad_flow_id a))
        (bump_flow E ''node_count'' (ad_now a)) (t_flow d) = Inr t"
      by (auto simp: rbind_Inr_iff)
    with None eq f(2) obtain f' where f': "sql_fetch (flow_is part (ad_flow_id a)) t = Some f'"
      by (cases "sql_fetch (flow_is part (ad_flow_id a)) t") simp_all
    with t None eq f(2) obtain n where n: "raw_int4 E ''node_count'' (fl_raw_fields f') = Inr n"
      by (auto simp: rbind_Inr_iff)
    show thesis
      using eq f(2) None t f' n that(1) that(2) [OF f r None t f'] by (cases n) auto
  next
    case (Some w)
    with eq f(2) that(1) show thesis by (cases "w = ad_flow_id a") auto
  qed
qed

lemma add_tx_evolves:
  assumes "add_tx E a part uid d = Inr (res, d')"
  shows "db_evolves d d'"
  using assms
proof (cases rule: add_tx_cases)
  case (2 f r t n f')
  let ?d1 = "update_exec part uid (\<lambda>r. r\<lparr>ec_flow_id := Some (ad_flow_id a)\<rparr>) d"
  have "db_evolves d ?d1"
    by (rule evolves_update_exec_row) (use 2(3,4) in \<open>auto simp: exec_key_def exec_typed_def exec_le_def\<close>)
  moreover have "db_evolves ?d1 d'"
    unfolding 2(9) by (rule evolves_bump_flow) (use 2(5) in \<open>simp add: update_exec_def\<close>)
  ultimately show ?thesis by (rule db_evolves_trans)
qed simp

lemma evolves_edge_insert:
  "edge_key r \<notin> edge_key ` set (t_edge d) \<Longrightarrow> db_evolves d (d\<lparr>t_edge := t_edge d @ [r]\<rparr>)"
  by (auto simp: db_evolves_def db_wf_def db_typed_def rows_le_refl rows_le_append)

lemma stage_tx_cases:
  assumes "stage_tx E a part up down d = Inr (res, d')"
  obtains f t where "sql_fetch (\<lambda>r. flow_is part (sg_flow_id a) r \<and>
        fl_graph_revision r = i64_of_u64_or_max (sg_expected_graph_revision a) \<and>
        fl_public_flow_state r = ''open'') (t_flow d) = Some f"
    "sql_try_update (\<lambda>r. flow_is part (sg_flow_id a) r \<and>
        fl_graph_revision r = i64_of_u64_or_max (sg_expected_graph_revision a) \<and>
        fl_public_flow_state r = ''open'') (bump_flow E ''edge_count'' (sg_now a)) (t_flow d) = Inr t"
    "res = Staged (sg_edge_id a) (u64_of_i64_or 0 (fl_graph_revision f + 1))"
    "edge_key (new_edge a part up down) \<notin> edge_key ` set (t_edge d)"
    "d' = d\<lparr>t_flow := t, t_edge := t_edge d @ [new_edge a part up down]\<rparr>"
  using assms by (auto simp: stage_tx_def Let_def rbind_Inr_iff split: if_splits option.splits)

lemma stage_tx_evolves: "stage_tx E a part up down d = Inr (res, d') \<Longrightarrow> db_evolves d d'"
proof (erule stage_tx_cases)
  fix f t
  assume t: "sql_try_update (\<lambda>r. flow_is part (sg_flow_id a) r \<and>
        fl_graph_revision r = i64_of_u64_or_max (sg_expected_graph_revision a) \<and>
        fl_public_flow_state r = ''open'') (bump_flow E ''edge_count'' (sg_now a)) (t_flow d) = Inr t"
    and k: "edge_key (new_edge a part up down) \<notin> edge_key ` set (t_edge d)"
    and d': "d' = d\<lparr>t_flow := t, t_edge := t_edge d @ [new_edge a part up down]\<rparr>"
  from evolves_edge_insert [of "new_edge a part up down" "d\<lparr>t_flow := t\<rparr>"] k
  have "db_evolves (d\<lparr>t_flow := t\<rparr>) d'" by (simp add: d')
  with evolves_bump_flow [OF t] show ?thesis by (rule db_evolves_trans)
qed

lemma apply_tx_cases:
  assumes "apply_tx a part down d = Inr (res, d')"
  obtains r where "edge_at d part (ap_flow_id a) (ap_edge_id a) = Some r" "edge_applied r" "res = AlreadyApplied" "d' = d"
  | r t g where "edge_at d part (ap_flow_id a) (ap_edge_id a) = Some r" "\<not> edge_applied r"
    "sql_upsert edge_group_key (new_group part (ap_flow_id a) down (JObj [(''kind'', JStr ''all_of'')]) 1)
       (\<lambda>g. rbind (int4_add (eg_running_count g) 1) (\<lambda>n. Inr (g\<lparr>eg_running_count := n\<rparr>))) (t_edge_group d) = Inr t"
    "sql_fetch (group_is part (ap_flow_id a) down) t = Some g"
    "res = Applied (of_int (max (eg_running_count g) 0))"
    "d' = d\<lparr>t_edge := sql_update (edge_is part (ap_flow_id a) (ap_edge_id a)) (mark_applied (ap_now a)) (t_edge d),
            t_edge_group := t\<rparr>"
  using assms by (auto simp: apply_tx_def Let_def rbind_Inr_iff fetch_edge split: if_splits)

lemma apply_tx_evolves:
  assumes "apply_tx a part down d = Inr (res, d')"
  shows "db_evolves d d'"
  using assms
proof (cases rule: apply_tx_cases)
  case (2 r t g)
  let ?d1 = "d\<lparr>t_edge := sql_update (edge_is part (ap_flow_id a) (ap_edge_id a)) (mark_applied (ap_now a)) (t_edge d)\<rparr>"
  have key: "edge_key (mark_applied now e) = edge_key e" for now e by (simp add: edge_key_def mark_applied_def)
  have "rows_le edge_key edge_le (t_edge d)
      (sql_update (edge_is part (ap_flow_id a) (ap_edge_id a)) (mark_applied (ap_now a)) (t_edge d))"
  proof (rule rows_le_update_row)
    fix e
    assume "row_at edge_key (edge_key e) (t_edge d) = Some e" "edge_is part (ap_flow_id a) (ap_edge_id a) e"
    then have "e = r" using 2(1) by (simp add: edge_at_def edge_key_def edge_is_def)
    with 2(2) show "edge_le e (mark_applied (ap_now a) e)" by (simp add: edge_le_def key) (simp add: mark_applied_def)
  qed (simp_all add: key)
  then have "db_evolves d ?d1"
    by (simp add: db_evolves_def db_wf_def db_typed_def rows_le_refl map_key_update [where key = edge_key and f = "mark_applied (ap_now a)", OF key])
  moreover have "distinct (map edge_group_key t)" if "distinct (map edge_group_key (t_edge_group d))"
    by (rule upsert_distinct [OF 2(3) that]) (auto simp: edge_group_key_def rbind_Inr_iff)
  then have "db_evolves ?d1 d'" unfolding 2(6) using evolves_group_rows [of ?d1 t] by simp
  ultimately show ?thesis by (rule db_evolves_trans)
qed simp

end
