(* ===== verification/Pg_Operator.thy ===== *)
theory Pg_Operator
  imports Pg_Flow_Staging
begin

text \<open>
  The operator's actions in the Postgres backend (\<open>ff-backend-postgres/src/operator.rs\<close> and
  \<open>operator_event.rs\<close>): cancelling an execution with a lease fence, revoking a lease, changing the
  priority, replaying an ended execution, and cancelling a flow with a backlog of members that are
  acknowledged one by one. Each runs as a serializable transaction that is retried on conflicts.
\<close>

section \<open>Operator events\<close>

definition EVENT_PRIORITY_CHANGED :: string where "EVENT_PRIORITY_CHANGED = ''priority_changed''"
definition EVENT_REPLAYED :: string where "EVENT_REPLAYED = ''replayed''"
definition EVENT_FLOW_CANCEL_REQUESTED :: string where
  "EVENT_FLOW_CANCEL_REQUESTED = ''flow_cancel_requested''"

definition operator_emit :: "pg_env \<Rightarrow> int \<Rightarrow> uuid \<Rightarrow> string \<Rightarrow> json \<Rightarrow> int \<Rightarrow> db \<Rightarrow> db" where
  "operator_emit E part uid event_type details occurred_at d =
     (let row = (\<lambda>i ns tag. \<lparr>oe_event_id = next_operator_event_id d + int i,
                  oe_execution_id = uuid_to_string (pe_lib E) uid, oe_event_type = event_type,
                  oe_details = details, oe_occurred_at_ms = occurred_at, oe_partition_key = part,
                  oe_namespace = ns, oe_instance_tag = tag\<rparr>);
          matches = sql_select (exec_is part uid) (t_exec d);
          new = (if matches = [] then [row 0 None None]
                 else map (\<lambda>(i, r). row i (raw_namespace E r) (raw_instance_tag E r))
                        (List.enumerate 0 matches))
      in d\<lparr>t_operator_event := t_operator_event d @ new,
           next_operator_event_id := next_operator_event_id d + int (length new)\<rparr>)"

section \<open>Retrying\<close>

definition MAX_ATTEMPTS :: nat where "MAX_ATTEMPTS = 3"

text \<open>
  The loop with the given number of attempts left. Attempt \<open>i\<close> runs \<open>f i\<close>, so each attempt has its
  own environment.
\<close>

fun retry_loop :: "(nat \<Rightarrow> db \<Rightarrow> (pg_error + 'a) \<times> db) \<Rightarrow> nat \<Rightarrow> db \<Rightarrow> (pg_error + 'a) \<times> db" where
  "retry_loop f 0 d = (Inl (Contention CK_RetryExhausted), d)"
| "retry_loop f (Suc left) d =
     (case f (MAX_ATTEMPTS - Suc left) d of
        (Inr v, d') \<Rightarrow> (Inr v, d')
      | (Inl err, d') \<Rightarrow> if flow_serialization_conflict err then retry_loop f left d' else (Inl err, d'))"

definition retry_serializable :: "(nat \<Rightarrow> db \<Rightarrow> (pg_error + 'a) \<times> db) \<Rightarrow> db \<Rightarrow> (pg_error + 'a) \<times> db" where
  "retry_serializable f d = retry_loop f MAX_ATTEMPTS d"

section \<open>Cancelling an execution\<close>

datatype cancel_source = OperatorOverride | LeaseHolder | FlowCascade | SystemTimeout | CustomSource string

fun cancel_source_str :: "cancel_source \<Rightarrow> string" where
  "cancel_source_str OperatorOverride = ''operator_override''"
| "cancel_source_str LeaseHolder = ''lease_holder''"
| "cancel_source_str FlowCascade = ''flow_cascade''"
| "cancel_source_str SystemTimeout = ''system_timeout''"
| "cancel_source_str (CustomSource s) = s"

text \<open>The arguments; the lease id and the attempt id are not used by this backend.\<close>

record cancel_execution_args =
  xa_execution_id :: execution_id
  xa_reason :: string
  xa_source :: cancel_source
  xa_lease_epoch :: "u64 option"
  xa_now :: int

datatype cancel_execution_result = CX_Cancelled execution_id public_state

definition lease_active :: "attempt option \<Rightarrow> bool" where
  "lease_active a \<longleftrightarrow> (case Option.bind a at_worker_instance_id of Some s \<Rightarrow> s \<noteq> [] | None \<Rightarrow> False)"

definition operator_cancelled :: "cancel_execution_args \<Rightarrow> exec_core \<Rightarrow> sqlx_error + exec_core" where
  "operator_cancelled a r =
     rbind (jsonb_set ''last_mutation_at'' (JStr (show_int (xa_now a))) (ec_raw_fields r)) (\<lambda>raw.
     Inr (r\<lparr>ec_lifecycle_phase := ''cancelled'', ec_ownership_state := ''unowned'',
            ec_eligibility_state := ''not_applicable'', ec_public_state := ''cancelled'',
            ec_attempt_state := ''cancelled'',
            ec_terminal_at_ms := (case ec_terminal_at_ms r of None \<Rightarrow> Some (xa_now a) | t \<Rightarrow> t),
            ec_cancellation_reason := (case ec_cancellation_reason r of None \<Rightarrow> Some (xa_reason a) | c \<Rightarrow> c),
            ec_cancelled_by := (case ec_cancelled_by r of
               None \<Rightarrow> Some (cancel_source_str (xa_source a)) | c \<Rightarrow> c),
            ec_raw_fields := raw\<rparr>))"

definition cancel_attempt :: "int \<Rightarrow> attempt \<Rightarrow> sqlx_error + attempt" where
  "cancel_attempt now r =
     rbind (int8_add (at_lease_epoch r) 1) (\<lambda>ep.
     Inr (r\<lparr>at_worker_instance_id := None, at_lease_expires_at_ms := None, at_lease_epoch := ep,
            at_terminal_at_ms := Some now, at_outcome := Some ''cancelled''\<rparr>))"

definition cancel_execution_tx ::
  "pg_env \<Rightarrow> cancel_execution_args \<Rightarrow> int \<Rightarrow> uuid \<Rightarrow> db \<Rightarrow> pg_error + (cancel_execution_result \<times> db)" where
  "cancel_execution_tx E a part uid d =
     rbind (ok_or (sql_fetch (exec_is part uid) (t_exec d)) (NotFound ''execution'')) (\<lambda>r.
     let att = sql_fetch (attempt_is part uid (ec_attempt_index r)) (t_attempt d);
         cancelled = CX_Cancelled (xa_execution_id a) PS_Cancelled
     in if ec_lifecycle_phase r \<in> {''terminal'', ''cancelled''}
        then if ec_public_state r = ''cancelled'' then Inr (cancelled, d)
             else Inl (Validation VK_InvalidInput (''cancel_execution: execution_id='' @ xa_execution_id a @
               '': already terminal in state '' @ CHR 39 # ec_public_state r @ [CHR 39]))
        else
          rbind (if xa_source a \<noteq> OperatorOverride \<and> lease_active att
                 then case xa_lease_epoch a of
                        None \<Rightarrow> Inl (Validation VK_InvalidInput (''cancel_execution: execution_id='' @
                          xa_execution_id a @
                          '': lease_epoch required when source != operator_override and execution is active''))
                      | Some e \<Rightarrow>
                          if (case att of Some x \<Rightarrow> at_lease_epoch x | None \<Rightarrow> 0) \<noteq> i64_of_u64_or_max e
                          then Inl (State SK_StaleLease) else Inr ()
                 else Inr ()) (\<lambda>_.
          rbind (try_update_exec part uid (operator_cancelled a) d) (\<lambda>d1.
          if lease_active att
          then rbind (try_update_attempt part uid (ec_attempt_index r) (cancel_attempt (xa_now a)) d1) (\<lambda>d2.
               Inr (cancelled, emit E part uid None EVENT_REVOKED (xa_now a) d2))
          else Inr (cancelled, d1))))"

definition cancel_execution_once ::
  "pg_env \<Rightarrow> cancel_execution_args \<Rightarrow> int \<Rightarrow> uuid \<Rightarrow> db \<Rightarrow> (pg_error + cancel_execution_result) \<times> db" where
  "cancel_execution_once E a part uid d = run_tx (pe_fault E) (cancel_execution_tx E a part uid) d"

definition cancel_execution_impl ::
  "(nat \<Rightarrow> pg_env) \<Rightarrow> cancel_execution_args \<Rightarrow> db \<Rightarrow> panic + ((pg_error + cancel_execution_result) \<times> db)" where
  "cancel_execution_impl env a d =
     rbind (eid_target (pe_lib (env 0)) (xa_execution_id a)) (\<lambda>(part, uid).
     Inr (retry_serializable (\<lambda>i. cancel_execution_once (env i) a part uid) d))"

section \<open>Revoking a lease\<close>

record revoke_lease_args =
  rv_execution_id :: execution_id
  rv_expected_lease_id :: "string option"
  rv_worker_instance_id :: string
  rv_reason :: string

datatype revoke_lease_result = RV_Revoked string string | RV_AlreadySatisfied string

definition synthetic_lease_id :: "ext_lib \<Rightarrow> uuid \<Rightarrow> int \<Rightarrow> int \<Rightarrow> string" where
  "synthetic_lease_id X uid idx epoch =
     ''pg:'' @ uuid_to_string X uid @ '':'' @ show_int idx @ '':'' @ show_int epoch"

definition revoke_attempt :: "attempt \<Rightarrow> sqlx_error + attempt" where
  "revoke_attempt r =
     rbind (int8_add (at_lease_epoch r) 1) (\<lambda>ep.
     Inr (r\<lparr>at_worker_instance_id := None, at_lease_expires_at_ms := None, at_lease_epoch := ep\<rparr>))"

definition revoke_exec :: "int \<Rightarrow> exec_core \<Rightarrow> sqlx_error + exec_core" where
  "revoke_exec now r =
     (if ec_lifecycle_phase r = ''active''
      then rbind (jsonb_set ''last_mutation_at'' (JStr (show_int now)) (ec_raw_fields r)) (\<lambda>raw.
           Inr (r\<lparr>ec_lifecycle_phase := ''runnable'', ec_ownership_state := ''unowned'',
                  ec_eligibility_state := ''eligible_now'', ec_attempt_state := ''attempt_interrupted'',
                  ec_raw_fields := raw\<rparr>))
      else Inr r)"

text \<open>
  Every early return rolls back. The compare-and-set on the epoch finds the row that was read under
  its lock.
\<close>

definition revoke_lease_tx ::
  "pg_env \<Rightarrow> revoke_lease_args \<Rightarrow> int \<Rightarrow> uuid \<Rightarrow> db \<Rightarrow> pg_error + (revoke_lease_result \<times> db)" where
  "revoke_lease_tx E a part uid d =
     (let now = max (pe_now E) 0 in
      rbind (ok_or (sql_fetch (exec_is part uid) (t_exec d)) (NotFound ''execution'')) (\<lambda>r.
      let idx = ec_attempt_index r;
          att = sql_fetch (attempt_is part uid idx) (t_attempt d);
          wiid = Option.bind att at_worker_instance_id;
          prior = (case att of Some x \<Rightarrow> at_lease_epoch x | None \<Rightarrow> 0)
      in if \<not> lease_active att then Inr (RV_AlreadySatisfied ''no_active_lease'', d)
         else if rv_worker_instance_id a \<noteq> [] \<and> wiid \<noteq> Some (rv_worker_instance_id a)
         then Inr (RV_AlreadySatisfied ''different_worker_instance_id'', d)
         else if (case rv_expected_lease_id a of
                    None \<Rightarrow> False
                  | Some expected \<Rightarrow> expected \<noteq> [] \<and> expected \<noteq> synthetic_lease_id (pe_lib E) uid idx prior)
         then Inr (RV_AlreadySatisfied ''lease_id_mismatch'', d)
         else if sql_count (\<lambda>x. attempt_is part uid idx x \<and> at_lease_epoch x = prior) (t_attempt d) = 0
         then Inr (RV_AlreadySatisfied ''epoch_moved'', d)
         else
           rbind (try_update_attempt part uid idx
             (\<lambda>x. if at_lease_epoch x = prior then revoke_attempt x else Inr x) d) (\<lambda>d1.
           rbind (try_update_exec part uid (revoke_exec now) d1) (\<lambda>d2.
           Inr (RV_Revoked (synthetic_lease_id (pe_lib E) uid idx prior) (show_int (prior + 1)),
                emit E part uid None EVENT_REVOKED now d2)))))"

definition revoke_lease_once ::
  "pg_env \<Rightarrow> revoke_lease_args \<Rightarrow> int \<Rightarrow> uuid \<Rightarrow> db \<Rightarrow> (pg_error + revoke_lease_result) \<times> db" where
  "revoke_lease_once E a part uid d = run_tx (pe_fault E) (revoke_lease_tx E a part uid) d"

definition revoke_lease_impl ::
  "(nat \<Rightarrow> pg_env) \<Rightarrow> revoke_lease_args \<Rightarrow> db \<Rightarrow> panic + ((pg_error + revoke_lease_result) \<times> db)" where
  "revoke_lease_impl env a d =
     rbind (eid_target (pe_lib (env 0)) (rv_execution_id a)) (\<lambda>(part, uid).
     Inr (retry_serializable (\<lambda>i. revoke_lease_once (env i) a part uid) d))"

section \<open>Changing the priority\<close>

record change_priority_args =
  cp_execution_id :: execution_id
  cp_new_priority :: int
  cp_lane_id :: string
  cp_now :: int

datatype change_priority_result = CP_Changed execution_id

definition open_for_claims :: "exec_core \<Rightarrow> bool" where
  "open_for_claims r \<longleftrightarrow> ec_lifecycle_phase r = ''runnable'' \<and> ec_eligibility_state r = ''eligible_now''"

definition clamp_priority :: "int \<Rightarrow> int" where
  "clamp_priority p = max 0 (min 9000 p)"

definition set_priority :: "int \<Rightarrow> int \<Rightarrow> exec_core \<Rightarrow> sqlx_error + exec_core" where
  "set_priority p now r =
     (if open_for_claims r
      then rbind (jsonb_set ''last_mutation_at'' (JStr (show_int now)) (ec_raw_fields r)) (\<lambda>raw.
           Inr (r\<lparr>ec_priority := p, ec_raw_fields := raw\<rparr>))
      else Inr r)"

definition change_priority_tx ::
  "pg_env \<Rightarrow> change_priority_args \<Rightarrow> int \<Rightarrow> uuid \<Rightarrow> db \<Rightarrow> pg_error + (change_priority_result \<times> db)" where
  "change_priority_tx E a part uid d =
     rbind (ok_or (sql_fetch (exec_is part uid) (t_exec d)) (NotFound ''execution'')) (\<lambda>r.
     if \<not> open_for_claims r then Inl (Contention CK_ExecutionNotEligible)
     else
       let p = clamp_priority (cp_new_priority a) in
       rbind (try_update_exec part uid (set_priority p (cp_now a)) d) (\<lambda>d1.
       if sql_count (\<lambda>r. exec_is part uid r \<and> open_for_claims r) (t_exec d) = 0
       then Inl (Contention CK_ExecutionNotEligible)
       else Inr (CP_Changed (cp_execution_id a),
              operator_emit E part uid EVENT_PRIORITY_CHANGED
                (JObj [(''old_priority'', JNum (ec_priority r)), (''new_priority'', JNum p)]) (cp_now a) d1)))"

definition change_priority_once ::
  "pg_env \<Rightarrow> change_priority_args \<Rightarrow> int \<Rightarrow> uuid \<Rightarrow> db \<Rightarrow> (pg_error + change_priority_result) \<times> db" where
  "change_priority_once E a part uid d = run_tx (pe_fault E) (change_priority_tx E a part uid) d"

definition change_priority_impl ::
  "(nat \<Rightarrow> pg_env) \<Rightarrow> change_priority_args \<Rightarrow> db \<Rightarrow> panic + ((pg_error + change_priority_result) \<times> db)" where
  "change_priority_impl env a d =
     rbind (eid_target (pe_lib (env 0)) (cp_execution_id a)) (\<lambda>(part, uid).
     Inr (retry_serializable (\<lambda>i. change_priority_once (env i) a part uid) d))"

section \<open>Replaying an execution\<close>

record replay_args =
  rp_execution_id :: execution_id
  rp_now :: int

datatype replay_result = RP_Replayed public_state

definition reset_groups :: "int \<Rightarrow> uuid \<Rightarrow> db \<Rightarrow> nat \<times> db" where
  "reset_groups part uid d =
     (let keys = map (\<lambda>e. (ed_partition_key e, ed_flow_id e, ed_downstream_eid e))
            (sql_select (\<lambda>e. ed_partition_key e = part \<and> ed_downstream_eid e = uid) (t_edge d));
          hit = (\<lambda>g. edge_group_key g \<in> set keys)
      in (sql_count hit (t_edge_group d),
          d\<lparr>t_edge_group := sql_update hit
              (\<lambda>g. g\<lparr>eg_skip_count := 0, eg_fail_count := 0, eg_running_count := 0\<rparr>) (t_edge_group d)\<rparr>))"

definition replay_exec :: "pg_env \<Rightarrow> bool \<Rightarrow> int \<Rightarrow> exec_core \<Rightarrow> sqlx_error + exec_core" where
  "replay_exec E skipped now r =
     rbind (jsonb_set ''last_mutation_at'' (JStr (show_int now)) (ec_raw_fields r)) (\<lambda>raw.
     rbind (raw_int4 E ''replay_count'' (ec_raw_fields r)) (\<lambda>n.
     rbind (int4_add (case n of None \<Rightarrow> 0 | Some i \<Rightarrow> i) 1) (\<lambda>m.
     rbind (jsonb_set ''replay_count'' (JNum m) raw) (\<lambda>raw'.
     Inr (r\<lparr>ec_lifecycle_phase := ''runnable'', ec_ownership_state := ''unowned'',
            ec_eligibility_state := (if skipped then ''blocked_by_dependencies'' else ''eligible_now''),
            ec_public_state := (if skipped then ''waiting_children'' else ''waiting''),
            ec_attempt_state := ''pending_replay_attempt'', ec_terminal_at_ms := None, ec_result := None,
            ec_cancellation_reason := None, ec_cancelled_by := None, ec_raw_fields := raw'\<rparr>)))))"

definition replay_attempt :: "attempt \<Rightarrow> sqlx_error + attempt" where
  "replay_attempt r =
     rbind (int8_add (at_lease_epoch r) 1) (\<lambda>ep.
     Inr (r\<lparr>at_outcome := None, at_terminal_at_ms := None, at_worker_id := None,
            at_worker_instance_id := None, at_lease_expires_at_ms := None, at_lease_epoch := ep\<rparr>))"

definition replay_tx ::
  "pg_env \<Rightarrow> replay_args \<Rightarrow> int \<Rightarrow> uuid \<Rightarrow> db \<Rightarrow> pg_error + (replay_result \<times> db)" where
  "replay_tx E a part uid d =
     rbind (ok_or (sql_fetch (exec_is part uid) (t_exec d)) (NotFound ''execution'')) (\<lambda>r.
     if ec_lifecycle_phase r \<noteq> ''terminal'' then Inl (State SK_ExecutionNotTerminal)
     else
       let att = sql_fetch (attempt_is part uid (ec_attempt_index r)) (t_attempt d);
           skipped = (Option.bind att at_outcome = Some ''skipped'' \<and> ec_flow_id r \<noteq> None);
           (groups_reset, d1) = (if skipped then reset_groups part uid d else (0, d))
       in
       rbind (try_update_exec part uid (replay_exec E skipped (rp_now a)) d1) (\<lambda>d2.
       rbind (if att \<noteq> None then try_update_attempt part uid (ec_attempt_index r) replay_attempt d2
              else Inr d2) (\<lambda>d3.
       Inr (RP_Replayed (if skipped then PS_WaitingChildren else PS_Waiting),
            operator_emit E part uid EVENT_REPLAYED
              (if skipped then JObj [(''branch'', JStr ''skipped_flow_member''),
                                      (''groups_reset'', JNum (int groups_reset))]
               else JObj [(''branch'', JStr ''normal'')]) (rp_now a) d3))))"

definition replay_execution_once ::
  "pg_env \<Rightarrow> replay_args \<Rightarrow> int \<Rightarrow> uuid \<Rightarrow> db \<Rightarrow> (pg_error + replay_result) \<times> db" where
  "replay_execution_once E a part uid d = run_tx (pe_fault E) (replay_tx E a part uid) d"

definition replay_execution_impl ::
  "(nat \<Rightarrow> pg_env) \<Rightarrow> replay_args \<Rightarrow> db \<Rightarrow> panic + ((pg_error + replay_result) \<times> db)" where
  "replay_execution_impl env a d =
     rbind (eid_target (pe_lib (env 0)) (rp_execution_id a)) (\<lambda>(part, uid).
     Inr (retry_serializable (\<lambda>i. replay_execution_once (env i) a part uid) d))"

section \<open>Cancelling a flow with a backlog\<close>

record cancel_flow_args =
  fa_flow_id :: uuid
  fa_reason :: string
  fa_cancellation_policy :: string
  fa_now :: int

datatype cancel_flow_header =
    FH_Cancelled string "string list"
  | FH_AlreadyTerminal "string option" "string option" "string list"

definition member_wire_id :: "ext_lib \<Rightarrow> int \<Rightarrow> uuid \<Rightarrow> string" where
  "member_wire_id X part uid = ''{fp:'' @ show_int part @ ''}:'' @ uuid_to_string X uid"

definition backlog_members :: "int \<Rightarrow> uuid \<Rightarrow> db \<Rightarrow> string list" where
  "backlog_members part flow d =
     map bm_execution_id
       (sql_select (\<lambda>m. bm_partition_key m = part \<and> bm_flow_id m = flow) (t_backlog_member d))"

definition header_flow :: "cancel_flow_args \<Rightarrow> flow_core \<Rightarrow> flow_core" where
  "header_flow a r =
     r\<lparr>fl_public_flow_state := ''cancelled'',
       fl_terminal_at_ms := (case fl_terminal_at_ms r of None \<Rightarrow> Some (fa_now a) | t \<Rightarrow> t),
       fl_raw_fields := json_concat (fl_raw_fields r)
         (JObj [(''cancellation_policy'', JStr (fa_cancellation_policy a)), (''cancel_reason'', JStr (fa_reason a))])\<rparr>"

definition header_member :: "cancel_flow_args \<Rightarrow> exec_core \<Rightarrow> exec_core" where
  "header_member a r =
     r\<lparr>ec_lifecycle_phase := ''cancelled'', ec_eligibility_state := ''cancelled'',
       ec_public_state := ''cancelled'',
       ec_terminal_at_ms := (case ec_terminal_at_ms r of None \<Rightarrow> Some (fa_now a) | t \<Rightarrow> t),
       ec_cancellation_reason := (case ec_cancellation_reason r of None \<Rightarrow> Some (fa_reason a) | c \<Rightarrow> c),
       ec_cancelled_by := (case ec_cancelled_by r of None \<Rightarrow> Some ''cancel_flow_header'' | c \<Rightarrow> c)\<rparr>"

text \<open>The statements of a first cancellation, the flow row being there and open.\<close>

definition header_members :: "int \<Rightarrow> uuid \<Rightarrow> db \<Rightarrow> uuid list" where
  "header_members part flow d =
     map ec_execution_id
       (sql_select (\<lambda>r. ec_partition_key r = part \<and> ec_flow_id r = Some flow \<and> not_ended r) (t_exec d))"

definition open_backlog :: "cancel_flow_args \<Rightarrow> int \<Rightarrow> db \<Rightarrow> db" where
  "open_backlog a part d =
     d\<lparr>t_flow := sql_update (flow_is part (fa_flow_id a)) (header_flow a) (t_flow d),
       t_cancel_backlog := sql_insert_or_nothing cancel_backlog_key
         \<lparr>cb_partition_key = part, cb_flow_id = fa_flow_id a, cb_requested_at_ms = fa_now a,
          cb_requester = [], cb_reason = fa_reason a, cb_cancellation_policy = fa_cancellation_policy a,
          cb_status = ''pending''\<rparr> (t_cancel_backlog d)\<rparr>"

definition record_members :: "int \<Rightarrow> uuid \<Rightarrow> string list \<Rightarrow> db \<Rightarrow> db" where
  "record_members part flow ids d =
     d\<lparr>t_backlog_member := fold (\<lambda>i. sql_insert_or_nothing backlog_member_key
         \<lparr>bm_partition_key = part, bm_flow_id = flow, bm_execution_id = i\<rparr>) ids (t_backlog_member d)\<rparr>"

definition cancel_members :: "cancel_flow_args \<Rightarrow> int \<Rightarrow> uuid list \<Rightarrow> db \<Rightarrow> db" where
  "cancel_members a part uuids d =
     d\<lparr>t_exec := sql_update (\<lambda>r. ec_partition_key r = part \<and> ec_execution_id r \<in> set uuids)
         (header_member a) (t_exec d)\<rparr>"

definition fresh_cancel :: "pg_env \<Rightarrow> cancel_flow_args \<Rightarrow> int \<Rightarrow> db \<Rightarrow> string list \<times> db" where
  "fresh_cancel E a part d =
     (let flow = fa_flow_id a;
          d1 = open_backlog a part d;
          uuids = header_members part flow d1;
          ids = map (member_wire_id (pe_lib E) part) uuids;
          d2 = (if uuids = [] then d1 else cancel_members a part uuids (record_members part flow ids d1))
      in (ids, operator_emit E part flow EVENT_FLOW_CANCEL_REQUESTED
            (JObj [(''flow_id'', JStr (uuid_to_string (pe_lib E) flow)),
                   (''cancellation_policy'', JStr (fa_cancellation_policy a)),
                   (''reason'', JStr (fa_reason a)), (''member_count'', JNum (int (length ids)))])
            (fa_now a) d2))"

definition header_tx ::
  "pg_env \<Rightarrow> cancel_flow_args \<Rightarrow> int \<Rightarrow> db \<Rightarrow> pg_error + (cancel_flow_header \<times> db)" where
  "header_tx E a part d =
     (let flow = fa_flow_id a in
      rbind (ok_or (sql_fetch (flow_is part flow) (t_flow d)) (NotFound ''flow'')) (\<lambda>f.
      if flow_terminal (fl_public_flow_state f)
      then
        let stored = backlog_members part flow d;
            members = (if stored = []
              then map (\<lambda>r. member_wire_id (pe_lib E) part (ec_execution_id r))
                     (sql_select (\<lambda>r. ec_partition_key r = part \<and> ec_flow_id r = Some flow) (t_exec d))
              else stored)
        in Inr (FH_AlreadyTerminal (raw_str (fl_raw_fields f) ''cancellation_policy'')
             (raw_str (fl_raw_fields f) ''cancel_reason'') members, d)
      else
        let (ids, d') = fresh_cancel E a part d
        in Inr (FH_Cancelled (fa_cancellation_policy a) ids, d')))"

definition cancel_flow_header_once ::
  "pg_env \<Rightarrow> cancel_flow_args \<Rightarrow> int \<Rightarrow> db \<Rightarrow> (pg_error + cancel_flow_header) \<times> db" where
  "cancel_flow_header_once E a part d = run_tx (pe_fault E) (header_tx E a part) d"

definition cancel_flow_header_impl ::
  "(nat \<Rightarrow> pg_env) \<Rightarrow> partition_config \<Rightarrow> cancel_flow_args \<Rightarrow> db \<Rightarrow>
   panic + ((pg_error + cancel_flow_header) \<times> db)" where
  "cancel_flow_header_impl env pc a d =
     rbind (flow_partition_byte (pe_lib (env 0)) (fa_flow_id a) pc) (\<lambda>part.
     Inr (retry_serializable (\<lambda>i. cancel_flow_header_once (env i) a part) d))"

definition ack_tx :: "int \<Rightarrow> uuid \<Rightarrow> execution_id \<Rightarrow> db \<Rightarrow> pg_error + (unit \<times> db)" where
  "ack_tx part flow eid d =
     (let d1 = d\<lparr>t_backlog_member := sql_delete (\<lambda>m. bm_partition_key m = part \<and> bm_flow_id m = flow \<and>
                   bm_execution_id m = eid) (t_backlog_member d)\<rparr>
      in Inr ((), if backlog_members part flow d1 = []
                  then d1\<lparr>t_cancel_backlog := sql_delete (\<lambda>c. cb_partition_key c = part \<and> cb_flow_id c = flow)
                         (t_cancel_backlog d1)\<rparr>
                  else d1))"

definition ack_cancel_member_once ::
  "pg_env \<Rightarrow> int \<Rightarrow> uuid \<Rightarrow> execution_id \<Rightarrow> db \<Rightarrow> (pg_error + unit) \<times> db" where
  "ack_cancel_member_once E part flow eid d = run_tx (pe_fault E) (ack_tx part flow eid) d"

definition ack_cancel_member_impl ::
  "(nat \<Rightarrow> pg_env) \<Rightarrow> partition_config \<Rightarrow> uuid \<Rightarrow> execution_id \<Rightarrow> db \<Rightarrow> panic + ((pg_error + unit) \<times> db)" where
  "ack_cancel_member_impl env pc flow eid d =
     rbind (flow_partition_byte (pe_lib (env 0)) flow pc) (\<lambda>part.
     Inr (retry_serializable (\<lambda>i. ack_cancel_member_once (env i) part flow eid) d))"

section \<open>Evolution\<close>

lemma evolves_operator_events:
  assumes "map oe_event_id new = map (\<lambda>i. next_operator_event_id d + int i) [0..<length new]"
  shows "db_evolves d (d\<lparr>t_operator_event := t_operator_event d @ new,
     next_operator_event_id := next_operator_event_id d + int (length new)\<rparr>)"
  using fresh_ids [OF assms, of "t_operator_event d"]
  by (auto simp: db_evolves_def db_wf_def db_typed_def rows_le_refl)

lemma operator_emit_evolves: "db_evolves d (operator_emit E part uid ev det at d)"
  unfolding operator_emit_def Let_def
  by (rule evolves_operator_events) (auto intro!: enumerated_ids [THEN trans] simp del: map_map)

lemma operator_emit_tables [db_lookup]:
  "t_exec (operator_emit E part uid ev det at d) = t_exec d"
  "t_attempt (operator_emit E part uid ev det at d) = t_attempt d"
  "t_flow (operator_emit E part uid ev det at d) = t_flow d"
  "t_completion (operator_emit E part uid ev det at d) = t_completion d"
  "t_cancel_backlog (operator_emit E part uid ev det at d) = t_cancel_backlog d"
  "t_backlog_member (operator_emit E part uid ev det at d) = t_backlog_member d"
  "exec_at (operator_emit E part uid ev det at d) p u = exec_at d p u"
  "attempt_at (operator_emit E part uid ev det at d) p u i = attempt_at d p u i"
  by (simp_all add: operator_emit_def Let_def exec_at_def attempt_at_def)

lemma operator_exec_le:
  "operator_cancelled a r = Inr r' \<Longrightarrow> exec_le r r' \<and> exec_key r' = exec_key r"
  "revoke_exec now r = Inr r' \<Longrightarrow> exec_le r r' \<and> exec_key r' = exec_key r"
  "set_priority p now r = Inr r' \<Longrightarrow> exec_le r r' \<and> exec_key r' = exec_key r"
  "replay_exec E b now r = Inr r' \<Longrightarrow> exec_le r r' \<and> exec_key r' = exec_key r"
  by (auto simp: operator_cancelled_def revoke_exec_def set_priority_def replay_exec_def rbind_Inr_iff exec_le_def
      exec_typed_def exec_key_def split: if_splits)

text \<open>The three updates of an attempt that take the lease away: the epoch rises by one.\<close>

lemma operator_attempt_le:
  "cancel_attempt now r = Inr r' \<Longrightarrow> attempt_le r r' \<and> attempt_key r' = attempt_key r \<and> at_lease_epoch r' = at_lease_epoch r + 1"
  "revoke_attempt r = Inr r' \<Longrightarrow> attempt_le r r' \<and> attempt_key r' = attempt_key r \<and> at_lease_epoch r' = at_lease_epoch r + 1"
  "replay_attempt r = Inr r' \<Longrightarrow> attempt_le r r' \<and> attempt_key r' = attempt_key r \<and> at_lease_epoch r' = at_lease_epoch r + 1"
  by (auto simp: cancel_attempt_def revoke_attempt_def replay_attempt_def rbind_Inr_iff int8_add_def attempt_le_def
      attempt_typed_def attempt_key_def split: if_splits)

lemma lease_active_Some: "lease_active att \<Longrightarrow> \<exists>x. att = Some x"
  by (cases att) (simp_all add: lease_active_def)

lemma cancel_execution_tx_cases:
  assumes "cancel_execution_tx E a part uid d = Inr (res, d')"
  obtains "d' = d"
  | r d1 where "exec_at d part uid = Some r" "not_ended r" "try_update_exec part uid (operator_cancelled a) d = Inr d1"
      "\<not> lease_active (attempt_at d part uid (ec_attempt_index r))" "d' = d1"
  | r x d1 d2 where "exec_at d part uid = Some r" "not_ended r" "try_update_exec part uid (operator_cancelled a) d = Inr d1"
      "attempt_at d part uid (ec_attempt_index r) = Some x" "lease_active (Some x)"
      "xa_source a \<noteq> OperatorOverride \<Longrightarrow> \<exists>e. xa_lease_epoch a = Some e \<and> at_lease_epoch x = i64_of_u64_or_max e"
      "try_update_attempt part uid (ec_attempt_index r) (cancel_attempt (xa_now a)) d1 = Inr d2"
      "d' = emit E part uid None EVENT_REVOKED (xa_now a) d2"
proof -
  obtain r where r: "exec_at d part uid = Some r"
    using assms by (auto simp: cancel_execution_tx_def rbind_Inr_iff fetch_exec)
  show thesis
  proof (cases "not_ended r")
    case False
    then have "d' = d" using assms r
      by (auto simp: cancel_execution_tx_def fetch_exec Let_def not_ended_def split: if_splits)
    then show thesis by (rule that(1))
  next
    case True
    with assms r obtain d1 where d1: "try_update_exec part uid (operator_cancelled a) d = Inr d1"
      by (auto simp: cancel_execution_tx_def fetch_exec fetch_attempt Let_def not_ended_def rbind_Inr_iff)
    show thesis
    proof (cases "lease_active (attempt_at d part uid (ec_attempt_index r))")
      case False
      with assms r True d1 have "d' = d1"
        by (auto simp: cancel_execution_tx_def fetch_exec fetch_attempt Let_def not_ended_def)
      with that(2) [OF r True d1 False] show thesis by blast
    next
      case act: True
      then obtain x where x: "attempt_at d part uid (ec_attempt_index r) = Some x" using lease_active_Some by blast
      have "\<exists>e. xa_lease_epoch a = Some e \<and> at_lease_epoch x = i64_of_u64_or_max e" if "xa_source a \<noteq> OperatorOverride"
        using assms r True d1 act x that
        by (auto simp: cancel_execution_tx_def fetch_exec fetch_attempt Let_def not_ended_def split: option.splits if_splits)
      moreover obtain d2 where "try_update_attempt part uid (ec_attempt_index r) (cancel_attempt (xa_now a)) d1 = Inr d2"
        "d' = emit E part uid None EVENT_REVOKED (xa_now a) d2"
        using assms r True d1 act x
        by (auto simp: cancel_execution_tx_def fetch_exec fetch_attempt Let_def not_ended_def rbind_Inr_iff)
      ultimately show thesis using that(3) [OF r True d1 x] act x by simp
    qed
  qed
qed

lemma evolves_exec_step:
  "db_evolves d e \<Longrightarrow> try_update_exec p u f e = Inr e' \<Longrightarrow>
   (\<And>r r'. f r = Inr r' \<Longrightarrow> exec_le r r' \<and> exec_key r' = exec_key r) \<Longrightarrow> db_evolves d e'"
  by (rule evolves_try(1)) auto

lemma evolves_attempt_step:
  "db_evolves d e \<Longrightarrow> try_update_attempt p u i f e = Inr e' \<Longrightarrow>
   (\<And>r r'. f r = Inr r' \<Longrightarrow> attempt_le r r' \<and> attempt_key r' = attempt_key r \<and> P r r') \<Longrightarrow> db_evolves d e'"
  by (rule evolves_try(2)) auto

lemma cancel_execution_tx_evolves:
  assumes "cancel_execution_tx E a part uid d = Inr (res, d')"
  shows "db_evolves d d'"
  using assms
proof (cases rule: cancel_execution_tx_cases)
  case (2 r d1)
  then show ?thesis using evolves_exec_step [OF db_evolves_refl 2(3) operator_exec_le(1)] by simp
next
  case (3 r x d1 d2)
  have "db_evolves d d1" by (rule evolves_exec_step [OF db_evolves_refl 3(3) operator_exec_le(1)])
  then have "db_evolves d d2" by (rule evolves_attempt_step [OF _ 3(7) operator_attempt_le(1)])
  then show ?thesis unfolding 3(8) by (rule evolves_then(3))
qed simp

lemma revoke_lease_tx_cases:
  assumes "revoke_lease_tx E a part uid d = Inr (res, d')"
  obtains reason where "res = RV_AlreadySatisfied reason" "d' = d"
  | r x d1 d2 where "exec_at d part uid = Some r" "attempt_at d part uid (ec_attempt_index r) = Some x"
      "lease_active (Some x)"
      "try_update_attempt part uid (ec_attempt_index r)
         (\<lambda>y. if at_lease_epoch y = at_lease_epoch x then revoke_attempt y else Inr y) d = Inr d1"
      "try_update_exec part uid (revoke_exec (max (pe_now E) 0)) d1 = Inr d2"
      "res = RV_Revoked (synthetic_lease_id (pe_lib E) uid (ec_attempt_index r) (at_lease_epoch x))
         (show_int (at_lease_epoch x + 1))"
      "d' = emit E part uid None EVENT_REVOKED (max (pe_now E) 0) d2"
proof -
  obtain r where r: "exec_at d part uid = Some r"
    using assms by (auto simp: revoke_lease_tx_def rbind_Inr_iff fetch_exec Let_def)
  let ?att = "attempt_at d part uid (ec_attempt_index r)"
  show thesis
  proof (cases "lease_active ?att")
    case False
    with assms r have "res = RV_AlreadySatisfied ''no_active_lease''" "d' = d"
      by (simp_all add: revoke_lease_tx_def fetch_exec fetch_attempt Let_def)
    then show thesis by (rule that(1))
  next
    case True
    then obtain x where x: "?att = Some x" using lease_active_Some by blast
    note eq = assms [unfolded revoke_lease_tx_def Let_def fetch_exec r ok_or_simps rbind_simps fetch_attempt x option.case]
    have act: "lease_active (Some x)" using True x by simp
    from eq act show thesis
      by (auto simp: rbind_Inr_iff split: if_splits intro: that(1) that(2) [OF r x act])
  qed
qed

lemma revoke_attempt_at_le:
  "(if at_lease_epoch y = e then revoke_attempt y else Inr y) = Inr y' \<Longrightarrow> attempt_le y y' \<and> attempt_key y' = attempt_key y"
  using operator_attempt_le(2) [of y y'] by (auto split: if_splits)

lemma revoke_lease_tx_evolves:
  assumes "revoke_lease_tx E a part uid d = Inr (res, d')"
  shows "db_evolves d d'"
  using assms
proof (cases rule: revoke_lease_tx_cases)
  case (2 r x d1 d2)
  have "db_evolves d d1"
    by (rule evolves_attempt_step [OF db_evolves_refl 2(4), where P = "\<lambda>_ _. True"])
      (use revoke_attempt_at_le in blast)
  then have "db_evolves d d2" by (rule evolves_exec_step [OF _ 2(5) operator_exec_le(2)])
  then show ?thesis unfolding 2(7) by (rule evolves_then(3))
qed simp

lemma change_priority_tx_cases:
  assumes "change_priority_tx E a part uid d = Inr (res, d')"
  obtains r d1 where "exec_at d part uid = Some r" "open_for_claims r"
    "try_update_exec part uid (set_priority (clamp_priority (cp_new_priority a)) (cp_now a)) d = Inr d1"
    "res = CP_Changed (cp_execution_id a)"
    "d' = operator_emit E part uid EVENT_PRIORITY_CHANGED
       (JObj [(''old_priority'', JNum (ec_priority r)),
              (''new_priority'', JNum (clamp_priority (cp_new_priority a)))]) (cp_now a) d1"
  using assms by (auto simp: change_priority_tx_def rbind_Inr_iff fetch_exec Let_def split: if_splits)

lemma change_priority_tx_evolves:
  assumes "change_priority_tx E a part uid d = Inr (res, d')"
  shows "db_evolves d d'"
  using assms
proof (cases rule: change_priority_tx_cases)
  case (1 r d1)
  have "db_evolves d d1" by (rule evolves_exec_step [OF db_evolves_refl 1(3) operator_exec_le(3)])
  then show ?thesis unfolding 1(5) using operator_emit_evolves db_evolves_trans by blast
qed

lemma reset_groups_evolves: "db_evolves d (snd (reset_groups part uid d))"
  unfolding reset_groups_def Let_def snd_conv
  by (rule evolves_group_rows) (simp add: map_key_update [of edge_group_key] edge_group_key_def)

lemma reset_groups_tables:
  "t_exec (snd (reset_groups part uid d)) = t_exec d" "t_attempt (snd (reset_groups part uid d)) = t_attempt d"
  by (simp_all add: reset_groups_def Let_def)

lemma replay_tx_cases:
  assumes "replay_tx E a part uid d = Inr (res, d')"
  obtains r skipped d1 d2 d3 where "exec_at d part uid = Some r" "ec_lifecycle_phase r = ''terminal''"
    "skipped \<longleftrightarrow> Option.bind (attempt_at d part uid (ec_attempt_index r)) at_outcome = Some ''skipped'' \<and> ec_flow_id r \<noteq> None"
    "d1 = (if skipped then snd (reset_groups part uid d) else d)"
    "try_update_exec part uid (replay_exec E skipped (rp_now a)) d1 = Inr d2"
    "(if attempt_at d part uid (ec_attempt_index r) \<noteq> None
      then try_update_attempt part uid (ec_attempt_index r) replay_attempt d2 else Inr d2) = Inr d3"
    "res = RP_Replayed (if skipped then PS_WaitingChildren else PS_Waiting)"
    "\<exists>details. d' = operator_emit E part uid EVENT_REPLAYED details (rp_now a) d3"
proof -
  obtain r where r: "exec_at d part uid = Some r" "ec_lifecycle_phase r = ''terminal''"
    using assms by (auto simp: replay_tx_def rbind_Inr_iff fetch_exec split: if_splits)
  define skipped where "skipped \<longleftrightarrow>
    Option.bind (attempt_at d part uid (ec_attempt_index r)) at_outcome = Some ''skipped'' \<and> ec_flow_id r \<noteq> None"
  note eq = assms [unfolded replay_tx_def fetch_exec r(1) ok_or_simps rbind_simps fetch_attempt Let_def,
      folded skipped_def]
  show thesis
  proof (cases skipped)
    case True
    obtain n d1 where g: "reset_groups part uid d = (n, d1)" by force
    with eq r(2) True show thesis
      by (auto simp: rbind_Inr_iff intro!: that [OF r skipped_def, of d1])
  next
    case False
    with eq r(2) show thesis by (auto simp: rbind_Inr_iff intro!: that [OF r skipped_def, of d])
  qed
qed

lemma replay_tx_evolves:
  assumes "replay_tx E a part uid d = Inr (res, d')"
  shows "db_evolves d d'"
  using assms
proof (cases rule: replay_tx_cases)
  case (1 r skipped d1 d2 d3)
  have "db_evolves d d1" using 1(4) reset_groups_evolves by simp
  then have d2: "db_evolves d d2" by (rule evolves_exec_step [OF _ 1(5) operator_exec_le(4)])
  have "db_evolves d d3"
  proof (cases "attempt_at d part uid (ec_attempt_index r) = None")
    case False
    with 1(6) have "try_update_attempt part uid (ec_attempt_index r) replay_attempt d2 = Inr d3" by simp
    with d2 show ?thesis by (rule evolves_attempt_step [OF _ _ operator_attempt_le(3)])
  qed (use 1(6) d2 in simp)
  then show ?thesis using 1(8) operator_emit_evolves db_evolves_trans by blast
qed

lemma header_rows:
  "exec_le r (header_member a r)" "exec_key (header_member a r) = exec_key r"
  "flow_le f (header_flow a f)" "flow_key (header_flow a f) = flow_key f"
  by (simp_all add: header_member_def exec_le_def exec_typed_def exec_key_def header_flow_def flow_le_def flow_key_def)

lemma fold_insert_distinct:
  "distinct (map key t) \<Longrightarrow> distinct (map key (fold (\<lambda>i. sql_insert_or_nothing key (f i)) is t))"
  by (induction "is" arbitrary: t) (simp_all add: insert_or_nothing_distinct)

lemma open_backlog_evolves: "db_evolves d (open_backlog a part d)"
proof -
  let ?d1 = "d\<lparr>t_flow := sql_update (flow_is part (fa_flow_id a)) (header_flow a) (t_flow d)\<rparr>"
  have "db_evolves d ?d1"
    by (intro evolves_flow_rows rows_le_update) (auto simp: header_rows map_key_update)
  moreover have "db_evolves ?d1 (open_backlog a part d)"
    by (simp add: open_backlog_def db_evolves_def db_wf_def db_typed_def rows_le_refl insert_or_nothing_distinct)
  ultimately show ?thesis by (rule db_evolves_trans)
qed

lemma record_members_evolves: "db_evolves d (record_members part flow ids d)"
  by (simp add: record_members_def db_evolves_def db_wf_def db_typed_def rows_le_refl fold_insert_distinct)

lemma header_cancel_evolves: "db_evolves d (cancel_members a part uuids d)"
  unfolding cancel_members_def
  by (intro evolves_exec_rows map_key_update rows_le_update all_sql_update)
    (use header_rows in \<open>auto simp: exec_le_def\<close>)

lemma fresh_cancel_evolves: "db_evolves d (snd (fresh_cancel E a part d))"
  by (auto simp: fresh_cancel_def Let_def intro!: db_evolves_trans [OF _ operator_emit_evolves]
      db_evolves_trans [OF _ header_cancel_evolves] db_evolves_trans [OF _ record_members_evolves]
      open_backlog_evolves)

lemma header_tx_evolves: "header_tx E a part d = Inr (h, d') \<Longrightarrow> db_evolves d d'"
  using fresh_cancel_evolves [of d E a part]
  by (auto simp: header_tx_def Let_def rbind_Inr_iff split: if_splits prod.splits)

lemma distinct_delete: "distinct (map key t) \<Longrightarrow> distinct (map key (sql_delete P t))"
  by (simp add: sql_delete_def distinct_map_filter)

lemma ack_tx_evolves: "ack_tx part flow eid d = Inr (u, d') \<Longrightarrow> db_evolves d d'"
  by (auto simp: ack_tx_def Let_def db_evolves_def db_wf_def db_typed_def rows_le_refl distinct_delete
      split: if_splits)

end
