(* ===== verification/Suspend_Condition.thy ===== *)
theory Suspend_Condition
  imports Sql_Table
begin

text \<open>
  What a suspension waits for, and the tokens that authenticate the signals that end it: the resume
  conditions of \<open>ff-core/src/contracts/mod.rs\<close> with their validation, the evaluator of
  \<open>ff-backend-postgres/src/suspend.rs\<close>, and the token primitives of \<open>ff-core/src/crypto.rs\<close>.
\<close>

section \<open>Conditions\<close>

datatype signal_matcher = ByName string | Wildcard

datatype count_kind = DistinctWaitpoints | DistinctSignals | DistinctSources

datatype resume_condition =
    Single string signal_matcher
  | OperatorOnly
  | TimeoutOnly
  | Composite composite_body
and composite_body =
    CB_AllOf "resume_condition list"
  | CB_Count u32 count_kind "signal_matcher option" "string list"

definition MAX_COMPOSITE_DEPTH :: nat where "MAX_COMPOSITE_DEPTH = 4"

definition all_of_waitpoints :: "string list \<Rightarrow> resume_condition" where
  "all_of_waitpoints keys = Composite (CB_AllOf (map (\<lambda>k. Single k Wildcard) keys))"

definition path_or_root :: "string \<Rightarrow> string" where
  "path_or_root path = (if path = [] then ''<root>'' else path)"

definition child_path :: "string \<Rightarrow> nat \<Rightarrow> string" where
  "child_path path i =
     (if path = [] then ''members['' @ show_nat i @ '']''
      else path @ ''.members['' @ show_nat i @ '']'')"

text \<open>The error is the text that \<open>CompositeValidationError\<close> carries.\<close>

fun validate_body :: "composite_body \<Rightarrow> nat \<Rightarrow> string \<Rightarrow> string + unit"
  and validate_members :: "resume_condition list \<Rightarrow> nat \<Rightarrow> nat \<Rightarrow> string \<Rightarrow> string + unit" where
  "validate_body (CB_AllOf members) depth path =
     (if depth > MAX_COMPOSITE_DEPTH
      then Inl (''depth '' @ show_nat depth @ '' exceeds cap '' @ show_nat MAX_COMPOSITE_DEPTH @
        '' at path '' @ path_or_root path)
      else if members = [] then Inl (''allof_empty_members at path '' @ path_or_root path)
      else validate_members members 0 depth path)"
| "validate_body (CB_Count n kind matcher waitpoints) depth path =
     (if depth > MAX_COMPOSITE_DEPTH
      then Inl (''depth '' @ show_nat depth @ '' exceeds cap '' @ show_nat MAX_COMPOSITE_DEPTH @
        '' at path '' @ path_or_root path)
      else if n = 0 then Inl (''count_n_zero at path '' @ path_or_root path)
      else if waitpoints = [] then Inl (''count_waitpoints_empty at path '' @ path_or_root path)
      else if kind = DistinctWaitpoints \<and> unat n > length waitpoints
      then Inl (''count_exceeds_waitpoint_set: n='' @ show_nat (unat n) @ '' > waitpoints.len()='' @
        show_nat (length waitpoints) @ '' at path '' @ path_or_root path)
      else Inr ())"
| "validate_members [] i depth path = Inr ()"
| "validate_members (m # ms) i depth path =
     rbind (case m of Composite inner \<Rightarrow> validate_body inner (depth + 1) (child_path path i) | _ \<Rightarrow> Inr ())
       (\<lambda>_. validate_members ms (Suc i) depth path)"

definition validate_composite :: "resume_condition \<Rightarrow> string + unit" where
  "validate_composite c = (case c of Composite body \<Rightarrow> validate_body body 1 [] | _ \<Rightarrow> Inr ())"

text \<open>The closure \<open>push\<close> of the walks over a condition: keep the first occurrence.\<close>

definition push_key :: "string \<Rightarrow> string list \<Rightarrow> string list" where
  "push_key k out = (if k \<in> set out then out else out @ [k])"

fun walk_keys :: "resume_condition \<Rightarrow> string list \<Rightarrow> string list"
  and walk_body_keys :: "composite_body \<Rightarrow> string list \<Rightarrow> string list" where
  "walk_keys (Single k matcher) out = push_key k out"
| "walk_keys (Composite body) out = walk_body_keys body out"
| "walk_keys OperatorOnly out = out"
| "walk_keys TimeoutOnly out = out"
| "walk_body_keys (CB_AllOf members) out = fold walk_keys members out"
| "walk_body_keys (CB_Count n kind matcher waitpoints) out = fold push_key waitpoints out"

definition referenced_waitpoint_keys :: "resume_condition \<Rightarrow> string list" where
  "referenced_waitpoint_keys c = walk_keys c []"

definition push_name :: "string \<Rightarrow> string list \<Rightarrow> string list" where
  "push_name name out = (if name \<noteq> [] \<and> name \<notin> set out then out @ [name] else out)"

fun push_matcher :: "signal_matcher option \<Rightarrow> string list \<Rightarrow> string list" where
  "push_matcher (Some (ByName name)) out = push_name name out"
| "push_matcher _ out = out"

fun walk_names :: "string \<Rightarrow> resume_condition \<Rightarrow> string list \<Rightarrow> string list"
  and walk_body_names :: "string \<Rightarrow> composite_body \<Rightarrow> string list \<Rightarrow> string list" where
  "walk_names target (Single k matcher) out = (if k = target then push_matcher (Some matcher) out else out)"
| "walk_names target OperatorOnly out = push_name ''__operator_only__'' out"
| "walk_names target TimeoutOnly out = push_name ''__timeout_only__'' out"
| "walk_names target (Composite body) out = walk_body_names target body out"
| "walk_body_names target (CB_AllOf members) out = fold (walk_names target) members out"
| "walk_body_names target (CB_Count n kind matcher waitpoints) out =
     (if target \<in> set waitpoints then push_matcher matcher out else out)"

definition derive_required_signal_names :: "resume_condition \<Rightarrow> string \<Rightarrow> string list" where
  "derive_required_signal_names c wp_key = walk_names wp_key c []"

section \<open>Signals and the evaluator\<close>

record resume_signal =
  rs_signal_id :: uuid
  rs_signal_name :: string
  rs_signal_category :: string
  rs_source_type :: string
  rs_source_identity :: string
  rs_correlation_id :: string
  rs_accepted_at :: int
  rs_payload :: "u8 list option"

text \<open>The signals delivered to each waitpoint key.\<close>

type_synonym signals_by_waitpoint = "string \<Rightarrow> resume_signal list option"

fun matcher_matches :: "signal_matcher \<Rightarrow> resume_signal \<Rightarrow> bool" where
  "matcher_matches (ByName name) s = (rs_signal_name s = name)"
| "matcher_matches Wildcard s = True"

definition count_candidates ::
  "signal_matcher option \<Rightarrow> string list \<Rightarrow> signals_by_waitpoint \<Rightarrow> (string \<times> resume_signal) list" where
  "count_candidates matcher waitpoints by_wp =
     concat (map (\<lambda>k. case by_wp k of
         None \<Rightarrow> []
       | Some sigs \<Rightarrow>
           map (Pair k) (filter (\<lambda>s. case matcher of Some m \<Rightarrow> matcher_matches m s | None \<Rightarrow> True) sigs))
       waitpoints)"

text \<open>\<open>set.len() as u32\<close>; two signal ids have the same text just when they are equal.\<close>

fun distinct_count :: "count_kind \<Rightarrow> (string \<times> resume_signal) list \<Rightarrow> u32" where
  "distinct_count DistinctWaitpoints cs = of_nat (card (set (map fst cs)))"
| "distinct_count DistinctSignals cs = of_nat (card (set (map (rs_signal_id \<circ> snd) cs)))"
| "distinct_count DistinctSources cs =
     of_nat (card (set (map (\<lambda>(_, s). (rs_source_type s, rs_source_identity s)) cs)))"

fun resume_evaluate :: "resume_condition \<Rightarrow> signals_by_waitpoint \<Rightarrow> bool"
  and evaluate_composite :: "composite_body \<Rightarrow> signals_by_waitpoint \<Rightarrow> bool" where
  "resume_evaluate (Single k matcher) by_wp =
     (case by_wp k of None \<Rightarrow> False | Some sigs \<Rightarrow> list_ex (matcher_matches matcher) sigs)"
| "resume_evaluate OperatorOnly by_wp = False"
| "resume_evaluate TimeoutOnly by_wp = False"
| "resume_evaluate (Composite body) by_wp = evaluate_composite body by_wp"
| "evaluate_composite (CB_AllOf members) by_wp =
     (members \<noteq> [] \<and> list_all (\<lambda>m. resume_evaluate m by_wp) members)"
| "evaluate_composite (CB_Count n kind matcher waitpoints) by_wp =
     (n \<le> distinct_count kind (count_candidates matcher waitpoints by_wp))"

section \<open>Tokens\<close>

text \<open>
  The crates the code calls: HMAC-SHA256 of a key and a message, hexadecimal text, and the
  serialisation that serde derives for a condition.
\<close>

record susp_lib =
  sl_hmac :: "u8 list \<Rightarrow> u8 list \<Rightarrow> u8 list"
  sl_hex_encode :: "u8 list \<Rightarrow> string"
  sl_hex_decode :: "string \<Rightarrow> u8 list option"
  sl_hex_error_text :: "string \<Rightarrow> string"
  sl_cond_to_json :: "resume_condition \<Rightarrow> json"
  sl_cond_from_json :: "json \<Rightarrow> string + resume_condition"

text \<open>Their documented round trips.\<close>

definition susp_lib_ok :: "susp_lib \<Rightarrow> bool" where
  "susp_lib_ok L \<longleftrightarrow>
     (\<forall>b. sl_hex_decode L (sl_hex_encode L b) = Some b) \<and>
     (\<forall>c. sl_cond_from_json L (sl_cond_to_json L c) = Inr c)"

definition hmac_sign :: "susp_lib \<Rightarrow> u8 list \<Rightarrow> string \<Rightarrow> u8 list \<Rightarrow> string" where
  "hmac_sign L secret kid message =
     kid @ '':'' @ sl_hex_encode L (sl_hmac L secret (as_bytes kid @ as_bytes '':'' @ message))"

datatype hmac_verify_error = HV_Malformed | HV_WrongKid string string | HV_SignatureMismatch

fun hmac_verify_error_text :: "hmac_verify_error \<Rightarrow> string" where
  "hmac_verify_error_text HV_Malformed = ''token malformed; expected kid:hex shape''"
| "hmac_verify_error_text (HV_WrongKid expected actual) =
     ''token kid mismatch; expected '' @ expected @ '', got '' @ actual"
| "hmac_verify_error_text HV_SignatureMismatch = ''HMAC signature mismatch''"

definition hmac_verify ::
  "susp_lib \<Rightarrow> u8 list \<Rightarrow> string \<Rightarrow> u8 list \<Rightarrow> string \<Rightarrow> hmac_verify_error + unit" where
  "hmac_verify L secret kid message token =
     rbind (ok_or (split_once CHR '':'' token) HV_Malformed) (\<lambda>(tok_kid, tok_hex).
     if tok_kid \<noteq> kid then Inl (HV_WrongKid kid tok_kid)
     else rbind (ok_or (sl_hex_decode L tok_hex) HV_Malformed) (\<lambda>expected.
       if sl_hmac L secret (as_bytes kid @ as_bytes '':'' @ message) = expected then Inr ()
       else Inl HV_SignatureMismatch))"

text \<open>The key id and the first sixteen hexadecimal digits of a stored token.\<close>

definition parse_waitpoint_token_kid_fp :: "string \<Rightarrow> string \<times> string" where
  "parse_waitpoint_token_kid_fp raw =
     (case split_once CHR '':'' raw of
        Some (kid, hex) \<Rightarrow>
          if kid \<noteq> [] \<and> hex \<noteq> [] then (kid, take (min (length hex) 16) hex) else ([], [])
      | None \<Rightarrow> ([], []))"

end
