(* ===== verification/Pg_Suspend.thy ===== *)
theory Pg_Suspend
  imports Pg_Operator Suspend_Condition "HOL-Library.Char_ord" "HOL-Library.List_Lexorder"
begin

text \<open>
  Suspensions in the Postgres backend: suspending an execution on waitpoints, delivering signals to
  them, claiming the resumed execution, and reading what was delivered
  (\<open>ff-backend-postgres/src/suspend_ops.rs\<close>); the keys that sign the tokens (\<open>signal.rs\<close>) and the
  signal outbox (\<open>signal_event.rs\<close>); the two reconcilers that end a suspension or a waitpoint at
  its deadline (\<open>reconcilers/suspension_timeout.rs\<close>, \<open>reconcilers/pending_wp_expiry.rs\<close>); and the
  operator's resume (\<open>typed_ops.rs\<close>).
\<close>

section \<open>Helpers\<close>

definition suspend_decode_handle :: "ext_lib \<Rightarrow> handle \<Rightarrow> pg_error + handle_payload" where
  "suspend_decode_handle X h =
     (if h_backend h \<noteq> BT_Postgres
      then Inl (Validation VK_HandleFromOtherBackend (''expected Postgres, got '' @ backend_tag_debug (h_backend h)))
      else rbind (map_err decode_error_to_engine (decode X (h_opaque h))) (\<lambda>decoded.
        if dh_tag decoded \<noteq> BT_Postgres
        then Inl (Validation VK_HandleFromOtherBackend (''embedded tag '' @ backend_tag_debug (dh_tag decoded)))
        else Inr (dh_payload decoded)))"

text \<open>Ids are UUIDs; the code prints them and parses the text again.\<close>

definition wp_uuid :: "ext_lib \<Rightarrow> uuid \<Rightarrow> pg_error + uuid" where
  "wp_uuid X w =
     ok_or (uuid_parse_str X (uuid_to_string X w))
       (Validation VK_InvalidInput (''waitpoint_id not a UUID: '' @ uuid_error_text X (uuid_to_string X w)))"

definition susp_uuid :: "ext_lib \<Rightarrow> uuid \<Rightarrow> pg_error + uuid" where
  "susp_uuid X w =
     ok_or (uuid_parse_str X (uuid_to_string X w))
       (Validation VK_InvalidInput (''suspension_id not a UUID: '' @ uuid_error_text X (uuid_to_string X w)))"

definition waitpoint_is :: "int \<Rightarrow> uuid \<Rightarrow> waitpoint \<Rightarrow> bool" where
  "waitpoint_is part w r \<longleftrightarrow> wp_partition_key r = part \<and> wp_waitpoint_id r = w"

definition suspension_is :: "int \<Rightarrow> uuid \<Rightarrow> suspension \<Rightarrow> bool" where
  "suspension_is part uid r \<longleftrightarrow> sc_partition_key r = part \<and> sc_execution_id r = uid"

section \<open>Retrying\<close>

definition SERIALIZABLE_RETRY_BUDGET :: nat where "SERIALIZABLE_RETRY_BUDGET = 3"

definition is_retryable_serialization :: "sqlx_error \<Rightarrow> bool" where
  "is_retryable_serialization err =
     (case err of Sqlx_Database (Some code) _ \<Rightarrow> code \<in> {''40001'', ''40P01''} | _ \<Rightarrow> False)"

text \<open>The text of a driver error, as its \<open>Display\<close> gives it.\<close>

fun sqlx_error_text :: "sqlx_error \<Rightarrow> string" where
  "sqlx_error_text (Sqlx_Database code msg) = ''error returned from database: '' @ msg"
| "sqlx_error_text (Sqlx_Other msg) = msg"

definition contains :: "string \<Rightarrow> string \<Rightarrow> bool" where
  "contains s p \<longleftrightarrow> find_sub p s \<noteq> None"

definition is_retryable_engine :: "pg_error \<Rightarrow> bool" where
  "is_retryable_engine err =
     (case err of
        Transport _ source \<Rightarrow>
          list_ex (contains (sqlx_error_text source))
            [''40001'', ''40P01'', ''serialization_failure'', ''deadlock_detected'']
      | Contention CK_LeaseConflict \<Rightarrow> True
      | _ \<Rightarrow> False)"

text \<open>
  Where a transaction that is not applied failed: starting it, in one of its statements, or at its
  commit. The loop treats the three differently. \<open>env\<close> and \<open>site\<close> describe each round; a body that
  panics ends the whole call and its transaction is rolled back.
\<close>

datatype fail_site = At_begin | In_body | At_commit

fun site_retryable :: "fail_site \<Rightarrow> sqlx_error \<Rightarrow> bool" where
  "site_retryable At_begin e = False"
| "site_retryable In_body e = is_retryable_engine (map_sqlx_error e)"
| "site_retryable At_commit e = is_retryable_serialization e"

fun serializable_loop ::
  "(nat \<Rightarrow> pg_env) \<Rightarrow> (nat \<Rightarrow> fail_site) \<Rightarrow> (pg_env \<Rightarrow> db \<Rightarrow> panic + (pg_error + ('a \<times> db))) \<Rightarrow> nat \<Rightarrow> db \<Rightarrow>
   panic + ((pg_error + 'a) \<times> db)" where
  "serializable_loop env site op 0 d = Inr (Inl (Contention CK_RetryExhausted), d)"
| "serializable_loop env site op (Suc left) d =
     (let i = SERIALIZABLE_RETRY_BUDGET - Suc left; E = env i in
      case pe_fault E of
        Fails_before e \<Rightarrow>
          if site_retryable (site i) e then serializable_loop env site op left d
          else Inr (Inl (map_sqlx_error e), d)
      | _ \<Rightarrow>
          rbind (op E d) (\<lambda>res.
          case res of
            Inl err \<Rightarrow>
              if is_retryable_engine err then serializable_loop env site op left d else Inr (Inl err, d)
          | Inr (v, d') \<Rightarrow>
              (case pe_fault E of
                 Commit_ack_lost e \<Rightarrow>
                   if is_retryable_serialization e then serializable_loop env site op left d'
                   else Inr (Inl (map_sqlx_error e), d')
               | _ \<Rightarrow> Inr (Inr v, d'))))"

definition run_serializable ::
  "(nat \<Rightarrow> pg_env) \<Rightarrow> (nat \<Rightarrow> fail_site) \<Rightarrow> (pg_env \<Rightarrow> db \<Rightarrow> panic + (pg_error + ('a \<times> db))) \<Rightarrow> db \<Rightarrow>
   panic + ((pg_error + 'a) \<times> db)" where
  "run_serializable env site op d = serializable_loop env site op SERIALIZABLE_RETRY_BUDGET d"

section \<open>Keys\<close>

definition current_active_kid :: "db \<Rightarrow> (string \<times> u8 list) option" where
  "current_active_kid d =
     map_option (\<lambda>r. (hk_kid r, hk_secret r)) (sql_first_by (\<lambda>r. - hk_rotated_at_ms r) hk_active (t_hmac d))"

definition fetch_kid :: "string \<Rightarrow> db \<Rightarrow> u8 list option" where
  "fetch_kid kid d = map_option hk_secret (sql_fetch (\<lambda>r. hk_kid r = kid) (t_hmac d))"

datatype rotate_outcome = RO_Noop string | RO_Rotated "string option" string

definition install_key :: "string \<Rightarrow> u8 list \<Rightarrow> int \<Rightarrow> db \<Rightarrow> db" where
  "install_key kid secret now d =
     d\<lparr>t_hmac := sql_update hk_active (\<lambda>r. r\<lparr>hk_active := False\<rparr>) (t_hmac d) @
         [\<lparr>hk_kid = kid, hk_secret = secret, hk_rotated_at_ms = now, hk_active = True\<rparr>]\<rparr>"

definition rotate_tx :: "string \<Rightarrow> u8 list \<Rightarrow> int \<Rightarrow> db \<Rightarrow> pg_error + (rotate_outcome \<times> db)" where
  "rotate_tx kid secret now d =
     (case fetch_kid kid d of
        Some prior \<Rightarrow>
          if prior = secret then Inr (RO_Noop kid, d)
          else Inl (Conflict (XK_RotationConflict (''kid '' @ kid @ '' already installed with a different secret'')))
      | None \<Rightarrow> Inr (RO_Rotated (map_option fst (current_active_kid d)) kid, install_key kid secret now d))"

text \<open>The one entry of the result carries the outcome, an error included.\<close>

definition rotate_waitpoint_hmac_secret_all_impl ::
  "susp_lib \<Rightarrow> pg_env \<Rightarrow> string \<Rightarrow> string \<Rightarrow> int \<Rightarrow> db \<Rightarrow> (pg_error + (pg_error + rotate_outcome) list) \<times> db" where
  "rotate_waitpoint_hmac_secret_all_impl L E kid secret_hex now d =
     (case sl_hex_decode L secret_hex of
        None \<Rightarrow> (Inl (Validation VK_InvalidInput ''new_secret_hex is not valid hex''), d)
      | Some secret \<Rightarrow>
          (case run_tx (pe_fault E) (rotate_tx kid secret now) d of (res, d') \<Rightarrow> (Inr [res], d')))"

datatype seed_outcome = Seeded string | AlreadySeeded string bool

definition seed_tx ::
  "(string \<Rightarrow> string) \<Rightarrow> string \<Rightarrow> u8 list \<Rightarrow> int \<Rightarrow> db \<Rightarrow> pg_error + (seed_outcome \<times> db)" where
  "seed_tx debug kid secret now d =
     (case fetch_kid kid d of
        Some prior \<Rightarrow> Inr (AlreadySeeded kid (prior = secret), d)
      | None \<Rightarrow>
          (case current_active_kid d of
             Some (active_kid, _) \<Rightarrow> Inl (Validation VK_InvalidInput
               (''seed_waitpoint_hmac_secret: a different kid '' @ debug active_kid @
                '' is already active; use rotate_waitpoint_hmac_secret_all to change kid''))
           | None \<Rightarrow> Inr (Seeded kid, d\<lparr>t_hmac := t_hmac d @
               [\<lparr>hk_kid = kid, hk_secret = secret, hk_rotated_at_ms = now, hk_active = True\<rparr>]\<rparr>)))"

definition is_ascii_hexdigit :: "char \<Rightarrow> bool" where
  "is_ascii_hexdigit c \<longleftrightarrow> of_char c \<in> {48 .. (57::nat)} \<union> {65 .. 70} \<union> {97 .. 102}"

definition seed_waitpoint_hmac_secret_impl ::
  "(string \<Rightarrow> string) \<Rightarrow> susp_lib \<Rightarrow> pg_env \<Rightarrow> string \<Rightarrow> string \<Rightarrow> int \<Rightarrow> db \<Rightarrow> (pg_error + seed_outcome) \<times> db" where
  "seed_waitpoint_hmac_secret_impl debug L E kid secret_hex now d =
     (if length secret_hex \<noteq> 64 \<or> \<not> list_all is_ascii_hexdigit secret_hex
      then (Inl (Validation VK_InvalidInput ''secret_hex must be 64 hex characters (256-bit secret)''), d)
      else if kid = [] then (Inl (Validation VK_InvalidInput ''kid must be non-empty''), d)
      else case sl_hex_decode L secret_hex of
        None \<Rightarrow> (Inl (Validation VK_InvalidInput ''secret_hex is not valid hex''), d)
      | Some secret \<Rightarrow> run_tx (pe_fault E) (seed_tx debug kid secret now) d)"

section \<open>Outcomes of a suspension\<close>

text \<open>A waitpoint of a suspension: its id, its key and its token.\<close>

record bound_waitpoint =
  bw_waitpoint_id :: uuid
  bw_waitpoint_key :: string
  bw_waitpoint_token :: string

record suspend_details =
  sud_suspension_id :: uuid
  sud_primary :: bound_waitpoint
  sud_additional :: "bound_waitpoint list"

datatype suspend_outcome = SO_Suspended suspend_details handle | SO_AlreadySatisfied suspend_details

fun suspend_outcome_details :: "suspend_outcome \<Rightarrow> suspend_details" where
  "suspend_outcome_details (SO_Suspended det h) = det"
| "suspend_outcome_details (SO_AlreadySatisfied det) = det"

definition bound_fields :: "ext_lib \<Rightarrow> bound_waitpoint \<Rightarrow> (string \<times> json) list" where
  "bound_fields X b =
     [(''waitpoint_id'', JStr (uuid_to_string X (bw_waitpoint_id b))),
      (''waitpoint_key'', JStr (bw_waitpoint_key b)), (''token'', JStr (bw_waitpoint_token b))]"

definition outcome_to_dedup_json :: "susp_lib \<Rightarrow> ext_lib \<Rightarrow> suspend_outcome \<Rightarrow> json" where
  "outcome_to_dedup_json L X outcome =
     (let det = suspend_outcome_details outcome;
          (variant, opaque) = (case outcome of
             SO_Suspended _ h \<Rightarrow> (''Suspended'', JStr (sl_hex_encode L (h_opaque h)))
           | SO_AlreadySatisfied _ \<Rightarrow> (''AlreadySatisfied'', JNull))
      in JObj [(''variant'', JStr variant),
           (''details'', JObj ((''suspension_id'', JStr (uuid_to_string X (sud_suspension_id det))) #
              bound_fields X (sud_primary det) @
              [(''extras'', JArr (map (\<lambda>b. JObj (bound_fields X b)) (sud_additional det)))])),
           (''handle_opaque_hex'', opaque)])"

text \<open>Indexing a JSON value: a missing field is null. \<open>text_at\<close> is \<open>.as_str().unwrap_or("")\<close>.\<close>

definition json_index :: "json \<Rightarrow> string \<Rightarrow> json" where
  "json_index v k = (case json_get k v of Some j \<Rightarrow> j | None \<Rightarrow> JNull)"

definition text_at :: "json \<Rightarrow> string \<Rightarrow> string" where
  "text_at v k = (case json_as_str (json_index v k) of Some s \<Rightarrow> s | None \<Rightarrow> [])"

definition parse_id :: "ext_lib \<Rightarrow> string \<Rightarrow> string \<Rightarrow> pg_error + uuid" where
  "parse_id X what s =
     ok_or (uuid_parse_str X s) (Validation VK_Corruption (what @ '': '' @ uuid_error_text X s))"

fun extras_from_json :: "ext_lib \<Rightarrow> json list \<Rightarrow> pg_error + bound_waitpoint list" where
  "extras_from_json X [] = Inr []"
| "extras_from_json X (e # es) =
     rbind (parse_id X ''dedup extra wp_id'' (text_at e ''waitpoint_id'')) (\<lambda>wid.
     rbind (extras_from_json X es) (\<lambda>rest.
     Inr (\<lparr>bw_waitpoint_id = wid, bw_waitpoint_key = text_at e ''waitpoint_key'',
           bw_waitpoint_token = text_at e ''token''\<rparr> # rest)))"

definition outcome_from_dedup_json :: "susp_lib \<Rightarrow> ext_lib \<Rightarrow> json \<Rightarrow> pg_error + suspend_outcome" where
  "outcome_from_dedup_json L X v =
     (let det = json_index v ''details'' in
      rbind (parse_id X ''dedup suspension_id'' (text_at det ''suspension_id'')) (\<lambda>sid.
      rbind (parse_id X ''dedup waitpoint_id'' (text_at det ''waitpoint_id'')) (\<lambda>wid.
      rbind (case json_index det ''extras'' of JArr es \<Rightarrow> extras_from_json X es | _ \<Rightarrow> Inr []) (\<lambda>extras.
      let details = \<lparr>sud_suspension_id = sid,
            sud_primary = \<lparr>bw_waitpoint_id = wid, bw_waitpoint_key = text_at det ''waitpoint_key'',
              bw_waitpoint_token = text_at det ''token''\<rparr>,
            sud_additional = extras\<rparr>
      in if json_as_str (json_index v ''variant'') = Some ''AlreadySatisfied''
         then Inr (SO_AlreadySatisfied details)
         else
           let hex = text_at v ''handle_opaque_hex'' in
           rbind (ok_or (sl_hex_decode L hex)
               (Validation VK_Corruption (''dedup handle hex: '' @ sl_hex_error_text L hex))) (\<lambda>bytes.
           Inr (SO_Suspended details \<lparr>h_backend = BT_Postgres, h_kind = HK_Suspended, h_opaque = bytes\<rparr>))))))"

section \<open>Suspending\<close>

datatype waitpoint_binding = Fresh uuid string | UsePending uuid

datatype timeout_behavior = TB_Fail | TB_Cancel | TB_Expire | TB_AutoResumeWithTimeoutSignal | TB_Escalate

fun timeout_behavior_str :: "timeout_behavior \<Rightarrow> string" where
  "timeout_behavior_str TB_Fail = ''fail''"
| "timeout_behavior_str TB_Cancel = ''cancel''"
| "timeout_behavior_str TB_Expire = ''expire''"
| "timeout_behavior_str TB_AutoResumeWithTimeoutSignal = ''auto_resume_with_timeout_signal''"
| "timeout_behavior_str TB_Escalate = ''escalate''"

datatype suspension_reason =
    WaitingForSignal | WaitingForApproval | WaitingForCallback | WaitingForToolResult
  | WaitingForOperatorReview | PausedByPolicy | PausedByBudget | StepBoundary | ManualPause

fun suspension_reason_str :: "suspension_reason \<Rightarrow> string" where
  "suspension_reason_str WaitingForSignal = ''waiting_for_signal''"
| "suspension_reason_str WaitingForApproval = ''waiting_for_approval''"
| "suspension_reason_str WaitingForCallback = ''waiting_for_callback''"
| "suspension_reason_str WaitingForToolResult = ''waiting_for_tool_result''"
| "suspension_reason_str WaitingForOperatorReview = ''waiting_for_operator_review''"
| "suspension_reason_str PausedByPolicy = ''paused_by_policy''"
| "suspension_reason_str PausedByBudget = ''paused_by_budget''"
| "suspension_reason_str StepBoundary = ''step_boundary''"
| "suspension_reason_str ManualPause = ''manual_pause''"

text \<open>The arguments; the resume policy, the requester and the continuation pointer are not used by this backend.\<close>

record suspend_args =
  ssa_suspension_id :: uuid
  ssa_waitpoints :: "waitpoint_binding list"
  ssa_resume_condition :: resume_condition
  ssa_reason_code :: suspension_reason
  ssa_timeout_at :: "int option"
  ssa_timeout_behavior :: timeout_behavior
  ssa_now :: int
  ssa_idempotency_key :: "string option"

definition token_message :: "ext_lib \<Rightarrow> execution_id \<Rightarrow> uuid \<Rightarrow> u8 list" where
  "token_message X eid w = as_bytes (eid @ '':'' @ uuid_to_string X w)"

definition binding_target ::
  "ext_lib \<Rightarrow> int \<Rightarrow> waitpoint_binding \<Rightarrow> db \<Rightarrow> pg_error + (uuid \<times> string)" where
  "binding_target X part b d =
     (case b of
        Fresh w key \<Rightarrow> Inr (w, key)
      | UsePending w \<Rightarrow>
          rbind (wp_uuid X w) (\<lambda>u.
          Inr (w, case sql_fetch (waitpoint_is part u) (t_waitpoint d) of
                    Some r \<Rightarrow> wp_waitpoint_key r | None \<Rightarrow> [])))"

definition active_waitpoint ::
  "int \<Rightarrow> uuid \<Rightarrow> suspend_args \<Rightarrow> uuid \<Rightarrow> string \<Rightarrow> string \<Rightarrow> string \<Rightarrow> waitpoint" where
  "active_waitpoint part uid a w key kid token =
     \<lparr>wp_partition_key = part, wp_waitpoint_id = w, wp_execution_id = uid, wp_token_kid = kid,
      wp_token = token, wp_created_at_ms = ssa_now a, wp_expires_at_ms = ssa_timeout_at a,
      wp_waitpoint_key = key, wp_state = ''active'',
      wp_required_signal_names = derive_required_signal_names (ssa_resume_condition a) key,
      wp_activated_at_ms = Some (ssa_now a)\<rparr>"

text \<open>The \<open>DO UPDATE\<close> leaves the execution, the creation and the expiry of the row alone.\<close>

definition activate_waitpoint :: "waitpoint \<Rightarrow> waitpoint \<Rightarrow> waitpoint" where
  "activate_waitpoint new r =
     r\<lparr>wp_token_kid := wp_token_kid new, wp_token := wp_token new,
       wp_waitpoint_key := wp_waitpoint_key new, wp_state := wp_state new,
       wp_required_signal_names := wp_required_signal_names new,
       wp_activated_at_ms := wp_activated_at_ms new\<rparr>"

definition bind_waitpoint ::
  "susp_lib \<Rightarrow> ext_lib \<Rightarrow> execution_id \<Rightarrow> int \<Rightarrow> uuid \<Rightarrow> suspend_args \<Rightarrow> string \<Rightarrow> u8 list \<Rightarrow>
   waitpoint_binding \<Rightarrow> db \<Rightarrow> pg_error + (bound_waitpoint \<times> db)" where
  "bind_waitpoint L X eid part uid a kid secret b d =
     rbind (binding_target X part b d) (\<lambda>(w, key).
     let token = hmac_sign L secret kid (token_message X eid w) in
     rbind (wp_uuid X w) (\<lambda>u.
     let new = active_waitpoint part uid a u key kid token in
     rbind (map_err map_sqlx_error (sql_upsert waitpoint_id_key new (\<lambda>r. Inr (activate_waitpoint new r))
         (t_waitpoint d))) (\<lambda>t.
     Inr (\<lparr>bw_waitpoint_id = w, bw_waitpoint_key = key, bw_waitpoint_token = token\<rparr>, d\<lparr>t_waitpoint := t\<rparr>))))"

fun bind_waitpoints ::
  "susp_lib \<Rightarrow> ext_lib \<Rightarrow> execution_id \<Rightarrow> int \<Rightarrow> uuid \<Rightarrow> suspend_args \<Rightarrow> string \<Rightarrow> u8 list \<Rightarrow>
   waitpoint_binding list \<Rightarrow> db \<Rightarrow> pg_error + (bound_waitpoint list \<times> db)" where
  "bind_waitpoints L X eid part uid a kid secret [] d = Inr ([], d)"
| "bind_waitpoints L X eid part uid a kid secret (b # bs) d =
     rbind (bind_waitpoint L X eid part uid a kid secret b d) (\<lambda>(w, d1).
     rbind (bind_waitpoints L X eid part uid a kid secret bs d1) (\<lambda>(ws, d2).
     Inr (w # ws, d2)))"

definition new_suspension :: "susp_lib \<Rightarrow> int \<Rightarrow> uuid \<Rightarrow> uuid \<Rightarrow> suspend_args \<Rightarrow> suspension" where
  "new_suspension L part uid sid a =
     \<lparr>sc_partition_key = part, sc_execution_id = uid, sc_suspension_id = sid, sc_suspended_at_ms = ssa_now a,
      sc_timeout_at_ms = ssa_timeout_at a, sc_reason_code = Some (suspension_reason_str (ssa_reason_code a)),
      sc_condition = sl_cond_to_json L (ssa_resume_condition a), sc_satisfied_set = JArr [],
      sc_member_map = JObj [], sc_timeout_behavior = Some (timeout_behavior_str (ssa_timeout_behavior a))\<rparr>"

text \<open>Every column but the key is taken from the new row, so the row is replaced.\<close>

definition put_suspension :: "suspension \<Rightarrow> db \<Rightarrow> pg_error + db" where
  "put_suspension new d =
     rbind (map_err map_sqlx_error (sql_upsert suspension_key new (\<lambda>_. Inr new) (t_suspension d)))
       (\<lambda>t. Inr (d\<lparr>t_suspension := t\<rparr>))"

definition suspend_exec :: "exec_core \<Rightarrow> exec_core" where
  "suspend_exec r =
     r\<lparr>ec_lifecycle_phase := ''suspended'', ec_ownership_state := ''released'',
       ec_eligibility_state := ''not_applicable'', ec_public_state := ''suspended'',
       ec_attempt_state := ''attempt_interrupted''\<rparr>"

definition suspend_attempt :: "attempt \<Rightarrow> sqlx_error + attempt" where
  "suspend_attempt r =
     rbind (int8_add (at_lease_epoch r) 1) (\<lambda>epoch.
     Inr (r\<lparr>at_worker_id := None, at_worker_instance_id := None, at_lease_expires_at_ms := None,
            at_lease_epoch := epoch, at_outcome := Some ''attempt_interrupted''\<rparr>))"

text \<open>The statements after the dedup check, up to the lease event.\<close>

definition suspend_steps ::
  "susp_lib \<Rightarrow> pg_env \<Rightarrow> handle_payload \<Rightarrow> int \<Rightarrow> uuid \<Rightarrow> suspend_args \<Rightarrow> db \<Rightarrow>
   pg_error + (bound_waitpoint list \<times> db)" where
  "suspend_steps L E p part uid a d =
     (let X = pe_lib E; idx = i32_of_u32_or_0 (hp_attempt_index p) in
      rbind (ok_or (sql_fetch (attempt_is part uid idx) (t_attempt d)) (NotFound ''attempt'')) (\<lambda>att.
      if u64_of_i64_or 0 (at_lease_epoch att) \<noteq> unat (hp_lease_epoch p)
      then Inl (Contention CK_LeaseConflict)
      else
      rbind (ok_or (current_active_kid d) (Validation VK_InvalidInput
        (''ff_waitpoint_hmac empty '' @ map char_of [226, 128, 148 :: nat] @
         '' rotate a kid before suspend''))) (\<lambda>(kid, secret).
      rbind (bind_waitpoints L X (hp_execution_id p) part uid a kid secret (ssa_waitpoints a) d) (\<lambda>(signed, d1).
      rbind (susp_uuid X (ssa_suspension_id a)) (\<lambda>sid.
      rbind (put_suspension (new_suspension L part uid sid a) d1) (\<lambda>d2.
      rbind (try_update_attempt part uid idx suspend_attempt (update_exec part uid suspend_exec d2)) (\<lambda>d3.
      Inr (signed, emit E part uid None EVENT_REVOKED (ssa_now a) d3))))))))"

definition cache_outcome ::
  "susp_lib \<Rightarrow> ext_lib \<Rightarrow> int \<Rightarrow> suspend_args \<Rightarrow> suspend_outcome \<Rightarrow> db \<Rightarrow> db" where
  "cache_outcome L X part a outcome d =
     (case ssa_idempotency_key a of
        None \<Rightarrow> d
      | Some key \<Rightarrow> d\<lparr>t_suspend_dedup := sql_insert_or_nothing suspend_dedup_key
          \<lparr>sd_partition_key = part, sd_idempotency_key = key,
           sd_outcome_json = outcome_to_dedup_json L X outcome, sd_created_at_ms = ssa_now a\<rparr>
          (t_suspend_dedup d)\<rparr>)"

definition cached_outcome :: "int \<Rightarrow> suspend_args \<Rightarrow> db \<Rightarrow> json option" where
  "cached_outcome part a d =
     Option.bind (ssa_idempotency_key a) (\<lambda>key.
       map_option sd_outcome_json
         (sql_fetch (\<lambda>r. sd_partition_key r = part \<and> sd_idempotency_key r = key) (t_suspend_dedup d)))"

definition suspend_tx ::
  "susp_lib \<Rightarrow> handle_payload \<Rightarrow> int \<Rightarrow> uuid \<Rightarrow> suspend_args \<Rightarrow> pg_env \<Rightarrow> db \<Rightarrow>
   panic + (pg_error + (suspend_outcome \<times> db))" where
  "suspend_tx L p part uid a E d =
     (case cached_outcome part a d of
        Some cached \<Rightarrow> Inr (rbind (outcome_from_dedup_json L (pe_lib E) cached) (\<lambda>o'. Inr (o', d)))
      | None \<Rightarrow>
          (case suspend_steps L E p part uid a d of
             Inl e \<Rightarrow> Inr (Inl e)
           | Inr ([], _) \<Rightarrow> Inl (Panic ''index out of bounds: the len is 0 but the index is 0'')
           | Inr (first # extras, d1) \<Rightarrow>
               let outcome = SO_Suspended
                     \<lparr>sud_suspension_id = ssa_suspension_id a, sud_primary = first, sud_additional = extras\<rparr>
                     \<lparr>h_backend = BT_Postgres, h_kind = HK_Suspended,
                      h_opaque = encode (pe_lib E) BT_Postgres p\<rparr>
               in Inr (Inr (outcome, cache_outcome L (pe_lib E) part a outcome d1))))"

definition suspend_core ::
  "susp_lib \<Rightarrow> (nat \<Rightarrow> pg_env) \<Rightarrow> (nat \<Rightarrow> fail_site) \<Rightarrow> handle_payload \<Rightarrow> suspend_args \<Rightarrow> db \<Rightarrow>
   panic + ((pg_error + suspend_outcome) \<times> db)" where
  "suspend_core L env site p a d =
     (case split_exec_id (pe_lib (env 0)) (hp_execution_id p) of
        Inl e \<Rightarrow> Inr (Inl e, d)
      | Inr (part, uid) \<Rightarrow> run_serializable env site (suspend_tx L p part uid a) d)"

definition suspend_impl ::
  "susp_lib \<Rightarrow> (nat \<Rightarrow> pg_env) \<Rightarrow> (nat \<Rightarrow> fail_site) \<Rightarrow> handle \<Rightarrow> suspend_args \<Rightarrow> db \<Rightarrow>
   panic + ((pg_error + suspend_outcome) \<times> db)" where
  "suspend_impl L env site h a d =
     (case suspend_decode_handle (pe_lib (env 0)) h of
        Inl e \<Rightarrow> Inr (Inl e, d)
      | Inr p \<Rightarrow> suspend_core L env site p a d)"

record lease_fence =
  lf_lease_id :: uuid
  lf_lease_epoch :: u64
  lf_attempt_id :: uuid

text \<open>
  The attempt is looked up before the transaction, in a database \<open>d0\<close> that may be older than the one
  the transaction sees.
\<close>

definition suspend_by_triple_impl ::
  "susp_lib \<Rightarrow> pg_env \<Rightarrow> (nat \<Rightarrow> pg_env) \<Rightarrow> (nat \<Rightarrow> fail_site) \<Rightarrow> execution_id \<Rightarrow> lease_fence \<Rightarrow> suspend_args \<Rightarrow>
   db \<Rightarrow> db \<Rightarrow> panic + ((pg_error + suspend_outcome) \<times> db)" where
  "suspend_by_triple_impl L E env site eid triple a d0 d =
     (case split_exec_id (pe_lib E) eid of
        Inl e \<Rightarrow> Inr (Inl e, d)
      | Inr (part, uid) \<Rightarrow>
          (case pe_read_error E of
             Some e \<Rightarrow> Inr (Inl (map_sqlx_error e), d)
           | None \<Rightarrow>
               (case sql_fetch (exec_is part uid) (t_exec d0) of
                  None \<Rightarrow> Inr (Inl (NotFound ''execution''), d)
                | Some r \<Rightarrow>
                    suspend_core L env site
                      \<lparr>hp_execution_id = eid, hp_attempt_index = of_int (max (ec_attempt_index r) 0),
                       hp_attempt_id = lf_attempt_id triple, hp_lease_id = lf_lease_id triple,
                       hp_lease_epoch = lf_lease_epoch triple, hp_lease_ttl_ms = 0, hp_lane_id = [],
                       hp_worker_instance_id = []\<rparr> a d)))"

section \<open>Creating a waitpoint\<close>

definition millis_saturated :: "nat \<Rightarrow> int" where
  "millis_saturated n = (if int n \<le> i64_max then int n else i64_max)"

definition create_waitpoint_tx ::
  "susp_lib \<Rightarrow> pg_env \<Rightarrow> execution_id \<Rightarrow> int \<Rightarrow> uuid \<Rightarrow> string \<Rightarrow> nat \<Rightarrow> db \<Rightarrow> pg_error + ((uuid \<times> string) \<times> db)" where
  "create_waitpoint_tx L E eid part uid key expires_in d =
     rbind (ok_or (current_active_kid d) (Validation VK_InvalidInput
       (''ff_waitpoint_hmac empty '' @ map char_of [226, 128, 148 :: nat] @
        '' seed a kid before create_waitpoint''))) (\<lambda>(kid, secret).
     let w = pe_fresh E 0 in
     rbind (wp_uuid (pe_lib E) w) (\<lambda>u.
     let token = hmac_sign L secret kid (token_message (pe_lib E) eid w);
         row = \<lparr>wp_partition_key = part, wp_waitpoint_id = u, wp_execution_id = uid, wp_token_kid = kid,
           wp_token = token, wp_created_at_ms = pe_now E,
           wp_expires_at_ms = Some (saturating_add (pe_now E) (millis_saturated expires_in)),
           wp_waitpoint_key = key, wp_state = ''pending'', wp_required_signal_names = [],
           wp_activated_at_ms = None\<rparr>
     in if waitpoint_id_key row \<in> waitpoint_id_key ` set (t_waitpoint d)
        then Inl (map_sqlx_error (Sqlx_Database (Some ''23505'') ''duplicate key value violates unique constraint''))
        else Inr ((w, token), d\<lparr>t_waitpoint := t_waitpoint d @ [row]\<rparr>)))"

definition create_waitpoint_impl ::
  "susp_lib \<Rightarrow> pg_env \<Rightarrow> handle \<Rightarrow> string \<Rightarrow> nat \<Rightarrow> db \<Rightarrow> (pg_error + (uuid \<times> string)) \<times> db" where
  "create_waitpoint_impl L E h key expires_in d =
     (case rbind (suspend_decode_handle (pe_lib E) h) (\<lambda>p.
           rbind (split_exec_id (pe_lib E) (hp_execution_id p)) (\<lambda>t. Inr (p, t))) of
        Inl e \<Rightarrow> (Inl e, d)
      | Inr (p, part, uid) \<Rightarrow>
          run_tx (pe_fault E) (create_waitpoint_tx L E (hp_execution_id p) part uid key expires_in) d)"

section \<open>Delivering a signal\<close>

text \<open>
  The arguments this backend uses. The idempotency key, the dedup window, the limits on the number
  of signals, the resume delay, the target scope and the creation time are not read.
\<close>

record deliver_args =
  dsa_execution_id :: execution_id
  dsa_waitpoint_id :: uuid
  dsa_signal_id :: uuid
  dsa_signal_name :: string
  dsa_signal_category :: string
  dsa_source_type :: string
  dsa_source_identity :: string
  dsa_payload :: "u8 list option"
  dsa_correlation_id :: "string option"
  dsa_waitpoint_token :: string
  dsa_now :: int

datatype deliver_result = DS_Accepted uuid string

definition signal_blob :: "susp_lib \<Rightarrow> ext_lib \<Rightarrow> deliver_args \<Rightarrow> json" where
  "signal_blob L X a =
     JObj [(''signal_id'', JStr (uuid_to_string X (dsa_signal_id a))), (''signal_name'', JStr (dsa_signal_name a)),
       (''signal_category'', JStr (dsa_signal_category a)), (''source_type'', JStr (dsa_source_type a)),
       (''source_identity'', JStr (dsa_source_identity a)),
       (''correlation_id'', JStr (case dsa_correlation_id a of Some c \<Rightarrow> c | None \<Rightarrow> [])),
       (''accepted_at'', JNum (dsa_now a)),
       (''payload_hex'', case dsa_payload a of Some b \<Rightarrow> JStr (sl_hex_encode L b) | None \<Rightarrow> JNull)]"

definition resume_signal_from_json :: "susp_lib \<Rightarrow> ext_lib \<Rightarrow> json \<Rightarrow> resume_signal option" where
  "resume_signal_from_json L X v =
     Option.bind (json_as_str (json_index v ''signal_id'')) (\<lambda>sid.
     Option.bind (uuid_parse_str X sid) (\<lambda>u.
     Option.bind (json_as_str (json_index v ''signal_name'')) (\<lambda>name.
     Some \<lparr>rs_signal_id = u, rs_signal_name = name, rs_signal_category = text_at v ''signal_category'',
       rs_source_type = text_at v ''source_type'', rs_source_identity = text_at v ''source_identity'',
       rs_correlation_id = text_at v ''correlation_id'',
       rs_accepted_at = (case json_as_i64 (json_index v ''accepted_at'') of Some t \<Rightarrow> t | None \<Rightarrow> 0),
       rs_payload = Option.bind (json_as_str (json_index v ''payload_hex'')) (sl_hex_decode L)\<rparr>)))"

text \<open>Replacing the value of a key that is present; and \<open>entry(key).or_insert([])\<close> with a push.\<close>

definition json_put :: "string \<Rightarrow> json \<Rightarrow> (string \<times> json) list \<Rightarrow> (string \<times> json) list" where
  "json_put k v kvs = map (\<lambda>(k', v'). (k', if k' = k then v else v')) kvs"

definition member_push :: "string \<Rightarrow> json \<Rightarrow> json \<Rightarrow> pg_error + (string \<times> json) list" where
  "member_push key blob m =
     (case m of
        JObj kvs \<Rightarrow>
          (case map_of kvs key of
             None \<Rightarrow> Inr (kvs @ [(key, JArr [blob])])
           | Some (JArr xs) \<Rightarrow> Inr (json_put key (JArr (xs @ [blob])) kvs)
           | Some _ \<Rightarrow> Inl (Validation VK_Corruption ''member_map[wp_key] not a JSON array''))
      | _ \<Rightarrow> Inl (Validation VK_Corruption ''member_map not a JSON object''))"

definition member_signals :: "susp_lib \<Rightarrow> ext_lib \<Rightarrow> json \<Rightarrow> resume_signal list" where
  "member_signals L X v =
     (case v of JArr xs \<Rightarrow> List.map_filter (resume_signal_from_json L X) xs | _ \<Rightarrow> [])"

definition signals_of :: "susp_lib \<Rightarrow> ext_lib \<Rightarrow> (string \<times> json) list \<Rightarrow> signals_by_waitpoint" where
  "signals_of L X kvs k = map_option (member_signals L X) (map_of kvs k)"

definition update_suspension :: "int \<Rightarrow> uuid \<Rightarrow> (suspension \<Rightarrow> suspension) \<Rightarrow> db \<Rightarrow> db" where
  "update_suspension part uid f d = d\<lparr>t_suspension := sql_update (suspension_is part uid) f (t_suspension d)\<rparr>"

definition resumable_exec :: "exec_core \<Rightarrow> exec_core" where
  "resumable_exec r =
     r\<lparr>ec_public_state := ''resumable'', ec_lifecycle_phase := ''runnable'', ec_eligibility_state := ''eligible_now''\<rparr>"

definition delete_waitpoints :: "int \<Rightarrow> uuid \<Rightarrow> db \<Rightarrow> db" where
  "delete_waitpoints part uid d =
     d\<lparr>t_waitpoint := sql_delete (\<lambda>r. wp_partition_key r = part \<and> wp_execution_id r = uid) (t_waitpoint d)\<rparr>"

text \<open>The event of a resumption names no flow.\<close>

definition insert_resumable :: "pg_env \<Rightarrow> int \<Rightarrow> uuid \<Rightarrow> int \<Rightarrow> db \<Rightarrow> db" where
  "insert_resumable E part uid now d =
     d\<lparr>t_completion := t_completion d @
         [\<lparr>ce_partition_key = part, ce_event_id = next_completion_id d, ce_execution_id = uid,
           ce_flow_id = None, ce_outcome = ''resumable'', ce_namespace = None, ce_instance_tag = None,
           ce_occurred_at_ms = now, ce_committed_at_ms = pe_now E, ce_dispatched_at_ms = None\<rparr>],
       next_completion_id := next_completion_id d + 1\<rparr>"

definition signal_emit ::
  "pg_env \<Rightarrow> int \<Rightarrow> uuid \<Rightarrow> string \<Rightarrow> string option \<Rightarrow> string option \<Rightarrow> int \<Rightarrow> db \<Rightarrow> db" where
  "signal_emit E part uid signal_id waitpoint_id source_identity delivered_at d =
     (let row = (\<lambda>i ns tag. \<lparr>se_event_id = next_signal_event_id d + int i,
                  se_execution_id = uuid_to_string (pe_lib E) uid, se_signal_id = signal_id,
                  se_waitpoint_id = waitpoint_id, se_source_identity = source_identity,
                  se_delivered_at_ms = delivered_at, se_partition_key = part,
                  se_namespace = ns, se_instance_tag = tag\<rparr>);
          matches = sql_select (exec_is part uid) (t_exec d);
          new = (if matches = [] then [row 0 None None]
                 else map (\<lambda>(i, r). row i (raw_namespace E r) (raw_instance_tag E r))
                        (List.enumerate 0 matches))
      in d\<lparr>t_signal_event := t_signal_event d @ new,
           next_signal_event_id := next_signal_event_id d + int (length new)\<rparr>)"

definition resume_if ::
  "bool \<Rightarrow> pg_env \<Rightarrow> int \<Rightarrow> uuid \<Rightarrow> int \<Rightarrow> db \<Rightarrow> db" where
  "resume_if satisfied E part uid now d =
     (if satisfied
      then insert_resumable E part uid now (delete_waitpoints part uid (update_exec part uid resumable_exec d))
      else d)"

definition verify_token ::
  "susp_lib \<Rightarrow> ext_lib \<Rightarrow> waitpoint \<Rightarrow> deliver_args \<Rightarrow> db \<Rightarrow> pg_error + unit" where
  "verify_token L X w a d =
     rbind (ok_or (fetch_kid (wp_token_kid w) d)
       (Validation VK_InvalidInput (''kid '' @ wp_token_kid w @ '' missing from keystore''))) (\<lambda>secret.
     rbind (map_err (\<lambda>e. Validation VK_InvalidInput (''waitpoint_token verify: '' @ hmac_verify_error_text e))
       (hmac_verify L secret (wp_token_kid w) (token_message X (dsa_execution_id a) (dsa_waitpoint_id a))
         (dsa_waitpoint_token a))) (\<lambda>_.
     if dsa_waitpoint_token a \<noteq> wp_token w
     then Inl (Validation VK_InvalidInput ''waitpoint_token does not match minted token'')
     else Inr ()))"

definition deliver_tx ::
  "susp_lib \<Rightarrow> deliver_args \<Rightarrow> int \<Rightarrow> uuid \<Rightarrow> uuid \<Rightarrow> pg_env \<Rightarrow> db \<Rightarrow> pg_error + (deliver_result \<times> db)" where
  "deliver_tx L a part uid wp E d =
     (let X = pe_lib E in
      rbind (ok_or (sql_fetch (waitpoint_is part wp) (t_waitpoint d)) (NotFound ''waitpoint'')) (\<lambda>w.
      if wp_execution_id w \<noteq> uid
      then Inl (Validation VK_InvalidInput ''waitpoint belongs to a different execution'')
      else
      rbind (verify_token L X w a d) (\<lambda>_.
      rbind (ok_or (sql_fetch (suspension_is part uid) (t_suspension d)) (NotFound ''suspension'')) (\<lambda>s.
      rbind (member_push (wp_waitpoint_key w) (signal_blob L X a) (sc_member_map s)) (\<lambda>members.
      rbind (map_err (\<lambda>e. Validation VK_Corruption (''condition deserialize: '' @ e))
        (sl_cond_from_json L (sc_condition s))) (\<lambda>condition.
      let satisfied = resume_evaluate condition (signals_of L X members);
          d1 = update_suspension part uid (\<lambda>r. r\<lparr>sc_member_map := JObj members\<rparr>) d;
          d2 = resume_if satisfied E part uid (dsa_now a) d1;
          d3 = signal_emit E part uid (uuid_to_string X (dsa_signal_id a))
                 (Some (uuid_to_string X (dsa_waitpoint_id a))) (Some (dsa_source_identity a)) (dsa_now a) d2
      in Inr (DS_Accepted (dsa_signal_id a)
           (if satisfied then ''resume_condition_satisfied'' else ''appended_to_waitpoint''), d3)))))))"

definition deliver_signal_impl ::
  "susp_lib \<Rightarrow> (nat \<Rightarrow> pg_env) \<Rightarrow> (nat \<Rightarrow> fail_site) \<Rightarrow> deliver_args \<Rightarrow> db \<Rightarrow>
   panic + ((pg_error + deliver_result) \<times> db)" where
  "deliver_signal_impl L env site a d =
     (case rbind (split_exec_id (pe_lib (env 0)) (dsa_execution_id a)) (\<lambda>t.
           rbind (wp_uuid (pe_lib (env 0)) (dsa_waitpoint_id a)) (\<lambda>w. Inr (t, w))) of
        Inl e \<Rightarrow> Inr (Inl e, d)
      | Inr ((part, uid), wp) \<Rightarrow>
          run_serializable env site (\<lambda>E d. Inr (deliver_tx L a part uid wp E d)) d)"

section \<open>Claiming a resumed execution\<close>

record claim_resumed_args =
  cra_execution_id :: execution_id
  cra_worker_id :: string
  cra_worker_instance_id :: string
  cra_lane_id :: lane_id
  cra_lease_id :: uuid
  cra_lease_ttl_ms :: u64

record claimed_resumed =
  cr_execution_id :: execution_id
  cr_lease_id :: uuid
  cr_lease_epoch :: u64
  cr_attempt_index :: u32
  cr_attempt_id :: uuid
  cr_lease_expires_at :: int
  cr_handle :: handle

definition resumed_attempt :: "claim_resumed_args \<Rightarrow> int \<Rightarrow> int \<Rightarrow> attempt \<Rightarrow> sqlx_error + attempt" where
  "resumed_attempt a now expires r =
     rbind (int8_add (at_lease_epoch r) 1) (\<lambda>epoch.
     Inr (r\<lparr>at_worker_id := Some (cra_worker_id a), at_worker_instance_id := Some (cra_worker_instance_id a),
            at_lease_epoch := epoch, at_lease_expires_at_ms := Some expires, at_started_at_ms := Some now,
            at_outcome := None\<rparr>))"

definition resumed_exec :: "int \<Rightarrow> exec_core \<Rightarrow> exec_core" where
  "resumed_exec now r =
     r\<lparr>ec_lifecycle_phase := ''active'', ec_ownership_state := ''leased'',
       ec_eligibility_state := ''not_applicable'', ec_public_state := ''running'',
       ec_attempt_state := ''running_attempt'',
       ec_started_at_ms := (case ec_started_at_ms r of Some t \<Rightarrow> Some t | None \<Rightarrow> Some now)\<rparr>"

text \<open>The transaction gives the attempt index and the new epoch.\<close>

definition claim_resumed_tx ::
  "pg_env \<Rightarrow> claim_resumed_args \<Rightarrow> int \<Rightarrow> uuid \<Rightarrow> db \<Rightarrow> pg_error + ((int \<times> int) \<times> db)" where
  "claim_resumed_tx E a part uid d =
     rbind (ok_or (sql_fetch (exec_is part uid) (t_exec d)) (NotFound ''execution'')) (\<lambda>r.
     if ec_public_state r \<noteq> ''resumable'' then Inl (Contention CK_NotAResumedExecution)
     else
       let now = pe_now E; idx = ec_attempt_index r;
           expires = saturating_add now (i64_of_u64_or_0 (cra_lease_ttl_ms a))
       in rbind (try_update_attempt part uid idx (resumed_attempt a now expires) d) (\<lambda>d1.
          let d2 = update_exec part uid (resumed_exec now) d1 in
          rbind (ok_or (sql_fetch (attempt_is part uid idx) (t_attempt d2))
            (map_sqlx_error (Sqlx_Other ''no rows returned by a query that expected to return at least one row''))) (\<lambda>att.
          Inr ((idx, at_lease_epoch att),
               emit E part uid (Some (uuid_to_string (pe_lib E) (cra_lease_id a))) EVENT_ACQUIRED now d2))))"

definition claim_resumed_execution_impl ::
  "pg_env \<Rightarrow> claim_resumed_args \<Rightarrow> db \<Rightarrow> (pg_error + claimed_resumed) \<times> db" where
  "claim_resumed_execution_impl E a d =
     (case split_exec_id (pe_lib E) (cra_execution_id a) of
        Inl e \<Rightarrow> (Inl e, d)
      | Inr (part, uid) \<Rightarrow>
          (case run_tx (pe_fault E) (claim_resumed_tx E a part uid) d of
             (Inl e, d') \<Rightarrow> (Inl e, d')
           | (Inr (idx, epoch), d') \<Rightarrow>
               let p = \<lparr>hp_execution_id = cra_execution_id a, hp_attempt_index = of_int (max idx 0),
                     hp_attempt_id = pe_fresh E 0, hp_lease_id = cra_lease_id a,
                     hp_lease_epoch = of_nat (u64_of_i64_or 0 epoch), hp_lease_ttl_ms = cra_lease_ttl_ms a,
                     hp_lane_id = cra_lane_id a, hp_worker_instance_id = cra_worker_instance_id a\<rparr>
               in (Inr \<lparr>cr_execution_id = cra_execution_id a, cr_lease_id = cra_lease_id a,
                     cr_lease_epoch = hp_lease_epoch p, cr_attempt_index = hp_attempt_index p,
                     cr_attempt_id = hp_attempt_id p,
                     cr_lease_expires_at = saturating_add (pe_now E) (i64_of_u64_or_0 (cra_lease_ttl_ms a)),
                     cr_handle = mint_handle (pe_lib E) p HK_Resumed\<rparr>, d')))"

section \<open>Reading\<close>

text \<open>The keys of a JSON object come in the order of the map type of the JSON crate, by their bytes.\<close>

definition observe_signals_impl ::
  "susp_lib \<Rightarrow> pg_env \<Rightarrow> handle \<Rightarrow> db \<Rightarrow> pg_error + resume_signal list" where
  "observe_signals_impl L E h d =
     rbind (suspend_decode_handle (pe_lib E) h) (\<lambda>p.
     rbind (split_exec_id (pe_lib E) (hp_execution_id p)) (\<lambda>(part, uid).
     case pe_read_error E of
       Some e \<Rightarrow> Inl (map_sqlx_error e)
     | None \<Rightarrow> Inr
         (case sql_fetch (suspension_is part uid) (t_suspension d) of
            None \<Rightarrow> []
          | Some s \<Rightarrow>
              (case sc_member_map s of
                 JObj kvs \<Rightarrow> concat (map (\<lambda>(_, v). member_signals L (pe_lib E) v) (sort_key fst kvs))
               | _ \<Rightarrow> []))))"

record pending_waitpoint_info =
  pw_waitpoint_id :: uuid
  pw_waitpoint_key :: string
  pw_state :: string
  pw_required_signal_names :: "string list"
  pw_created_at :: int
  pw_activated_at :: "int option"
  pw_expires_at :: "int option"
  pw_execution_id :: execution_id
  pw_token_kid :: string
  pw_token_fingerprint :: string

definition pending_info :: "execution_id \<Rightarrow> waitpoint \<Rightarrow> pending_waitpoint_info" where
  "pending_info eid r =
     (case parse_waitpoint_token_kid_fp (wp_token r) of
        (kid, fp) \<Rightarrow>
          \<lparr>pw_waitpoint_id = wp_waitpoint_id r, pw_waitpoint_key = wp_waitpoint_key r, pw_state = wp_state r,
           pw_required_signal_names = wp_required_signal_names r, pw_created_at = wp_created_at_ms r,
           pw_activated_at = wp_activated_at_ms r, pw_expires_at = wp_expires_at_ms r,
           pw_execution_id = eid, pw_token_kid = kid, pw_token_fingerprint = fp\<rparr>)"

text \<open>The limit is \<open>args.limit.unwrap_or(100).clamp(1, 1000)\<close>; both reads see one database.\<close>

definition list_pending_waitpoints_impl ::
  "pg_env \<Rightarrow> execution_id \<Rightarrow> uuid option \<Rightarrow> u32 option \<Rightarrow> db \<Rightarrow>
   pg_error + (pending_waitpoint_info list \<times> uuid option)" where
  "list_pending_waitpoints_impl E eid after limit d =
     rbind (split_exec_id (pe_lib E) eid) (\<lambda>(part, uid).
     let n = max 1 (min 1000 (case limit of Some l \<Rightarrow> unat l | None \<Rightarrow> 100)) in
     rbind (case after of None \<Rightarrow> Inr None | Some w \<Rightarrow> rbind (wp_uuid (pe_lib E) w) (\<lambda>u. Inr (Some u))) (\<lambda>from.
     case pe_read_error E of
       Some e \<Rightarrow> Inl (map_sqlx_error e)
     | None \<Rightarrow>
         if sql_fetch (exec_is part uid) (t_exec d) = None then Inl (NotFound ''execution'')
         else
           let rows = sql_order_limit wp_waitpoint_id (n + 1) (\<lambda>r. wp_partition_key r = part \<and>
                  wp_execution_id r = uid \<and> wp_state r \<in> {''pending'', ''active''} \<and>
                  (case from of None \<Rightarrow> True | Some u \<Rightarrow> wp_waitpoint_id r > u)) (t_waitpoint d);
               entries = map (pending_info eid) (take n rows)
           in Inr (entries, if length rows > n then Some (pw_waitpoint_id (last entries)) else None)))"

definition read_waitpoint_token_impl ::
  "pg_env \<Rightarrow> string \<Rightarrow> uuid \<Rightarrow> db \<Rightarrow> pg_error + string option" where
  "read_waitpoint_token_impl E pkey w d =
     rbind (partition_index_from_key pkey) (\<lambda>part.
     rbind (wp_uuid (pe_lib E) w) (\<lambda>u.
     case pe_read_error E of
       Some e \<Rightarrow> Inl (map_sqlx_error e)
     | None \<Rightarrow> Inr (case sql_fetch (waitpoint_is part u) (t_waitpoint d) of
                  None \<Rightarrow> None | Some r \<Rightarrow> if wp_token r = [] then None else Some (wp_token r))))"

record approval_args =
  apa_execution_id :: execution_id
  apa_lane_id :: lane_id
  apa_waitpoint_id :: uuid
  apa_signal_name :: string

text \<open>\<open>part as u16\<close> of a partition that was read as \<open>i16\<close>.\<close>

definition approval_partition_key :: "int \<Rightarrow> string" where
  "approval_partition_key part = hash_tag \<lparr>family = Execution, index = of_int part\<rparr>"

text \<open>The two reads before the delivery see \<open>d0\<close>; the clock of the first environment is sampled once.\<close>

definition deliver_approval_signal_impl ::
  "susp_lib \<Rightarrow> pg_env \<Rightarrow> (nat \<Rightarrow> pg_env) \<Rightarrow> (nat \<Rightarrow> fail_site) \<Rightarrow> approval_args \<Rightarrow> db \<Rightarrow> db \<Rightarrow>
   panic + ((pg_error + deliver_result) \<times> db)" where
  "deliver_approval_signal_impl L E env site a d0 d =
     (case rbind (split_exec_id (pe_lib E) (apa_execution_id a)) (\<lambda>(part, uid).
        case pe_read_error E of
          Some e \<Rightarrow> Inl (map_sqlx_error e)
        | None \<Rightarrow>
            rbind (ok_or (sql_fetch (exec_is part uid) (t_exec d0)) (NotFound ''execution'')) (\<lambda>r.
            if ec_lane_id r \<noteq> apa_lane_id a
            then Inl (Validation VK_InvalidInput (''lane_mismatch: args.lane_id='' @ apa_lane_id a @
                   '' exec_core.lane_id='' @ ec_lane_id r))
            else
              rbind (read_waitpoint_token_impl E (approval_partition_key part) (apa_waitpoint_id a) d0) (\<lambda>token.
              ok_or token (NotFound ''waitpoint'')))) of
        Inl e \<Rightarrow> Inr (Inl e, d)
      | Inr token \<Rightarrow>
          deliver_signal_impl L env site
            \<lparr>dsa_execution_id = apa_execution_id a, dsa_waitpoint_id = apa_waitpoint_id a,
             dsa_signal_id = pe_fresh E 0, dsa_signal_name = apa_signal_name a,
             dsa_signal_category = ''approval'', dsa_source_type = ''operator'', dsa_source_identity = [],
             dsa_payload = None, dsa_correlation_id = None, dsa_waitpoint_token = token,
             dsa_now = pe_now E\<rparr> d)"

section \<open>Deadlines of suspensions and waitpoints\<close>

definition suspension_overdue :: "int \<Rightarrow> suspension \<Rightarrow> bool" where
  "suspension_overdue now s = (case sc_timeout_at_ms s of Some t \<Rightarrow> t < now | None \<Rightarrow> False)"

text \<open>A value that is no object counts as an empty one; a value under the key that is no array stays.\<close>

definition push_timeout :: "int \<Rightarrow> json \<Rightarrow> json" where
  "push_timeout now m =
     (let kvs = (case m of JObj kvs \<Rightarrow> kvs | _ \<Rightarrow> []);
          blob = JObj [(''signal_name'', JStr ''timeout''), (''payload'', JNull),
            (''delivered_at_ms'', JNum now), (''source'', JStr ''suspension_timeout'')]
      in JObj (case map_of kvs ''__timeout__'' of
           None \<Rightarrow> kvs @ [(''__timeout__'', JArr [blob])]
         | Some (JArr xs) \<Rightarrow> json_put ''__timeout__'' (JArr (xs @ [blob])) kvs
         | Some _ \<Rightarrow> kvs))"

definition timeout_reason :: "string \<Rightarrow> string" where
  "timeout_reason behavior =
     (if behavior = ''cancel'' then ''suspension_timeout_cancel''
      else if behavior = ''expire'' then ''suspension_timeout_expire''
      else if behavior = ''escalate'' then ''suspension_timeout_escalate''
      else ''suspension_timeout_fail'')"

definition timed_out_exec :: "string \<Rightarrow> int \<Rightarrow> exec_core \<Rightarrow> exec_core" where
  "timed_out_exec behavior now r =
     r\<lparr>ec_lifecycle_phase := ''terminal'', ec_ownership_state := ''unowned'',
       ec_eligibility_state := ''not_applicable'', ec_attempt_state := ''attempt_terminal'',
       ec_terminal_at_ms := Some now, ec_cancellation_reason := Some (timeout_reason behavior),
       ec_raw_fields := json_concat (ec_raw_fields r)
         (JObj [(''last_failure_message'', JStr ''suspension_timeout'')])\<rparr>"

definition delete_suspension :: "int \<Rightarrow> uuid \<Rightarrow> db \<Rightarrow> db" where
  "delete_suspension part uid d = d\<lparr>t_suspension := sql_delete (suspension_is part uid) (t_suspension d)\<rparr>"

definition suspension_expire_tx :: "string \<Rightarrow> int \<Rightarrow> uuid \<Rightarrow> int \<Rightarrow> db \<Rightarrow> pg_error + (unit \<times> db)" where
  "suspension_expire_tx behavior part uid now d =
     (case sql_fetch (suspension_is part uid) (t_suspension d) of
        None \<Rightarrow> Inr ((), d)
      | Some s \<Rightarrow>
          if \<not> suspension_overdue now s then Inr ((), d)
          else if behavior = ''auto_resume_with_timeout_signal''
          then Inr ((), update_suspension part uid
                 (\<lambda>r. r\<lparr>sc_member_map := push_timeout now (sc_member_map s), sc_timeout_at_ms := None\<rparr>) d)
          else Inr ((), insert_completion part uid (if behavior = ''cancel'' then ''cancelled'' else ''expired'') now
                 (delete_suspension part uid (update_exec part uid (timed_out_exec behavior now) d))))"

definition suspension_expire_one ::
  "pg_env \<Rightarrow> string \<Rightarrow> int \<Rightarrow> uuid \<Rightarrow> int \<Rightarrow> db \<Rightarrow> (pg_error + unit) \<times> db" where
  "suspension_expire_one E behavior part uid now d =
     run_tx (pe_fault E) (suspension_expire_tx behavior part uid now) d"

definition behavior_of :: "suspension \<Rightarrow> string" where
  "behavior_of s = (case sc_timeout_behavior s of Some b \<Rightarrow> b | None \<Rightarrow> ''fail'')"

fun suspension_scan_rows ::
  "(nat \<Rightarrow> pg_env) \<Rightarrow> int \<Rightarrow> scanner_filter \<Rightarrow> int \<Rightarrow> nat \<Rightarrow> suspension list \<Rightarrow> scan_report \<Rightarrow> db \<Rightarrow>
   scan_report \<times> db" where
  "suspension_scan_rows envs part f now i [] rep d = (rep, d)"
| "suspension_scan_rows envs part f now i (s # rows) rep d =
     (if skip_by_filter (envs i) part (sc_execution_id s) f d
      then suspension_scan_rows envs part f now (Suc i) rows rep d
      else case suspension_expire_one (envs i) (behavior_of s) part (sc_execution_id s) now d of
        (Inr _, d') \<Rightarrow> suspension_scan_rows envs part f now (Suc i) rows (rep\<lparr>processed := processed rep + 1\<rparr>) d'
      | (Inl _, d') \<Rightarrow> suspension_scan_rows envs part f now (Suc i) rows (rep\<lparr>errors := errors rep + 1\<rparr>) d')"

definition suspension_candidates :: "int \<Rightarrow> int \<Rightarrow> db \<Rightarrow> suspension list" where
  "suspension_candidates part now d =
     sql_order_limit (\<lambda>s. case sc_timeout_at_ms s of Some t \<Rightarrow> t | None \<Rightarrow> 0) BATCH_SIZE
       (\<lambda>s. sc_partition_key s = part \<and> suspension_overdue now s) (t_suspension d)"

definition suspension_timeout_scan_tick ::
  "pg_env \<Rightarrow> (nat \<Rightarrow> pg_env) \<Rightarrow> int \<Rightarrow> scanner_filter \<Rightarrow> db \<Rightarrow> (pg_error + scan_report) \<times> db" where
  "suspension_timeout_scan_tick E envs part f d =
     (case pe_read_error E of
        Some e \<Rightarrow> (Inl (map_sqlx_error e), d)
      | None \<Rightarrow>
          (case suspension_scan_rows envs part f (pe_now E) 0 (suspension_candidates part (pe_now E) d)
                  \<lparr>processed = 0, errors = 0\<rparr> d of
             (rep, d') \<Rightarrow> (Inr rep, d')))"

definition expire_for_execution :: "pg_env \<Rightarrow> int \<Rightarrow> uuid \<Rightarrow> db \<Rightarrow> (pg_error + unit) \<times> db" where
  "expire_for_execution E part uid d =
     (case pe_read_error E of
        Some e \<Rightarrow> (Inl (map_sqlx_error e), d)
      | None \<Rightarrow>
          (case sql_fetch (\<lambda>s. suspension_is part uid s \<and> suspension_overdue (pe_now E) s) (t_suspension d) of
             None \<Rightarrow> (Inr (), d)
           | Some s \<Rightarrow> suspension_expire_one E (behavior_of s) part uid (pe_now E) d))"

definition mark_never_committed :: "string \<Rightarrow> int \<Rightarrow> json \<Rightarrow> json" where
  "mark_never_committed key now m =
     json_insert key (JObj [(''status'', JStr ''never_committed''), (''closed_at_ms'', JNum now),
         (''source'', JStr ''pending_wp_expiry'')])
       (case m of JObj kvs \<Rightarrow> JObj kvs | _ \<Rightarrow> JObj [])"

definition close_waitpoint_tx :: "ext_lib \<Rightarrow> int \<Rightarrow> uuid \<Rightarrow> int \<Rightarrow> db \<Rightarrow> pg_error + (unit \<times> db)" where
  "close_waitpoint_tx X part wp now d =
     (case sql_fetch (waitpoint_is part wp) (t_waitpoint d) of
        None \<Rightarrow> Inr ((), d)
      | Some w \<Rightarrow>
          if \<not> (case wp_expires_at_ms w of Some t \<Rightarrow> t < now | None \<Rightarrow> False) then Inr ((), d)
          else
            let key = (if wp_waitpoint_key w = [] then uuid_to_string X wp else wp_waitpoint_key w);
                d1 = d\<lparr>t_waitpoint := sql_delete (waitpoint_is part wp) (t_waitpoint d)\<rparr>
            in Inr ((), update_suspension part (wp_execution_id w)
                 (\<lambda>s. s\<lparr>sc_member_map := mark_never_committed key now (sc_member_map s)\<rparr>) d1))"

definition close_for_execution :: "pg_env \<Rightarrow> int \<Rightarrow> uuid \<Rightarrow> int \<Rightarrow> db \<Rightarrow> (pg_error + unit) \<times> db" where
  "close_for_execution E part wp now d = run_tx (pe_fault E) (close_waitpoint_tx (pe_lib E) part wp now) d"

section \<open>Resuming by an operator\<close>

datatype resume_execution_result = REX_Resumed public_state

definition operator_resumed :: "nat \<Rightarrow> exec_core \<Rightarrow> exec_core" where
  "operator_resumed delay_ms r =
     r\<lparr>ec_lifecycle_phase := ''runnable'', ec_ownership_state := ''unowned'',
       ec_eligibility_state := (if delay_ms > 0 then ''not_eligible_until_time'' else ''eligible_now''),
       ec_attempt_state := ''attempt_interrupted'',
       ec_blocking_reason := Some (if delay_ms > 0 then ''waiting_for_resume_delay'' else ''waiting_for_worker''),
       ec_public_state := (if delay_ms > 0 then ''delayed'' else ''waiting''),
       ec_raw_fields := json_concat (ec_raw_fields r)
         (JObj [(''current_suspension_id'', JStr []), (''current_waitpoint_id'', JStr [])])\<rparr>"

definition resume_execution_tx ::
  "nat \<Rightarrow> int \<Rightarrow> uuid \<Rightarrow> db \<Rightarrow> pg_error + (resume_execution_result \<times> db)" where
  "resume_execution_tx delay_ms part uid d =
     rbind (ok_or (sql_fetch (exec_is part uid) (t_exec d)) (NotFound ''execution'')) (\<lambda>r.
     if ec_lifecycle_phase r \<noteq> ''suspended'' then Inl (State SK_ExecutionNotSuspended)
     else if sql_fetch (suspension_is part uid) (t_suspension d) = None
     then Inl (State SK_ExecutionNotSuspended)
     else Inr (REX_Resumed (if delay_ms > 0 then PS_Delayed else PS_Waiting),
            delete_suspension part uid (update_exec part uid (operator_resumed delay_ms) d)))"

definition resume_execution ::
  "pg_env \<Rightarrow> execution_id \<Rightarrow> nat \<Rightarrow> db \<Rightarrow> (pg_error + resume_execution_result) \<times> db" where
  "resume_execution E eid delay_ms d =
     (case split_exec_id (pe_lib E) eid of
        Inl e \<Rightarrow> (Inl e, d)
      | Inr (part, uid) \<Rightarrow> run_tx (pe_fault E) (resume_execution_tx delay_ms part uid) d)"

end
