(* ===== verification/Pg_Suspend_Inv.thy ===== *)
theory Pg_Suspend_Inv
  imports Pg_Suspend
begin

text \<open>
  How the transactions of suspensions change the database: each keeps the database well formed and
  well typed and takes nothing back, and what each does when it succeeds.
\<close>

section \<open>Tables of suspensions\<close>

lemma evolves_suspension_rows:
  "(distinct (map suspension_key (t_suspension d)) \<Longrightarrow> distinct (map suspension_key t)) \<Longrightarrow>
   db_evolves d (d\<lparr>t_suspension := t\<rparr>)"
  by (simp add: db_evolves_def db_wf_def db_typed_def rows_le_refl)

lemma evolves_waitpoint_rows:
  "(distinct (map waitpoint_id_key (t_waitpoint d)) \<Longrightarrow> distinct (map waitpoint_id_key t)) \<Longrightarrow>
   db_evolves d (d\<lparr>t_waitpoint := t\<rparr>)"
  by (simp add: db_evolves_def db_wf_def db_typed_def rows_le_refl)

lemma evolves_hmac_rows:
  "(distinct (map hk_kid (t_hmac d)) \<Longrightarrow> distinct (map hk_kid t)) \<Longrightarrow> rows_le hk_kid hmac_le (t_hmac d) t \<Longrightarrow>
   db_evolves d (d\<lparr>t_hmac := t\<rparr>)"
  by (simp add: db_evolves_def db_wf_def db_typed_def rows_le_refl)

lemma evolves_dedup_insert:
  "db_evolves d (d\<lparr>t_suspend_dedup := sql_insert_or_nothing suspend_dedup_key r (t_suspend_dedup d)\<rparr>)"
  by (auto simp: db_evolves_def db_wf_def db_typed_def rows_le_refl sql_insert_or_nothing_def rows_le_append)

lemma evolves_signal_events:
  assumes "map se_event_id new = map (\<lambda>i. next_signal_event_id d + int i) [0..<length new]"
  shows "db_evolves d (d\<lparr>t_signal_event := t_signal_event d @ new,
     next_signal_event_id := next_signal_event_id d + int (length new)\<rparr>)"
  using fresh_ids [OF assms, of "t_signal_event d"]
  by (auto simp: db_evolves_def db_wf_def db_typed_def rows_le_refl)

lemma signal_emit_evolves: "db_evolves d (signal_emit E part uid s w src at d)"
  unfolding signal_emit_def Let_def
  by (rule evolves_signal_events) (auto intro!: enumerated_ids [THEN trans] simp del: map_map)

lemma insert_resumable_evolves: "db_evolves d (insert_resumable E part uid now d)"
  using evolves_completions [of "[_]" d] by (simp add: insert_resumable_def)

lemma distinct_sql_delete: "distinct (map key t) \<Longrightarrow> distinct (map key (sql_delete P t))"
  by (simp add: sql_delete_def distinct_map_filter)

lemma delete_waitpoints_evolves: "db_evolves d (delete_waitpoints part uid d)"
  unfolding delete_waitpoints_def by (intro evolves_waitpoint_rows distinct_sql_delete)

lemma delete_suspension_evolves: "db_evolves d (delete_suspension part uid d)"
  unfolding delete_suspension_def by (intro evolves_suspension_rows distinct_sql_delete)

lemma update_suspension_evolves:
  "(\<And>r. suspension_key (f r) = suspension_key r) \<Longrightarrow> db_evolves d (update_suspension part uid f d)"
  unfolding update_suspension_def
  by (intro evolves_suspension_rows) (simp add: map_key_update [where key = suspension_key])

lemma put_suspension_evolves:
  assumes "put_suspension new d = Inr d'"
  shows "db_evolves d d'"
proof -
  from assms obtain t where t: "sql_upsert suspension_key new (\<lambda>_. Inr new) (t_suspension d) = Inr t"
    "d' = d\<lparr>t_suspension := t\<rparr>"
    by (auto simp: put_suspension_def rbind_Inr_iff)
  show ?thesis unfolding t(2) by (intro evolves_suspension_rows upsert_distinct [OF t(1)]) simp_all
qed

lemma install_key_evolves:
  assumes "fetch_kid kid d = None"
  shows "db_evolves d (install_key kid secret now d)"
  unfolding install_key_def
proof (rule evolves_hmac_rows)
  let ?off = "sql_update hk_active (\<lambda>r. r\<lparr>hk_active := False\<rparr>) (t_hmac d)"
  have keys: "map hk_kid ?off = map hk_kid (t_hmac d)" by (rule map_key_update) simp
  have new: "kid \<notin> hk_kid ` set (t_hmac d)"
    using assms by (auto simp: fetch_kid_def sql_fetch_def find_None_iff)
  then show "distinct (map hk_kid (?off @
      [\<lparr>hk_kid = kid, hk_secret = secret, hk_rotated_at_ms = now, hk_active = True\<rparr>]))"
    if "distinct (map hk_kid (t_hmac d))" using that keys by (simp flip: set_map)
  have "rows_le hk_kid hmac_le (t_hmac d) ?off" by (rule rows_le_update) (simp_all add: hmac_le_def)
  then show "rows_le hk_kid hmac_le (t_hmac d)
      (?off @ [\<lparr>hk_kid = kid, hk_secret = secret, hk_rotated_at_ms = now, hk_active = True\<rparr>])"
    by (rule rows_le_trans [OF _ rows_le_append]) (auto simp: hmac_le_def)
qed

section \<open>Transactions\<close>

lemma rotate_tx_evolves: "rotate_tx kid secret now d = Inr (r, d') \<Longrightarrow> db_evolves d d'"
  by (auto simp: rotate_tx_def install_key_evolves split: option.splits if_splits)

lemma seed_tx_evolves: "seed_tx debug kid secret now d = Inr (r, d') \<Longrightarrow> db_evolves d d'"
  by (auto simp: seed_tx_def fetch_kid_def sql_fetch_def find_None_iff intro!: evolves_hmac_rows rows_le_append
      split: option.splits)

lemma suspend_exec_le: "exec_le r (suspend_exec r)"
  by (simp add: suspend_exec_def exec_le_def exec_typed_def exec_key_def)

lemma resumable_exec_le: "exec_le r (resumable_exec r)"
  by (simp add: resumable_exec_def exec_le_def exec_typed_def exec_key_def)

lemma resumed_exec_le: "exec_le r (resumed_exec now r)"
  by (simp add: resumed_exec_def exec_le_def exec_typed_def exec_key_def split: option.splits)

lemma timed_out_exec_le: "exec_le r (timed_out_exec b now r)"
  by (simp add: timed_out_exec_def exec_le_def exec_typed_def exec_key_def)

lemma operator_resumed_le: "exec_le r (operator_resumed n r)"
  by (simp add: operator_resumed_def exec_le_def exec_typed_def exec_key_def)

lemma suspend_attempt_le:
  "suspend_attempt r = Inr r' \<Longrightarrow>
   attempt_le r r' \<and> attempt_key r' = attempt_key r \<and> at_lease_epoch r' = at_lease_epoch r + 1"
  "resumed_attempt a now x r = Inr r' \<Longrightarrow>
   attempt_le r r' \<and> attempt_key r' = attempt_key r \<and> at_lease_epoch r' = at_lease_epoch r + 1"
  by (auto simp: suspend_attempt_def resumed_attempt_def rbind_Inr_iff int8_add_def attempt_le_def
      attempt_typed_def attempt_key_def split: if_splits)

lemma bind_waitpoint_cases:
  assumes "bind_waitpoint L X eid part uid a kid secret b d = Inr (w, d')"
  obtains key u t where "binding_target X part b d = Inr (bw_waitpoint_id w, key)" "bw_waitpoint_key w = key"
    "wp_uuid X (bw_waitpoint_id w) = Inr u"
    "bw_waitpoint_token w = hmac_sign L secret kid (token_message X eid (bw_waitpoint_id w))"
    "sql_upsert waitpoint_id_key (active_waitpoint part uid a u key kid (bw_waitpoint_token w))
       (\<lambda>r. Inr (activate_waitpoint (active_waitpoint part uid a u key kid (bw_waitpoint_token w)) r))
       (t_waitpoint d) = Inr t"
    "d' = d\<lparr>t_waitpoint := t\<rparr>"
proof -
  obtain v key where b: "binding_target X part b d = Inr (v, key)"
    using assms by (cases "binding_target X part b d") (auto simp: bind_waitpoint_def)
  obtain u where u: "wp_uuid X v = Inr u"
    using assms b by (cases "wp_uuid X v") (auto simp: bind_waitpoint_def Let_def)
  let ?token = "hmac_sign L secret kid (token_message X eid v)"
  let ?new = "active_waitpoint part uid a u key kid ?token"
  obtain t where t: "sql_upsert waitpoint_id_key ?new (\<lambda>r. Inr (activate_waitpoint ?new r)) (t_waitpoint d) = Inr t"
    using assms b u
    by (cases "sql_upsert waitpoint_id_key ?new (\<lambda>r. Inr (activate_waitpoint ?new r)) (t_waitpoint d)")
      (simp_all add: bind_waitpoint_def Let_def)
  from assms b u t have w: "w = \<lparr>bw_waitpoint_id = v, bw_waitpoint_key = key, bw_waitpoint_token = ?token\<rparr>"
    and d': "d' = d\<lparr>t_waitpoint := t\<rparr>"
    by (simp_all add: bind_waitpoint_def Let_def)
  show thesis by (rule that [of key u t]) (simp_all add: w b u t d')
qed

lemma bind_waitpoint_evolves:
  assumes "bind_waitpoint L X eid part uid a kid secret b d = Inr (w, d')"
  shows "db_evolves d d'"
  using assms
proof (cases rule: bind_waitpoint_cases)
  case (1 key u t)
  show ?thesis unfolding 1(6)
    by (intro evolves_waitpoint_rows upsert_distinct [OF 1(5)])
      (auto simp: activate_waitpoint_def waitpoint_id_key_def)
qed

lemma bind_waitpoints_evolves:
  "bind_waitpoints L X eid part uid a kid secret bs d = Inr (ws, d') \<Longrightarrow> db_evolves d d'"
proof (induction bs arbitrary: d ws d')
  case (Cons b bs)
  then show ?case
    by (auto simp: rbind_Inr_iff split: prod.splits intro: db_evolves_trans [OF bind_waitpoint_evolves])
qed simp

text \<open>Binding waitpoints touches no other table.\<close>

lemma bind_waitpoint_tables:
  "bind_waitpoint L X eid part uid a kid secret b d = Inr (w, d') \<Longrightarrow> \<exists>t. d' = d\<lparr>t_waitpoint := t\<rparr>"
  by (erule bind_waitpoint_cases) blast

lemma bind_waitpoints_tables:
  "bind_waitpoints L X eid part uid a kid secret bs d = Inr (ws, d') \<Longrightarrow> \<exists>t. d' = d\<lparr>t_waitpoint := t\<rparr>"
proof (induction bs arbitrary: d ws d')
  case Nil
  then show ?case by (intro exI [of _ "t_waitpoint d"]) simp
next
  case (Cons b bs)
  then obtain w d1 ws' where "bind_waitpoint L X eid part uid a kid secret b d = Inr (w, d1)"
    "bind_waitpoints L X eid part uid a kid secret bs d1 = Inr (ws', d')"
    by (auto simp: rbind_Inr_iff split: prod.splits)
  with Cons.IH bind_waitpoint_tables show ?case by fastforce
qed

lemma suspend_steps_cases:
  assumes "suspend_steps L E p part uid a d = Inr (ws, d')"
  obtains att kid secret sid t d2 d3 where
    "attempt_at d part uid (i32_of_u32_or_0 (hp_attempt_index p)) = Some att"
    "u64_of_i64_or 0 (at_lease_epoch att) = unat (hp_lease_epoch p)"
    "current_active_kid d = Some (kid, secret)"
    "bind_waitpoints L (pe_lib E) (hp_execution_id p) part uid a kid secret (ssa_waitpoints a) d =
       Inr (ws, d\<lparr>t_waitpoint := t\<rparr>)"
    "susp_uuid (pe_lib E) (ssa_suspension_id a) = Inr sid"
    "put_suspension (new_suspension L part uid sid a) (d\<lparr>t_waitpoint := t\<rparr>) = Inr d2"
    "try_update_attempt part uid (i32_of_u32_or_0 (hp_attempt_index p)) suspend_attempt
       (update_exec part uid suspend_exec d2) = Inr d3"
    "d' = emit E part uid None EVENT_REVOKED (ssa_now a) d3"
proof -
  let ?idx = "i32_of_u32_or_0 (hp_attempt_index p)"
  obtain att where att: "attempt_at d part uid ?idx = Some att"
    and ep: "u64_of_i64_or 0 (at_lease_epoch att) = unat (hp_lease_epoch p)"
    using assms by (cases "attempt_at d part uid ?idx")
      (simp_all add: suspend_steps_def fetch_attempt Let_def split: if_splits)
  obtain kid secret where k: "current_active_kid d = Some (kid, secret)"
    using assms att ep by (cases "current_active_kid d") (auto simp: suspend_steps_def fetch_attempt Let_def)
  let ?bind = "bind_waitpoints L (pe_lib E) (hp_execution_id p) part uid a kid secret (ssa_waitpoints a) d"
  obtain ws' d1 where b: "?bind = Inr (ws', d1)"
    using assms att ep k by (cases ?bind) (auto simp: suspend_steps_def fetch_attempt Let_def)
  obtain sid where sid: "susp_uuid (pe_lib E) (ssa_suspension_id a) = Inr sid"
    using assms att ep k b
    by (cases "susp_uuid (pe_lib E) (ssa_suspension_id a)") (simp_all add: suspend_steps_def fetch_attempt Let_def)
  obtain d2 where d2: "put_suspension (new_suspension L part uid sid a) d1 = Inr d2"
    using assms att ep k b sid
    by (cases "put_suspension (new_suspension L part uid sid a) d1") (simp_all add: suspend_steps_def fetch_attempt Let_def)
  obtain d3 where d3: "try_update_attempt part uid ?idx suspend_attempt (update_exec part uid suspend_exec d2) = Inr d3"
    using assms att ep k b sid d2
    by (cases "try_update_attempt part uid ?idx suspend_attempt (update_exec part uid suspend_exec d2)")
      (simp_all add: suspend_steps_def fetch_attempt Let_def)
  from assms att ep k b sid d2 d3 have ws: "ws' = ws" and d': "d' = emit E part uid None EVENT_REVOKED (ssa_now a) d3"
    by (simp_all add: suspend_steps_def fetch_attempt Let_def)
  obtain t where t: "d1 = d\<lparr>t_waitpoint := t\<rparr>" using bind_waitpoints_tables [OF b] by blast
  show thesis by (rule that [OF att ep k b [unfolded ws t] sid d2 [unfolded t] d3 d'])
qed

lemma suspend_steps_evolves:
  assumes "suspend_steps L E p part uid a d = Inr (ws, d')"
  shows "db_evolves d d'"
  using assms
proof (cases rule: suspend_steps_cases)
  case (1 att kid secret sid t d2 d3)
  have "db_evolves d (update_exec part uid suspend_exec d2)"
    by (rule db_evolves_trans [OF bind_waitpoints_evolves [OF 1(4)]],
        rule db_evolves_trans [OF put_suspension_evolves [OF 1(6)]])
      (rule evolves_update_exec, rule suspend_exec_le)
  then have "db_evolves d d3" by (rule evolves_attempt_step [OF _ 1(7) suspend_attempt_le(1)])
  then show ?thesis unfolding 1(8) by (rule evolves_then(3))
qed

lemma cache_outcome_evolves: "db_evolves d (cache_outcome L X part a out d)"
  by (simp add: cache_outcome_def evolves_dedup_insert split: option.splits)

lemma suspend_tx_cases:
  assumes "suspend_tx L p part uid a E d = Inr (Inr (res, d'))"
  obtains cached where "cached_outcome part a d = Some cached"
    "outcome_from_dedup_json L (pe_lib E) cached = Inr res" "d' = d"
  | first extras d1 where "cached_outcome part a d = None"
    "suspend_steps L E p part uid a d = Inr (first # extras, d1)"
    "res = SO_Suspended
       \<lparr>sud_suspension_id = ssa_suspension_id a, sud_primary = first, sud_additional = extras\<rparr>
       \<lparr>h_backend = BT_Postgres, h_kind = HK_Suspended, h_opaque = encode (pe_lib E) BT_Postgres p\<rparr>"
    "d' = cache_outcome L (pe_lib E) part a res d1"
proof (cases "cached_outcome part a d")
  case None
  obtain ws d1 where s: "suspend_steps L E p part uid a d = Inr (ws, d1)"
    using assms None by (cases "suspend_steps L E p part uid a d") (auto simp: suspend_tx_def)
  then obtain first extras where ws: "ws = first # extras"
    using assms None by (cases ws) (simp_all add: suspend_tx_def)
  show thesis
    by (rule that(2) [OF None s [unfolded ws]])
      (use assms None s ws in \<open>auto simp: suspend_tx_def Let_def\<close>)
next
  case (Some cached)
  show thesis
    by (rule that(1) [OF Some]) (use assms Some in \<open>auto simp: suspend_tx_def rbind_Inr_iff\<close>)
qed

lemma suspend_tx_evolves: "suspend_tx L p part uid a E d = Inr (Inr (res, d')) \<Longrightarrow> db_evolves d d'"
  by (erule suspend_tx_cases)
    (auto intro: db_evolves_trans [OF suspend_steps_evolves] cache_outcome_evolves)

lemma create_waitpoint_tx_cases:
  assumes "create_waitpoint_tx L E eid part uid key exp d = Inr (r, d')"
  obtains row where "waitpoint_id_key row \<notin> waitpoint_id_key ` set (t_waitpoint d)"
    "d' = d\<lparr>t_waitpoint := t_waitpoint d @ [row]\<rparr>"
  using assms by (auto simp: create_waitpoint_tx_def rbind_Inr_iff Let_def split: prod.splits if_splits)

lemma create_waitpoint_tx_evolves:
  "create_waitpoint_tx L E eid part uid key exp d = Inr (r, d') \<Longrightarrow> db_evolves d d'"
  by (erule create_waitpoint_tx_cases) (auto intro!: evolves_waitpoint_rows)

text \<open>What a delivery finds, and the database it leaves.\<close>

lemma deliver_tx_cases:
  assumes "deliver_tx L a part uid wp E d = Inr (res, d')"
  obtains w s members condition where
    "sql_fetch (waitpoint_is part wp) (t_waitpoint d) = Some w" "wp_execution_id w = uid"
    "verify_token L (pe_lib E) w a d = Inr ()"
    "sql_fetch (suspension_is part uid) (t_suspension d) = Some s"
    "member_push (wp_waitpoint_key w) (signal_blob L (pe_lib E) a) (sc_member_map s) = Inr members"
    "sl_cond_from_json L (sc_condition s) = Inr condition"
    "res = DS_Accepted (dsa_signal_id a)
       (if resume_evaluate condition (signals_of L (pe_lib E) members) then ''resume_condition_satisfied''
        else ''appended_to_waitpoint'')"
    "d' = signal_emit E part uid (uuid_to_string (pe_lib E) (dsa_signal_id a))
       (Some (uuid_to_string (pe_lib E) (dsa_waitpoint_id a))) (Some (dsa_source_identity a)) (dsa_now a)
       (resume_if (resume_evaluate condition (signals_of L (pe_lib E) members)) E part uid (dsa_now a)
         (update_suspension part uid (\<lambda>r. r\<lparr>sc_member_map := JObj members\<rparr>) d))"
proof -
  let ?w = "sql_fetch (waitpoint_is part wp) (t_waitpoint d)" and ?s = "sql_fetch (suspension_is part uid) (t_suspension d)"
  obtain w where w: "?w = Some w" "wp_execution_id w = uid"
    using assms by (cases ?w) (simp_all add: deliver_tx_def Let_def split: if_splits)
  have v: "verify_token L (pe_lib E) w a d = Inr ()"
    using assms w by (cases "verify_token L (pe_lib E) w a d") (simp_all add: deliver_tx_def Let_def)
  obtain s where s: "?s = Some s" using assms w v by (cases ?s) (simp_all add: deliver_tx_def Let_def)
  let ?m = "member_push (wp_waitpoint_key w) (signal_blob L (pe_lib E) a) (sc_member_map s)"
  obtain members where m: "?m = Inr members"
    using assms w v s by (cases ?m) (simp_all add: deliver_tx_def Let_def)
  obtain condition where c: "sl_cond_from_json L (sc_condition s) = Inr condition"
    using assms w v s m by (cases "sl_cond_from_json L (sc_condition s)") (simp_all add: deliver_tx_def Let_def)
  show thesis by (rule that [OF w v s m c]) (use assms w v s m c in \<open>simp_all add: deliver_tx_def Let_def\<close>)
qed

lemma resume_if_evolves: "db_evolves d (resume_if b E part uid now d)"
proof (cases b)
  case True
  have "db_evolves d (delete_waitpoints part uid (update_exec part uid resumable_exec d))"
    by (rule db_evolves_trans [OF evolves_update_exec [OF resumable_exec_le] delete_waitpoints_evolves])
  with True show ?thesis by (simp add: resume_if_def) (erule db_evolves_trans, rule insert_resumable_evolves)
qed (simp add: resume_if_def)

lemma deliver_tx_evolves: "deliver_tx L a part uid wp E d = Inr (res, d') \<Longrightarrow> db_evolves d d'"
  by (erule deliver_tx_cases)
    (auto intro!: db_evolves_trans [OF _ signal_emit_evolves] db_evolves_trans [OF _ resume_if_evolves]
      update_suspension_evolves simp: suspension_key_def)

lemma claim_resumed_tx_cases:
  assumes "claim_resumed_tx E a part uid d = Inr ((idx, epoch), d')"
  obtains r d1 att where "exec_at d part uid = Some r" "ec_public_state r = ''resumable''" "idx = ec_attempt_index r"
    "try_update_attempt part uid idx (resumed_attempt a (pe_now E)
       (saturating_add (pe_now E) (i64_of_u64_or_0 (cra_lease_ttl_ms a)))) d = Inr d1"
    "attempt_at d1 part uid idx = Some att" "epoch = at_lease_epoch att"
    "d' = emit E part uid (Some (uuid_to_string (pe_lib E) (cra_lease_id a))) EVENT_ACQUIRED (pe_now E)
       (update_exec part uid (resumed_exec (pe_now E)) d1)"
proof -
  obtain r where r: "exec_at d part uid = Some r" "ec_public_state r = ''resumable''"
    using assms by (cases "exec_at d part uid") (simp_all add: claim_resumed_tx_def fetch_exec split: if_splits)
  let ?u = "try_update_attempt part uid (ec_attempt_index r) (resumed_attempt a (pe_now E)
       (saturating_add (pe_now E) (i64_of_u64_or_0 (cra_lease_ttl_ms a)))) d"
  obtain d1 where d1: "?u = Inr d1"
    using assms r by (cases ?u) (simp_all add: claim_resumed_tx_def fetch_exec Let_def)
  have same: "attempt_at (update_exec part uid (resumed_exec (pe_now E)) d1) part uid (ec_attempt_index r) =
    attempt_at d1 part uid (ec_attempt_index r)" by (simp add: attempt_at_def update_exec_def)
  obtain att where att: "attempt_at d1 part uid (ec_attempt_index r) = Some att"
    using assms r d1 same
    by (cases "attempt_at d1 part uid (ec_attempt_index r)") (simp_all add: claim_resumed_tx_def fetch_exec fetch_attempt Let_def)
  have fin: "idx = ec_attempt_index r" "epoch = at_lease_epoch att"
    "d' = emit E part uid (Some (uuid_to_string (pe_lib E) (cra_lease_id a))) EVENT_ACQUIRED (pe_now E)
       (update_exec part uid (resumed_exec (pe_now E)) d1)"
    using assms r d1 att same by (simp_all add: claim_resumed_tx_def fetch_exec fetch_attempt Let_def)
  show thesis by (rule that [OF r fin(1) _ _ fin(2,3)]) (simp_all add: fin(1) d1 att)
qed

lemma claim_resumed_tx_evolves:
  assumes "claim_resumed_tx E a part uid d = Inr (res, d')"
  shows "db_evolves d d'"
proof -
  obtain idx epoch where "res = (idx, epoch)" by (cases res)
  with assms have "claim_resumed_tx E a part uid d = Inr ((idx, epoch), d')" by simp
  then show ?thesis
  proof (cases rule: claim_resumed_tx_cases)
    case (1 r d1 att)
    have "db_evolves d d1" by (rule evolves_attempt_step [OF db_evolves_refl 1(4) suspend_attempt_le(2)])
    then have "db_evolves d (update_exec part uid (resumed_exec (pe_now E)) d1)"
      by (rule db_evolves_trans [OF _ evolves_update_exec [OF resumed_exec_le]])
    then show ?thesis unfolding 1(7) by (rule evolves_then(3))
  qed
qed

lemma suspension_expire_tx_evolves:
  "suspension_expire_tx b part uid now d = Inr (u, d') \<Longrightarrow> db_evolves d d'"
  by (auto simp: suspension_expire_tx_def suspension_key_def split: option.splits if_splits
      intro!: db_evolves_trans [OF _ evolves_insert_completion] db_evolves_trans [OF _ delete_suspension_evolves]
        evolves_update_exec timed_out_exec_le update_suspension_evolves)

lemma close_waitpoint_tx_evolves: "close_waitpoint_tx X part wp now d = Inr (u, d') \<Longrightarrow> db_evolves d d'"
  by (auto simp: close_waitpoint_tx_def Let_def suspension_key_def split: option.splits if_splits
      intro!: db_evolves_trans [OF _ update_suspension_evolves] evolves_waitpoint_rows distinct_sql_delete)

lemma resume_execution_tx_evolves: "resume_execution_tx n part uid d = Inr (r, d') \<Longrightarrow> db_evolves d d'"
  by (auto simp: resume_execution_tx_def rbind_Inr_iff split: if_splits
      intro!: db_evolves_trans [OF _ delete_suspension_evolves] evolves_update_exec operator_resumed_le)

end
