(* ===== verification/Pg_Engine.thy ===== *)
theory Pg_Engine
  imports Pg_Suspend_Inv
begin

text \<open>
  The Postgres backend as a whole: one step relation whose steps are the committed transactions of
  all modelled operations, in any order and with any environment. The public operations, the loops
  over partitions and candidates included, are sequences of such steps, so what holds along every
  run holds under every interleaving of workers, clients and scanners.
\<close>

section \<open>Steps\<close>

inductive engine_tx :: "db \<Rightarrow> db \<Rightarrow> bool" where
  tx_create: "create_tx a part uid pol d = Inr (u, d') \<Longrightarrow> engine_tx d d'"
| tx_cancel: "cancel_tx E eid part uid reason d = Inr (u, d') \<Longrightarrow> engine_tx d d'"
| tx_set_tag: "set_tag_tx part uid key v d = Inr (n, d') \<Longrightarrow> engine_tx d d'"
| tx_claim: "claim_tx E part lane caps policy d = Inr (c, d') \<Longrightarrow> engine_tx d d'"
| tx_resume: "resume_tx E token part uid d = Inr (i, d') \<Longrightarrow> engine_tx d d'"
| tx_renew: "fence_check part uid idx (hp_lease_epoch p) d = Inr () \<Longrightarrow>
    renew_body E p part uid idx d = Inr (l, d') \<Longrightarrow> engine_tx d d'"
| tx_progress: "fence_check part uid idx (hp_lease_epoch p) d = Inr () \<Longrightarrow>
    progress_body percent message E p part uid idx d = Inr (u, d') \<Longrightarrow> engine_tx d d'"
| tx_complete: "fence_check part uid idx (hp_lease_epoch p) d = Inr () \<Longrightarrow>
    complete_body payload_bytes E p part uid idx d = Inr (u, d') \<Longrightarrow> engine_tx d d'"
| tx_fail: "fence_check part uid idx (hp_lease_epoch p) d = Inr () \<Longrightarrow>
    fail_body why cls E p part uid idx d = Inr (f, d') \<Longrightarrow> engine_tx d d'"
| tx_delay: "fence_check part uid idx (hp_lease_epoch p) d = Inr () \<Longrightarrow>
    delay_body delay_until E p part uid idx d = Inr (u, d') \<Longrightarrow> engine_tx d d'"
| tx_wait_children: "fence_check part uid idx (hp_lease_epoch p) d = Inr () \<Longrightarrow>
    wait_children_body E p part uid idx d = Inr (u, d') \<Longrightarrow> engine_tx d d'"
| tx_release: "release_tx E part uid idx now d = Inr (u, d') \<Longrightarrow> engine_tx d d'"
| tx_expire: "expire_tx E part uid idx now d = Inr (u, d') \<Longrightarrow> engine_tx d d'"
| tx_deadline: "deadline_tx E part uid now d = Inr (u, d') \<Longrightarrow> engine_tx d d'"
| tx_promote: "promote_tx part uid now d = Inr (u, d') \<Longrightarrow> engine_tx d d'"
| tx_claim_event: "claim_event E ev d = Inr (row, d') \<Longrightarrow> engine_tx d d'"
| tx_advance: "advance_tx E part flow up down oc d = Inr (u, d') \<Longrightarrow> engine_tx d d'"
| tx_dispatch_group: "dispatch_group_tx E locked part flow down d = Inr (g, d') \<Longrightarrow> engine_tx d d'"
| tx_reconcile_group: "reconcile_group_tx E locked part flow down d = Inr (r, d') \<Longrightarrow> engine_tx d d'"
| tx_create_flow: "create_flow_tx cfa part d = Inr (cf, d') \<Longrightarrow> engine_tx d d'"
| tx_add: "add_tx E ad part uid d = Inr (ar, d') \<Longrightarrow> engine_tx d d'"
| tx_stage: "stage_tx E sg part up down d = Inr (sr, d') \<Longrightarrow> engine_tx d d'"
| tx_apply: "apply_tx ap part down d = Inr (pr, d') \<Longrightarrow> engine_tx d d'"
| tx_cancel_flow: "cancel_flow_tx E part flow cpol d = Inr (cr, d') \<Longrightarrow> engine_tx d d'"
| tx_set_policy: "set_policy_tx part flow down dpol d = Inr (gr, d') \<Longrightarrow> engine_tx d d'"
| tx_set_flow_tag: "set_flow_tag_tx part flow key v d = Inr (n, d') \<Longrightarrow> engine_tx d d'"
| tx_summary: "upsert_summary srow d = Inr (b, d') \<Longrightarrow> engine_tx d d'"
| tx_cancel_execution: "cancel_execution_tx E xa part uid d = Inr (xr, d') \<Longrightarrow> engine_tx d d'"
| tx_revoke: "revoke_lease_tx E rv part uid d = Inr (rr, d') \<Longrightarrow> engine_tx d d'"
| tx_priority: "change_priority_tx E cpa part uid d = Inr (pc, d') \<Longrightarrow> engine_tx d d'"
| tx_replay: "replay_tx E rp part uid d = Inr (rpr, d') \<Longrightarrow> engine_tx d d'"
| tx_header: "header_tx E fa part d = Inr (fh, d') \<Longrightarrow> engine_tx d d'"
| tx_ack: "ack_tx part flow eid d = Inr (u, d') \<Longrightarrow> engine_tx d d'"
| tx_suspend: "suspend_tx L p part uid sa E d = Inr (Inr (so, d')) \<Longrightarrow> engine_tx d d'"
| tx_create_waitpoint: "create_waitpoint_tx L E eid part uid key expires_in d = Inr (wt, d') \<Longrightarrow> engine_tx d d'"
| tx_deliver: "deliver_tx L da part uid wp E d = Inr (dr, d') \<Longrightarrow> engine_tx d d'"
| tx_claim_resumed: "claim_resumed_tx E cra part uid d = Inr (ce, d') \<Longrightarrow> engine_tx d d'"
| tx_rotate: "rotate_tx kid secret now d = Inr (ro, d') \<Longrightarrow> engine_tx d d'"
| tx_seed: "seed_tx debug kid secret now d = Inr (se, d') \<Longrightarrow> engine_tx d d'"
| tx_suspension_expire: "suspension_expire_tx behavior part uid now d = Inr (u, d') \<Longrightarrow> engine_tx d d'"
| tx_close_waitpoint: "close_waitpoint_tx X part wp now d = Inr (u, d') \<Longrightarrow> engine_tx d d'"
| tx_resume_execution: "resume_execution_tx n part uid d = Inr (re, d') \<Longrightarrow> engine_tx d d'"

abbreviation engine_run :: "db \<Rightarrow> db \<Rightarrow> bool" where
  "engine_run \<equiv> engine_tx\<^sup>*\<^sup>*"

definition empty_db :: db where
  "empty_db = \<lparr>t_exec = [], t_attempt = [], t_edge = [], t_edge_group = [], t_pending_cancel = [],
     t_completion = [], t_lease_event = [], t_lane_registry = [], next_completion_id = 1,
     next_lease_event_id = 1, t_flow = [], t_flow_summary = [], t_cancel_backlog = [],
     t_backlog_member = [], t_operator_event = [], next_operator_event_id = 1,
      t_suspension = [], t_waitpoint = [], t_hmac = [], t_suspend_dedup = [], t_signal_event = [],
      next_signal_event_id = 1\<rparr>"

section \<open>Operations are runs\<close>

lemma run_tx_engine:
  "(\<And>a d'. body d = Inr (a, d') \<Longrightarrow> engine_tx d d') \<Longrightarrow> engine_run d (snd (run_tx flt body d))"
  by (rule run_tx_rel) auto

lemma fenced_tx_engine:
  assumes "\<And>E p part uid idx d a d'. fence_check part uid idx (hp_lease_epoch p) d = Inr () \<Longrightarrow>
    body E p part uid idx d = Inr (a, d') \<Longrightarrow> engine_tx d d'"
  shows "engine_run d (snd (fenced_tx body E h d))"
proof -
  have "engine_run d (snd (run_tx flt (\<lambda>d. rbind (fence_check part uid idx (hp_lease_epoch p) d)
      (\<lambda>_. body E p part uid idx d)) d))" for flt p part uid idx
    by (rule run_tx_engine) (auto simp: rbind_Inr_iff intro: assms)
  then show ?thesis by (auto simp: fenced_tx_def Let_def split: sum.splits)
qed

lemma worker_ops_run:
  "engine_run d (snd (renew E h d))" "engine_run d (snd (progress percent message E h d))"
  "engine_run d (snd (complete payload_bytes E h d))" "engine_run d (snd (fail why cls E h d))"
  "engine_run d (snd (delay delay_until E h d))" "engine_run d (snd (wait_children E h d))"
  unfolding renew_def progress_def complete_def fail_def delay_def wait_children_def
  by (rule fenced_tx_engine, erule (1) engine_tx.intros)+

lemma try_claim_run: "engine_run d (snd (try_claim_in_partition E part lane caps policy d))"
  using run_tx_engine [of "claim_tx E part lane caps policy" d "pe_fault E"] tx_claim
  by (auto simp: try_claim_in_partition_def split: prod.splits sum.splits option.splits)

lemma claim_run: "engine_run d (snd (claim env lane caps policy d))"
proof -
  have "engine_run d (snd (claim_loop env parts lane caps policy d))" for parts
  proof (induction parts arbitrary: d)
    case (Cons part parts)
    from try_claim_run [of d "env part" part lane caps policy] Cons.IH show ?case
      by (auto split: prod.splits sum.splits option.splits intro: rtranclp_trans)
  qed simp
  then show ?thesis by (simp add: claim_def)
qed

lemma resume_run: "engine_run d (snd (claim_from_resume_grant E token d))"
proof -
  have "engine_run d (snd (run_tx (pe_fault E) (resume_tx E token part uid) d))" for part uid
    by (rule run_tx_engine) (rule tx_resume)
  then show ?thesis
    by (auto simp: claim_from_resume_grant_def split: prod.splits sum.splits option.splits)
      (metis snd_conv)+
qed

lemma client_ops_run:
  "create_execution_impl E a d = Inr x \<Longrightarrow> engine_run d (snd x)"
  "cancel_impl E eid reason d = Inr y \<Longrightarrow> engine_run d (snd y)"
  "set_execution_tag_impl E eid key v d = Inr z \<Longrightarrow> engine_run d (snd z)"
  by (cases "create_policy a";
      auto simp: create_execution_impl_def cancel_impl_def set_execution_tag_impl_def rbind_Inr_iff
      intro!: run_tx_engine intro: engine_tx.intros)+

lemma row_actions_run:
  "engine_run d (snd (release_one E part uid idx now d))" "engine_run d (snd (expire_one E part uid idx now d))"
  "engine_run d (snd (deadline_expire_for_execution E part uid now d))"
  "engine_run d (snd (promote_for_execution E part uid now d))"
  unfolding release_one_def expire_one_def deadline_expire_for_execution_def promote_for_execution_def
  by (rule run_tx_engine, erule engine_tx.intros)+

lemma scan_tick_run:
  assumes "\<And>E part uid idx now d. engine_run d (snd (act E part uid idx now d))"
  shows "engine_run d (snd (scan_tick cand act E envs part f d))"
proof -
  have "engine_run d (snd (scan_rows act envs part f now i rows rep d))" for now i rows rep d
  proof (induction rows arbitrary: i rep d)
    case (Cons row rows)
    obtain uid idx where row: "row = (uid, idx)" by force
    show ?case
    proof (cases "act (envs i) part uid idx now d")
      case (Pair res d')
      then have "engine_run d d'" using assms [of d "envs i" part uid idx now] by simp
      with Cons.IH show ?thesis by (auto simp: row Pair split: sum.splits intro: rtranclp_trans)
    qed
  qed simp
  then show ?thesis by (auto simp: scan_tick_def split: option.splits prod.splits) (metis snd_conv)
qed

lemma scanners_run:
  "engine_run d (snd (lease_expiry_scan_tick E envs part f d))"
  "engine_run d (snd (attempt_timeout_scan_tick E envs part f d))"
  "engine_run d (snd (release_for_execution E part uid d))"
  "engine_run d (snd (timeout_for_execution E part uid d))"
  unfolding lease_expiry_scan_tick_def attempt_timeout_scan_tick_def
  by (rule scan_tick_run row_actions_run)+
    (auto simp: release_for_execution_def timeout_for_execution_def row_actions_run split: option.splits)

lemma advance_run_tx: "engine_run d (snd (advance_edge_group E part flow up down oc d))"
  unfolding advance_edge_group_def by (rule run_tx_engine) (rule tx_advance)

lemmas cascade_run = cascade_rel [of engine_run, OF rtranclp.rtrancl_refl rtranclp_trans advance_run_tx]

lemma dispatch_run: "engine_run d (snd (dispatch_completion E env ev d))"
proof -
  obtain res d' where r: "run_tx (pe_fault E) (claim_event E ev) d = (res, d')" by force
  have "engine_run d d'" using run_tx_engine [of "claim_event E ev" d "pe_fault E"] tx_claim_event r by auto
  then show ?thesis
    by (auto simp: dispatch_completion_def r split: sum.splits option.splits
        intro: rtranclp_trans [OF _ cascade_run])
qed

lemma reconcile_tick_run: "engine_run d (snd (reconcile_tick E envs f threshold d))"
proof -
  have "engine_run d (snd (reconcile_rows envs i evs rep d))" for i evs rep d
  proof (induction evs arbitrary: i rep d)
    case (Cons ev evs)
    from dispatch_run [of d "fst (envs i)" "snd (envs i)" ev] Cons.IH show ?case
      by (auto split: prod.splits sum.splits dispatch_outcome.splits intro: rtranclp_trans)
  qed simp
  then show ?thesis by (auto simp: reconcile_tick_def Let_def split: option.splits prod.splits) (metis snd_conv)
qed

lemma edge_scanners_run:
  "engine_run d (snd (dispatcher_tick E envs f d))" "engine_run d (snd (reconciler_tick E envs f d))"
proof -
  have "engine_run d (snd (dispatch_one_group E locked part flow down d))"
    "engine_run d (snd (reconcile_one_group E locked part flow down d))" for E locked part flow down d
    unfolding dispatch_one_group_def reconcile_one_group_def
    by (rule run_tx_engine, erule engine_tx.intros)+
  then have "engine_run d (snd (dispatch_groups envs i gs rep d))"
    "engine_run d (snd (reconcile_groups envs i gs rep' d))" for i gs rep rep' d
    by (induction gs arbitrary: i rep rep' d) (auto split: prod.splits intro: rtranclp_trans, (metis rtranclp_trans snd_conv)+)
  then show "engine_run d (snd (dispatcher_tick E envs f d))" "engine_run d (snd (reconciler_tick E envs f d))"
    by (simp_all add: dispatcher_tick_def reconciler_tick_def split: option.splits)
qed

lemma flow_ops_run:
  "create_flow E pc cfa d = Inr x1 \<Longrightarrow> engine_run d (snd x1)"
  "add_execution_to_flow E pc ada d = Inr x2 \<Longrightarrow> engine_run d (snd x2)"
  "stage_dependency_edge E pc sga d = Inr x3 \<Longrightarrow> engine_run d (snd x3)"
  "apply_dependency_to_child E pc apa d = Inr x4 \<Longrightarrow> engine_run d (snd x4)"
  "set_edge_group_policy E pc fid down pol d = Inr x5 \<Longrightarrow> engine_run d (snd x5)"
  "set_flow_tag_impl E pc fid key v d = Inr x6 \<Longrightarrow> engine_run d (snd x6)"
proof -
  have r: "engine_run d (snd (run_tx flt (create_flow_tx cfa part) d))"
    "engine_run d (snd (run_tx flt (add_tx E ada part uid) d))"
    "engine_run d (snd (run_tx flt (stage_tx E sga part up down') d))"
    "engine_run d (snd (run_tx flt (apply_tx apa part uid) d))"
    "engine_run d (snd (run_tx flt (set_policy_tx part fid uid pol) d))"
    "engine_run d (snd (run_tx flt (set_flow_tag_tx part fid key v) d))" for flt part uid up down'
    by (rule run_tx_engine, erule engine_tx.intros)+
  show "create_flow E pc cfa d = Inr x1 \<Longrightarrow> engine_run d (snd x1)"
    by (auto simp: create_flow_def rbind_Inr_iff r)
  show "engine_run d (snd x2)" if "add_execution_to_flow E pc ada d = Inr x2"
  proof -
    from that obtain part where p: "flow_partition_byte (pe_lib E) (ad_flow_id ada) pc = Inr part"
      by (auto simp: add_execution_to_flow_def rbind_Inr_iff)
    show ?thesis
    proof (cases "staging_exec_uuid (pe_lib E) (ad_execution_id ada)")
      case (Inl e)
      with that p show ?thesis by (simp add: add_execution_to_flow_def) auto
    next
      case (Inr uid)
      obtain res d' where x: "run_tx (pe_fault E) (add_tx E ada part uid) d = (res, d')" by force
      with r(2) [of "pe_fault E" part uid] that p Inr show ?thesis
        by (auto simp: add_execution_to_flow_def split: sum.splits)
    qed
  qed
  show "stage_dependency_edge E pc sga d = Inr x3 \<Longrightarrow> engine_run d (snd x3)"
    by (cases "staging_exec_uuid (pe_lib E) (sg_upstream_execution_id sga)";
        cases "staging_exec_uuid (pe_lib E) (sg_downstream_execution_id sga)";
        auto simp: stage_dependency_edge_def rbind_Inr_iff r split: if_splits)
  show "apply_dependency_to_child E pc apa d = Inr x4 \<Longrightarrow> engine_run d (snd x4)"
    by (cases "staging_exec_uuid (pe_lib E) (ap_downstream_execution_id apa)")
      (auto simp: apply_dependency_to_child_def rbind_Inr_iff r)
  show "set_edge_group_policy E pc fid down pol d = Inr x5 \<Longrightarrow> engine_run d (snd x5)"
    by (cases "parse_exec_uuid (pe_lib E) down")
      (auto simp: set_edge_group_policy_def rbind_Inr_iff r split: if_splits)
  show "engine_run d (snd x6)" if "set_flow_tag_impl E pc fid key v d = Inr x6"
  proof -
    from that obtain part where p: "flow_partition_byte (pe_lib E) fid pc = Inr part"
      by (auto simp: set_flow_tag_impl_def rbind_Inr_iff)
    obtain res d' where x: "run_tx (pe_fault E) (set_flow_tag_tx part fid key v) d = (res, d')" by force
    with r(6) [of "pe_fault E" part] that p show ?thesis
      by (auto simp: set_flow_tag_impl_def split: sum.splits)
  qed
qed

lemma project_run: "engine_run d (snd (project_flow_summary_impl E part flow now seen d))"
proof -
  have "engine_run d (snd (run_tx (pe_fault E) (upsert_summary row) d))" for row
    by (rule run_tx_engine) (rule tx_summary)
  then show ?thesis by (simp add: project_flow_summary_impl_def split: option.splits)
qed

lemma cancel_flow_run: "cancel_flow env pc fid policy d = Inr x \<Longrightarrow> engine_run d (snd x)"
proof -
  have once: "engine_run d (snd (cancel_flow_once E part fid policy d))" for E part d
    unfolding cancel_flow_once_def by (rule run_tx_engine) (rule tx_cancel_flow)
  have "engine_run d (snd (cancel_flow_loop env part fid policy left d))" for part left
  proof (induction left arbitrary: d)
    case (Suc left)
    obtain res d' where r: "cancel_flow_once (env (CANCEL_FLOW_MAX_ATTEMPTS - Suc left)) part fid policy d = (res, d')"
      by force
    then have "engine_run d d'" using once [of d "env (CANCEL_FLOW_MAX_ATTEMPTS - Suc left)" part] by simp
    with Suc.IH r show ?case by (auto split: sum.splits intro: rtranclp_trans)
  qed simp
  then show "cancel_flow env pc fid policy d = Inr x \<Longrightarrow> engine_run d (snd x)"
    by (auto simp: cancel_flow_def rbind_Inr_iff)
qed

lemma retry_run:
  assumes "\<And>i d. engine_run d (snd (f i d))"
  shows "engine_run d (snd (retry_serializable f d))"
proof -
  have "engine_run d (snd (retry_loop f left d))" for left
  proof (induction left arbitrary: d)
    case (Suc left)
    obtain res d' where r: "f (MAX_ATTEMPTS - Suc left) d = (res, d')" by force
    then have "engine_run d d'" using assms [of d "MAX_ATTEMPTS - Suc left"] by simp
    with Suc.IH r show ?case by (auto split: sum.splits intro: rtranclp_trans)
  qed simp
  then show ?thesis by (simp add: retry_serializable_def)
qed

lemma operator_ops_run:
  "cancel_execution_impl env xa d = Inr x1 \<Longrightarrow> engine_run d (snd x1)"
  "revoke_lease_impl env rva d = Inr x2 \<Longrightarrow> engine_run d (snd x2)"
  "change_priority_impl env cpa d = Inr x3 \<Longrightarrow> engine_run d (snd x3)"
  "replay_execution_impl env rpa d = Inr x4 \<Longrightarrow> engine_run d (snd x4)"
  "cancel_flow_header_impl env pc fa d = Inr x5 \<Longrightarrow> engine_run d (snd x5)"
  "ack_cancel_member_impl env pc fid eid d = Inr x6 \<Longrightarrow> engine_run d (snd x6)"
proof -
  have r: "engine_run d (snd (cancel_execution_once E xa part uid d))" "engine_run d (snd (revoke_lease_once E rva part uid d))"
    "engine_run d (snd (change_priority_once E cpa part uid d))" "engine_run d (snd (replay_execution_once E rpa part uid d))"
    "engine_run d (snd (cancel_flow_header_once E fa part d))" "engine_run d (snd (ack_cancel_member_once E part fid eid d))"
    for E part uid d
    unfolding cancel_execution_once_def revoke_lease_once_def change_priority_once_def replay_execution_once_def
      cancel_flow_header_once_def ack_cancel_member_once_def
    by (rule run_tx_engine, erule engine_tx.intros)+
  show "cancel_execution_impl env xa d = Inr x1 \<Longrightarrow> engine_run d (snd x1)"
    "revoke_lease_impl env rva d = Inr x2 \<Longrightarrow> engine_run d (snd x2)"
    "change_priority_impl env cpa d = Inr x3 \<Longrightarrow> engine_run d (snd x3)"
    "replay_execution_impl env rpa d = Inr x4 \<Longrightarrow> engine_run d (snd x4)"
    "cancel_flow_header_impl env pc fa d = Inr x5 \<Longrightarrow> engine_run d (snd x5)"
    "ack_cancel_member_impl env pc fid eid d = Inr x6 \<Longrightarrow> engine_run d (snd x6)"
    by (auto simp: cancel_execution_impl_def revoke_lease_impl_def change_priority_impl_def
        replay_execution_impl_def cancel_flow_header_impl_def ack_cancel_member_impl_def rbind_Inr_iff
        intro!: retry_run r)
qed

lemma serializable_run:
  assumes step: "\<And>E d v d'. op E d = Inr (Inr (v, d')) \<Longrightarrow> engine_tx d d'"
    and "run_serializable env site op d = Inr x"
  shows "engine_run d (snd x)"
proof -
  have "serializable_loop env site op left d = Inr x \<Longrightarrow> engine_run d (snd x)" for left
  proof (induction left arbitrary: d)
    case (Suc left)
    let ?E = "env (SERIALIZABLE_RETRY_BUDGET - Suc left)"
    show ?case
    proof (cases "op ?E d")
      case (Inr res)
      then show ?thesis using Suc step [of ?E d]
        by (cases res) (auto simp: Let_def split: tx_fault.splits if_splits prod.splits
            intro: converse_rtranclp_into_rtranclp)
    qed (use Suc in \<open>auto simp: Let_def split: tx_fault.splits if_splits\<close>)
  qed auto
  with assms(2) show ?thesis by (simp add: run_serializable_def)
qed

lemma suspend_core_run: "suspend_core L env site p sa d = Inr x \<Longrightarrow> engine_run d (snd x)"
  by (auto simp: suspend_core_def split: sum.splits prod.splits
      elim!: serializable_run [rotated] intro: tx_suspend)

lemma deliver_run: "deliver_signal_impl L env site da d = Inr x \<Longrightarrow> engine_run d (snd x)"
  by (auto simp: deliver_signal_impl_def split: sum.splits prod.splits
      elim!: serializable_run [rotated] intro: tx_deliver)

lemma suspend_retry_run:
  "suspend_impl L env site h sa d = Inr x1 \<Longrightarrow> engine_run d (snd x1)"
  "suspend_by_triple_impl L E env site eid triple sa d0 d = Inr x2 \<Longrightarrow> engine_run d (snd x2)"
  "deliver_approval_signal_impl L E env site aa d0 d = Inr x3 \<Longrightarrow> engine_run d (snd x3)"
  by (auto simp: suspend_impl_def suspend_by_triple_impl_def deliver_approval_signal_impl_def
      split: sum.splits prod.splits option.splits elim!: suspend_core_run deliver_run)

lemma suspension_expire_run: "engine_run d (snd (suspension_expire_one E b part uid now d))"
  unfolding suspension_expire_one_def by (rule run_tx_engine, erule engine_tx.intros)

lemma suspension_rows_run: "engine_run d (snd (suspension_scan_rows envs part f now i rows rep d))"
proof (induction rows arbitrary: i rep d)
  case (Cons s rows)
  obtain res d' where r: "suspension_expire_one (envs i) (behavior_of s) part (sc_execution_id s) now d = (res, d')"
    by force
  then have "engine_run d d'"
    using suspension_expire_run [of d "envs i" "behavior_of s" part "sc_execution_id s" now] by simp
  with Cons.IH r show ?case by (auto split: sum.splits intro: rtranclp_trans)
qed simp

lemma suspend_ops_run:
  "engine_run d (snd (create_waitpoint_impl L E h key expires_in d))"
  "engine_run d (snd (claim_resumed_execution_impl E cra d))"
  "engine_run d (snd (rotate_waitpoint_hmac_secret_all_impl L E kid secret_hex now d))"
  "engine_run d (snd (seed_waitpoint_hmac_secret_impl debug L E kid secret_hex now d))"
  "engine_run d (snd (suspension_timeout_scan_tick E envs part f d))"
  "engine_run d (snd (expire_for_execution E part uid d))"
  "engine_run d (snd (close_for_execution E part wp now d))"
  "engine_run d (snd (resume_execution E eid n d))"
proof -
  have claim: "engine_run d (snd (run_tx (pe_fault E) (claim_resumed_tx E cra part uid) d))"
    and rotate: "engine_run d (snd (run_tx (pe_fault E) (rotate_tx kid secret now) d))" for part uid secret
    by (rule run_tx_engine, erule engine_tx.intros)+
  show "engine_run d (snd (claim_resumed_execution_impl E cra d))"
    using claim by (auto simp: claim_resumed_execution_impl_def Let_def split: sum.splits prod.splits) (metis snd_conv)+
  show "engine_run d (snd (rotate_waitpoint_hmac_secret_all_impl L E kid secret_hex now d))"
    using rotate by (auto simp: rotate_waitpoint_hmac_secret_all_impl_def split: option.splits prod.splits) (metis snd_conv)
  show "engine_run d (snd (suspension_timeout_scan_tick E envs part f d))"
    using suspension_rows_run by (auto simp: suspension_timeout_scan_tick_def split: option.splits prod.splits) (metis snd_conv)
  show "engine_run d (snd (expire_for_execution E part uid d))"
    by (auto simp: expire_for_execution_def suspension_expire_run split: option.splits)
  show "engine_run d (snd (create_waitpoint_impl L E h key expires_in d))"
    "engine_run d (snd (seed_waitpoint_hmac_secret_impl debug L E kid secret_hex now d))"
    "engine_run d (snd (close_for_execution E part wp now d))" "engine_run d (snd (resume_execution E eid n d))"
    by (auto simp: create_waitpoint_impl_def seed_waitpoint_hmac_secret_impl_def close_for_execution_def
        resume_execution_def split: sum.splits prod.splits option.splits intro!: run_tx_engine intro: engine_tx.intros)
qed


section \<open>Invariants\<close>

lemma set_tag_steps:
  assumes "set_tag_tx part uid key v d = Inr (n, d')"
  shows "db_evolves d d' \<and> t_attempt d' = t_attempt d"
proof -
  let ?f = "\<lambda>r. rbind (jsonb_set2 ''tags'' key (JStr v) (ec_raw_fields r)) (\<lambda>raw. Inr (r\<lparr>ec_raw_fields := raw\<rparr>))"
  from assms have u: "try_update_exec part uid ?f d = Inr d'" by (auto simp: set_tag_tx_def rbind_Inr_iff)
  have "db_evolves d d'"
    by (rule evolves_try_update_exec [OF u])
      (auto simp: rbind_Inr_iff exec_le_def exec_typed_def exec_key_def)
  with try_update_exec_tables(1) [OF u] show ?thesis by simp
qed

lemma create_tx_steps:
  assumes "create_tx a part uid pol d = Inr (u, d')"
  shows "db_evolves d d' \<and> t_attempt d' = t_attempt d"
  using assms evolves_exec_insert [OF create_row_typed] by (auto simp: create_tx_def)

lemma engine_tx_evolves: "engine_tx d d' \<Longrightarrow> db_evolves d d'"
  by (erule engine_tx.cases)
    (auto dest: create_tx_steps cancel_tx_steps set_tag_steps claim_tx_evolves resume_tx_evolves
      renew.body_evolves progress.body_evolves complete.body_evolves fail.body_evolves delay.body_evolves
      wait_children.body_evolves release_tx_steps expire_tx_steps deadline_tx_steps promote_tx_steps
      claim_event_evolves advance_tx_evolves dispatch_group_tx_evolves reconcile_group_tx_evolves
      create_flow_tx_evolves add_tx_evolves stage_tx_evolves apply_tx_evolves cancel_flow_tx_evolves
      set_policy_tx_evolves set_flow_tag_tx_evolves upsert_summary_evolves cancel_execution_tx_evolves
      revoke_lease_tx_evolves change_priority_tx_evolves replay_tx_evolves header_tx_evolves ack_tx_evolves
      suspend_tx_evolves create_waitpoint_tx_evolves deliver_tx_evolves claim_resumed_tx_evolves rotate_tx_evolves
      seed_tx_evolves suspension_expire_tx_evolves close_waitpoint_tx_evolves resume_execution_tx_evolves)

lemma engine_evolves: "engine_run d d' \<Longrightarrow> db_evolves d d'"
  by (induction rule: rtranclp_induct) (auto intro: db_evolves_trans engine_tx_evolves)

lemma empty_db_ok: "db_wf empty_db" "db_typed empty_db"
  by (simp_all add: empty_db_def db_wf_def db_typed_def)

lemma engine_keeps: "engine_run d d' \<Longrightarrow> db_wf d \<and> db_typed d \<Longrightarrow> db_wf d' \<and> db_typed d'"
  using engine_evolves [of d d'] by (simp add: db_evolves_def)



section \<open>The lease protocol\<close>

text \<open>
  What the backend promises about leases, apart from everything else: each attempt has a counter,
  and the only thing that ever happens is that one attempt is acquired, which raises its counter.
\<close>

type_synonym lease_map = "int \<times> uuid \<times> int \<Rightarrow> int option"

definition acquire :: "int \<times> uuid \<times> int \<Rightarrow> lease_map \<Rightarrow> lease_map" where
  "acquire k m = m(k \<mapsto> (case m k of None \<Rightarrow> 1 | Some e \<Rightarrow> e + 1))"

definition lease_view :: "db \<Rightarrow> lease_map" where
  "lease_view d = (\<lambda>(part, uid, idx). map_option at_lease_epoch (attempt_at d part uid idx))"

lemma lease_view_same_table: "t_attempt d' = t_attempt d \<Longrightarrow> lease_view d' = lease_view d"
  by (simp add: lease_view_def attempt_at_def)

lemma lease_view_same:
  assumes "db_evolves d d' \<and> touches_only part uid d d' \<and> same_epochs part uid d d'"
  shows "lease_view d' = lease_view d"
proof
  fix k :: "int \<times> uuid \<times> int"
  obtain p u i where k: "k = (p, u, i)" by (cases k)
  show "lease_view d' k = lease_view d k"
    using assms by (cases "(p, u) = (part, uid)") (auto simp: lease_view_def k touches_only_def same_epochs_def)
qed

context fenced_op
begin

lemma body_view: "body E p part uid idx d = Inr (a, d') \<Longrightarrow> lease_view d' = lease_view d"
  using body_evolves body_touches body_epoch
  by (intro lease_view_same [of d d' part uid]) (auto simp: same_epochs_def)

end

lemma claim_event_attempts: "claim_event E ev d = Inr (row, d') \<Longrightarrow> t_attempt d' = t_attempt d"
  by (auto simp: claim_event_def)

lemma advance_tx_attempts: "advance_tx E part flow up down oc d = Inr (u, d') \<Longrightarrow> t_attempt d' = t_attempt d"
  by (auto simp: advance_tx_def apply_decision_def Let_def enqueue_cancel_def update_group_def db_lookup
      insert_completion_values_def split: option.splits decision.splits)

lemma claim_acquires:
  assumes "claim_tx E part lane caps policy d = Inr (Some (uid, idx, epoch), d')"
  shows "lease_view d' = acquire (part, uid, idx) (lease_view d) \<and>
    lease_view d' (part, uid, idx) = Some epoch"
  using assms
proof (cases rule: claim_tx_cases)
  case (2 r t a)
  let ?n = "new_attempt E part policy r"
  have n: "attempt_key ?n = (part, uid, idx)" "at_lease_epoch ?n = 1" "at_outcome ?n = None"
    using 2(5) by simp_all (simp_all add: new_attempt_def Let_def)
  have d': "attempt_at d' p u i = attempt_at (d\<lparr>t_attempt := t\<rparr>) p u i" for p u i
    using 2(6) by (simp add: db_lookup)
  from upsert_attempt_at [OF 2(3) n] obtain b where b: "attempt_at d' part uid idx = Some b"
    "at_lease_epoch b = (case attempt_at d part uid idx of None \<Rightarrow> 1 | Some old \<Rightarrow> at_lease_epoch old + 1)"
    unfolding d' by blast
  have o: "attempt_at d' p u i = attempt_at d p u i" if "(p, u, i) \<noteq> (part, uid, idx)" for p u i
    using upsert_attempt_other [OF 2(3) n(1) that] unfolding d' .
  have e: "at_lease_epoch b = epoch" using b(1) 2(4,5) d' by auto
  have "lease_view d' k = acquire (part, uid, idx) (lease_view d) k" for k
  proof (cases "k = (part, uid, idx)")
    case True
    with b show ?thesis by (simp add: lease_view_def acquire_def split: option.splits)
  next
    case False
    then show ?thesis using o by (cases k) (auto simp: lease_view_def acquire_def)
  qed
  then have "lease_view d' = acquire (part, uid, idx) (lease_view d)" by blast
  moreover have "lease_view d' (part, uid, idx) = Some epoch" using b(1) e by (simp add: lease_view_def)
  ultimately show ?thesis by blast
qed simp

lemma resume_acquires:
  assumes "db_wf d" "resume_tx E token part uid d = Inr (Some (idx, epoch), d')"
  shows "lease_view d' = acquire (part, uid, idx) (lease_view d) \<and>
    lease_view d' (part, uid, idx) = Some (epoch + 1)"
  using assms(2)
proof (cases rule: resume_tx_cases)
  case (2 a d1)
  have a: "at_attempt_index a = idx" "at_lease_epoch a = epoch" "attempt_at d part uid idx = Some a"
    using 2(4) latest_attempt_Some [OF assms(1) 2(1)] by auto
  have d': "attempt_at d' p u i = attempt_at d1 p u i" for p u i using 2(5) by (simp add: db_lookup)
  have keys: "attempt_key r' = attempt_key r" if "resume_attempt token (pe_now E) r = Inr r'" for r r'
    using resume_attempt_keeps [OF that] by blast
  note u = try_update_attempt_at [OF 2(3) keys, unfolded a(1)]
  have "lease_view d' k = acquire (part, uid, idx) (lease_view d) k" for k
  proof (cases k)
    case (fields p u i)
    then show ?thesis
      using u [of p u i] a
      by (auto simp: lease_view_def acquire_def d' dest!: resume_attempt_keeps split: if_splits)
  qed
  then have "lease_view d' = acquire (part, uid, idx) (lease_view d)" by blast
  moreover from this have "lease_view d' (part, uid, idx) = Some (epoch + 1)"
    using a by (simp add: acquire_def) (simp add: lease_view_def)
  ultimately show ?thesis by blast
qed simp

lemma flow_tx_attempts:
  "create_flow_tx cfa part d = Inr (cf, d') \<Longrightarrow> t_attempt d' = t_attempt d"
  "add_tx E ad part uid d = Inr (ar, d') \<Longrightarrow> t_attempt d' = t_attempt d"
  "stage_tx E sg part up down d = Inr (sr, d') \<Longrightarrow> t_attempt d' = t_attempt d"
  "apply_tx ap part down d = Inr (pr, d') \<Longrightarrow> t_attempt d' = t_attempt d"
  "set_policy_tx part flow down dpol d = Inr (gr, d') \<Longrightarrow> t_attempt d' = t_attempt d"
  "set_flow_tag_tx part flow key v d = Inr (n, d') \<Longrightarrow> t_attempt d' = t_attempt d"
  "upsert_summary srow d = Inr (b, d') \<Longrightarrow> t_attempt d' = t_attempt d"
  by (auto simp: create_flow_tx_def Let_def set_flow_tag_tx_def upsert_summary_def rbind_Inr_iff db_lookup
      elim: add_tx_cases stage_tx_cases apply_tx_cases set_policy_tx_cases)

lemma header_tx_attempts:
  "header_tx E fa part d = Inr (fh, d') \<Longrightarrow> t_attempt d' = t_attempt d"
  "ack_tx part flow eid d = Inr (u, d') \<Longrightarrow> t_attempt d' = t_attempt d"
  by (auto simp: header_tx_def fresh_cancel_def open_backlog_def record_members_def cancel_members_def ack_tx_def
      Let_def rbind_Inr_iff db_lookup split: if_splits prod.splits)

lemma change_priority_attempts: "change_priority_tx E cpa part uid d = Inr (pc, d') \<Longrightarrow> t_attempt d' = t_attempt d"
  by (erule change_priority_tx_cases) (simp add: db_lookup try_update_exec_tables)

lemma cancel_member_view: "lease_view (cancel_member E part flow uid d) = lease_view d"
proof
  fix k :: "int \<times> uuid \<times> int"
  have "attempt_key (clear_outcome a) = attempt_key a" "at_lease_epoch (clear_outcome a) = at_lease_epoch a" for a
    by (simp_all add: clear_outcome_def attempt_key_def)
  then show "lease_view (cancel_member E part flow uid d) k = lease_view d k"
    by (cases k) (auto simp: lease_view_def cancel_member_def Let_def db_lookup option.map_comp comp_def split: option.splits)
qed

lemma cancel_flow_view:
  assumes "cancel_flow_tx E part flow cpol d = Inr (cr, d')"
  shows "lease_view d' = lease_view d"
proof -
  have "lease_view (fold (cancel_member E part flow) us e) = lease_view e" for us e
    by (induction us arbitrary: e) (simp_all add: cancel_member_view)
  moreover have "lease_view (enqueue_groups E part flow e) = lease_view e" for e
    by (rule lease_view_same_table) (simp add: enqueue_groups_def)
  moreover have "lease_view (d\<lparr>t_flow := t\<rparr>) = lease_view d" for t
    by (rule lease_view_same_table) simp
  ultimately show ?thesis
    using assms by (auto simp: cancel_flow_tx_def Let_def split: option.splits if_splits)
qed

lemma bump_view:
  assumes "try_update_attempt part uid idx f d = Inr d'" "\<And>r r'. f r = Inr r' \<Longrightarrow> attempt_key r' = attempt_key r"
    and "attempt_at d part uid idx = Some x" "\<And>x'. f x = Inr x' \<Longrightarrow> at_lease_epoch x' = at_lease_epoch x + 1"
  shows "lease_view d' = acquire (part, uid, idx) (lease_view d)"
proof
  fix k :: "int \<times> uuid \<times> int"
  obtain p u i where k: "k = (p, u, i)" by (cases k)
  show "lease_view d' k = acquire (part, uid, idx) (lease_view d) k"
    using try_update_attempt_at [OF assms(1,2), of p u i] assms(3,4)
    by (auto simp: lease_view_def acquire_def k split: if_splits)
qed

lemma cancel_execution_view:
  assumes "cancel_execution_tx E xa part uid d = Inr (xr, d')"
  shows "lease_view d' = lease_view d \<or> (\<exists>k. lease_view d' = acquire k (lease_view d))"
  using assms
proof (cases rule: cancel_execution_tx_cases)
  case (2 r d1)
  then show ?thesis using lease_view_same_table [OF try_update_exec_tables(1) [OF 2(3)]] by simp
next
  case (3 r x d1 d2)
  have t: "t_attempt d1 = t_attempt d" by (rule try_update_exec_tables(1) [OF 3(3)])
  have "lease_view d2 = acquire (part, uid, ec_attempt_index r) (lease_view d1)"
    using 3(4) by (intro bump_view [OF 3(7), of x]) (auto dest: operator_attempt_le(1) simp: attempt_at_def t)
  moreover have "lease_view d' = lease_view d2" unfolding 3(8) by (rule lease_view_same_table) (simp add: db_lookup)
  ultimately show ?thesis using lease_view_same_table [OF t] by metis
qed simp

lemma revoke_view:
  assumes "revoke_lease_tx E rv part uid d = Inr (res, d')"
  shows "(\<exists>reason. res = RV_AlreadySatisfied reason) \<and> d' = d \<or>
    (\<exists>r. exec_at d part uid = Some r \<and>
      lease_view d' = acquire (part, uid, ec_attempt_index r) (lease_view d))"
  using assms
proof (cases rule: revoke_lease_tx_cases)
  case (2 r x d1 d2)
  have "lease_view d1 = acquire (part, uid, ec_attempt_index r) (lease_view d)"
    by (rule bump_view [OF 2(4) _ 2(2)])
      (use revoke_attempt_at_le operator_attempt_le(2) in \<open>auto split: if_splits\<close>)
  moreover have "t_attempt d2 = t_attempt d1" by (rule try_update_exec_tables(1) [OF 2(5)])
  then have "lease_view d' = lease_view d1" unfolding 2(7) by (intro lease_view_same_table) (simp add: db_lookup)
  ultimately show ?thesis using 2(1) by auto
qed simp

lemma replay_view:
  assumes "replay_tx E rp part uid d = Inr (res, d')"
  shows "lease_view d' = lease_view d \<or> (\<exists>k. lease_view d' = acquire k (lease_view d))"
  using assms
proof (cases rule: replay_tx_cases)
  case (1 r skipped d1 d2 d3)
  have t: "t_attempt d2 = t_attempt d"
    using try_update_exec_tables(1) [OF 1(5)] 1(4) by (simp add: reset_groups_tables)
  have "lease_view d' = lease_view d3"
    using 1(8) by (auto intro!: lease_view_same_table simp: db_lookup)
  moreover have "lease_view d3 = lease_view d \<or> (\<exists>k. lease_view d3 = acquire k (lease_view d))"
  proof (cases "attempt_at d part uid (ec_attempt_index r)")
    case None
    with 1(6) have "d3 = d2" by simp
    with lease_view_same_table [OF t] show ?thesis by blast
  next
    case (Some x)
    with 1(6) have u: "try_update_attempt part uid (ec_attempt_index r) replay_attempt d2 = Inr d3" by simp
    have "lease_view d3 = acquire (part, uid, ec_attempt_index r) (lease_view d2)"
      using Some by (intro bump_view [OF u, of x]) (auto dest: operator_attempt_le(3) simp: attempt_at_def t)
    with lease_view_same_table [OF t] show ?thesis by auto
  qed
  ultimately show ?thesis by simp
qed

lemma suspend_tables [db_lookup]:
  "t_attempt (signal_emit E part uid s w src at d) = t_attempt d"
  "t_attempt (resume_if b E part uid now d) = t_attempt d"
  "t_attempt (update_suspension part uid f d) = t_attempt d"
  "t_attempt (delete_suspension part uid d) = t_attempt d"
  by (simp_all add: signal_emit_def Let_def resume_if_def insert_resumable_def delete_waitpoints_def
      update_exec_def update_suspension_def delete_suspension_def)

lemma suspend_tx_attempts:
  "create_waitpoint_tx L E eid part uid key expires_in d = Inr (wt, d') \<Longrightarrow> t_attempt d' = t_attempt d"
  "deliver_tx L da part uid wp E d = Inr (dr, d') \<Longrightarrow> t_attempt d' = t_attempt d"
  "rotate_tx kid secret now d = Inr (ro, d') \<Longrightarrow> t_attempt d' = t_attempt d"
  "seed_tx debug kid secret now d = Inr (se, d') \<Longrightarrow> t_attempt d' = t_attempt d"
  "suspension_expire_tx behavior part uid now d = Inr (u, d') \<Longrightarrow> t_attempt d' = t_attempt d"
  "close_waitpoint_tx X part wp now d = Inr (u', d') \<Longrightarrow> t_attempt d' = t_attempt d"
  "resume_execution_tx n part uid d = Inr (re, d') \<Longrightarrow> t_attempt d' = t_attempt d"
  by (auto simp: rotate_tx_def install_key_def seed_tx_def suspension_expire_tx_def close_waitpoint_tx_def
      resume_execution_tx_def Let_def rbind_Inr_iff db_lookup split: option.splits if_splits
      elim!: create_waitpoint_tx_cases deliver_tx_cases)

lemma suspend_view:
  assumes "suspend_tx L p part uid sa E d = Inr (Inr (res, d'))"
  shows "d' = d \<or> lease_view d' = acquire (part, uid, i32_of_u32_or_0 (hp_attempt_index p)) (lease_view d)"
  using assms
proof (cases rule: suspend_tx_cases)
  case (2 first extras d1)
  let ?idx = "i32_of_u32_or_0 (hp_attempt_index p)"
  from 2(2) have "lease_view d1 = acquire (part, uid, ?idx) (lease_view d)"
  proof (cases rule: suspend_steps_cases)
    case (1 att kid secret sid t d2 d3)
    let ?e = "update_exec part uid suspend_exec d2"
    have t: "t_attempt ?e = t_attempt d"
      using 1(6) by (auto simp: put_suspension_def rbind_Inr_iff update_exec_def)
    have "lease_view d3 = acquire (part, uid, ?idx) (lease_view ?e)"
      using 1(1) by (intro bump_view [OF 1(7), of att]) (auto dest: suspend_attempt_le(1) simp: attempt_at_def t)
    moreover have "lease_view d1 = lease_view d3" unfolding 1(8) by (rule lease_view_same_table) (simp add: db_lookup)
    ultimately show ?thesis using lease_view_same_table [OF t] by simp
  qed
  moreover have "lease_view d' = lease_view d1"
    unfolding 2(4) by (rule lease_view_same_table) (simp add: cache_outcome_def split: option.splits)
  ultimately show ?thesis by simp
qed simp

lemma claim_resumed_view:
  assumes "claim_resumed_tx E cra part uid d = Inr ((idx, epoch), d')"
  shows "lease_view d' = acquire (part, uid, idx) (lease_view d) \<and> lease_view d' (part, uid, idx) = Some epoch"
  using assms
proof (cases rule: claim_resumed_tx_cases)
  case (1 r d1 att)
  have keys: "attempt_key x' = attempt_key x \<and> at_lease_epoch x' = at_lease_epoch x + 1"
    if "resumed_attempt cra (pe_now E) (saturating_add (pe_now E) (i64_of_u64_or_0 (cra_lease_ttl_ms cra))) x = Inr x'" for x x'
    using suspend_attempt_le(2) [OF that] by simp
  from 1(5) try_update_attempt_at [OF 1(4), of part uid idx] keys obtain x where x: "attempt_at d part uid idx = Some x"
    by (auto split: option.splits)
  have "lease_view d1 = acquire (part, uid, idx) (lease_view d)"
    using keys by (intro bump_view [OF 1(4) _ x]) auto
  moreover have "lease_view d' = lease_view d1"
    unfolding 1(7) by (rule lease_view_same_table) (simp add: db_lookup update_exec_def)
  moreover have "lease_view d1 (part, uid, idx) = Some epoch" using 1(5,6) by (simp add: lease_view_def)
  ultimately show ?thesis by simp
qed



lemma lease_view_grows:
  assumes "engine_run d d'" "lease_view d (part, uid, idx) = Some e"
  shows "\<exists>e'. lease_view d' (part, uid, idx) = Some e' \<and> e \<le> e'"
proof -
  from assms(2) obtain a where a: "attempt_at d part uid idx = Some a" "at_lease_epoch a = e"
    by (auto simp: lease_view_def)
  moreover have "rows_le attempt_key attempt_le (t_attempt d) (t_attempt d')"
    using engine_evolves [OF assms(1)] by (simp add: db_evolves_def)
  ultimately obtain a' where "attempt_at d' part uid idx = Some a'" "attempt_le a a'"
    unfolding rows_le_def attempt_at_def by blast
  with a show ?thesis by (auto simp: lease_view_def attempt_le_def)
qed

lemma superseded_fence:
  assumes "lease_view d (part, uid, idx) = Some e" "unat ep < nat e" "engine_run d d'"
  shows "\<exists>a. attempt_at d' part uid idx = Some a \<and> u64_of_i64_or 0 (at_lease_epoch a) \<noteq> unat ep"
proof -
  obtain e' where e': "lease_view d' (part, uid, idx) = Some e'" "e \<le> e'"
    using lease_view_grows [OF assms(3,1)] by blast
  then obtain a where "attempt_at d' part uid idx = Some a" "at_lease_epoch a = e'"
    by (auto simp: lease_view_def)
  with e'(2) assms(2) show ?thesis by (auto simp: u64_of_i64_or_def)
qed


text \<open>An attempt at epoch 3 is claimed at time 50 and, its lease long expired, resumed at time 100000.\<close>

definition reclaim_db :: db where
  "reclaim_db = sample_db [sample_exec 5 ''runnable'' ''eligible_now'' []] [sample_attempt 3]"

lemma reclaim_run:
  "\<exists>d1 d3. claim_tx (sample_env 50) 7 ''default'' \<lparr>worker_tokens = []\<rparr> sample_policy reclaim_db =
      Inr (Some (5, 3, 4), d1) \<and> resume_tx (sample_env 100000) sample_token 7 5 d1 = Inr (Some (3, 4), d3)"
  by (simp add: claim_tx_def claim_candidate_def sql_first_by_def reclaim_db_def sample_defs sql_upsert_def
    sql_fetch_def attempt_is_def attempt_key_def new_attempt_def caps_matches_iff requirement_new_def
    update_exec_def sql_update_def exec_is_def emit_def activate_exec_def sql_select_def Let_def
    conflict_update_def int8_add_def i64_max_def i64_min_def resume_tx_def latest_attempt_def lease_live_def
    try_update_attempt_def resume_attempt_def sample_policy_def saturating_add_def)


section \<open>Readers\<close>



end
