(* ===== verification/Pg_Flow_Laws.thy ===== *)
theory Pg_Flow_Laws
  imports Pg_Engine
begin

text \<open>
  What the flow operations of the Postgres backend guarantee under every interleaving, and where
  they do not keep what the contract says.
\<close>

section \<open>A sample graph\<close>

text \<open>Flow 9 in partition 7 with the members 5 and 6 and no edge yet.\<close>

definition graph_config :: partition_config where
  "graph_config = \<lparr>num_flow_partitions = 9, num_budget_partitions = 1, num_quota_partitions = 1\<rparr>"

definition graph_member :: "uuid \<Rightarrow> exec_core" where
  "graph_member uid = (sample_exec uid ''runnable'' ''eligible_now'' [])\<lparr>ec_flow_id := Some 9\<rparr>"

definition graph_flow :: flow_core where
  "graph_flow = new_flow \<lparr>cfa_flow_id = 9, cfa_flow_kind = ''dag'', cfa_namespace = ''ns'', cfa_now = 10\<rparr> 7"

definition graph_db :: db where
  "graph_db = (sample_db [graph_member 5, graph_member 6] [])\<lparr>t_flow := [graph_flow]\<rparr>"

definition graph_stage :: "uuid \<Rightarrow> execution_id \<Rightarrow> execution_id \<Rightarrow> stage_args" where
  "graph_stage eid up down =
     \<lparr>sg_flow_id = 9, sg_edge_id = eid, sg_upstream_execution_id = up, sg_downstream_execution_id = down,
      sg_dependency_kind = ''success_only'', sg_data_passing_ref = None, sg_expected_graph_revision = 0,
      sg_now = 20\<rparr>"

definition graph_edge :: edge where
  "graph_edge = new_edge (graph_stage 1 ''{fp:7}:5'' ''{fp:7}:6'') 7 5 6"

lemma graph_partition [simp]: "flow_partition_byte sample_ext_lib 9 graph_config = Inr 7"
  by (simp add: flow_partition_byte_def flow_partition_def partition_for_uuid_def sample_ext_lib_def
      graph_config_def as_i16_def)

lemma graph_ids [simp]:
  "staging_exec_uuid sample_ext_lib ''{fp:7}:5'' = Inr 5" "staging_exec_uuid sample_ext_lib ''{fp:7}:6'' = Inr 6"
  by (simp_all add: staging_exec_uuid_def sample_ext_lib_def parse_uint_def char_digit_def)

lemma graph_wf: "db_wf graph_db"
  by (simp add: db_wf_def graph_db_def sample_db_def graph_member_def sample_exec_def exec_key_def)

section \<open>The graph revision\<close>

lemma run_tx_refused: "body d = Inl e \<Longrightarrow> \<exists>e'. run_tx flt body d = (Inl e', d)"
  by (cases flt) (simp_all add: run_tx_def)

lemma stage_op_cases:
  assumes "stage_dependency_edge E pc a d = Inr (res, d')"
  obtains e where "res = Inl e" "d' = d"
  | part up down where "flow_partition_byte (pe_lib E) (sg_flow_id a) pc = Inr part"
    "staging_exec_uuid (pe_lib E) (sg_upstream_execution_id a) = Inr up"
    "staging_exec_uuid (pe_lib E) (sg_downstream_execution_id a) = Inr down"
    "run_tx (pe_fault E) (stage_tx E a part up down) d = (res, d')"
  using assms
  by (cases "staging_exec_uuid (pe_lib E) (sg_upstream_execution_id a)";
      cases "staging_exec_uuid (pe_lib E) (sg_downstream_execution_id a)")
    (auto simp: stage_dependency_edge_def rbind_Inr_iff split: if_splits)

lemma stage_pinned:
  assumes "db_wf d" "stage_tx E a part up down d = Inr (res, d')"
  shows "\<exists>f f'. flow_at d part (sg_flow_id a) = Some f \<and> flow_at d' part (sg_flow_id a) = Some f' \<and>
    fl_graph_revision f = i64_of_u64_or_max (sg_expected_graph_revision a) \<and>
    fl_graph_revision f' = fl_graph_revision f + 1 \<and> fl_public_flow_state f = ''open'' \<and>
    res = Staged (sg_edge_id a) (u64_of_i64_or 0 (fl_graph_revision f'))"
  using assms(2)
proof (cases rule: stage_tx_cases)
  case (1 f t)
  from 1(1) have f: "f \<in> set (t_flow d)" "flow_is part (sg_flow_id a) f"
    "fl_graph_revision f = i64_of_u64_or_max (sg_expected_graph_revision a)" "fl_public_flow_state f = ''open''"
    by (auto simp: sql_fetch_def find_Some_iff)
  have at: "flow_at d part (sg_flow_id a) = Some f" by (rule flow_at_distinct [OF assms(1) f(1,2)])
  have keys: "flow_key r' = flow_key r" if "bump_flow E ''edge_count'' (sg_now a) r = Inr r'" for r r'
    by (rule bump_flow_le(2) [OF that])
  from try_update_row_at [where key = flow_key and k = "(part, sg_flow_id a)", OF 1(2) keys] at f
  obtain f' where "row_at flow_key (part, sg_flow_id a) t = Some f'" "bump_flow E ''edge_count'' (sg_now a) f = Inr f'"
    by (auto simp: flow_at_def)
  with at f 1(3,5) bump_flow_le(3) show ?thesis by (auto simp: flow_at_def)
qed

lemma stage_unpinned:
  assumes "db_wf d" "flow_at d part (sg_flow_id a) = Some f"
    and "fl_graph_revision f \<noteq> i64_of_u64_or_max (sg_expected_graph_revision a)"
  shows "stage_tx E a part up down d = Inl
    (if flow_terminal (fl_public_flow_state f) then Validation VK_InvalidInput ''flow_already_terminal''
     else Contention CK_StaleGraphRevision)"
proof -
  let ?pinned = "\<lambda>r. flow_is part (sg_flow_id a) r \<and>
    fl_graph_revision r = i64_of_u64_or_max (sg_expected_graph_revision a) \<and> fl_public_flow_state r = ''open''"
  have none: "\<not> ?pinned r" if "r \<in> set (t_flow d)" for r
    using flow_at_distinct [OF assms(1) that] assms(2,3) by auto
  then have "sql_try_update ?pinned (bump_flow E ''edge_count'' (sg_now a)) (t_flow d) = Inr (t_flow d)"
    by (rule try_update_none)
  moreover have "sql_fetch ?pinned (t_flow d) = None" using none by (auto simp: sql_fetch_def find_None_iff)
  ultimately show ?thesis using assms(2) by (simp add: stage_tx_def fetch_flow)
qed

text \<open>
  C10. Staging is a compare-and-set: of two clients that read the same graph revision at most one
  stages its edge. Once one has succeeded, then in every later database the other is refused, whatever
  edge it asks for, and its call changes nothing.
\<close>

theorem stale_stager_refused:
  assumes "db_wf d" "stage_dependency_edge E pc a d = Inr (Inr res, d1)" "engine_run d1 d2"
    and "sg_flow_id b = sg_flow_id a" "sg_expected_graph_revision b = sg_expected_graph_revision a"
    and "pe_lib E' = pe_lib E" "stage_dependency_edge E' pc b d2 = Inr (res', d3)"
  shows "d3 = d2 \<and> (\<exists>e. res' = Inl e)"
proof -
  obtain part up down where
    p: "flow_partition_byte (pe_lib E) (sg_flow_id a) pc = Inr part" and
    tx: "stage_tx E a part up down d = Inr (res, d1)"
    using assms(2)
  proof (cases rule: stage_op_cases)
    case (2 part up down)
    from 2(1) 2(4) [unfolded run_tx_Inr] show thesis by (blast intro: that)
  qed simp
  from stage_pinned [OF assms(1) tx] obtain f1 where f1: "flow_at d1 part (sg_flow_id a) = Some f1"
    "fl_graph_revision f1 = i64_of_u64_or_max (sg_expected_graph_revision a) + 1" by auto
  have ev: "db_evolves d1 d2" by (rule engine_evolves [OF assms(3)])
  from flow_kept [OF ev f1(1)] obtain f2 where f2: "flow_at d2 part (sg_flow_id a) = Some f2" "flow_le f1 f2" by blast
  have wf: "db_wf d2" using evolves_wf [OF ev evolves_wf [OF stage_tx_evolves [OF tx] assms(1)]] .
  have at: "flow_at d2 part (sg_flow_id b) = Some f2" using f2(1) assms(4) by simp
  have moved: "fl_graph_revision f2 \<noteq> i64_of_u64_or_max (sg_expected_graph_revision b)"
    using f1(2) f2(2) assms(5) by (auto simp: flow_le_def)
  have refused: "\<exists>e. run_tx (pe_fault E') (stage_tx E' b part up' down') d2 = (Inl e, d2)" for up' down'
    by (rule run_tx_refused) (rule stage_unpinned [OF wf at moved])
  show ?thesis using assms(7)
  proof (cases rule: stage_op_cases)
    case (2 part' up' down')
    have "part' = part" using p 2(1) assms(4,6) by simp
    with refused [of up' down'] 2(4) show ?thesis by auto
  qed simp
qed

lemma graph_staged:
  "\<exists>d1. stage_dependency_edge (sample_env 20) graph_config (graph_stage 1 ''{fp:7}:5'' ''{fp:7}:6'') graph_db =
     Inr (Inr (Staged 1 1), d1) \<and> t_edge d1 = [graph_edge] \<and> t_exec d1 = t_exec graph_db \<and> t_edge_group d1 = []"
  by (simp add: stage_dependency_edge_def graph_stage_def stage_tx_def run_tx_def graph_db_def sample_db_def
      graph_flow_def new_flow_def flow_is_def i64_of_u64_or_max_def i64_max_def i64_min_def bump_flow_def int8_add_def
      raw_int4_def json_get_text_def sample_env_def int4_add_def i32_max_def graph_member_def
      sample_exec_def sql_fetch_def sql_select_def u64_of_i64_or_def graph_edge_def)

theorem stale_stager_refused_witness:
  "\<exists>d1 e. stage_dependency_edge (sample_env 20) graph_config (graph_stage 1 ''{fp:7}:5'' ''{fp:7}:6'') graph_db =
     Inr (Inr (Staged 1 1), d1) \<and>
   stage_dependency_edge (sample_env 30) graph_config (graph_stage 2 ''{fp:7}:6'' ''{fp:7}:5'') d1 = Inr (Inl e, d1)"
proof -
  obtain d1 where d1: "stage_dependency_edge (sample_env 20) graph_config
    (graph_stage 1 ''{fp:7}:5'' ''{fp:7}:6'') graph_db = Inr (Inr (Staged 1 1), d1)" using graph_staged by blast
  obtain r d3 where r: "stage_dependency_edge (sample_env 30) graph_config
    (graph_stage 2 ''{fp:7}:6'' ''{fp:7}:5'') d1 = Inr (r, d3)"
    by (simp add: stage_dependency_edge_def graph_stage_def) (metis surj_pair)
  show ?thesis
    using stale_stager_refused [OF graph_wf d1 rtranclp.rtrancl_refl _ _ _ r] d1 r
    by (auto simp: graph_stage_def)
qed

section \<open>Applying an edge\<close>

lemma apply_op_cases:
  assumes "apply_dependency_to_child E pc a d = Inr (res, d')"
  obtains e where "res = Inl e" "d' = d"
  | part down where "flow_partition_byte (pe_lib E) (ap_flow_id a) pc = Inr part"
    "staging_exec_uuid (pe_lib E) (ap_downstream_execution_id a) = Inr down"
    "run_tx (pe_fault E) (apply_tx a part down) d = (res, d')"
  using assms
  by (cases "staging_exec_uuid (pe_lib E) (ap_downstream_execution_id a)")
    (auto simp: apply_dependency_to_child_def rbind_Inr_iff)

lemma json_get_insert:
  "json_get k (json_insert k' v (JObj kvs)) = (if k = k' then Some v else json_get k (JObj kvs))"
proof -
  have "map_of (filter (\<lambda>(k'', _). k'' \<noteq> k') kvs) k = (if k = k' then None else map_of kvs k)"
    by (induction kvs) auto
  then show ?thesis by (simp add: map_add_def split: option.splits)
qed

lemma mark_applied_applied:
  assumes "ed_policy r = JObj kvs" "i64_min \<le> now" "now \<le> i64_max"
  shows "edge_applied (mark_applied now r)"
proof -
  obtain kvs' where j: "json_insert ''applied_at_ms'' (JNum now) (JObj kvs) = JObj kvs'" by simp
  have "json_get ''applied_at_ms'' (json_insert ''edge_state'' (JStr ''applied'') (JObj kvs')) = Some (JNum now)"
    using json_get_insert [of "''applied_at_ms''" "''edge_state''"] json_get_insert [of "''applied_at_ms''" "''applied_at_ms''" "JNum now" kvs]
    unfolding j by simp
  then show ?thesis using assms j by (simp only: edge_applied_def mark_applied_def edge.simps edge.select_convs edge.update_convs) simp
qed

lemma apply_marks:
  assumes "apply_tx a part down d = Inr (Applied n, d')"
    and "edge_at d part (ap_flow_id a) (ap_edge_id a) = Some r" "ed_policy r = JObj kvs"
    and "i64_min \<le> ap_now a" "ap_now a \<le> i64_max"
  shows "\<exists>r'. edge_at d' part (ap_flow_id a) (ap_edge_id a) = Some r' \<and> edge_applied r'"
  using assms(1)
proof (cases rule: apply_tx_cases)
  case (2 r' t g)
  have key: "edge_key (mark_applied now e) = edge_key e" for now e by (simp add: edge_key_def mark_applied_def)
  have "edge_at d' part (ap_flow_id a) (ap_edge_id a) = Some (mark_applied (ap_now a) r)"
    using assms(2) 2(6) edge_at_key [OF assms(2)] row_at_update [where key = edge_key and f = "mark_applied (ap_now a)", OF key]
    by (simp add: edge_at_def)
  then show ?thesis using mark_applied_applied [OF assms(3-5)] by blast
qed simp

lemma apply_again:
  assumes "edge_at d part (ap_flow_id a) (ap_edge_id a) = Some r" "edge_applied r"
  shows "apply_tx a part down d = Inr (AlreadyApplied, d)"
  using assms by (simp add: apply_tx_def fetch_edge)

end
