(* ===== verification/Suspend_Laws.thy ===== *)
theory Suspend_Laws
  imports Suspend_Condition
begin

text \<open>
  The meaning of resume conditions and of tokens: the evaluator agrees with a reading of a condition
  over the set of delivered signals, which only looks at the waitpoints the condition names and only
  grows with the signals; and a token verifies with the key that signed it.
\<close>

section \<open>The meaning of a condition\<close>

definition delivered :: "signals_by_waitpoint \<Rightarrow> (string \<times> resume_signal) set" where
  "delivered by_wp = {(k, s). case by_wp k of None \<Rightarrow> False | Some sigs \<Rightarrow> s \<in> set sigs}"

text \<open>What two signals must differ in to count twice.\<close>

fun aspect :: "count_kind \<Rightarrow> string \<times> resume_signal \<Rightarrow> string + uuid + (string \<times> string)" where
  "aspect DistinctWaitpoints (k, s) = Inl k"
| "aspect DistinctSignals (k, s) = Inr (Inl (rs_signal_id s))"
| "aspect DistinctSources (k, s) = Inr (Inr (rs_source_type s, rs_source_identity s))"

definition relevant ::
  "signal_matcher option \<Rightarrow> string list \<Rightarrow> (string \<times> resume_signal) set \<Rightarrow> (string \<times> resume_signal) set" where
  "relevant matcher waitpoints D =
     {(k, s) \<in> D. k \<in> set waitpoints \<and> (case matcher of Some m \<Rightarrow> matcher_matches m s | None \<Rightarrow> True)}"

fun cond_holds :: "resume_condition \<Rightarrow> (string \<times> resume_signal) set \<Rightarrow> bool"
  and body_holds :: "composite_body \<Rightarrow> (string \<times> resume_signal) set \<Rightarrow> bool" where
  "cond_holds (Single k matcher) D \<longleftrightarrow> (\<exists>(k', s) \<in> D. k' = k \<and> matcher_matches matcher s)"
| "cond_holds OperatorOnly D \<longleftrightarrow> False"
| "cond_holds TimeoutOnly D \<longleftrightarrow> False"
| "cond_holds (Composite body) D \<longleftrightarrow> body_holds body D"
| "body_holds (CB_AllOf members) D \<longleftrightarrow> members \<noteq> [] \<and> (\<forall>m \<in> set members. cond_holds m D)"
| "body_holds (CB_Count n kind matcher waitpoints) D \<longleftrightarrow>
     unat n \<le> card (aspect kind ` relevant matcher waitpoints D)"

lemma set_count_candidates:
  "set (count_candidates matcher waitpoints by_wp) = relevant matcher waitpoints (delivered by_wp)"
proof (rule set_eqI)
  fix x :: "string \<times> resume_signal"
  obtain k s where x: "x = (k, s)" by (cases x)
  show "x \<in> set (count_candidates matcher waitpoints by_wp) \<longleftrightarrow> x \<in> relevant matcher waitpoints (delivered by_wp)"
    unfolding x count_candidates_def relevant_def delivered_def
    by (cases "by_wp k") (auto split: option.splits simp: image_iff intro!: bexI [of _ k])
qed

lemma distinct_count_aspects: "distinct_count kind cs = of_nat (card (aspect kind ` set cs))"
proof -
  have "card (aspect kind ` set cs) = card (f ` set cs)"
    if "\<And>x. aspect kind x = g (f x)" "inj g" for f :: "string \<times> resume_signal \<Rightarrow> 'x" and g
  proof -
    have "aspect kind ` set cs = g ` f ` set cs" using that(1) by auto
    then show ?thesis using that(2) by (simp add: card_image inj_on_subset)
  qed
  note eq = this
  show ?thesis
  proof (cases kind)
    case DistinctWaitpoints
    then show ?thesis using eq [of Inl fst] by (simp add: split_paired_all)
  next
    case DistinctSignals
    then show ?thesis using eq [of "Inr \<circ> Inl" "rs_signal_id \<circ> snd"]
      by (simp add: split_paired_all inj_on_def)
  next
    case DistinctSources
    then show ?thesis using eq [of "Inr \<circ> Inr" "\<lambda>(_, s). (rs_source_type s, rs_source_identity s)"]
      by (simp add: split_paired_all inj_on_def)
  qed
qed

lemma relevant_le: "finite D \<Longrightarrow> card (aspect kind ` relevant matcher waitpoints D) \<le> card D"
  by (rule order.trans [OF card_image_le card_mono]) (auto simp: relevant_def intro: finite_subset)

lemma evaluate_holds:
  assumes "finite (delivered by_wp)" "card (delivered by_wp) < 2 ^ 32"
  shows "resume_evaluate c by_wp \<longleftrightarrow> cond_holds c (delivered by_wp)"
    "evaluate_composite b by_wp \<longleftrightarrow> body_holds b (delivered by_wp)"
proof (induction c and b)
  case (Single k matcher)
  show ?case by (auto simp: delivered_def list_ex_iff split: option.splits)
next
  case (CB_Count n kind matcher waitpoints)
  have "card (aspect kind ` relevant matcher waitpoints (delivered by_wp)) < 2 ^ 32"
    by (rule le_less_trans [OF relevant_le]) (rule assms)+
  then show ?case
    by (simp add: distinct_count_aspects set_count_candidates word_le_nat_alt unat_of_nat take_bit_nat_eq_self)
qed (auto simp: list_all_iff)

lemma holds_mono:
  assumes "D \<subseteq> D'" "finite D'"
  shows "cond_holds c D \<Longrightarrow> cond_holds c D'" "body_holds b D \<Longrightarrow> body_holds b D'"
proof (induction c and b)
  case (CB_Count n kind matcher waitpoints)
  have "relevant matcher waitpoints D \<subseteq> relevant matcher waitpoints D'" "finite (relevant matcher waitpoints D')"
    using assms by (auto simp: relevant_def intro: finite_subset)
  then have "card (aspect kind ` relevant matcher waitpoints D) \<le> card (aspect kind ` relevant matcher waitpoints D')"
    by (intro card_mono) auto
  then show ?case using CB_Count by simp
qed (use assms in auto)

section \<open>The keys a condition names\<close>

lemma set_push_key: "set (fold push_key ks out) = set out \<union> set ks"
  by (induction ks arbitrary: out) (auto simp: push_key_def)

fun keys_of :: "resume_condition \<Rightarrow> string set"
  and body_keys_of :: "composite_body \<Rightarrow> string set" where
  "keys_of (Single k matcher) = {k}"
| "keys_of (Composite body) = body_keys_of body"
| "keys_of OperatorOnly = {}"
| "keys_of TimeoutOnly = {}"
| "body_keys_of (CB_AllOf members) = \<Union> (keys_of ` set members)"
| "body_keys_of (CB_Count n kind matcher waitpoints) = set waitpoints"

lemma set_fold_walk:
  "(\<And>c out. c \<in> set cs \<Longrightarrow> set (walk_keys c out) = set out \<union> keys_of c) \<Longrightarrow>
   set (fold walk_keys cs out) = set out \<union> \<Union> (keys_of ` set cs)"
  by (induction cs arbitrary: out) auto

lemma set_walk_keys:
  "set (walk_keys c out) = set out \<union> keys_of c" "set (walk_body_keys b out) = set out \<union> body_keys_of b"
proof (induction c and b arbitrary: out and out)
  case (CB_AllOf members)
  then show ?case by (simp add: set_fold_walk)
qed (auto simp: push_key_def set_push_key)

lemma holds_keys:
  "keys_of c \<subseteq> K \<Longrightarrow> cond_holds c {(k, s) \<in> D. k \<in> K} \<longleftrightarrow> cond_holds c D"
  "body_keys_of b \<subseteq> K \<Longrightarrow> body_holds b {(k, s) \<in> D. k \<in> K} \<longleftrightarrow> body_holds b D"
proof (induction c and b)
  case (CB_AllOf members)
  then show ?case by (simp add: UN_subset_iff)
next
  case (CB_Count n kind matcher waitpoints)
  then have "relevant matcher waitpoints {(k, s) \<in> D. k \<in> K} = relevant matcher waitpoints D"
    by (auto simp: relevant_def)
  then show ?case by simp
qed auto

text \<open>
  C15. The evaluator decides the condition. As long as fewer than \<open>2 ^ 32\<close> signals were delivered,
  \<open>evaluate\<close> answers what the condition says of the set of delivered signals: some matching signal at
  a key, every member of a conjunction (and at least one), and at least \<open>n\<close> matching signals that
  differ in their waitpoint, their id or their source. The order of the signals, repeated deliveries
  and signals to other keys than \<open>referenced_waitpoint_keys\<close> do not matter, and further signals never
  make a satisfied condition unsatisfied.
\<close>

theorem evaluate_reference:
  assumes "finite (delivered by_wp)" "card (delivered by_wp) < 2 ^ 32"
  shows "(resume_evaluate c by_wp \<longleftrightarrow>
      cond_holds c {(k, s) \<in> delivered by_wp. k \<in> set (referenced_waitpoint_keys c)}) \<and>
    (delivered before \<subseteq> delivered by_wp \<longrightarrow> resume_evaluate c before \<longrightarrow> resume_evaluate c by_wp)"
proof (intro conjI impI)
  have "keys_of c \<subseteq> set (referenced_waitpoint_keys c)"
    by (simp add: referenced_waitpoint_keys_def set_walk_keys)
  then show "resume_evaluate c by_wp \<longleftrightarrow>
      cond_holds c {(k, s) \<in> delivered by_wp. k \<in> set (referenced_waitpoint_keys c)}"
    by (simp add: holds_keys evaluate_holds [OF assms])
next
  assume sub: "delivered before \<subseteq> delivered by_wp" and sat: "resume_evaluate c before"
  have "finite (delivered before)" "card (delivered before) < 2 ^ 32"
    using sub assms by (auto intro: finite_subset order.strict_trans1 [OF card_mono])
  then have "cond_holds c (delivered before)" using sat evaluate_holds(1) by blast
  then show "resume_evaluate c by_wp"
    by (simp add: evaluate_holds [OF assms] holds_mono [OF sub assms(1)])
qed

text \<open>Two approvals, from different sources, of a condition that needs two sources.\<close>

definition sample_signal :: "nat \<Rightarrow> string \<Rightarrow> resume_signal" where
  "sample_signal i src =
     \<lparr>rs_signal_id = of_nat i, rs_signal_name = ''ok'', rs_signal_category = ''approval'', rs_source_type = ''user'',
      rs_source_identity = src, rs_correlation_id = [], rs_accepted_at = 5, rs_payload = None\<rparr>"

definition sample_count :: resume_condition where
  "sample_count = Composite (CB_Count 2 DistinctSources (Some (ByName ''ok'')) [''a'', ''b''])"

definition sample_signals :: signals_by_waitpoint where
  "sample_signals = [''a'' \<mapsto> [sample_signal 1 ''ann'', sample_signal 2 ''ann''], ''b'' \<mapsto> [sample_signal 3 ''bob'']]"

lemma delivered_sample:
  "delivered sample_signals =
     {(''a'', sample_signal 1 ''ann''), (''a'', sample_signal 2 ''ann''), (''b'', sample_signal 3 ''bob'')}"
  by (auto simp: delivered_def sample_signals_def split: if_splits)

theorem evaluate_reference_witness:
  "finite (delivered sample_signals) \<and> card (delivered sample_signals) < 2 ^ 32 \<and>
   (resume_evaluate sample_count sample_signals \<longleftrightarrow>
      cond_holds sample_count {(k, s) \<in> delivered sample_signals. k \<in> set (referenced_waitpoint_keys sample_count)}) \<and>
   resume_evaluate sample_count sample_signals \<and>
   \<not> resume_evaluate sample_count (sample_signals(''b'' := None))"
proof -
  have D: "finite (delivered sample_signals) \<and> card (delivered sample_signals) < 2 ^ 32"
    by (simp add: delivered_sample card_insert_if)
  have "resume_evaluate sample_count sample_signals"
       "\<not> resume_evaluate sample_count (sample_signals(''b'' := None))"
    by (simp_all add: sample_count_def count_candidates_def sample_signals_def sample_signal_def word_le_nat_alt)
  then show ?thesis
    using D evaluate_reference [of sample_signals sample_count, OF conjunct1 [OF D] conjunct2 [OF D]] by blast
qed

section \<open>Tokens\<close>

text \<open>The key id ends at the first colon, so an id that has one is cut when the token is read.\<close>

lemma hmac_verify_sign:
  assumes "susp_lib_ok L"
  shows "hmac_verify L secret kid message (hmac_sign L secret kid message) = Inr () \<longleftrightarrow> CHR '':'' \<notin> set kid"
proof (cases "CHR '':'' \<in> set kid")
  case False
  then show ?thesis using assms
    by (simp add: hmac_verify_def hmac_sign_def susp_lib_ok_def split_once_append)
next
  case True
  have "a \<noteq> kid" if "split_once CHR '':'' t = Some (a, b)" for t a b
    using split_once_Some [OF that] True by auto
  then show ?thesis using True by (auto simp: hmac_verify_def rbind_Inr_iff ok_or_Inr_iff)
qed


section \<open>A library that keeps its round trips\<close>

text \<open>
  Concrete functions with the documented round trips: text of one character per byte, a toy message
  authentication code, and a serialisation of conditions.
\<close>

fun matcher_json :: "signal_matcher \<Rightarrow> json" where
  "matcher_json Wildcard = JNull"
| "matcher_json (ByName n) = JStr n"

fun matcher_of_json :: "json \<Rightarrow> signal_matcher" where
  "matcher_of_json (JStr n) = ByName n"
| "matcher_of_json _ = Wildcard"

fun kind_text :: "count_kind \<Rightarrow> string" where
  "kind_text DistinctWaitpoints = ''w''"
| "kind_text DistinctSignals = ''i''"
| "kind_text DistinctSources = ''s''"

definition kind_of_text :: "string \<Rightarrow> count_kind" where
  "kind_of_text t = (if t = ''w'' then DistinctWaitpoints else if t = ''i'' then DistinctSignals else DistinctSources)"

fun cond_json :: "resume_condition \<Rightarrow> json" and body_json :: "composite_body \<Rightarrow> json" where
  "cond_json (Single k m) = JObj [(k, matcher_json m)]"
| "cond_json OperatorOnly = JNull"
| "cond_json TimeoutOnly = JBool True"
| "cond_json (Composite b) = body_json b"
| "body_json (CB_AllOf ms) = JArr (map cond_json ms)"
| "body_json (CB_Count n kind m ws) =
     JObj [(kind_text kind, JNum (uint n)), ([], case m of None \<Rightarrow> JBool True | Some m' \<Rightarrow> matcher_json m'),
       ([], JArr (map JStr ws))]"

fun leaf_of_json :: "(string \<times> json) list \<Rightarrow> resume_condition" where
  "leaf_of_json [(k, m)] = Single k (matcher_of_json m)"
| "leaf_of_json [(kind, JNum n), (_, m), (_, JArr ws)] =
     Composite (CB_Count (of_int n) (kind_of_text kind)
       (case m of JBool _ \<Rightarrow> None | m' \<Rightarrow> Some (matcher_of_json m'))
       (map (\<lambda>w. case w of JStr k \<Rightarrow> k | _ \<Rightarrow> []) ws))"
| "leaf_of_json _ = OperatorOnly"

fun cond_of_json :: "json \<Rightarrow> resume_condition" where
  "cond_of_json (JObj kvs) = leaf_of_json kvs"
| "cond_of_json (JBool _) = TimeoutOnly"
| "cond_of_json (JArr js) = Composite (CB_AllOf (map cond_of_json js))"
| "cond_of_json _ = OperatorOnly"

lemma cond_json_roundtrip:
  "cond_of_json (cond_json c) = c" "cond_of_json (body_json b) = Composite b"
proof (induction c and b)
  case (Single k m)
  then show ?case by (cases m) simp_all
next
  case (CB_AllOf ms)
  then show ?case by (simp add: map_idI)
next
  case (CB_Count n kind m ws)
  have "map (\<lambda>w. case w of JStr k \<Rightarrow> k | _ \<Rightarrow> []) (map JStr ws) = ws" by (simp add: comp_def)
  then show ?case
    by (cases kind; cases m rule: option.exhaust; cases "the m") (simp_all add: kind_of_text_def)
qed simp_all

definition sample_susp_lib :: susp_lib where
  "sample_susp_lib =
     \<lparr>sl_hmac = (\<lambda>k m. k @ m), sl_hex_encode = map (\<lambda>b. char_of (unat b)),
      sl_hex_decode = (\<lambda>s. Some (map of_char s)), sl_hex_error_text = (\<lambda>_. []),
      sl_cond_to_json = cond_json, sl_cond_from_json = (\<lambda>j. Inr (cond_of_json j))\<rparr>"

lemma byte_char: "of_char (char_of (unat b)) = (b :: u8)"
proof -
  have "of_char (char_of (unat b)) = (of_nat (of_char (char_of (unat b))) :: u8)" by (rule of_char_word_nat)
  also have "of_char (char_of (unat b)) = unat b"
    using unsigned_less [of b, where ?'a = nat] by (simp add: take_bit_nat_eq_self)
  finally show ?thesis by simp
qed

lemma sample_susp_lib_ok [simp]: "susp_lib_ok sample_susp_lib"
  by (simp add: susp_lib_ok_def sample_susp_lib_def cond_json_roundtrip comp_def byte_char)

end
