(* ===== verification/Pg_Suspend_Laws.thy ===== *)
theory Pg_Suspend_Laws
  imports Pg_Engine Suspend_Laws "HOL-Library.Multiset"
begin

text \<open>
  What suspensions promise: a suspended execution is resumed by the signals its condition asks for
  and claimed again, tokens stay valid whatever happens to the keys, a repeated call gives the first
  answer, and what was delivered can be read. The last section shows what becomes of a suspension
  that is left behind when its execution resumes.
\<close>

section \<open>Rows of the tables of suspensions\<close>

definition suspension_at :: "db \<Rightarrow> int \<Rightarrow> uuid \<Rightarrow> suspension option" where
  "suspension_at d part uid = row_at suspension_key (part, uid) (t_suspension d)"

definition waitpoint_at :: "db \<Rightarrow> int \<Rightarrow> uuid \<Rightarrow> waitpoint option" where
  "waitpoint_at d part w = row_at waitpoint_id_key (part, w) (t_waitpoint d)"

lemma fetch_suspension: "sql_fetch (suspension_is part uid) (t_suspension d) = suspension_at d part uid"
  by (simp add: suspension_at_def row_at_def sql_fetch_def suspension_key_def
      suspension_is_def [abs_def])

lemma fetch_waitpoint: "sql_fetch (waitpoint_is part w) (t_waitpoint d) = waitpoint_at d part w"
  by (simp add: waitpoint_at_def row_at_def sql_fetch_def waitpoint_id_key_def waitpoint_is_def [abs_def])

lemma try_update_total: "sql_try_update P (\<lambda>r. Inr (f r)) t = Inr (sql_update P f t)"
  by (induction t) (simp_all add: sql_update_def)

lemma upsert_new: "row_at key (key r) t = None \<Longrightarrow> sql_upsert key r upd t = Inr (t @ [r])"
  by (simp add: sql_upsert_def row_at_None)

lemma upsert_old: "row_at key (key r) t = Some y \<Longrightarrow>
  sql_upsert key r (\<lambda>x. Inr (f x)) t = Inr (sql_update (\<lambda>r'. key r' = key r) f t)"
  using row_at_None [of key "key r" t] by (simp add: sql_upsert_def try_update_total)

lemma upsert_row:
  assumes "sql_upsert key r (\<lambda>x. Inr (f x)) t = Inr t'" "\<forall>x. key x = key r \<longrightarrow> key (f x) = key x"
  shows "row_at key k t' =
    (if k = key r then Some (case row_at key k t of None \<Rightarrow> r | Some x \<Rightarrow> f x) else row_at key k t)"
proof (cases "row_at key (key r) t")
  case None
  have "t' = t @ [r]" using assms(1) unfolding upsert_new [OF None] by simp
  then show ?thesis using None by (simp add: row_at_append) (auto simp: row_at_def split: option.splits)
next
  case (Some y)
  let ?g = "\<lambda>x. if key x = key r then f x else x"
  have "sql_update (\<lambda>r'. key r' = key r) f t = sql_update (\<lambda>r'. key r' = key r) ?g t"
    by (simp add: sql_update_def)
  then have "t' = sql_update (\<lambda>r'. key r' = key r) ?g t"
    using assms(1) unfolding upsert_old [OF Some] by simp
  then have "row_at key k t' = map_option (\<lambda>x. if key x = key r then ?g x else x) (row_at key k t)"
    using row_at_update [of key ?g k "\<lambda>r'. key r' = key r" t] assms(2) by simp
  then show ?thesis using Some row_at_Some [of key k t] by (cases "row_at key k t") auto
qed

section \<open>Keys and tokens\<close>

lemma fetch_kid_row: "fetch_kid kid d = map_option hk_secret (row_at hk_kid kid (t_hmac d))"
  by (simp add: fetch_kid_def row_at_def sql_fetch_def)

lemma key_kept:
  assumes "engine_run d d'" "fetch_kid kid d = Some secret"
  shows "fetch_kid kid d' = Some secret"
proof -
  have le: "rows_le hk_kid hmac_le (t_hmac d) (t_hmac d')"
    using engine_evolves [OF assms(1)] by (simp add: db_evolves_def)
  obtain r where r: "row_at hk_kid kid (t_hmac d) = Some r" "hk_secret r = secret"
    using assms(2) by (auto simp: fetch_kid_row)
  obtain r' where "row_at hk_kid kid (t_hmac d') = Some r'" "hmac_le r r'"
    using le r(1) unfolding rows_le_def by blast
  then show ?thesis using r(2) by (simp add: fetch_kid_row hmac_le_def)
qed

lemma active_key_fetch:
  assumes "current_active_kid d = Some (kid, secret)" "db_wf d"
  shows "fetch_kid kid d = Some secret"
proof -
  obtain r where r: "sql_first_by (\<lambda>r. - hk_rotated_at_ms r) hk_active (t_hmac d) = Some r"
    and k: "kid = hk_kid r" "secret = hk_secret r"
    using assms(1) by (auto simp: current_active_kid_def)
  have "row_at hk_kid (hk_kid r) (t_hmac d) = Some r"
    by (rule row_at_distinct) (use assms(2) first_by_Some [OF r] in \<open>simp_all add: db_wf_def\<close>)
  then show ?thesis by (simp add: fetch_kid_row k)
qed

lemma wp_uuid_ok [simp]: "uuid_lib_ok X \<Longrightarrow> wp_uuid X w = Inr w"
  by (simp add: wp_uuid_def uuid_lib_ok_def)

lemma susp_uuid_ok [simp]: "uuid_lib_ok X \<Longrightarrow> susp_uuid X w = Inr w"
  by (simp add: susp_uuid_def uuid_lib_ok_def)

lemma active_waitpoint_key [simp]: "waitpoint_id_key (active_waitpoint part uid a w wkey kid token) = (part, w)"
  by (simp add: waitpoint_id_key_def active_waitpoint_def)

lemma activate_waitpoint_key:
  "\<forall>r. waitpoint_id_key r = k \<longrightarrow> waitpoint_id_key (activate_waitpoint new r) = waitpoint_id_key r"
  by (simp add: waitpoint_id_key_def activate_waitpoint_def)

text \<open>A waitpoint holds a token, with the key that signed it.\<close>

definition carries :: "db \<Rightarrow> int \<Rightarrow> uuid \<Rightarrow> string \<Rightarrow> string \<Rightarrow> bool" where
  "carries d part w kid token \<longleftrightarrow>
     (case waitpoint_at d part w of None \<Rightarrow> False | Some r \<Rightarrow> wp_token_kid r = kid \<and> wp_token r = token)"

lemma bind_waitpoint_carries:
  assumes "uuid_lib_ok X" "bind_waitpoint L X eid part uid a kid secret b d = Inr (w, d')"
  shows "bw_waitpoint_token w = hmac_sign L secret kid (token_message X eid (bw_waitpoint_id w))"
    "carries d' part (bw_waitpoint_id w) kid (bw_waitpoint_token w)"
    "carries d part v kid (hmac_sign L secret kid (token_message X eid v)) \<Longrightarrow>
     carries d' part v kid (hmac_sign L secret kid (token_message X eid v))"
proof -
  obtain key u t where 1: "binding_target X part b d = Inr (bw_waitpoint_id w, key)" "bw_waitpoint_key w = key"
    "wp_uuid X (bw_waitpoint_id w) = Inr u"
    "bw_waitpoint_token w = hmac_sign L secret kid (token_message X eid (bw_waitpoint_id w))"
    "sql_upsert waitpoint_id_key (active_waitpoint part uid a u key kid (bw_waitpoint_token w))
       (\<lambda>r. Inr (activate_waitpoint (active_waitpoint part uid a u key kid (bw_waitpoint_token w)) r))
       (t_waitpoint d) = Inr t"
    "d' = d\<lparr>t_waitpoint := t\<rparr>"
    using assms(2) by (rule bind_waitpoint_cases)
  let ?new = "active_waitpoint part uid a u key kid (bw_waitpoint_token w)"
  have u: "u = bw_waitpoint_id w" using 1(3) assms(1) by simp
  have at: "waitpoint_at d' part v =
      (if v = u then Some (case waitpoint_at d part v of None \<Rightarrow> ?new | Some x \<Rightarrow> activate_waitpoint ?new x)
       else waitpoint_at d part v)" for v
    using upsert_row [OF 1(5) activate_waitpoint_key, of "(part, v)"] 1(6) by (simp add: waitpoint_at_def)
  note cols = active_waitpoint_def activate_waitpoint_def
  show "bw_waitpoint_token w = hmac_sign L secret kid (token_message X eid (bw_waitpoint_id w))" by (rule 1(4))
  show "carries d' part (bw_waitpoint_id w) kid (bw_waitpoint_token w)"
    using at [of u] by (simp add: carries_def u cols split: option.splits)
  show "carries d' part v kid (hmac_sign L secret kid (token_message X eid v))"
    if "carries d part v kid (hmac_sign L secret kid (token_message X eid v))"
    using that at [of v] 1(4) u by (auto simp: carries_def cols split: option.splits)
qed

lemma bind_waitpoints_carry:
  assumes "uuid_lib_ok X" "bind_waitpoints L X eid part uid a kid secret bs d = Inr (ws, d')"
  shows "(\<forall>w \<in> set ws. bw_waitpoint_token w = hmac_sign L secret kid (token_message X eid (bw_waitpoint_id w)) \<and>
       carries d' part (bw_waitpoint_id w) kid (bw_waitpoint_token w)) \<and>
     (\<forall>v. carries d part v kid (hmac_sign L secret kid (token_message X eid v)) \<longrightarrow>
       carries d' part v kid (hmac_sign L secret kid (token_message X eid v)))"
  using assms(2)
proof (induction bs arbitrary: d ws)
  case (Cons b bs)
  then obtain w d1 ws' where *: "bind_waitpoint L X eid part uid a kid secret b d = Inr (w, d1)"
    "bind_waitpoints L X eid part uid a kid secret bs d1 = Inr (ws', d')" "ws = w # ws'"
    by (auto simp: rbind_Inr_iff)
  note first = bind_waitpoint_carries [OF assms(1) *(1)]
  note rest = Cons.IH [OF *(2)]
  have "carries d' part (bw_waitpoint_id w) kid (bw_waitpoint_token w)"
    using first(1,2) rest by metis
  then show ?case using first(1,3) rest unfolding *(3) list.set by blast
qed simp


section \<open>Suspending\<close>

lemma susp_tables [db_lookup]:
  "t_suspension (emit E part uid l ev at d) = t_suspension d"
  "t_suspension (update_exec part uid f d) = t_suspension d"
  "t_suspension (signal_emit E part uid s w src at d) = t_suspension d"
  "t_suspension (resume_if b E part uid now d) = t_suspension d"
  "t_waitpoint (emit E part uid l ev at d) = t_waitpoint d"
  "t_waitpoint (update_exec part uid f d) = t_waitpoint d"
  "t_hmac (emit E part uid l ev at d) = t_hmac d"
  "t_hmac (update_exec part uid f d) = t_hmac d"
  "t_suspend_dedup (emit E part uid l ev at d) = t_suspend_dedup d"
  "t_suspend_dedup (update_exec part uid f d) = t_suspend_dedup d"
  "t_exec (signal_emit E part uid s w src at d) = t_exec d"
  "t_exec (update_suspension part uid g d) = t_exec d"
  "t_exec (delete_suspension part uid d) = t_exec d"
  by (simp_all add: emit_def update_exec_def signal_emit_def resume_if_def insert_resumable_def delete_waitpoints_def
      update_suspension_def delete_suspension_def Let_def)

lemma cache_outcome_tables [db_lookup]:
  "t_exec (cache_outcome L X part a out d) = t_exec d" "t_attempt (cache_outcome L X part a out d) = t_attempt d"
  "t_suspension (cache_outcome L X part a out d) = t_suspension d"
  "t_waitpoint (cache_outcome L X part a out d) = t_waitpoint d" "t_hmac (cache_outcome L X part a out d) = t_hmac d"
  by (simp_all add: cache_outcome_def split: option.splits)

lemma try_update_attempt_susp:
  assumes "try_update_attempt part uid idx f d = Inr d'"
  shows "t_suspension d' = t_suspension d" "t_waitpoint d' = t_waitpoint d" "t_hmac d' = t_hmac d"
    "t_suspend_dedup d' = t_suspend_dedup d"
  using assms
  by (cases "sql_try_update (attempt_is part uid idx) f (t_attempt d)";
      auto simp: try_update_attempt_def)+

lemma put_suspension_at:
  assumes "put_suspension new d = Inr d'" "suspension_key new = (part, uid)"
  shows "suspension_at d' part uid = Some new"
    "t_exec d' = t_exec d" "t_attempt d' = t_attempt d" "t_waitpoint d' = t_waitpoint d" "t_hmac d' = t_hmac d"
    "t_suspend_dedup d' = t_suspend_dedup d"
proof -
  obtain t where t: "sql_upsert suspension_key new (\<lambda>_. Inr new) (t_suspension d) = Inr t"
    and d': "d' = d\<lparr>t_suspension := t\<rparr>"
    using assms(1) by (auto simp: put_suspension_def rbind_Inr_iff)
  show "suspension_at d' part uid = Some new"
    using upsert_row [OF t, of "(part, uid)"] assms(2) by (simp add: d' suspension_at_def split: option.splits)
qed (use assms(1) in \<open>auto simp: put_suspension_def rbind_Inr_iff\<close>)

lemma suspend_steps_epoch:
  assumes "suspend_steps L E p part uid a d = Inr (ws, d')"
  shows "\<exists>att att'. attempt_at d part uid (i32_of_u32_or_0 (hp_attempt_index p)) = Some att \<and>
    u64_of_i64_or 0 (at_lease_epoch att) = unat (hp_lease_epoch p) \<and> suspend_attempt att = Inr att' \<and>
    attempt_at d' part uid (i32_of_u32_or_0 (hp_attempt_index p)) = Some att'"
  using assms
proof (cases rule: suspend_steps_cases)
  case (1 att kid secret sid t d2 d3)
  let ?idx = "i32_of_u32_or_0 (hp_attempt_index p)" and ?e = "update_exec part uid suspend_exec d2"
  have k: "suspension_key (new_suspension L part uid sid a) = (part, uid)"
    by (simp add: suspension_key_def new_suspension_def)
  have "attempt_at ?e part uid ?idx = Some att"
    using 1(1) put_suspension_at(3) [OF 1(6) k] by (simp add: attempt_at_def db_lookup)
  then obtain att' where "attempt_at d3 part uid ?idx = Some att'" "suspend_attempt att = Inr att'"
    using try_update_attempt_at [OF 1(7), of part uid ?idx] suspend_attempt_le(1) by auto
  then show ?thesis using 1(1,2) by (simp add: 1(8) db_lookup)
qed

text \<open>What the statements of a suspension leave behind.\<close>

lemma suspend_steps_effect:
  assumes "suspend_steps L E p part uid a d = Inr (ws, d')" "uuid_lib_ok (pe_lib E)"
  obtains att att' kid secret where
    "attempt_at d part uid (i32_of_u32_or_0 (hp_attempt_index p)) = Some att"
    "suspend_attempt att = Inr att'"
    "attempt_at d' part uid (i32_of_u32_or_0 (hp_attempt_index p)) = Some att'"
    "exec_at d' part uid = map_option suspend_exec (exec_at d part uid)"
    "suspension_at d' part uid = Some (new_suspension L part uid (ssa_suspension_id a) a)"
    "current_active_kid d = Some (kid, secret)"
    "\<And>w. w \<in> set ws \<Longrightarrow>
       bw_waitpoint_token w = hmac_sign L secret kid (token_message (pe_lib E) (hp_execution_id p) (bw_waitpoint_id w)) \<and>
       carries d' part (bw_waitpoint_id w) kid (bw_waitpoint_token w)"
    "t_hmac d' = t_hmac d" "t_suspend_dedup d' = t_suspend_dedup d"
  using assms(1)
proof (cases rule: suspend_steps_cases)
  case (1 att kid secret sid t d2 d3)
  let ?idx = "i32_of_u32_or_0 (hp_attempt_index p)" and ?e = "update_exec part uid suspend_exec d2"
  have sid: "sid = ssa_suspension_id a" using 1(5) assms(2) by simp
  have k: "suspension_key (new_suspension L part uid sid a) = (part, uid)"
    by (simp add: suspension_key_def new_suspension_def)
  note put = put_suspension_at [OF 1(6) k] and tried = try_update_attempt_susp [OF 1(7)]
  have same: "t_exec d' = t_exec ?e" "t_suspension d' = t_suspension d2" "t_waitpoint d' = t"
    "t_hmac d' = t_hmac d" "t_suspend_dedup d' = t_suspend_dedup d"
    using put tried try_update_attempt_tables(1) [OF 1(7)] by (simp_all add: 1(8) db_lookup)
  obtain att' where att': "attempt_at d' part uid ?idx = Some att'" "suspend_attempt att = Inr att'"
    using suspend_steps_epoch [OF assms(1)] 1(1) by auto
  have ex: "exec_at d' part uid = map_option suspend_exec (exec_at d part uid)"
  proof -
    have "exec_at d' part uid = exec_at ?e part uid" by (simp add: exec_at_def same)
    also have "\<dots> = map_option suspend_exec (exec_at d2 part uid)"
      using exec_at_update_exec [of suspend_exec part uid d2 part uid] by (simp add: suspend_exec_def exec_key_def)
    finally show ?thesis by (simp add: exec_at_def put(2))
  qed
  have kept: "carries d' part v k token \<longleftrightarrow> carries (d\<lparr>t_waitpoint := t\<rparr>) part v k token" for v k token
    by (simp add: carries_def waitpoint_at_def same(3))
  have bound: "bw_waitpoint_token w = hmac_sign L secret kid (token_message (pe_lib E) (hp_execution_id p) (bw_waitpoint_id w)) \<and>
       carries d' part (bw_waitpoint_id w) kid (bw_waitpoint_token w)" if "w \<in> set ws" for w
    using bspec [OF conjunct1 [OF bind_waitpoints_carry [OF assms(2) 1(4)]] that] kept by blast
  show thesis
  proof (rule that [OF 1(1) att'(2) _ ex _ 1(3) bound same(4,5)])
    show "attempt_at d' part uid ?idx = Some att'" by (rule att'(1))
    show "suspension_at d' part uid = Some (new_suspension L part uid (ssa_suspension_id a) a)"
      using put(1) same(2) by (simp add: suspension_at_def sid)
  qed
qed


lemma verify_minted:
  assumes "susp_lib_ok L" "fetch_kid kid d = Some secret" "wp_token_kid w = kid"
    "wp_token w = hmac_sign L secret kid (token_message X (dsa_execution_id g) (dsa_waitpoint_id g))"
    "dsa_waitpoint_token g = wp_token w"
  shows "verify_token L X w g d = Inr () \<longleftrightarrow> CHR '':'' \<notin> set kid"
  using assms hmac_verify_sign [OF assms(1), of secret kid]
  by (simp add: verify_token_def rbind_Inr_iff map_err_Inr_iff)

text \<open>A suspension on one fresh waitpoint succeeds for the holder of the lease.\<close>

lemma put_suspension_ok: "\<exists>d'. put_suspension new d = Inr d'"
  by (cases "row_at suspension_key (suspension_key new) (t_suspension d)")
     (simp_all add: put_suspension_def upsert_new upsert_old)

lemma bind_fresh:
  assumes "uuid_lib_ok X" "waitpoint_at d part w = None" "token = hmac_sign L secret kid (token_message X eid w)"
  shows "bind_waitpoints L X eid part uid a kid secret [Fresh w wkey] d =
    Inr ([\<lparr>bw_waitpoint_id = w, bw_waitpoint_key = wkey, bw_waitpoint_token = token\<rparr>],
         d\<lparr>t_waitpoint := t_waitpoint d @ [active_waitpoint part uid a w wkey kid token]\<rparr>)"
proof -
  let ?new = "active_waitpoint part uid a w wkey kid token"
  have "row_at waitpoint_id_key (waitpoint_id_key ?new) (t_waitpoint d) = None"
    using assms(2) by (simp add: waitpoint_at_def)
  then show ?thesis
    using assms(1) by (simp add: bind_waitpoint_def binding_target_def assms(3) [symmetric] Let_def upsert_new)
qed

lemma suspend_steps_ok:
  assumes lib: "uuid_lib_ok (pe_lib E)" and wf: "db_wf d"
    and held: "attempt_at d part uid (i32_of_u32_or_0 (hp_attempt_index p)) = Some att"
      "u64_of_i64_or 0 (at_lease_epoch att) = unat (hp_lease_epoch p)" "0 \<le> at_lease_epoch att" "at_lease_epoch att < i64_max"
    and key: "current_active_kid d = Some (kid, secret)"
    and bind: "bind_waitpoints L (pe_lib E) (hp_execution_id p) part uid a kid secret (ssa_waitpoints a) d =
      Inr (ws, d\<lparr>t_waitpoint := t\<rparr>)"
  shows "\<exists>d'. suspend_steps L E p part uid a d = Inr (ws, d') \<and> t_waitpoint d' = t"
proof -
  let ?idx = "i32_of_u32_or_0 (hp_attempt_index p)" and ?new = "new_suspension L part uid (ssa_suspension_id a) a"
  obtain d2 where d2: "put_suspension ?new (d\<lparr>t_waitpoint := t\<rparr>) = Inr d2" using put_suspension_ok by blast
  have k: "suspension_key ?new = (part, uid)" by (simp add: suspension_key_def new_suspension_def)
  let ?e = "update_exec part uid suspend_exec d2"
  have "db_evolves d ?e"
    by (rule db_evolves_trans [OF bind_waitpoints_evolves [OF bind]],
        rule db_evolves_trans [OF put_suspension_evolves [OF d2]])
      (rule evolves_update_exec, rule suspend_exec_le)
  then have wf_e: "db_wf ?e" using wf by (rule evolves_wf)
  have at: "attempt_at ?e part uid ?idx = Some att"
    using held(1) put_suspension_at(3) [OF d2 k] by (simp add: attempt_at_def db_lookup)
  obtain att' where "suspend_attempt att = Inr att'"
    using held(3,4) by (simp add: suspend_attempt_def int8_add_def i64_min_def)
  then obtain d3 where d3: "try_update_attempt part uid ?idx suspend_attempt ?e = Inr d3"
    using try_update_attempt_ok [OF wf_e at] by blast
  have "suspend_steps L E p part uid a d = Inr (ws, emit E part uid None EVENT_REVOKED (ssa_now a) d3)"
    using held(1,2) key bind d2 d3 lib by (simp add: suspend_steps_def Let_def fetch_attempt)
  then show ?thesis using try_update_attempt_susp(2) [OF d3] put_suspension_at(4) [OF d2 k] by (simp add: db_lookup)
qed

lemma suspend_fresh:
  assumes lib: "uuid_lib_ok (pe_lib E)" and wf: "db_wf d"
    and held: "attempt_at d part uid (i32_of_u32_or_0 (hp_attempt_index p)) = Some att"
      "u64_of_i64_or 0 (at_lease_epoch att) = unat (hp_lease_epoch p)" "0 \<le> at_lease_epoch att" "at_lease_epoch att < i64_max"
    and key: "current_active_kid d = Some (kid, secret)"
    and fresh: "ssa_waitpoints a = [Fresh w wkey]" "waitpoint_at d part w = None" "cached_outcome part a d = None"
    and token: "token = hmac_sign L secret kid (token_message (pe_lib E) (hp_execution_id p) w)"
  shows "\<exists>out d0. suspend_tx L p part uid a E d = Inr (Inr (out, cache_outcome L (pe_lib E) part a out d0)) \<and>
    suspend_outcome_details out = \<lparr>sud_suspension_id = ssa_suspension_id a,
      sud_primary = \<lparr>bw_waitpoint_id = w, bw_waitpoint_key = wkey, bw_waitpoint_token = token\<rparr>, sud_additional = []\<rparr> \<and>
    suspend_steps L E p part uid a d = Inr ([sud_primary (suspend_outcome_details out)], d0) \<and>
    waitpoint_at d0 part w = Some (active_waitpoint part uid a w wkey kid token)"
proof -
  let ?b = "\<lparr>bw_waitpoint_id = w, bw_waitpoint_key = wkey, bw_waitpoint_token = token\<rparr>"
  let ?new = "active_waitpoint part uid a w wkey kid token"
  obtain d0 where d0: "suspend_steps L E p part uid a d = Inr ([?b], d0)" "t_waitpoint d0 = t_waitpoint d @ [?new]"
    using suspend_steps_ok [OF lib wf held key, of L a] bind_fresh [OF lib fresh(2) token, of uid a wkey]
    by (auto simp: fresh(1))
  have "waitpoint_at d0 part w = Some ?new"
    using fresh(2) by (simp add: d0(2) waitpoint_at_def row_at_append) (simp add: row_at_def)
  then show ?thesis using d0(1) fresh(3) by (auto simp: suspend_tx_def Let_def)
qed


section \<open>Delivering and claiming again\<close>

definition delivered_signal :: "deliver_args \<Rightarrow> resume_signal" where
  "delivered_signal g =
     \<lparr>rs_signal_id = dsa_signal_id g, rs_signal_name = dsa_signal_name g, rs_signal_category = dsa_signal_category g,
      rs_source_type = dsa_source_type g, rs_source_identity = dsa_source_identity g,
      rs_correlation_id = (case dsa_correlation_id g of Some c \<Rightarrow> c | None \<Rightarrow> []),
      rs_accepted_at = dsa_now g, rs_payload = dsa_payload g\<rparr>"

lemma resume_signal_blob:
  assumes "susp_lib_ok L" "uuid_lib_ok X" "dsa_now g \<in> {i64_min .. i64_max}"
  shows "resume_signal_from_json L X (signal_blob L X g) = Some (delivered_signal g)"
  using assms
  by (cases "dsa_payload g")
     (simp_all add: resume_signal_from_json_def signal_blob_def delivered_signal_def json_index_def text_at_def
       uuid_lib_ok_def susp_lib_ok_def)

text \<open>All signals of a member map, in the order in which they are read.\<close>

definition member_all :: "susp_lib \<Rightarrow> ext_lib \<Rightarrow> (string \<times> json) list \<Rightarrow> resume_signal list" where
  "member_all L X kvs = concat (map (\<lambda>(_, v). member_signals L X v) (sort_key fst kvs))"

lemma mset_member_all: "mset (member_all L X kvs) = (\<Sum>kv \<in># mset kvs. mset (member_signals L X (snd kv)))"
  by (simp add: member_all_def mset_concat case_prod_unfold comp_def flip: sum_mset_sum_list)

lemma json_put_split:
  assumes "map_of kvs key = Some u" "distinct (map fst kvs)"
  obtains us vs where "kvs = us @ (key, u) # vs" "json_put key v kvs = us @ (key, v) # vs"
proof -
  obtain us vs where kvs: "kvs = us @ (key, u) # vs" using split_list [OF map_of_SomeD [OF assms(1)]] by auto
  have other: "json_put key v kvs' = kvs'" if "key \<notin> fst ` set kvs'" for kvs'
    using that by (induction kvs') (auto simp: json_put_def)
  have "json_put key v kvs = us @ (key, v) # vs"
    using assms(2) other [of us] other [of vs] unfolding kvs by (simp add: json_put_def)
  with kvs show thesis by (rule that)
qed

lemma member_signals_push:
  assumes "resume_signal_from_json L X blob = Some s"
  shows "member_signals L X (JArr (xs @ [blob])) = member_signals L X (JArr xs) @ [s]"
  using assms by (simp add: member_signals_def map_filter_def)

lemma member_push_all:
  assumes "member_push key blob (JObj kvs) = Inr members" "distinct (map fst kvs)"
    "resume_signal_from_json L X blob = Some s"
  shows "mset (member_all L X members) = add_mset s (mset (member_all L X kvs))"
proof (cases "map_of kvs key")
  case None
  then have "members = kvs @ [(key, JArr [blob])]" using assms(1) by (simp add: member_push_def)
  then show ?thesis using member_signals_push [OF assms(3), of "[]"]
    by (simp add: mset_member_all) (simp add: member_signals_def map_filter_simps)
next
  case (Some v)
  then obtain xs where v: "v = JArr xs" and m: "members = json_put key (JArr (xs @ [blob])) kvs"
    using assms(1) by (auto simp: member_push_def split: json.splits)
  obtain us vs where "kvs = us @ (key, JArr xs) # vs" "members = us @ (key, JArr (xs @ [blob])) # vs"
    using Some assms(2) unfolding v m by (rule json_put_split)
  then show ?thesis by (simp add: mset_member_all member_signals_push [OF assms(3)])
qed

lemma observe_eq:
  assumes "suspend_decode_handle (pe_lib E) h = Inr p" "split_exec_id (pe_lib E) (hp_execution_id p) = Inr (part, uid)"
    "pe_read_error E = None" "suspension_at d part uid = Some s" "sc_member_map s = JObj kvs"
  shows "observe_signals_impl L E h d = Inr (member_all L (pe_lib E) kvs)"
  using assms by (simp add: observe_signals_impl_def fetch_suspension member_all_def)

lemma update_suspension_at:
  assumes "\<And>r. suspension_key (f r) = suspension_key r"
  shows "suspension_at (update_suspension part uid f d) part uid = map_option f (suspension_at d part uid)"
proof -
  have "suspension_at (update_suspension part uid f d) part uid =
      map_option (\<lambda>r. if suspension_is part uid r then f r else r) (suspension_at d part uid)"
    using row_at_update [of suspension_key f "(part, uid)" "suspension_is part uid" "t_suspension d"] assms
    by (simp add: suspension_at_def update_suspension_def)
  then show ?thesis
    using row_at_Some [of suspension_key "(part, uid)" "t_suspension d"]
    by (cases "suspension_at d part uid") (auto simp: suspension_at_def suspension_is_def suspension_key_def)
qed


lemma deliver_members:
  assumes "deliver_tx L g part uid wp E d = Inr (res, d')" "suspension_at d part uid = Some s"
  shows "\<exists>key members. member_push key (signal_blob L (pe_lib E) g) (sc_member_map s) = Inr members \<and>
    suspension_at d' part uid = Some (s\<lparr>sc_member_map := JObj members\<rparr>)"
  using assms(1)
proof (cases rule: deliver_tx_cases)
  case (1 w s' members condition)
  have "member_push (wp_waitpoint_key w) (signal_blob L (pe_lib E) g) (sc_member_map s) = Inr members"
    using 1(4,5) assms(2) by (simp add: fetch_suspension)
  moreover have "suspension_at d' part uid = Some (s\<lparr>sc_member_map := JObj members\<rparr>)"
    unfolding 1(8) suspension_at_def susp_tables
    using update_suspension_at [of "\<lambda>r. r\<lparr>sc_member_map := JObj members\<rparr>" part uid d] assms(2)
    by (simp add: suspension_at_def suspension_key_def)
  ultimately show ?thesis by blast
qed

text \<open>A first signal that satisfies the condition makes the execution resumable.\<close>

lemma deliver_satisfies:
  assumes lib: "susp_lib_ok L" "uuid_lib_ok (pe_lib E)" "dsa_now g \<in> {i64_min .. i64_max}"
    and row: "waitpoint_at d part wp = Some w" "wp_execution_id w = uid" "verify_token L (pe_lib E) w g d = Inr ()"
    and susp: "suspension_at d part uid = Some s" "sc_member_map s = JObj []" "sc_condition s = sl_cond_to_json L c"
    and sat: "resume_evaluate c [wp_waitpoint_key w \<mapsto> [delivered_signal g]]"
  shows "\<exists>d'. deliver_tx L g part uid wp E d = Inr (DS_Accepted (dsa_signal_id g) ''resume_condition_satisfied'', d') \<and>
    exec_at d' part uid = map_option resumable_exec (exec_at d part uid) \<and> t_attempt d' = t_attempt d \<and>
    suspension_at d' part uid = Some (s\<lparr>sc_member_map := JObj [(wp_waitpoint_key w, JArr [signal_blob L (pe_lib E) g])]\<rparr>)"
proof -
  let ?ms = "[(wp_waitpoint_key w, JArr [signal_blob L (pe_lib E) g])]"
  have sigs: "signals_of L (pe_lib E) ?ms = [wp_waitpoint_key w \<mapsto> [delivered_signal g]]"
    by (rule ext) (simp add: signals_of_def member_signals_def map_filter_simps resume_signal_blob [OF lib])
  let ?d1 = "update_suspension part uid (\<lambda>r. r\<lparr>sc_member_map := JObj ?ms\<rparr>) d"
  let ?d' = "signal_emit E part uid (uuid_to_string (pe_lib E) (dsa_signal_id g))
    (Some (uuid_to_string (pe_lib E) (dsa_waitpoint_id g))) (Some (dsa_source_identity g)) (dsa_now g)
    (resume_if True E part uid (dsa_now g) ?d1)"
  have tx: "deliver_tx L g part uid wp E d = Inr (DS_Accepted (dsa_signal_id g) ''resume_condition_satisfied'', ?d')"
    using lib(1) row susp sat
    by (simp add: deliver_tx_def fetch_waitpoint fetch_suspension member_push_def sigs susp_lib_ok_def Let_def)
  have "exec_at ?d' part uid = exec_at (update_exec part uid resumable_exec ?d1) part uid"
    by (simp add: exec_at_def db_lookup resume_if_def insert_resumable_def delete_waitpoints_def)
  also have "\<dots> = map_option resumable_exec (exec_at ?d1 part uid)"
    using exec_at_update_exec [of resumable_exec part uid ?d1 part uid] by (simp add: resumable_exec_def exec_key_def)
  finally have ex: "exec_at ?d' part uid = map_option resumable_exec (exec_at d part uid)"
    by (simp add: exec_at_def db_lookup)
  have "suspension_at ?d' part uid = Some (s\<lparr>sc_member_map := JObj ?ms\<rparr>)"
    unfolding suspension_at_def susp_tables
    using update_suspension_at [of "\<lambda>r. r\<lparr>sc_member_map := JObj ?ms\<rparr>" part uid d] susp(1)
    by (simp add: suspension_at_def suspension_key_def)
  then show ?thesis using tx ex by (simp add: db_lookup)
qed

lemma claim_resumed_ok:
  assumes "db_wf d" "exec_at d part uid = Some r" "ec_public_state r = ''resumable''"
    "attempt_at d part uid (ec_attempt_index r) = Some att" "0 \<le> at_lease_epoch att" "at_lease_epoch att < i64_max"
  shows "\<exists>d' att'. claim_resumed_tx E c part uid d = Inr ((ec_attempt_index r, at_lease_epoch att + 1), d') \<and>
    exec_at d' part uid = Some (resumed_exec (pe_now E) r) \<and>
    attempt_at d' part uid (ec_attempt_index r) = Some att' \<and> at_lease_epoch att' = at_lease_epoch att + 1 \<and>
    at_worker_instance_id att' = Some (cra_worker_instance_id c) \<and> t_suspension d' = t_suspension d"
proof -
  let ?f = "resumed_attempt c (pe_now E) (saturating_add (pe_now E) (i64_of_u64_or_0 (cra_lease_ttl_ms c)))"
  obtain att' where att': "?f att = Inr att'" "at_lease_epoch att' = at_lease_epoch att + 1"
    "at_worker_instance_id att' = Some (cra_worker_instance_id c)"
    using assms(5,6) by (simp add: resumed_attempt_def int8_add_def i64_min_def)
  obtain d1 where d1: "try_update_attempt part uid (ec_attempt_index r) ?f d = Inr d1"
    using try_update_attempt_ok [OF assms(1,4), of ?f att'] att'(1) by blast
  have at: "attempt_at d1 part uid (ec_attempt_index r) = Some att'"
    using try_update_attempt_at [OF d1, of part uid "ec_attempt_index r"] suspend_attempt_le(2) assms(4) att'(1) by auto
  have ex: "exec_at d1 part uid = Some r" using assms(2) try_update_attempt_tables(1) [OF d1] by (simp add: exec_at_def)
  let ?d2 = "update_exec part uid (resumed_exec (pe_now E)) d1"
  let ?d' = "emit E part uid (Some (uuid_to_string (pe_lib E) (cra_lease_id c))) EVENT_ACQUIRED (pe_now E) ?d2"
  have "claim_resumed_tx E c part uid d = Inr ((ec_attempt_index r, at_lease_epoch att + 1), ?d')"
    using assms(2,3) d1 at att'(2)
    by (simp add: claim_resumed_tx_def fetch_exec fetch_attempt Let_def db_lookup attempt_at_def)
  moreover have "exec_at ?d2 part uid = Some (resumed_exec (pe_now E) r)"
    using exec_at_update_exec [of "resumed_exec (pe_now E)" part uid d1 part uid] ex
    by (simp add: resumed_exec_def exec_key_def)
  ultimately show ?thesis
    using at att' try_update_attempt_susp(1) [OF d1] by (simp add: db_lookup)
qed


lemma suspend_then_deliver:
  assumes lib: "susp_lib_ok L" "uuid_lib_ok (pe_lib E)" and wf: "db_wf d"
    and held: "attempt_at d part uid (i32_of_u32_or_0 (hp_attempt_index p)) = Some att"
      "u64_of_i64_or 0 (at_lease_epoch att) = unat (hp_lease_epoch p)" "0 \<le> at_lease_epoch att"
      "at_lease_epoch att < i64_max"
    and key: "current_active_kid d = Some (kid, secret)" "CHR '':'' \<notin> set kid"
    and fresh: "ssa_waitpoints a = [Fresh w wkey]" "waitpoint_at d part w = None" "cached_outcome part a d = None"
    and signal: "dsa_execution_id g = hp_execution_id p" "dsa_waitpoint_id g = w"
      "dsa_waitpoint_token g = hmac_sign L secret kid (token_message (pe_lib E) (hp_execution_id p) w)"
      "dsa_now g \<in> {i64_min .. i64_max}" "resume_evaluate (ssa_resume_condition a) [wkey \<mapsto> [delivered_signal g]]"
    and env: "pe_lib E2 = pe_lib E"
  shows "\<exists>out d1 d2 att1.
    suspend_tx L p part uid a E d = Inr (Inr (out, d1)) \<and>
    sud_primary (suspend_outcome_details out) =
      \<lparr>bw_waitpoint_id = w, bw_waitpoint_key = wkey, bw_waitpoint_token = dsa_waitpoint_token g\<rparr> \<and>
    exec_at d1 part uid = map_option suspend_exec (exec_at d part uid) \<and>
    deliver_tx L g part uid w E2 d1 = Inr (DS_Accepted (dsa_signal_id g) ''resume_condition_satisfied'', d2) \<and>
    exec_at d2 part uid = map_option resumable_exec (exec_at d1 part uid) \<and>
    attempt_at d2 part uid (i32_of_u32_or_0 (hp_attempt_index p)) = Some att1 \<and> suspend_attempt att = Inr att1 \<and>
    suspension_at d1 part uid = Some (new_suspension L part uid (ssa_suspension_id a) a) \<and> t_hmac d1 = t_hmac d"
proof -
  let ?tok = "hmac_sign L secret kid (token_message (pe_lib E) (hp_execution_id p) w)"
  let ?row = "active_waitpoint part uid a w wkey kid ?tok" and ?s = "new_suspension L part uid (ssa_suspension_id a) a"
  obtain out d0 where out: "suspend_tx L p part uid a E d = Inr (Inr (out, cache_outcome L (pe_lib E) part a out d0))"
    "sud_primary (suspend_outcome_details out) =
      \<lparr>bw_waitpoint_id = w, bw_waitpoint_key = wkey, bw_waitpoint_token = ?tok\<rparr>"
    "suspend_steps L E p part uid a d = Inr ([sud_primary (suspend_outcome_details out)], d0)"
    "waitpoint_at d0 part w = Some ?row"
    using suspend_fresh [OF lib(2) wf held key(1) fresh refl, of L] by auto
  let ?d1 = "cache_outcome L (pe_lib E) part a out d0"
  obtain att1 where d0: "attempt_at d0 part uid (i32_of_u32_or_0 (hp_attempt_index p)) = Some att1"
    "suspend_attempt att = Inr att1" "exec_at d0 part uid = map_option suspend_exec (exec_at d part uid)"
    "suspension_at d0 part uid = Some ?s" "t_hmac d0 = t_hmac d"
    using out(3) lib(2) by (rule suspend_steps_effect) (use held(1) in auto)
  have "fetch_kid kid ?d1 = Some secret"
    using active_key_fetch [OF key(1) wf] d0(5) by (simp add: fetch_kid_def db_lookup)
  then have ver: "verify_token L (pe_lib E2) ?row g ?d1 = Inr ()"
    by (subst verify_minted) (use lib(1) signal env key(2) in \<open>simp_all add: active_waitpoint_def\<close>)
  have d1: "waitpoint_at ?d1 part w = Some ?row" "suspension_at ?d1 part uid = Some ?s"
    "exec_at ?d1 part uid = exec_at d0 part uid" "t_attempt ?d1 = t_attempt d0" "t_hmac ?d1 = t_hmac d"
    using out(4) d0(4,5) by (simp_all add: waitpoint_at_def suspension_at_def exec_at_def db_lookup)
  obtain d2 where d2: "deliver_tx L g part uid w E2 ?d1 = Inr (DS_Accepted (dsa_signal_id g) ''resume_condition_satisfied'', d2)"
    "exec_at d2 part uid = map_option resumable_exec (exec_at ?d1 part uid)" "t_attempt d2 = t_attempt ?d1"
    using deliver_satisfies [OF lib(1) _ signal(4) d1(1) _ ver d1(2), of "ssa_resume_condition a"] lib(2) env signal(5)
    by (auto simp: active_waitpoint_def new_suspension_def)
  show ?thesis
    using out(1,2) d0(1-3) d1(2-5) d2 signal(3)
    by (intro exI [of _ out] exI [of _ ?d1] exI [of _ d2] exI [of _ att1]) (simp add: attempt_at_def)
qed

section \<open>A suspended execution\<close>

text \<open>
  The leased execution of the sample database suspends with its handle on one waitpoint, under the
  key \<open>k1\<close>, until a signal named \<open>ok\<close> arrives or time 5000; the signal is sent with the token.
\<close>

definition susp_db :: db where
  "susp_db = leased_db\<lparr>t_hmac := [\<lparr>hk_kid = ''k1'', hk_secret = [1, 2], hk_rotated_at_ms = 0, hk_active = True\<rparr>]\<rparr>"

definition sample_suspend :: suspend_args where
  "sample_suspend =
     \<lparr>ssa_suspension_id = 30, ssa_waitpoints = [Fresh 31 ''wp''], ssa_resume_condition = Single ''wp'' (ByName ''ok''),
      ssa_reason_code = WaitingForSignal, ssa_timeout_at = Some 5000, ssa_timeout_behavior = TB_Fail, ssa_now = 100,
      ssa_idempotency_key = Some ''once''\<rparr>"

definition sample_suspend_token :: string where
  "sample_suspend_token =
     hmac_sign sample_susp_lib [1, 2] ''k1'' (token_message sample_ext_lib (hp_execution_id sample_payload) 31)"

definition sample_delivery :: deliver_args where
  "sample_delivery =
     \<lparr>dsa_execution_id = ''{fp:7}:5'', dsa_waitpoint_id = 31, dsa_signal_id = 40, dsa_signal_name = ''ok'',
      dsa_signal_category = ''approval'', dsa_source_type = ''user'', dsa_source_identity = ''ann'', dsa_payload = Some [7],
      dsa_correlation_id = None, dsa_waitpoint_token = sample_suspend_token, dsa_now = 200\<rparr>"

definition sample_reclaim :: claim_resumed_args where
  "sample_reclaim =
     \<lparr>cra_execution_id = ''{fp:7}:5'', cra_worker_id = ''v'', cra_worker_instance_id = ''v-1'', cra_lane_id = ''default'',
      cra_lease_id = 50, cra_lease_ttl_ms = 30000\<rparr>"

lemma susp_db_ok: "db_wf susp_db" "db_typed susp_db"
  by (simp_all add: susp_db_def sample_defs db_wf_def db_typed_def exec_typed_def attempt_typed_def i32_max_def i64_max_def)

lemma susp_db_rows:
  "attempt_at susp_db 7 5 3 = Some (sample_attempt 4)" "at_lease_epoch (sample_attempt 4) = 4"
  "exec_at susp_db 7 5 = Some (sample_exec 5 ''active'' ''not_applicable'' [])"
  "ec_attempt_index (sample_exec 5 ''active'' ''not_applicable'' []) = 3"
  "current_active_kid susp_db = Some (''k1'', [1, 2])" "waitpoint_at susp_db 7 31 = None"
  "cached_outcome 7 sample_suspend susp_db = None"
  by (simp_all add: susp_db_def sample_defs attempt_at_def exec_at_def row_at_def attempt_key_def exec_key_def
      current_active_kid_def sql_first_by_def waitpoint_at_def cached_outcome_def sql_fetch_def)

lemma sample_epoch: "u64_of_i64_or 0 4 = unat (hp_lease_epoch sample_payload)"
  by (simp add: u64_of_i64_or_def)

lemma sample_delivery_ok:
  "dsa_execution_id sample_delivery = hp_execution_id sample_payload" "dsa_waitpoint_id sample_delivery = 31"
  "dsa_waitpoint_token sample_delivery =
     hmac_sign sample_susp_lib [1, 2] ''k1'' (token_message sample_ext_lib (hp_execution_id sample_payload) 31)"
  "dsa_now sample_delivery \<in> {i64_min .. i64_max}"
  "resume_evaluate (ssa_resume_condition sample_suspend) [''wp'' \<mapsto> [delivered_signal sample_delivery]]"
  by (simp_all add: sample_delivery_def sample_payload_def sample_suspend_token_def i64_min_def i64_max_def
      sample_suspend_def delivered_signal_def)

lemma sample_handle_decodes [simp]: "suspend_decode_handle sample_ext_lib sample_handle = Inr sample_payload"
  using decode_encode [OF sample_payload_ok, of BT_Postgres]
  by (simp add: suspend_decode_handle_def sample_handle_def mint_handle_def)

lemma sample_split [simp]: "split_exec_id sample_ext_lib (hp_execution_id sample_payload) = Inr (7, 5)"
  using sample_target by (simp add: handle_target_def rbind_Inr_iff split: prod.splits)

lemma sample_suspended:
  "\<exists>out d1 d2 att1 s. suspend_tx sample_susp_lib sample_payload 7 5 sample_suspend (sample_env 100) susp_db = Inr (Inr (out, d1)) \<and>
    sud_primary (suspend_outcome_details out) =
      \<lparr>bw_waitpoint_id = 31, bw_waitpoint_key = ''wp'', bw_waitpoint_token = dsa_waitpoint_token sample_delivery\<rparr> \<and>
    deliver_tx sample_susp_lib sample_delivery 7 5 31 (sample_env 200) d1 =
      Inr (DS_Accepted (dsa_signal_id sample_delivery) ''resume_condition_satisfied'', d2) \<and>
    exec_at d2 7 5 = Some (resumable_exec (suspend_exec (sample_exec 5 ''active'' ''not_applicable'' []))) \<and>
    attempt_at d2 7 5 3 = Some att1 \<and> at_lease_epoch att1 = 5 \<and>
    suspension_at d1 7 5 = Some s \<and> sc_timeout_at_ms s = Some 5000 \<and> sc_member_map s = JObj [] \<and>
    t_hmac d1 = t_hmac susp_db"
proof -
  have w: "ssa_waitpoints sample_suspend = [Fresh 31 ''wp'']" by (simp add: sample_suspend_def)
  have small: "(0 :: int) \<le> 4" "4 < i64_max" "CHR '':'' \<notin> set ''k1''" by (simp_all add: i64_max_def)
  obtain out d1 d2 att1 where
    *: "suspend_tx sample_susp_lib sample_payload 7 5 sample_suspend (sample_env 100) susp_db = Inr (Inr (out, d1))"
    "sud_primary (suspend_outcome_details out) =
      \<lparr>bw_waitpoint_id = 31, bw_waitpoint_key = ''wp'', bw_waitpoint_token = dsa_waitpoint_token sample_delivery\<rparr>"
    "exec_at d1 7 5 = map_option suspend_exec (exec_at susp_db 7 5)"
    "deliver_tx sample_susp_lib sample_delivery 7 5 31 (sample_env 200) d1 =
      Inr (DS_Accepted (dsa_signal_id sample_delivery) ''resume_condition_satisfied'', d2)"
    "exec_at d2 7 5 = map_option resumable_exec (exec_at d1 7 5)"
    "attempt_at d2 7 5 3 = Some att1" "suspend_attempt (sample_attempt 4) = Inr att1"
    "suspension_at d1 7 5 = Some (new_suspension sample_susp_lib 7 5 (ssa_suspension_id sample_suspend) sample_suspend)" "t_hmac d1 = t_hmac susp_db"
    using suspend_then_deliver [where E = "sample_env 100" and ?E2.0 = "sample_env 200" and d = susp_db and part = 7 and
      uid = 5 and p = sample_payload and a = sample_suspend and g = sample_delivery and L = sample_susp_lib and
      att = "sample_attempt 4", unfolded sample_env_simps sample_index susp_db_rows(2), OF sample_susp_lib_ok
      sample_uuid_lib_ok susp_db_ok(1) susp_db_rows(1) sample_epoch [unfolded sample_index] small(1,2) susp_db_rows(5)
      small(3) w susp_db_rows(6,7) sample_delivery_ok refl]
    by blast
  have "at_lease_epoch att1 = 5" using suspend_attempt_le(1) [OF *(7)] by (simp add: susp_db_rows)
  moreover have "exec_at d2 7 5 = Some (resumable_exec (suspend_exec (sample_exec 5 ''active'' ''not_applicable'' [])))"
    by (simp only: *(3,5) susp_db_rows(3) option.map)
  ultimately show ?thesis using *(1,2,4,6,8,9)
    by (intro exI [of _ out] exI [of _ d1] exI [of _ d2] exI [of _ att1]
        exI [of _ "new_suspension sample_susp_lib 7 5 (ssa_suspension_id sample_suspend) sample_suspend"])
       (simp add: new_suspension_def sample_suspend_def)
qed

section \<open>Tokens, signals and resumption\<close>






text \<open>
  C11. Suspend, signal, resume. The holder of a lease that suspends on a fresh waitpoint gets a token.
  If one signal sent with that token is enough for the condition, its delivery makes the execution
  resumable, and the next claim of resumed executions succeeds: the same attempt is leased again,
  with an epoch two above the one that was given up, and the execution is active.
\<close>

theorem suspend_signal_resume:
  assumes lib: "susp_lib_ok L" "uuid_lib_ok (pe_lib E)" and wf: "db_wf d"
    and held: "attempt_at d part uid (i32_of_u32_or_0 (hp_attempt_index p)) = Some att"
      "u64_of_i64_or 0 (at_lease_epoch att) = unat (hp_lease_epoch p)" "0 \<le> at_lease_epoch att"
      "at_lease_epoch att + 2 \<le> i64_max"
    and exec: "exec_at d part uid = Some r" "ec_attempt_index r = i32_of_u32_or_0 (hp_attempt_index p)"
    and key: "current_active_kid d = Some (kid, secret)" "CHR '':'' \<notin> set kid"
    and fresh: "ssa_waitpoints a = [Fresh w wkey]" "waitpoint_at d part w = None" "cached_outcome part a d = None"
    and signal: "dsa_execution_id g = hp_execution_id p" "dsa_waitpoint_id g = w"
      "dsa_waitpoint_token g = hmac_sign L secret kid (token_message (pe_lib E) (hp_execution_id p) w)"
      "dsa_now g \<in> {i64_min .. i64_max}" "resume_evaluate (ssa_resume_condition a) [wkey \<mapsto> [delivered_signal g]]"
    and env: "pe_lib E2 = pe_lib E"
  shows "\<exists>out d1 d2 d3 att'.
    suspend_tx L p part uid a E d = Inr (Inr (out, d1)) \<and>
    bw_waitpoint_token (sud_primary (suspend_outcome_details out)) = dsa_waitpoint_token g \<and>
    exec_at d1 part uid = Some (suspend_exec r) \<and>
    deliver_tx L g part uid w E2 d1 = Inr (DS_Accepted (dsa_signal_id g) ''resume_condition_satisfied'', d2) \<and>
    claim_resumed_tx E3 c part uid d2 = Inr ((ec_attempt_index r, at_lease_epoch att + 2), d3) \<and>
    attempt_at d3 part uid (ec_attempt_index r) = Some att' \<and> at_lease_epoch att' = at_lease_epoch att + 2 \<and>
    at_worker_instance_id att' = Some (cra_worker_instance_id c) \<and>
    exec_at d3 part uid = Some (resumed_exec (pe_now E3) (resumable_exec (suspend_exec r)))"
proof -
  have lt: "at_lease_epoch att < i64_max" using held(4) by simp
  obtain out d1 d2 att1 where *: "suspend_tx L p part uid a E d = Inr (Inr (out, d1))"
    "bw_waitpoint_token (sud_primary (suspend_outcome_details out)) = dsa_waitpoint_token g"
    "exec_at d1 part uid = map_option suspend_exec (exec_at d part uid)"
    "deliver_tx L g part uid w E2 d1 = Inr (DS_Accepted (dsa_signal_id g) ''resume_condition_satisfied'', d2)"
    "exec_at d2 part uid = map_option resumable_exec (exec_at d1 part uid)"
    "attempt_at d2 part uid (ec_attempt_index r) = Some att1" "suspend_attempt att = Inr att1"
    using suspend_then_deliver [OF lib wf held(1-3) lt key fresh signal env] exec(2) by auto
  have e1: "at_lease_epoch att1 = at_lease_epoch att + 1" using suspend_attempt_le(1) [OF *(7)] by simp
  have wf2: "db_wf d2"
    by (rule evolves_wf [OF deliver_tx_evolves [OF *(4)] evolves_wf [OF suspend_tx_evolves [OF *(1)] wf]])
  show ?thesis
    using claim_resumed_ok [OF wf2, of part uid "resumable_exec (suspend_exec r)" att1 E3 c] * exec(1) e1 held(3,4)
    by (auto simp: resumable_exec_def suspend_exec_def)
qed

theorem suspend_signal_resume_witness:
  "\<exists>out d1 d2 d3 att'.
    suspend_tx sample_susp_lib sample_payload 7 5 sample_suspend (sample_env 100) susp_db = Inr (Inr (out, d1)) \<and>
    deliver_tx sample_susp_lib sample_delivery 7 5 31 (sample_env 200) d1 =
      Inr (DS_Accepted (dsa_signal_id sample_delivery) ''resume_condition_satisfied'', d2) \<and>
    claim_resumed_tx (sample_env 300) sample_reclaim 7 5 d2 = Inr ((3, 6), d3) \<and>
    attempt_at d3 7 5 3 = Some att' \<and> at_worker_instance_id att' = Some (cra_worker_instance_id sample_reclaim)"
proof -
  have w: "ssa_waitpoints sample_suspend = [Fresh 31 ''wp'']" by (simp add: sample_suspend_def)
  have small: "(0 :: int) \<le> 4" "4 + 2 \<le> i64_max" "CHR '':'' \<notin> set ''k1''" by (simp_all add: i64_max_def)
  have six: "4 + 2 = (6 :: int)" by simp
  show ?thesis
    using suspend_signal_resume [where E = "sample_env 100" and ?E2.0 = "sample_env 200" and ?E3.0 = "sample_env 300" and
      d = susp_db and part = 7 and uid = 5 and p = sample_payload and a = sample_suspend and g = sample_delivery and
      L = sample_susp_lib and att = "sample_attempt 4" and c = sample_reclaim,
      unfolded sample_env_simps sample_index susp_db_rows(2), OF sample_susp_lib_ok sample_uuid_lib_ok susp_db_ok(1)
      susp_db_rows(1) sample_epoch [unfolded sample_index] small(1,2) susp_db_rows(3,4,5) small(3) w susp_db_rows(6,7)
      sample_delivery_ok refl]
    unfolding susp_db_rows(4) six by blast
qed


section \<open>Repeating a call\<close>

lemma parse_id_ok [simp]: "uuid_lib_ok X \<Longrightarrow> parse_id X what (uuid_to_string X u) = Inr u"
  by (simp add: parse_id_def uuid_lib_ok_def)

lemma text_at_Obj [simp]:
  "text_at (JObj kvs) k = (case map_of kvs k of Some (JStr s) \<Rightarrow> s | _ \<Rightarrow> [])"
  by (simp add: text_at_def json_index_def split: option.splits json.splits)

lemma extras_roundtrip: "uuid_lib_ok X \<Longrightarrow> extras_from_json X (map (\<lambda>b. JObj (bound_fields X b)) bs) = Inr bs"
  by (induction bs) (simp_all add: bound_fields_def)

text \<open>The outcomes that \<open>suspend\<close> caches.\<close>

definition cachable :: "suspend_outcome \<Rightarrow> bool" where
  "cachable out =
     (case out of SO_Suspended _ h \<Rightarrow> h_backend h = BT_Postgres \<and> h_kind h = HK_Suspended | SO_AlreadySatisfied _ \<Rightarrow> True)"

lemma outcome_roundtrip:
  assumes "susp_lib_ok L" "uuid_lib_ok X" "cachable out"
  shows "outcome_from_dedup_json L X (outcome_to_dedup_json L X out) = Inr out"
  using assms
  by (cases out)
     (simp_all add: outcome_from_dedup_json_def outcome_to_dedup_json_def json_index_def bound_fields_def
       extras_roundtrip [unfolded bound_fields_def] susp_lib_ok_def cachable_def Let_def)

lemma cached_row:
  "ssa_idempotency_key a = Some key \<Longrightarrow>
   cached_outcome part a d = map_option sd_outcome_json (row_at suspend_dedup_key (part, key) (t_suspend_dedup d))"
  by (simp add: cached_outcome_def sql_fetch_def row_at_def suspend_dedup_key_def)

lemma cached_kept:
  assumes "engine_run d d'" "cached_outcome part a d = Some j" "ssa_idempotency_key a = Some key"
  shows "cached_outcome part a d' = Some j"
proof -
  have "rows_le suspend_dedup_key (=) (t_suspend_dedup d) (t_suspend_dedup d')"
    using engine_evolves [OF assms(1)] by (simp add: db_evolves_def)
  then show ?thesis using assms(2) unfolding cached_row [OF assms(3)] rows_le_def by auto
qed

lemma suspend_caches:
  assumes lib: "susp_lib_ok L" "uuid_lib_ok (pe_lib E)" and key: "ssa_idempotency_key a = Some key"
    and tx: "suspend_tx L p part uid a E d = Inr (Inr (out, d1))"
  shows "\<exists>j. cached_outcome part a d1 = Some j \<and> outcome_from_dedup_json L (pe_lib E) j = Inr out"
  using tx
proof (cases rule: suspend_tx_cases)
  case (2 first extras d0)
  let ?row = "\<lparr>sd_partition_key = part, sd_idempotency_key = key,
    sd_outcome_json = outcome_to_dedup_json L (pe_lib E) out, sd_created_at_ms = ssa_now a\<rparr>"
  have "suspend_steps L E p part uid a d = Inr (first # extras, d0) \<Longrightarrow> t_suspend_dedup d0 = t_suspend_dedup d"
    by (erule suspend_steps_effect [OF _ lib(2)])
  then have none: "row_at suspend_dedup_key (part, key) (t_suspend_dedup d0) = None"
    using 2(1,2) by (simp add: cached_row [OF key])
  have "t_suspend_dedup d1 = t_suspend_dedup d0 @ [?row]"
    using none 2(4) key by (simp add: cache_outcome_def sql_insert_or_nothing_def row_at_None suspend_dedup_key_def)
  then have "cached_outcome part a d1 = Some (outcome_to_dedup_json L (pe_lib E) out)"
    using none by (simp add: cached_row [OF key] row_at_append) (simp add: row_at_def suspend_dedup_key_def)
  then show ?thesis using outcome_roundtrip [OF lib] 2(3) by (simp add: cachable_def)
qed auto




section \<open>Retrying\<close>

text \<open>A round that leaves the database as it is and asks for another one.\<close>

definition round_conflicts ::
  "(nat \<Rightarrow> pg_env) \<Rightarrow> (nat \<Rightarrow> fail_site) \<Rightarrow> (pg_env \<Rightarrow> db \<Rightarrow> panic + (pg_error + ('a \<times> db))) \<Rightarrow> db \<Rightarrow> nat \<Rightarrow> bool" where
  "round_conflicts env site op d i =
     (case pe_fault (env i) of
        Fails_before e \<Rightarrow> site_retryable (site i) e
      | _ \<Rightarrow> (case op (env i) d of Inr (Inl e) \<Rightarrow> is_retryable_engine e | _ \<Rightarrow> False))"

lemma loop_conflict:
  assumes "round_conflicts env site op d (SERIALIZABLE_RETRY_BUDGET - Suc left)"
  shows "serializable_loop env site op (Suc left) d = serializable_loop env site op left d"
  using assms by (simp add: round_conflicts_def Let_def split: tx_fault.splits sum.splits)

lemma loop_conflicts:
  assumes "\<forall>i < n. round_conflicts env site op d i" "n \<le> SERIALIZABLE_RETRY_BUDGET"
  shows "run_serializable env site op d = serializable_loop env site op (SERIALIZABLE_RETRY_BUDGET - n) d"
  using assms
proof (induction n)
  case (Suc n)
  have "serializable_loop env site op (Suc (SERIALIZABLE_RETRY_BUDGET - Suc n)) d =
      serializable_loop env site op (SERIALIZABLE_RETRY_BUDGET - Suc n) d"
    by (rule loop_conflict) (use Suc.prems in simp)
  moreover have "Suc (SERIALIZABLE_RETRY_BUDGET - Suc n) = SERIALIZABLE_RETRY_BUDGET - n" using Suc.prems(2) by simp
  ultimately show ?case using Suc by simp
qed (simp add: run_serializable_def)


text \<open>Two serialization failures at the commit, then a round that goes through.\<close>

definition flaky_env :: "nat \<Rightarrow> pg_env" where
  "flaky_env i =
     (if i < 2 then (sample_env 100)\<lparr>pe_fault := Fails_before (Sqlx_Database (Some ''40001'') ''could not serialize access'')\<rparr>
      else sample_env 100)"





section \<open>Deadlines\<close>

lemma expire_overdue:
  assumes "suspension_at d part uid = Some s" "suspension_overdue now s" "behavior \<noteq> ''auto_resume_with_timeout_signal''"
  shows "\<exists>d'. suspension_expire_tx behavior part uid now d = Inr ((), d') \<and>
    exec_at d' part uid = map_option (timed_out_exec behavior now) (exec_at d part uid) \<and> t_attempt d' = t_attempt d"
  using assms exec_at_update_exec [of "timed_out_exec behavior now" part uid d part uid]
  by (simp add: suspension_expire_tx_def fetch_suspension db_lookup exec_at_def timed_out_exec_def exec_key_def)

text \<open>
  C39. The timeout of a suspension outlives the suspension. A delivery that resumes an execution leaves
  the suspension row and its deadline in place, and so does the claim that follows. When the deadline
  passes, the reconciler ends the execution although it is active: its phase becomes terminal with a
  timeout as the reason, while the attempt is still leased to the worker that resumed it.
\<close>

theorem resumed_execution_times_out:
  assumes "deliver_tx L g part uid wp E d = Inr (DS_Accepted i ''resume_condition_satisfied'', d1)"
    and "claim_resumed_tx E2 c part uid d1 = Inr ((idx, epoch), d2)"
    and "suspension_at d part uid = Some s" "sc_timeout_at_ms s = Some t" "t < now"
    and "behavior \<noteq> ''auto_resume_with_timeout_signal''"
  shows "\<exists>r att d3. exec_at d2 part uid = Some r \<and> ec_lifecycle_phase r = ''active'' \<and>
    suspension_expire_tx behavior part uid now d2 = Inr ((), d3) \<and>
    exec_at d3 part uid = Some (timed_out_exec behavior now r) \<and>
    attempt_at d3 part uid idx = Some att \<and> at_lease_epoch att = epoch \<and>
    at_worker_instance_id att = Some (cra_worker_instance_id c)"
proof -
  obtain ms where s1: "suspension_at d1 part uid = Some (s\<lparr>sc_member_map := JObj ms\<rparr>)"
    using deliver_members [OF assms(1,3)] by blast
  obtain r0 d1' att where c: "exec_at d1 part uid = Some r0" "idx = ec_attempt_index r0"
    "try_update_attempt part uid idx (resumed_attempt c (pe_now E2)
       (saturating_add (pe_now E2) (i64_of_u64_or_0 (cra_lease_ttl_ms c)))) d1 = Inr d1'"
    "attempt_at d1' part uid idx = Some att" "epoch = at_lease_epoch att"
    "d2 = emit E2 part uid (Some (uuid_to_string (pe_lib E2) (cra_lease_id c))) EVENT_ACQUIRED (pe_now E2)
       (update_exec part uid (resumed_exec (pe_now E2)) d1')"
    using assms(2) by (rule claim_resumed_tx_cases) (rule that)
  have inst: "at_worker_instance_id att = Some (cra_worker_instance_id c)"
    using try_update_attempt_at [OF c(3), of part uid idx] suspend_attempt_le(2) c(4)
    by (auto simp: resumed_attempt_def rbind_Inr_iff split: option.splits)
  have ex: "exec_at d2 part uid = Some (resumed_exec (pe_now E2) r0)"
    using exec_at_update_exec [of "resumed_exec (pe_now E2)" part uid d1' part uid] c(1) try_update_attempt_tables(1) [OF c(3)]
    by (simp add: c(6) db_lookup resumed_exec_def exec_key_def exec_at_def)
  have s2: "suspension_at d2 part uid = Some (s\<lparr>sc_member_map := JObj ms\<rparr>)"
    using s1 try_update_attempt_susp(1) [OF c(3)] by (simp add: c(6) suspension_at_def db_lookup)
  show ?thesis
    using expire_overdue [OF s2 _ assms(6), of now] assms(4,5) ex c(4,5) inst
    by (auto simp: suspension_overdue_def resumed_exec_def c(6) attempt_at_def db_lookup)
qed

theorem resumed_execution_times_out_witness:
  "\<exists>d1 d2 d3 d4 r. deliver_tx sample_susp_lib sample_delivery 7 5 31 (sample_env 200) d1 =
      Inr (DS_Accepted (dsa_signal_id sample_delivery) ''resume_condition_satisfied'', d2) \<and>
    claim_resumed_tx (sample_env 300) sample_reclaim 7 5 d2 = Inr ((3, 6), d3) \<and>
    exec_at d3 7 5 = Some r \<and> ec_lifecycle_phase r = ''active'' \<and>
    suspension_expire_tx ''fail'' 7 5 6000 d3 = Inr ((), d4) \<and> exec_at d4 7 5 = Some (timed_out_exec ''fail'' 6000 r)"
proof -
  obtain d1 d2 att1 s out where *: "deliver_tx sample_susp_lib sample_delivery 7 5 31 (sample_env 200) d1 =
      Inr (DS_Accepted (dsa_signal_id sample_delivery) ''resume_condition_satisfied'', d2)"
    "exec_at d2 7 5 = Some (resumable_exec (suspend_exec (sample_exec 5 ''active'' ''not_applicable'' [])))"
    "attempt_at d2 7 5 3 = Some att1" "at_lease_epoch att1 = 5" "suspension_at d1 7 5 = Some s" "sc_timeout_at_ms s = Some 5000"
    "suspend_tx sample_susp_lib sample_payload 7 5 sample_suspend (sample_env 100) susp_db = Inr (Inr (out, d1))"
    using sample_suspended by blast
  let ?r = "resumable_exec (suspend_exec (sample_exec 5 ''active'' ''not_applicable'' []))"
  have r: "ec_public_state ?r = ''resumable''" "ec_attempt_index ?r = 3"
    by (simp_all add: resumable_exec_def suspend_exec_def sample_exec_def)
  have wf: "db_wf d2"
    by (rule evolves_wf [OF deliver_tx_evolves [OF *(1)] evolves_wf [OF suspend_tx_evolves [OF *(7)] susp_db_ok(1)]])
  obtain d3 where c: "claim_resumed_tx (sample_env 300) sample_reclaim 7 5 d2 = Inr ((3, 6), d3)"
    using claim_resumed_ok [OF wf *(2) r(1), unfolded r(2), OF *(3)] *(4) by (auto simp: i64_max_def)
  have "(5000 :: int) < 6000" "''fail'' \<noteq> ''auto_resume_with_timeout_signal''" by simp_all
  from resumed_execution_times_out [OF *(1) c *(5,6) this] show ?thesis using *(1) c by blast
qed

lemma push_timeout_unseen:
  assumes "distinct (map fst kvs)"
  shows "\<exists>kvs'. push_timeout now (JObj kvs) = JObj kvs' \<and> mset (member_all L X kvs') = mset (member_all L X kvs)"
proof -
  let ?blob = "JObj [(''signal_name'', JStr ''timeout''), (''payload'', JNull),
    (''delivered_at_ms'', JNum now), (''source'', JStr ''suspension_timeout'')]"
  have drop: "member_signals L X (JArr (xs @ [?blob])) = member_signals L X (JArr xs)" for xs
    by (simp add: member_signals_def map_filter_def resume_signal_from_json_def json_index_def)
  show ?thesis
  proof (cases "map_of kvs ''__timeout__''")
    case None
    then show ?thesis using drop [of "[]"]
      by (simp add: push_timeout_def Let_def mset_member_all) (simp add: member_signals_def map_filter_simps)
  next
    case (Some v)
    show ?thesis
    proof (cases "\<exists>xs. v = JArr xs")
      case True
      then obtain xs where v: "v = JArr xs" by blast
      obtain us vs where "kvs = us @ (''__timeout__'', v) # vs"
        "json_put ''__timeout__'' (JArr (xs @ [?blob])) kvs = us @ (''__timeout__'', JArr (xs @ [?blob])) # vs"
        using Some assms by (rule json_put_split)
      then show ?thesis using Some v by (simp add: push_timeout_def Let_def mset_member_all drop)
    next
      case False
      then show ?thesis using Some by (cases v) (simp_all add: push_timeout_def Let_def)
    qed
  qed
qed



end
