(* ===== verification/Spec2Isabelle.thy ===== *)
theory Spec2Isabelle
  imports State_Vector Ids_Partition Caps Engine_Error Script_Error Handle_Codec Pg_Engine Pg_Flow_Laws Pg_Suspend_Laws
begin

text \<open>
  A verification of FlowFabric, an execution engine: clients create executions, workers claim them
  under leases and complete, fail, delay or suspend them, flows connect executions by dependency
  edges, and background scanners take leases back, retry, time out and cascade. This theory imports
  all others and is their documentation.

  \<^bold>\<open>The program.\<close> The shared crate \<open>ff-core\<close> has the identifiers, the partition routing, the state
  vector, the capability matcher, the error type and the codec of attempt handles. The crate
  \<open>ff-script\<close> has the errors of the Valkey scripts and their translation. The crate
  \<open>ff-backend-postgres\<close> implements the engine over SQL tables: each operation is one transaction,
  the scanners are loops of transactions, and a completion event written by an operation is later
  dispatched along the edges of the flow.

  \<^bold>\<open>Theories and sources.\<close>
  \<^item> \<open>FF_Prelude\<close>: machine integers, results, and the lemma collections of the development.
  \<^item> \<open>Rust_Std\<close>: what the code uses of the standard library: prefix and suffix tests, splitting,
    decimal printing and parsing, little-endian bytes, UTF-8 validation.
  \<^item> \<open>State_Vector\<close>: \<open>ff-core/src/state.rs\<close>, the state enums, \<open>derive_public_state\<close>,
    \<open>is_consistent\<close>.
  \<^item> \<open>Ids_Partition\<close>: \<open>ff-core/src/partition.rs\<close> and the execution and lane ids of \<open>types.rs\<close>.
  \<^item> \<open>Caps\<close>: \<open>ff-core/src/caps.rs\<close>.
  \<^item> \<open>Engine_Error\<close>: \<open>ff-core/src/engine_error.rs\<close> and \<open>map_sqlx_error\<close> of the Postgres backend.
  \<^item> \<open>Script_Error\<close>: \<open>ff-script/src/error.rs\<close>, \<open>engine_error_ext.rs\<close>, \<open>retry.rs\<close> and
    \<open>ff-backend-valkey/src/backend_error.rs\<close>.
  \<^item> \<open>Handle_Codec\<close>: \<open>ff-core/src/handle_codec.rs\<close>, byte for byte.
  \<^item> \<open>Sql_Table\<close>: SQL statements over lists of rows, JSON values, integer columns, transactions.
  \<^item> \<open>Pg_Schema\<close>: the tables of the migrations, the database record, its invariants \<open>db_wf\<close> (keys
    unique, event ids below their counters) and \<open>db_typed\<close> (columns hold known values within their
    types), the order \<open>db_evolves\<close> along which every transaction moves, and \<open>lease_event.rs\<close>.
  \<^item> \<open>Pg_Attempt\<close>, \<open>Pg_Fencing\<close>: \<open>attempt.rs\<close>: claim, resume, fence, renew, progress, complete,
    fail, delay, wait for children; the definitions and the laws of the statements, then what the
    operations do.
  \<^item> \<open>Pg_Reconcilers\<close>: \<open>reconcilers/lease_expiry.rs\<close>, \<open>attempt_timeout.rs\<close>,
    \<open>execution_deadline.rs\<close>, \<open>delayed_promoter.rs\<close>.
  \<^item> \<open>Pg_Dispatch\<close>: \<open>dispatch.rs\<close> and \<open>reconcilers/dependency.rs\<close>: the cascade along the edges.
  \<^item> \<open>Pg_Exec_Core\<close>: \<open>exec_core.rs\<close>: creation, cancellation, listing, tags and readers.
  \<^item> \<open>Pg_Edge_Cancel\<close>: \<open>reconcilers/edge_cancel_dispatcher.rs\<close> and \<open>edge_cancel_reconciler.rs\<close>.
  \<^item> \<open>Pg_Engine\<close>: all transactions as one step relation \<open>engine_tx\<close>; its runs are the
    interleavings of any number of workers, clients and scanners.

  \<^bold>\<open>How the code is represented.\<close> A Rust function that cannot fail is a function; one that returns
  \<open>Result\<close> returns a sum with the error on the left; one that can panic returns a sum with the panic
  on the left. Machine integers are words where they wrap, and integers with the range check written
  out where the code checks or the database does. A table is the list of its rows, a database the
  record of its tables, and a transaction body a function from a database to an error or a result
  with a new database. \<open>run_tx\<close> runs a body under a fault: none, a failure before the commit, or a
  commit whose acknowledgement is lost. The environment \<open>pg_env\<close> of an operation holds what the code
  reads from outside: the clock, fresh uuids, rows locked by others, faults of the connection.

  \<^bold>\<open>What is assumed.\<close> A transaction is atomic and isolated: two bodies never interleave, which the
  row locks and isolation levels of the code are there to ensure. Each operation reads one clock
  value. Sequences count by one. A query without an order returns rows in table order. Numbers in JSON
  columns are integers. Code outside the repository (uuid text and bytes, the CRC16 of lane names,
  the JSON reader, the text of a JSON number) is a parameter, and what is needed of it is a named
  hypothesis of the theorem, such as that a printed uuid parses back.

  \<^bold>\<open>What is shown.\<close> For handles: the round trip and exact rejection of every truncated or extended
  byte string. For ids and partitions: colocation of an execution with its flow and the round trip of
  partition keys. For the backend: the contract of each operation on every branch (functional lemmas),
  that every operation is a run of the step relation, that every run keeps the invariants, loses no
  row and never lowers a lease epoch, that the lease protocol (\<open>acquire\<close> on a map of counters) is
  implemented, so that a superseded lease is refused for ever, that the state columns can always be
  read, that an event is dispatched at most once, that the policy of an edge group is decided exactly
  when it is certain, and that listings and cancellation queues are worked off completely. Several
  theorems state what the code does where its documentation promises otherwise.

  \<^bold>\<open>Interfaces.\<close> The locales \<open>wire_codec\<close> and \<open>field_codec\<close> give the contract of the parts of the
  handle codec, \<open>fenced_op\<close> that of an operation on a handle (interpreted for all six), and
  \<open>scan_action\<close> that of the action of a scanner on a row (interpreted for all four).

  \<^bold>\<open>Bounds.\<close> The claim loop visits the 256 partitions of the code. The cascade retries a hop
  \<open>ADVANCE_MAX_ATTEMPTS\<close> times, as the code does. The pages of a listing are followed with as much
  fuel as the table has rows, plus one, which is shown to be enough. No other recursion is bounded by
  fuel.

  \<^bold>\<open>Not modelled.\<close> Waiting and notification (asynchronous streams, timers, connection pools),
  text of log lines and metrics, the Valkey backend and its scripts, the SQLite backend, the server,
  the SDK and the network client of Valkey. The manifest lists each part with the reason.
\<close>

end
